(* ===== verification/Prelude.thy ===== *)
theory Prelude
  imports Main
begin

text \<open>
  Shared vocabulary of the development: Go's \<open>int64\<close>, the error values of the services, and
  the computation type in which every service operation is written.

  A service operation of the repository talks to PostgreSQL through \<open>pgx\<close>: it begins a
  transaction, runs statements on it, and commits (with a deferred rollback on every early
  return); reads outside the transaction go through the pool. The record \<open>conn\<close> is what such an
  operation sees: the committed database, the working copy of the open transaction, whether
  PostgreSQL has aborted that transaction after a failed statement, and the environment: which of
  the following statements fail for infrastructure reasons (\<open>faults\<close>), the UUIDs
  \<open>gen_random_uuid()\<close> will return (\<open>ids\<close>) and the clock. Every theorem that does not mention
  \<open>faults\<close> or \<open>ids\<close> holds for any of them, including colliding UUIDs and failures at any
  statement.
\<close>

section \<open>Machine integers\<close>

text \<open>Go's \<open>int64\<close> arithmetic wraps; the result of an operation is \<open>int64\<close> of the exact one.\<close>

definition int64 :: "int \<Rightarrow> int" where
  "int64 x = signed_take_bit 63 x"

definition is_int64 :: "int \<Rightarrow> bool" where
  "is_int64 x \<longleftrightarrow> - (2 ^ 63) \<le> x \<and> x < 2 ^ 63"

definition is_int32 :: "int \<Rightarrow> bool" where
  "is_int32 x \<longleftrightarrow> - (2 ^ 31) \<le> x \<and> x < 2 ^ 31"

lemma int64_id: "is_int64 x \<Longrightarrow> int64 x = x"
  by (simp add: int64_def is_int64_def signed_take_bit_int_eq_self)

lemma is_int64_int64 [simp]: "is_int64 (int64 x)"
  using signed_take_bit_int_greater_eq_minus_exp [of 63 x] signed_take_bit_int_less_exp [of 63 x]
  by (simp add: int64_def is_int64_def)

lemma int64_cong: "int64 x = x - 2 ^ 64 * ((x + 2 ^ 63) div 2 ^ 64)"
proof -
  have "int64 x = (x + 2 ^ 63) mod 2 ^ 64 - 2 ^ 63"
    by (simp add: int64_def signed_take_bit_eq_take_bit_shift take_bit_eq_mod)
  then show ?thesis
    by (simp add: minus_div_mult_eq_mod [symmetric] algebra_simps)
qed

lemma int64_idem [simp]: "int64 (int64 x) = int64 x"
  by (simp add: int64_id)

lemma int64_add_left [simp]: "int64 (int64 x + y) = int64 (x + y)"
  by (simp add: int64_def signed_take_bit_eq_take_bit_shift take_bit_eq_mod mod_simps add.assoc)
    (simp add: mod_simps add.commute add.left_commute)

text \<open>The Go loop \<open>for _, x := range xs { sum += x }\<close> on an \<open>int64\<close> accumulator.\<close>

fun sum_int64 :: "int \<Rightarrow> int list \<Rightarrow> int" where
  "sum_int64 acc [] = acc"
| "sum_int64 acc (x # xs) = sum_int64 (int64 (acc + x)) xs"

lemma sum_int64_eq: "sum_int64 (int64 acc) xs = int64 (acc + sum_list xs)"
proof (induction xs arbitrary: acc)
  case (Cons x xs)
  then show ?case by (simp add: add.assoc)
qed simp

lemma sum_int64_0: "sum_int64 0 xs = int64 (sum_list xs)"
  using sum_int64_eq [of 0 xs] by (simp add: int64_def)

text \<open>Rounding of a numeric quotient to an integer, half away from zero.\<close>

definition round_div :: "int \<Rightarrow> int \<Rightarrow> int" where
  "round_div a b = sgn a * ((2 * \<bar>a\<bar> + b) div (2 * b))"

section \<open>Errors\<close>

text \<open>
  The sentinel errors of the services (\<open>store.ErrNotFound\<close> and so on), the PostgreSQL conditions
  the code distinguishes, and \<open>Errorf\<close> for the errors made with \<open>fmt.Errorf\<close>.
\<close>

datatype err =
    DBError \<comment> \<open>connection or server failure of one statement\<close>
  | TxAborted \<comment> \<open>SQLSTATE 25P02: statement on an aborted transaction\<close>
  | TxCommitRollback \<comment> \<open>COMMIT of an aborted transaction rolls back\<close>
  | UniqueViolation \<comment> \<open>SQLSTATE 23505\<close>
  | CheckViolation \<comment> \<open>SQLSTATE 23514\<close>
  | ForeignKeyViolation \<comment> \<open>SQLSTATE 23503\<close>
  | NumericOutOfRange \<comment> \<open>SQLSTATE 22003\<close>
  | InvalidEnum \<comment> \<open>SQLSTATE 22P02: the text is no value of the type\<close>
  | InvalidRowCount \<comment> \<open>SQLSTATE 2201W, 2201X: negative LIMIT or OFFSET\<close>
  | ErrNotFound
  | ErrLookupNotFound \<comment> \<open>the not-found sentinels of the lookup clients\<close>
  | ErrLookupFailed \<comment> \<open>any other failure of a lookup client\<close>
  | ErrForbidden
  | ErrInsufficientFunds
  | ErrDuplicateAllocation
  | ErrDuplicateFund
  | ErrDuplicateKey
  | ErrInvalidSignature
  | ErrInvalidParties
  | ErrNoMilestones
  | ErrInvalidState
  | ErrInvalidMilestoneState
  | ErrProposalRequired
  | ErrProposalNotSelected
  | ErrProposalMismatch
  | ErrInvalidBid
  | ErrDuplicateProposal
  | ErrInvalidCredentials
  | ErrAccountLocked
  | ErrEmailTaken
  | ErrTokenReuse
  | ErrTokenExpired
  | ErrInvalidBudget
  | ErrValidation
  | ErrInvalidRating
  | ErrAlreadyReviewed
  | ErrInvalidContract
  | ErrContractNotComplete
  | ErrNotParticipant
  | ErrInvalidSubject
  | ErrInvalidResolution
  | ErrKYCNotAllowed
  | ErrInvalidHash
  | ErrIncompatibleVersion
  | ErrInvalidToken
  | Errorf string

section \<open>Computations over a database connection\<close>

record 'd conn =
  committed :: 'd
  work :: 'd
  aborted :: bool
  faults :: "nat \<Rightarrow> bool"
  ids :: "nat \<Rightarrow> string"
  clock :: int

type_synonym ('d, 'a) io = "'d conn \<Rightarrow> (err + 'a) \<times> 'd conn"

definition ret :: "'a \<Rightarrow> ('d, 'a) io" where
  "ret x = (\<lambda>s. (Inr x, s))"

definition throw :: "err \<Rightarrow> ('d, 'a) io" where
  "throw e = (\<lambda>s. (Inl e, s))"

text \<open>\<open>x, err := m; if err != nil { return err }\<close>, then \<open>f x\<close>.\<close>

definition bindE :: "('d, 'a) io \<Rightarrow> ('a \<Rightarrow> ('d, 'b) io) \<Rightarrow> ('d, 'b) io" where
  "bindE m f = (\<lambda>s. case m s of (Inl e, s') \<Rightarrow> (Inl e, s') | (Inr x, s') \<Rightarrow> f x s')"

text \<open>\<open>x, err := m\<close> with the pair kept as a value.\<close>

definition attempt :: "('d, 'a) io \<Rightarrow> ('d, err + 'a) io" where
  "attempt m = (\<lambda>s. case m s of (r, s') \<Rightarrow> (Inr r, s'))"

text \<open>\<open>_ = m\<close>: the result is dropped, error or not.\<close>

definition ignoreE :: "('d, 'a) io \<Rightarrow> ('d, unit) io" where
  "ignoreE m = bindE (attempt m) (\<lambda>_. ret ())"

text \<open>\<open>if err != nil { return g(err) }\<close>: the error is replaced, a result passes.\<close>

definition map_error :: "(err \<Rightarrow> err) \<Rightarrow> ('d, 'a) io \<Rightarrow> ('d, 'a) io" where
  "map_error g m = (\<lambda>s. case m s of (Inl e, s') \<Rightarrow> (Inl (g e), s') | (Inr x, s') \<Rightarrow> (Inr x, s'))"

definition liftE :: "err + 'a \<Rightarrow> ('d, 'a) io" where
  "liftE r = (\<lambda>s. (r, s))"

text \<open>\<open>time.Now()\<close>.\<close>

definition get_now :: "('d, int) io" where
  "get_now = (\<lambda>s. (Inr (clock s), s))"

text \<open>A random value from the process's own generator (\<open>crypto/rand\<close>).\<close>

definition new_id :: "('d, string) io" where
  "new_id = (\<lambda>s. (Inr (ids s 0), s\<lparr>ids := (\<lambda>n. ids s (Suc n))\<rparr>))"

text \<open>Every statement uses up one entry of the environment's fault and UUID sequences.\<close>

definition tick :: "'d conn \<Rightarrow> 'd conn" where
  "tick s = s\<lparr>faults := (\<lambda>n. faults s (Suc n)), ids := (\<lambda>n. ids s (Suc n))\<rparr>"

text \<open>
  A statement's meaning is a function of \<open>now()\<close>, the next UUID and the database: an SQL error, or
  a result with the new database.
\<close>

type_synonym ('d, 'a) sql = "int \<Rightarrow> string \<Rightarrow> 'd \<Rightarrow> err + 'a \<times> 'd"

definition tx_stmt :: "('d, 'a) sql \<Rightarrow> ('d, 'a) io" where
  "tx_stmt q = (\<lambda>s.
     if aborted s then (Inl TxAborted, s)
     else if faults s 0 then (Inl DBError, (tick s)\<lparr>aborted := True\<rparr>)
     else case q (clock s) (ids s 0) (work s) of
            Inl e \<Rightarrow> (Inl e, (tick s)\<lparr>aborted := True\<rparr>)
          | Inr (x, d) \<Rightarrow> (Inr x, (tick s)\<lparr>work := d\<rparr>))"

text \<open>A read through the pool, outside any transaction.\<close>

definition pool_query :: "('d \<Rightarrow> 'a) \<Rightarrow> ('d, 'a) io" where
  "pool_query q = (\<lambda>s.
     if faults s 0 then (Inl DBError, tick s) else (Inr (q (committed s)), tick s))"

text \<open>A write through the pool: PostgreSQL commits it by itself.\<close>

definition pool_exec :: "('d, 'a) sql \<Rightarrow> ('d, 'a) io" where
  "pool_exec q = (\<lambda>s.
     if faults s 0 then (Inl DBError, tick s)
     else case q (clock s) (ids s 0) (committed s) of
            Inl e \<Rightarrow> (Inl e, tick s)
          | Inr (x, d) \<Rightarrow> (Inr x, (tick s)\<lparr>committed := d\<rparr>))"

definition begin_tx :: "('d, unit) io" where
  "begin_tx = (\<lambda>s.
     if faults s 0 then (Inl DBError, tick s)
     else (Inr (), (tick s)\<lparr>work := committed s, aborted := False\<rparr>))"

definition commit_tx :: "('d, unit) io" where
  "commit_tx = (\<lambda>s.
     if aborted s then (Inl TxCommitRollback, s)
     else if faults s 0 then (Inl DBError, tick s)
     else (Inr (), (tick s)\<lparr>committed := work s\<rparr>))"

definition rollback_tx :: "('d, unit) io" where
  "rollback_tx = (\<lambda>s. (Inr (), s\<lparr>work := committed s, aborted := False\<rparr>))"

text \<open>\<open>QueryRow(...).Scan\<close>: no row is \<open>pgx.ErrNoRows\<close>, which the stores map to \<open>ErrNotFound\<close>.\<close>

definition scan_row :: "('d, 'a option) io \<Rightarrow> ('d, 'a) io" where
  "scan_row m = bindE m (\<lambda>r. case r of None \<Rightarrow> throw ErrNotFound | Some x \<Rightarrow> ret x)"

section \<open>Inversion of successful runs\<close>

named_theorems io_ok "what a successful step of a computation tells"

text \<open>The outcome of \<open>x, err := m\<close> is a sum: both cases are looked at.\<close>

lemmas sum_ex [io_ok] = split_sum_ex

lemma ret_ok [io_ok]: "ret x s = (Inr y, t) \<longleftrightarrow> y = x \<and> t = s"
  by (auto simp: ret_def)

lemma throw_ok [io_ok]: "throw e s = (Inr y, t) \<longleftrightarrow> False"
  by (simp add: throw_def)

lemma bindE_ok [io_ok]:
  "bindE m f s = (Inr y, t) \<longleftrightarrow> (\<exists>x u. m s = (Inr x, u) \<and> f x u = (Inr y, t))"
  by (auto simp: bindE_def split: prod.splits sum.splits)

lemma attempt_ok [io_ok]: "attempt m s = (Inr r, t) \<longleftrightarrow> m s = (r, t)"
  by (auto simp: attempt_def split: prod.splits)

lemma ignoreE_ok [io_ok]: "ignoreE m s = (Inr u, t) \<longleftrightarrow> snd (m s) = t"
  by (cases "m s") (auto simp: ignoreE_def bindE_def attempt_def ret_def)

lemma map_error_ok [io_ok]: "map_error g m s = (Inr y, t) \<longleftrightarrow> m s = (Inr y, t)"
  by (auto simp: map_error_def split: prod.splits sum.splits)

lemma map_error_err: "map_error g m s = (Inl e, t) \<longleftrightarrow> (\<exists>e'. m s = (Inl e', t) \<and> e = g e')"
  by (auto simp: map_error_def split: prod.splits sum.splits)

lemma liftE_ok [io_ok]: "liftE r s = (Inr y, t) \<longleftrightarrow> r = Inr y \<and> t = s"
  by (auto simp: liftE_def)

lemma get_now_ok [io_ok]: "get_now s = (Inr y, t) \<longleftrightarrow> y = clock s \<and> t = s"
  by (auto simp: get_now_def)

lemma new_id_ok [io_ok]:
  "new_id s = (Inr y, t) \<longleftrightarrow> y = ids s 0 \<and> t = s\<lparr>ids := (\<lambda>n. ids s (Suc n))\<rparr>"
  by (auto simp: new_id_def)

lemma tx_stmt_ok [io_ok]:
  "tx_stmt q s = (Inr x, t) \<longleftrightarrow>
     \<not> aborted s \<and> \<not> faults s 0 \<and>
     (\<exists>d. q (clock s) (ids s 0) (work s) = Inr (x, d) \<and> t = (tick s)\<lparr>work := d\<rparr>)"
  by (auto simp: tx_stmt_def split: sum.splits prod.splits)

lemma pool_query_ok [io_ok]:
  "pool_query q s = (Inr x, t) \<longleftrightarrow> \<not> faults s 0 \<and> q (committed s) = x \<and> t = tick s"
  by (auto simp: pool_query_def)

lemma pool_exec_ok [io_ok]:
  "pool_exec q s = (Inr x, t) \<longleftrightarrow>
     \<not> faults s 0 \<and>
     (\<exists>d. q (clock s) (ids s 0) (committed s) = Inr (x, d) \<and> t = (tick s)\<lparr>committed := d\<rparr>)"
  by (auto simp: pool_exec_def split: sum.splits prod.splits)

lemma begin_tx_ok [io_ok]:
  "begin_tx s = (Inr u, t) \<longleftrightarrow>
     \<not> faults s 0 \<and> t = (tick s)\<lparr>work := committed s, aborted := False\<rparr>"
  by (auto simp: begin_tx_def)

lemma commit_tx_ok [io_ok]:
  "commit_tx s = (Inr u, t) \<longleftrightarrow>
     \<not> aborted s \<and> \<not> faults s 0 \<and> t = (tick s)\<lparr>committed := work s\<rparr>"
  by (auto simp: commit_tx_def)

lemma rollback_tx_ok [io_ok]:
  "rollback_tx s = (Inr u, t) \<longleftrightarrow> t = s\<lparr>work := committed s, aborted := False\<rparr>"
  by (auto simp: rollback_tx_def)

lemma scan_row_ok [io_ok]: "scan_row m s = (Inr x, t) \<longleftrightarrow> m s = (Inr (Some x), t)"
  by (auto simp: scan_row_def bindE_def ret_def throw_def
      split: prod.splits sum.splits option.splits)

lemma tick_simps [simp]:
  "committed (tick s) = committed s" "work (tick s) = work s"
  "aborted (tick s) = aborted s" "clock (tick s) = clock s"
  "faults (tick s) = (\<lambda>n. faults s (Suc n))" "ids (tick s) = (\<lambda>n. ids s (Suc n))"
  by (simp_all add: tick_def)

section \<open>Running without infrastructure failures\<close>

text \<open>
  With no failing statement a computation can be run: \<open>io_run\<close> evaluates each building block on
  such a connection.
\<close>

definition reliable :: "'d conn \<Rightarrow> bool" where
  "reliable s \<longleftrightarrow> (\<forall>n. \<not> faults s n)"

named_theorems io_run "evaluation of computations on a reliable connection"

lemma reliableD [io_run]: "reliable s \<Longrightarrow> \<not> faults s n"
  by (simp add: reliable_def)

lemma reliable_updates [io_run]:
  "reliable (tick s) \<longleftrightarrow> (\<forall>n. \<not> faults s (Suc n))"
  "reliable (s\<lparr>work := d\<rparr>) = reliable s" "reliable (s\<lparr>aborted := b\<rparr>) = reliable s"
  "reliable (s\<lparr>committed := d\<rparr>) = reliable s" "reliable (s\<lparr>ids := g\<rparr>) = reliable s"
  by (simp_all add: reliable_def)

lemma tick_updates [io_run]:
  "tick (s\<lparr>work := d\<rparr>) = (tick s)\<lparr>work := d\<rparr>" "tick (s\<lparr>aborted := b\<rparr>) = (tick s)\<lparr>aborted := b\<rparr>"
  "tick (s\<lparr>committed := d\<rparr>) = (tick s)\<lparr>committed := d\<rparr>"
  by (simp_all add: tick_def)

lemma run_basic [io_run]:
  "ret x s = (Inr x, s)" "throw e s = (Inl e, s)" "liftE r s = (r, s)"
  "get_now s = (Inr (clock s), s)" "new_id s = (Inr (ids s 0), s\<lparr>ids := (\<lambda>n. ids s (Suc n))\<rparr>)"
  "bindE m f s = (case m s of (Inl e, s') \<Rightarrow> (Inl e, s') | (Inr y, s') \<Rightarrow> f y s')"
  "attempt m s = (case m s of (r, s') \<Rightarrow> (Inr r, s'))"
  "ignoreE m s = (Inr (), snd (m s))"
  "map_error g m s = (case m s of (Inl e, s') \<Rightarrow> (Inl (g e), s') | (Inr y, s') \<Rightarrow> (Inr y, s'))"
  "scan_row p s = (case p s of (Inl e, s') \<Rightarrow> (Inl e, s') | (Inr None, s') \<Rightarrow> (Inl ErrNotFound, s')
     | (Inr (Some z), s') \<Rightarrow> (Inr z, s'))"
  by (auto simp: ret_def throw_def liftE_def get_now_def new_id_def bindE_def attempt_def
      ignoreE_def map_error_def scan_row_def split: prod.splits sum.splits option.splits)

lemma run_stmt [io_run]:
  "reliable s \<Longrightarrow> begin_tx s = (Inr (), (tick s)\<lparr>work := committed s, aborted := False\<rparr>)"
  "reliable s \<Longrightarrow> \<not> aborted s \<Longrightarrow> commit_tx s = (Inr (), (tick s)\<lparr>committed := work s\<rparr>)"
  "reliable s \<Longrightarrow> pool_query q s = (Inr (q (committed s)), tick s)"
  "reliable s \<Longrightarrow> \<not> aborted s \<Longrightarrow> tx_stmt p s = (case p (clock s) (ids s 0) (work s) of
     Inl e \<Rightarrow> (Inl e, (tick s)\<lparr>aborted := True\<rparr>)
   | Inr (x, d) \<Rightarrow> (Inr x, (tick s)\<lparr>work := d\<rparr>))"
  "reliable s \<Longrightarrow> pool_exec p s = (case p (clock s) (ids s 0) (committed s) of
     Inl e \<Rightarrow> (Inl e, tick s) | Inr (x, d) \<Rightarrow> (Inr x, (tick s)\<lparr>committed := d\<rparr>))"
  "rollback_tx s = (Inr (), s\<lparr>work := committed s, aborted := False\<rparr>)"
  by (simp_all add: begin_tx_def commit_tx_def pool_query_def tx_stmt_def pool_exec_def
      rollback_tx_def reliable_def)

lemma int64_0 [simp]: "int64 0 = 0"
  by (simp add: int64_def)

section \<open>Atomicity\<close>

text \<open>
  \<open>keeps m\<close>: whatever happens, \<open>m\<close> leaves the committed database alone. \<open>atomic m\<close>: if \<open>m\<close>
  returns an error, it has left the committed database alone.
\<close>

definition keeps :: "('d, 'a) io \<Rightarrow> bool" where
  "keeps m \<longleftrightarrow> (\<forall>s. committed (snd (m s)) = committed s)"

definition atomic :: "('d, 'a) io \<Rightarrow> bool" where
  "atomic m \<longleftrightarrow> (\<forall>s e t. m s = (Inl e, t) \<longrightarrow> committed t = committed s)"

named_theorems io_keeps "computations that leave the committed database alone"
named_theorems io_atomic "computations that change nothing on error"

lemma keepsD: "keeps m \<Longrightarrow> m s = (r, t) \<Longrightarrow> committed t = committed s"
  unfolding keeps_def by (metis snd_conv)

lemma atomicD: "atomic m \<Longrightarrow> m s = (Inl e, t) \<Longrightarrow> committed t = committed s"
  unfolding atomic_def by blast

lemma keeps_atomic: "keeps m \<Longrightarrow> atomic m"
  by (auto simp: atomic_def dest: keepsD)

lemma keeps_basic [io_keeps]:
  "keeps (ret x)" "keeps (throw e)" "keeps (liftE r)" "keeps get_now" "keeps new_id"
  "keeps (tx_stmt q)" "keeps (pool_query p)" "keeps begin_tx" "keeps rollback_tx"
  by (auto simp: keeps_def ret_def throw_def liftE_def get_now_def new_id_def tx_stmt_def
      pool_query_def begin_tx_def rollback_tx_def split: sum.splits prod.splits)

lemma keeps_bindE [io_keeps]: "keeps m \<Longrightarrow> (\<And>x. keeps (f x)) \<Longrightarrow> keeps (bindE m f)"
  unfolding keeps_def bindE_def by (auto split: prod.splits sum.splits) (metis snd_conv)+

lemma keeps_attempt [io_keeps]: "keeps m \<Longrightarrow> keeps (attempt m)"
  unfolding keeps_def attempt_def by (auto split: prod.splits) (metis snd_conv)

lemma keeps_ignoreE [io_keeps]: "keeps m \<Longrightarrow> keeps (ignoreE m)"
  unfolding ignoreE_def by (intro io_keeps)

lemma keeps_map_error [io_keeps]: "keeps m \<Longrightarrow> keeps (map_error g m)"
  unfolding keeps_def map_error_def by (auto split: prod.splits sum.splits) (metis snd_conv)+

lemma keeps_case_option [io_keeps]:
  "keeps m \<Longrightarrow> (\<And>x. keeps (f x)) \<Longrightarrow> keeps (case r of None \<Rightarrow> m | Some x \<Rightarrow> f x)"
  by (cases r) auto

lemma keeps_case_sum [io_keeps]:
  "(\<And>e. keeps (g e)) \<Longrightarrow> (\<And>x. keeps (f x)) \<Longrightarrow> keeps (case r of Inl e \<Rightarrow> g e | Inr x \<Rightarrow> f x)"
  by (cases r) auto

lemma keeps_case_prod [io_keeps]:
  "(\<And>x y. keeps (f x y)) \<Longrightarrow> keeps (case p of (x, y) \<Rightarrow> f x y)"
  by (cases p) auto

lemma keeps_if [io_keeps]: "keeps m \<Longrightarrow> keeps n \<Longrightarrow> keeps (if b then m else n)"
  by auto

lemma keeps_scan_row [io_keeps]: "keeps m \<Longrightarrow> keeps (scan_row m)"
  unfolding scan_row_def by (intro io_keeps)

lemma atomic_commit [io_atomic]: "atomic (bindE commit_tx (\<lambda>_. ret x))"
  by (auto simp: atomic_def bindE_def commit_tx_def ret_def split: if_splits)

lemma atomic_commit_tx [io_atomic]: "atomic commit_tx"
  by (auto simp: atomic_def commit_tx_def split: if_splits)

lemma atomic_pool_exec [io_atomic]: "atomic (pool_exec q)"
  by (auto simp: atomic_def pool_exec_def split: sum.splits prod.splits if_splits)

lemma atomic_bindE [io_atomic]:
  "keeps m \<Longrightarrow> (\<And>x. atomic (f x)) \<Longrightarrow> atomic (bindE m f)"
  unfolding atomic_def bindE_def
  by (auto split: prod.splits sum.splits dest: keepsD)

lemma atomic_if [io_atomic]: "atomic m \<Longrightarrow> atomic n \<Longrightarrow> atomic (if b then m else n)"
  by auto

lemma atomic_case_option [io_atomic]:
  "atomic m \<Longrightarrow> (\<And>x. atomic (f x)) \<Longrightarrow> atomic (case r of None \<Rightarrow> m | Some x \<Rightarrow> f x)"
  by (cases r) auto

lemma atomic_case_sum [io_atomic]:
  "(\<And>e. atomic (g e)) \<Longrightarrow> (\<And>x. atomic (f x)) \<Longrightarrow>
   atomic (case r of Inl e \<Rightarrow> g e | Inr x \<Rightarrow> f x)"
  by (cases r) auto

lemma atomic_case_prod [io_atomic]:
  "(\<And>x y. atomic (f x y)) \<Longrightarrow> atomic (case p of (x, y) \<Rightarrow> f x y)"
  by (cases p) auto

lemma atomic_keeps [io_atomic]:
  "atomic (ret x)" "atomic (throw e)" "atomic (liftE r)" "atomic (pool_query p)"
  by (simp_all add: io_keeps keeps_atomic)

section \<open>Tables\<close>

text \<open>A condition on a nullable column.\<close>

definition opt_all :: "('a \<Rightarrow> bool) \<Rightarrow> 'a option \<Rightarrow> bool" where
  "opt_all P r = (case r of None \<Rightarrow> True | Some x \<Rightarrow> P x)"


text \<open>A table is the list of its rows in insertion order; an \<open>UPDATE\<close> maps over it.\<close>

definition update_where :: "('r \<Rightarrow> bool) \<Rightarrow> ('r \<Rightarrow> 'r) \<Rightarrow> 'r list \<Rightarrow> 'r list" where
  "update_where P f rs = map (\<lambda>r. if P r then f r else r) rs"

text \<open>\<open>SELECT ... WHERE P LIMIT 1\<close> in insertion order.\<close>

definition select_one :: "('r \<Rightarrow> bool) \<Rightarrow> 'r list \<Rightarrow> 'r option" where
  "select_one P rs = find P rs"

lemma select_one_SomeD: "select_one P rs = Some r \<Longrightarrow> r \<in> set rs \<and> P r"
  by (auto simp: select_one_def find_Some_iff)

lemma select_one_NoneD: "select_one P rs = None \<Longrightarrow> r \<in> set rs \<Longrightarrow> \<not> P r"
  by (auto simp: select_one_def find_None_iff)

lemma select_one_None_iff: "select_one P rs = None \<longleftrightarrow> (\<forall>r \<in> set rs. \<not> P r)"
  by (auto simp: select_one_def find_None_iff)

lemma set_update_where:
  "set (update_where P f rs) = {r \<in> set rs. \<not> P r} \<union> f ` {r \<in> set rs. P r}"
  by (auto simp: update_where_def)

lemma update_where_Nil [simp]: "update_where P f [] = []"
  by (simp add: update_where_def)

lemma update_where_Cons [simp]:
  "update_where P f (r # rs) = (if P r then f r else r) # update_where P f rs"
  by (simp add: update_where_def)

lemma map_update_where_same:
  "(\<And>r. P r \<Longrightarrow> g (f r) = g r) \<Longrightarrow> map g (update_where P f rs) = map g rs"
  by (auto simp: update_where_def)

lemma image_update_where: "(\<And>r. k (f r) = k r) \<Longrightarrow> k ` set (update_where P f rs) = k ` set rs"
  by (simp add: map_update_where_same flip: set_map)

text \<open>
  Key lemma for balances: changing the one row with a given key changes a sum over the table by
  that row's difference.
\<close>

lemma distinct_key_unique:
  "distinct (map k rs) \<Longrightarrow> r \<in> set rs \<Longrightarrow> r' \<in> set rs \<Longrightarrow> k r = k r' \<Longrightarrow> r = r'"
  by (meson distinct_map inj_onD)

lemma filter_update_where:
  "(\<And>r. P r \<Longrightarrow> \<not> Q r) \<Longrightarrow> (\<And>r. Q (f r) = Q r) \<Longrightarrow> filter Q (update_where P f rs) = filter Q rs"
  by (induction rs) auto

lemma update_where_compose:
  "(\<And>r. P (g r) = P r) \<Longrightarrow> update_where P f (update_where P g rs) = update_where P (f \<circ> g) rs"
  by (induction rs) auto

lemma select_one_key:
  "r \<in> set rs \<Longrightarrow> distinct (map k rs) \<Longrightarrow> select_one (\<lambda>x. k x = k r) rs = Some r"
  by (cases "select_one (\<lambda>x. k x = k r) rs")
    (auto simp: select_one_None_iff dest!: select_one_SomeD dest: distinct_key_unique)

lemma select_one_update_where:
  assumes "\<And>r. k (f r) = k r"
  shows "select_one (\<lambda>r. k r = j) (update_where (\<lambda>r. k r = i) f rs) =
    (if j = i then map_option f (select_one (\<lambda>r. k r = i) rs) else select_one (\<lambda>r. k r = j) rs)"
  by (induction rs) (auto simp: select_one_def assms)

lemma select_one_simps [simp]:
  "select_one P [] = None"
  "select_one P (r # rs) = (if P r then Some r else select_one P rs)"
  by (simp_all add: select_one_def)

lemma length_filter_key:
  assumes "distinct (map k rs)"
  shows "length (filter (\<lambda>r. k r = i \<and> P r) rs) = 1 \<longleftrightarrow>
    (\<exists>r. select_one (\<lambda>r. k r = i) rs = Some r \<and> P r)"
  using assms
proof (induction rs)
  case (Cons a rs)
  have "k a = i \<Longrightarrow> filter (\<lambda>r. k r = i \<and> P r) rs = []"
    using Cons.prems by (auto simp: filter_empty_conv image_iff)
  with Cons show ?case by auto
qed simp

lemma map_option_select_update:
  assumes "\<And>r. k (f r) = k r" and "\<And>r. h (f r) = h r"
  shows "map_option h (select_one (\<lambda>r. k r = j) (update_where P f rs))
       = map_option h (select_one (\<lambda>r. k r = j) rs)"
  by (induction rs) (auto simp: assms)

lemma select_one_append:
  "select_one P (rs @ qs) = (case select_one P rs of None \<Rightarrow> select_one P qs | Some r \<Rightarrow> Some r)"
  by (induction rs) (auto simp: select_one_def)

text \<open>With two unique keys, updating by one or by the other is the same.\<close>

lemma update_where_same_row:
  assumes "distinct (map k rs)" "distinct (map l rs)" "r \<in> set rs"
  shows "update_where (\<lambda>x. l x = l r) f rs = update_where (\<lambda>x. k x = k r) f rs"
  unfolding update_where_def
  by (rule map_cong) (use assms in \<open>auto dest: distinct_key_unique\<close>)

lemma update_where_notin:
  "k \<notin> key ` set rs \<Longrightarrow> update_where (\<lambda>r. key r = k) f rs = rs"
  by (induction rs) auto

lemma sum_list_update_where:
  fixes g :: "'r \<Rightarrow> int"
  assumes "distinct (map key rs)" and "r \<in> set rs" and "key r = k"
  shows "sum_list (map g (update_where (\<lambda>r. key r = k) f rs))
       = sum_list (map g rs) + (g (f r) - g r)"
  using assms
proof (induction rs)
  case (Cons a rs)
  show ?case
  proof (cases "r = a")
    case True
    with Cons.prems have "k \<notin> key ` set rs" by auto
    with True Cons.prems show ?thesis by (simp add: update_where_notin)
  next
    case False
    with Cons.prems have "key a \<noteq> k" by auto
    with False Cons show ?thesis by simp
  qed
qed simp

lemma sum_list_filter_eq:
  fixes g :: "'r \<Rightarrow> int"
  shows "sum_list (map g (filter P rs)) = sum_list (map (\<lambda>r. if P r then g r else 0) rs)"
  by (induction rs) auto

lemma sum_list_nonneg_member:
  fixes g :: "'r \<Rightarrow> int"
  assumes "\<And>r. r \<in> set rs \<Longrightarrow> 0 \<le> g r" and "r \<in> set rs"
  shows "g r \<le> sum_list (map g rs)"
  using assms
proof (induction rs)
  case (Cons a rs)
  have "0 \<le> sum_list (map g rs)"
    using Cons.prems(1) by (auto intro!: sum_list_nonneg)
  with Cons show ?case by (cases "r = a") (auto simp: add_increasing)
qed simp

section \<open>Systems and their invariants\<close>

text \<open>
  The operations of a component form a step relation on its committed state. An invariant that
  every operation keeps holds after any finite sequence of them.
\<close>

locale invariant_system =
  fixes step :: "'s \<Rightarrow> 's \<Rightarrow> bool"
    and inv :: "'s \<Rightarrow> bool"
  assumes step_inv: "step s t \<Longrightarrow> inv s \<Longrightarrow> inv t"
begin

lemma steps_inv: "step\<^sup>*\<^sup>* s t \<Longrightarrow> inv s \<Longrightarrow> inv t"
  by (induction rule: rtranclp_induct) (auto intro: step_inv)

end

end
