(* ===== verification/Schema.thy ===== *)
theory Schema
  imports Prelude Complex_Main
begin

text \<open>
  The rows of the tables (the structs of the services' \<open>store\<close> packages and of
  \<open>pkg/outbox\<close>) and the database record that collects the tables. Field names carry a short
  prefix per struct because Isabelle's record fields are global: \<open>esc_HeldCents\<close> is
  \<open>Escrow.HeldCents\<close>. Nullable columns (pointers in Go) are options; timestamps are integers;
  money is an \<open>int\<close> whose \<open>BIGINT\<close> range is checked by the statements that store it.
\<close>

section \<open>Events\<close>

datatype json = JNull | JBool bool | JInt int | JStr string | JArr "json list"
  | JObj "(string \<times> json) list" | JNum rat

text \<open>\<open>outbox.Event\<close>.\<close>

record Event =
  ev_AggregateType :: string
  ev_AggregateID :: string
  ev_EventType :: string
  ev_Topic :: string
  ev_PartitionKey :: string
  ev_Payload :: json
  ev_Headers :: "(string \<times> string) list"

text \<open>A row of the \<open>outbox\<close> table: the event, its identity column and \<open>published_at\<close>.\<close>

record outbox_row =
  ob_id :: int
  ob_event :: Event
  ob_published_at :: "int option"

section \<open>Escrow and the shared ledger\<close>

text \<open>\<open>escrow/internal/store.Escrow\<close>.\<close>

record Escrow =
  esc_ID :: string
  esc_ContractID :: string
  esc_Currency :: string
  esc_HeldCents :: int
  esc_ReleasedCents :: int
  esc_RefundedCents :: int
  esc_Status :: string
  esc_CreatedAt :: int
  esc_UpdatedAt :: int

text \<open>\<open>escrow/internal/store.Allocation\<close>.\<close>

record Allocation =
  alc_ID :: string
  alc_EscrowID :: string
  alc_MilestoneID :: "string option"
  alc_BillingWeek :: "string option"
  alc_AmountCents :: int
  alc_Status :: string
  alc_CreatedAt :: int
  alc_ReleasedAt :: "int option"

text \<open>One posting of the double-entry ledger: a row of \<open>transactions\<close>.\<close>

record txn_row =
  txn_group :: string
  txn_type :: string
  txn_account_kind :: string
  txn_account_ref :: "string option"
  txn_contract_id :: "string option"
  txn_amount_cents :: int
  txn_currency :: string
  txn_payment_id :: "string option"
  txn_memo :: "string option"

text \<open>A row of \<open>escrow_fund_idempotency\<close>.\<close>

record fund_key_row =
  fk_contract_id :: string
  fk_idempotency_key :: string
  fk_escrow_id :: string

section \<open>Payments\<close>

text \<open>\<open>payment/internal/store.Payment\<close>.\<close>

record Payment =
  pay_ID :: string
  pay_ContractID :: "string option"
  pay_PayerID :: string
  pay_AmountCents :: int
  pay_Currency :: string
  pay_Status :: string
  pay_StripePaymentIntentID :: "string option"
  pay_StripeChargeID :: "string option"
  pay_IdempotencyKey :: "string option"
  pay_FailureReason :: "string option"
  pay_CreatedAt :: int
  pay_UpdatedAt :: int

text \<open>A row of \<open>stripe_events\<close>.\<close>

record stripe_event_row =
  se_id :: string
  se_type :: string
  se_payload :: string
  se_processed_at :: "int option"

section \<open>Contracts\<close>

text \<open>\<open>contract/internal/store.Contract\<close>.\<close>

record Contract =
  con_ID :: string
  con_ProjectID :: string
  con_ProposalID :: string
  con_ClientID :: string
  con_FreelancerID :: string
  con_BudgetType :: string
  con_Currency :: string
  con_TotalAmountCents :: "int option"
  con_HourlyRateCents :: "int option"
  con_WeeklyHourLimit :: "int option"
  con_Status :: string
  con_PlatformFeeBps :: int
  con_StartedAt :: "int option"
  con_EndedAt :: "int option"
  con_EndReason :: "string option"

text \<open>\<open>contract/internal/store.Milestone\<close>.\<close>

record Milestone =
  ms_ID :: string
  ms_ContractID :: string
  ms_Seq :: int
  ms_Title :: string
  ms_Description :: "string option"
  ms_AmountCents :: int
  ms_Status :: string
  ms_DueAt :: "int option"
  ms_FundedAt :: "int option"
  ms_SubmittedAt :: "int option"
  ms_ApprovedAt :: "int option"
  ms_ReleasedAt :: "int option"

text \<open>\<open>contract/internal/store.ContractEvent\<close>, with the contract it belongs to.\<close>

record ContractEvent =
  ce_contract_id :: string
  ce_FromStatus :: "string option"
  ce_ToStatus :: string
  ce_Event :: string
  ce_ActorID :: "string option"
  ce_Payload :: json
  ce_CreatedAt :: int

record deliverable_row =
  dl_milestone_id :: string
  dl_submitted_by :: string
  dl_note :: string
  dl_s3_keys :: "string list"

text \<open>\<open>contract/internal/store.Dispute\<close>.\<close>

record Dispute =
  dsp_ID :: string
  dsp_ContractID :: string
  dsp_MilestoneID :: "string option"
  dsp_RaisedBy :: string
  dsp_Against :: string
  dsp_Reason :: string
  dsp_AmountCents :: "int option"
  dsp_Status :: string

text \<open>\<open>contract/internal/store.MilestoneInput\<close>.\<close>

record MilestoneInput =
  mi_Seq :: int
  mi_Title :: string
  mi_Description :: "string option"
  mi_AmountCents :: int
  mi_DueAt :: "int option"

section \<open>Projects and proposals\<close>

text \<open>\<open>project/internal/store.Project\<close> and \<open>Attachment\<close>; \<open>prj_deleted_at\<close> is the soft-delete column.\<close>

record Project =
  prj_ID :: string
  prj_ClientID :: string
  prj_CategoryID :: "string option"
  prj_Title :: string
  prj_Description :: string
  prj_BudgetType :: string
  prj_BudgetMinCents :: "int option"
  prj_BudgetMaxCents :: "int option"
  prj_Currency :: string
  prj_WeeklyHourLimit :: "int option"
  prj_ExperienceRequired :: "string option"
  prj_EstimatedDurationDs :: "int option"
  prj_Status :: string
  prj_Visibility :: string
  prj_ProposalsCount :: int
  prj_HiredCount :: int
  prj_PublishedAt :: "int option"
  prj_ClosedAt :: "int option"
  prj_CreatedAt :: int
  prj_UpdatedAt :: int
  prj_deleted_at :: "int option"

record Attachment =
  att_ID :: string
  att_ProjectID :: string
  att_S3Key :: string
  att_Filename :: string
  att_SizeBytes :: int
  att_ContentType :: string
  att_CreatedAt :: int

text \<open>
  \<open>proposal/internal/store.Proposal\<close>, \<open>Milestone\<close> and \<open>Answer\<close>; the two last fields of a proposal are
  columns the struct does not load.
\<close>

record Proposal =
  prp_ID :: string
  prp_ProjectID :: string
  prp_FreelancerID :: string
  prp_CoverLetter :: string
  prp_BidAmountCents :: int
  prp_Currency :: string
  prp_EstimatedDurationDays :: "int option"
  prp_Status :: string
  prp_ConnectsSpent :: int
  prp_submitted_at :: int
  prp_withdrawn_at :: "int option"

record ProposalMilestone =
  pm_ID :: string
  pm_ProposalID :: string
  pm_Seq :: int
  pm_Title :: string
  pm_AmountCents :: int
  pm_DueDays :: "int option"

record ProposalAnswer =
  pa_ID :: string
  pa_ProposalID :: string
  pa_Question :: string
  pa_Answer :: string

section \<open>Accounts and sessions\<close>

text \<open>\<open>auth/internal/store.User\<close> with the columns the statements touch.\<close>

record User =
  usr_ID :: string
  usr_Email :: string
  usr_PasswordHash :: string
  usr_Status :: string
  usr_PrimaryType :: string
  usr_EmailVerified :: bool
  usr_MFAEnabled :: bool
  usr_Residency :: string
  usr_Locale :: string
  usr_FailedLogins :: int
  usr_LockedUntil :: "int option"
  usr_LastLoginAt :: "int option"
  usr_deleted_at :: "int option"

text \<open>A row of \<open>sessions\<close> and of \<open>refresh_tokens\<close>; only the hash of a token is stored.\<close>

record session_row =
  ses_id :: string
  ses_user_id :: string
  ses_ip :: string
  ses_user_agent :: string
  ses_family_id :: string
  ses_created_at :: int
  ses_expires_at :: int
  ses_revoked_at :: "int option"
  ses_revoked_reason :: "string option"

record refresh_token_row =
  rtk_id :: string
  rtk_session_id :: string
  rtk_user_id :: string
  rtk_token_hash :: string
  rtk_replaced_by :: "string option"
  rtk_expires_at :: int
  rtk_used_at :: "int option"
  rtk_revoked_at :: "int option"

section \<open>Time tracking\<close>

record work_session_row =
  ws_id :: string
  ws_contract_id :: string
  ws_freelancer_id :: string
  ws_device_id :: "string option"
  ws_status :: string
  ws_started_at :: int
  ws_ended_at :: "int option"
  ws_active_seconds :: int
  ws_idle_seconds :: int
  ws_billed_seconds :: int
  ws_avg_activity_pct :: "int option"
  ws_memo :: "string option"
  ws_timezone :: string
  ws_billing_week :: string

text \<open>\<open>timetracking/internal/store.Slice\<close>.\<close>

record Slice =
  sl_SessionID :: string
  sl_ContractID :: string
  sl_Start :: int
  sl_End :: int
  sl_KeyboardEvents :: int
  sl_MouseEvents :: int
  sl_ActiveSeconds :: int
  sl_ActivityPct :: int
  sl_ActiveApp :: string
  sl_ActiveAppTitle :: string
  sl_BrowserHost :: string
  sl_ScreenshotID :: string
  sl_IsIdle :: bool
  sl_IsManual :: bool
  sl_Flagged :: bool
  sl_FlagReason :: string

record timesheet_row =
  tsh_contract_id :: string
  tsh_billing_week :: string
  tsh_total_seconds :: int
  tsh_billable_seconds :: int
  tsh_amount_cents :: int
  tsh_avg_activity_pct :: int
  tsh_status :: string

section \<open>Reviews\<close>

text \<open>\<open>review/internal/store.Review\<close>; \<open>dimensions\<close> is a JSON object. A response row, and a reputation row whose score is in hundredths.\<close>

record Review =
  rvw_ID :: string
  rvw_ContractID :: string
  rvw_ReviewerID :: string
  rvw_RevieweeID :: string
  rvw_Rating :: int
  rvw_Dimensions :: json
  rvw_Comment :: "string option"
  rvw_IsPublished :: bool
  rvw_PublishedAt :: "int option"
  rvw_CreatedAt :: int

record review_response_row =
  rsp_review_id :: string
  rsp_responder_id :: string
  rsp_response :: string

record Reputation =
  rep_UserID :: string
  rep_Score :: int
  rep_JobSuccessPct :: "int option"
  rep_RecomputeAt :: "int option"
  rep_UpdatedAt :: int

section \<open>Administration\<close>

text \<open>\<open>admin/internal/store.AdminAction\<close>, \<open>AuditLog\<close> and \<open>Screenshot\<close>, and the dispute columns an admin sets.\<close>

record AdminAction =
  aa_ID :: string
  aa_AdminID :: string
  aa_Action :: string
  aa_TargetType :: string
  aa_TargetID :: string
  aa_Reason :: "string option"
  aa_Metadata :: string
  aa_CreatedAt :: int

record AuditLog =
  al_ID :: int
  al_OccurredAt :: int
  al_ActorID :: "string option"
  al_ActorType :: string
  al_Action :: string
  al_ResourceType :: string
  al_ResourceID :: "string option"
  al_IP :: "string option"
  al_UserAgent :: "string option"
  al_Context :: "string option"

record audit_row =
  au_log :: AuditLog
  au_row_hash :: string

record resolution_row =
  rs_dispute :: Dispute
  rs_resolution_note :: "string option"
  rs_assigned_admin :: "string option"
  rs_resolved_at :: "int option"

record audit_Screenshot =
  as_ID :: string
  as_SessionID :: string
  as_FreelancerID :: string
  as_Status :: string
  as_CapturedAt :: int
  as_S3Key :: string

section \<open>The databases\<close>

text \<open>
  All services share one PostgreSQL schema, and each owns its tables. The model has one record per
  family of services that work on the same tables: \<open>db\<close> for contract, escrow and payment,
  \<open>auth_db\<close>, \<open>market_db\<close> (project and proposal), \<open>track_db\<close> (time tracking), \<open>review_db\<close> and
  \<open>admin_db\<close> (with the tables of other services the admin service writes). Each
  extends \<open>outbox_db\<close>, the tables of \<open>pkg/outbox\<close> and \<open>pkg/kafka\<close> that every service writes.
  \<open>other_keys\<close> holds the primary keys, as pairs of table and key, of the tables outside the family
  that its foreign keys refer to.
\<close>

record outbox_db =
  outbox :: "outbox_row list"
  outbox_seq :: int
  processed_events :: "(string \<times> string) list"

record db = outbox_db +
  transactions :: "txn_row list"
  escrow_accounts :: "Escrow list"
  escrow_allocations :: "Allocation list"
  escrow_fund_idempotency :: "fund_key_row list"
  payments :: "Payment list"
  stripe_events :: "stripe_event_row list"
  contracts :: "Contract list"
  milestones :: "Milestone list"
  contract_events :: "ContractEvent list"
  hourly_contracts :: "string list"
  deliverables :: "deliverable_row list"
  disputes :: "Dispute list"
  other_keys :: "(string \<times> string) list"

record auth_db = outbox_db +
  users :: "User list"
  roles :: "string list"
  user_roles :: "(string \<times> string) list"
  role_permissions :: "(string \<times> string) list"
  sessions :: "session_row list"
  refresh_tokens :: "refresh_token_row list"

record market_db = outbox_db +
  projects :: "Project list"
  project_skills :: "(string \<times> string) list"
  project_attachments :: "Attachment list"
  proposals :: "Proposal list"
  proposal_milestones :: "ProposalMilestone list"
  proposal_answers :: "ProposalAnswer list"
  mkt_other_keys :: "(string \<times> string) list"

record track_db = outbox_db +
  work_sessions :: "work_session_row list"
  time_slices :: "Slice list"
  timesheets :: "timesheet_row list"
  trk_contracts :: "Contract list"
  trk_other_keys :: "(string \<times> string) list"

record review_db = outbox_db +
  reviews :: "Review list"
  review_responses :: "review_response_row list"
  reputation_scores :: "Reputation list"
  rev_other_keys :: "(string \<times> string) list"

record admin_db = outbox_db +
  adm_users :: "User list"
  adm_disputes :: "resolution_row list"
  adm_screenshots :: "audit_Screenshot list"
  admin_actions :: "AdminAction list"
  audit_logs :: "audit_row list"
  audit_seq :: int

definition empty_db :: db where
  "empty_db =
     \<lparr>outbox = [], outbox_seq = 1, processed_events = [], transactions = [],
      escrow_accounts = [], escrow_allocations = [], escrow_fund_idempotency = [],
      payments = [], stripe_events = [], contracts = [], milestones = [],
      contract_events = [], hourly_contracts = [], deliverables = [], disputes = [],
      other_keys = []\<rparr>"

section \<open>Sample data\<close>

text \<open>
  A connection in a quiet environment, for concrete runs: no statement fails, UUIDs are all
  different (they start with the given tag).
\<close>

definition quiet :: "string \<Rightarrow> 'd \<Rightarrow> 'd conn" where
  "quiet tag d = \<lparr>committed = d, work = d, aborted = False, faults = (\<lambda>_. False),
     ids = (\<lambda>n. tag @ replicate n (CHR ''i'')), clock = 1000\<rparr>"

lemma reliable_quiet [simp]: "reliable (quiet tag d)"
  by (simp add: reliable_def quiet_def)

lemma quiet_simps [simp]:
  "committed (quiet tag d) = d" "clock (quiet tag d) = 1000" "work (quiet tag d) = d"
  "aborted (quiet tag d) = False" "ids (quiet tag d) n = tag @ replicate n (CHR ''i'')"
  by (simp_all add: quiet_def)

definition demo_contract :: Contract where
  "demo_contract =
     \<lparr>con_ID = ''c1'', con_ProjectID = ''p1'', con_ProposalID = ''pr1'', con_ClientID = ''client'',
      con_FreelancerID = ''freelancer'', con_BudgetType = ''fixed'', con_Currency = ''USD'',
      con_TotalAmountCents = Some 1000, con_HourlyRateCents = None, con_WeeklyHourLimit = None,
      con_Status = ''active'', con_PlatformFeeBps = 1000, con_StartedAt = None, con_EndedAt = None,
      con_EndReason = None\<rparr>"

definition demo_milestone :: Milestone where
  "demo_milestone =
     \<lparr>ms_ID = ''m1'', ms_ContractID = ''c1'', ms_Seq = 1, ms_Title = ''first'',
      ms_Description = None, ms_AmountCents = 1000, ms_Status = ''pending'', ms_DueAt = None,
      ms_FundedAt = None, ms_SubmittedAt = None, ms_ApprovedAt = None, ms_ReleasedAt = None\<rparr>"

definition demo_db :: db where
  "demo_db = empty_db\<lparr>contracts := [demo_contract], milestones := [demo_milestone]\<rparr>"

section \<open>Column types\<close>

text \<open>
  A \<open>CHAR(3)\<close> column pads shorter strings with blanks and refuses longer ones (here with the
  generic \<open>CheckViolation\<close>; no code distinguishes the two).
\<close>

definition char3 :: "string \<Rightarrow> string option" where
  "char3 c = (if length c \<le> 3 then Some (c @ replicate (3 - length c) (CHR '' '')) else None)"

lemma char3_length: "char3 c = Some c' \<Longrightarrow> length c' = 3"
  by (auto simp: char3_def split: if_splits)

end
