(* ===== verification/Outbox.thy ===== *)
theory Outbox
  imports Schema
begin

text \<open>
  \<open>services/pkg/outbox\<close>: \<open>Enqueue\<close> writes an event in the caller's transaction; the relay's
  \<open>drain\<close> publishes the unpublished rows in identity order and marks each one, all in one
  transaction. The Kafka producer behind the \<open>Publisher\<close> interface is a parameter: which of the
  successive \<open>Publish\<close> calls fail.
\<close>

section \<open>Enqueue\<close>

text \<open>
  The identity column comes from a sequence. PostgreSQL does not roll a sequence back; the model
  keeps it in the database, which only removes gaps.
\<close>

definition post_event :: "Event \<Rightarrow> 'a outbox_db_scheme \<Rightarrow> 'a outbox_db_scheme" where
  "post_event e d =
     d\<lparr>outbox := outbox d @ [\<lparr>ob_id = outbox_seq d, ob_event = e, ob_published_at = None\<rparr>],
       outbox_seq := outbox_seq d + 1\<rparr>"

definition Enqueue :: "Event \<Rightarrow> ('a outbox_db_scheme, unit) io" where
  "Enqueue e = tx_stmt (\<lambda>now uid d. Inr ((), post_event e d))"

lemma Enqueue_ok [io_ok]:
  "Enqueue e s = (Inr u, t) \<longleftrightarrow>
     \<not> aborted s \<and> \<not> faults s 0 \<and> t = (tick s)\<lparr>work := post_event e (work s)\<rparr>"
  by (auto simp: Enqueue_def io_ok)

lemma post_event_simps [simp]:
  "outbox (post_event e d) =
     outbox d @ [\<lparr>ob_id = outbox_seq d, ob_event = e, ob_published_at = None\<rparr>]"
  "outbox_seq (post_event e d) = outbox_seq d + 1"
  "processed_events (post_event e d) = processed_events d"
  by (simp_all add: post_event_def)

lemma post_event_db [simp]:
  "transactions (post_event e d) = transactions d"
  "escrow_accounts (post_event e d) = escrow_accounts d"
  "escrow_allocations (post_event e d) = escrow_allocations d"
  "escrow_fund_idempotency (post_event e d) = escrow_fund_idempotency d"
  "payments (post_event e d) = payments d" "stripe_events (post_event e d) = stripe_events d"
  "contracts (post_event e d) = contracts d" "milestones (post_event e d) = milestones d"
  "contract_events (post_event e d) = contract_events d"
  "hourly_contracts (post_event e d) = hourly_contracts d"
  "deliverables (post_event e d) = deliverables d" "disputes (post_event e d) = disputes d"
  "other_keys (post_event e d) = other_keys d"
  by (simp_all add: post_event_def)

lemma post_event_auth [simp]:
  "users (post_event e d) = users d" "roles (post_event e d) = roles d"
  "user_roles (post_event e d) = user_roles d"
  "role_permissions (post_event e d) = role_permissions d"
  "sessions (post_event e d) = sessions d" "refresh_tokens (post_event e d) = refresh_tokens d"
  by (simp_all add: post_event_def)

lemma post_event_market [simp]:
  "projects (post_event e d) = projects d" "project_skills (post_event e d) = project_skills d"
  "project_attachments (post_event e d) = project_attachments d"
  "proposals (post_event e d) = proposals d"
  "proposal_milestones (post_event e d) = proposal_milestones d"
  "proposal_answers (post_event e d) = proposal_answers d"
  "mkt_other_keys (post_event e d) = mkt_other_keys d"
  by (simp_all add: post_event_def)

lemma post_event_track [simp]:
  "work_sessions (post_event e d) = work_sessions d"
  "time_slices (post_event e d) = time_slices d" "timesheets (post_event e d) = timesheets d"
  "trk_contracts (post_event e d) = trk_contracts d"
  "trk_other_keys (post_event e d) = trk_other_keys d"
  by (simp_all add: post_event_def)

lemma post_event_review [simp]:
  "reviews (post_event e d) = reviews d" "review_responses (post_event e d) = review_responses d"
  "reputation_scores (post_event e d) = reputation_scores d" "rev_other_keys (post_event e d) = rev_other_keys d"
  by (simp_all add: post_event_def)

lemma post_event_admin [simp]:
  "adm_users (post_event e d) = adm_users d" "adm_disputes (post_event e d) = adm_disputes d"
  "adm_screenshots (post_event e d) = adm_screenshots d" "admin_actions (post_event e d) = admin_actions d"
  "audit_logs (post_event e d) = audit_logs d"
  by (simp_all add: post_event_def)

lemma keeps_Enqueue [io_keeps]: "keeps (Enqueue e)"
  unfolding Enqueue_def by (intro io_keeps)

end
