(* ===== verification/Ledger.thy ===== *)
theory Ledger
  imports Schema
begin

text \<open>
  The append-only double-entry ledger (table \<open>transactions\<close>) that the escrow and the payment
  services share: sums per transaction group and per account, and the interface
  \<open>ledger_writer\<close> both services' \<open>WriteLegs\<close> implement.
\<close>

section \<open>Sums over the ledger\<close>

definition group_sum :: "txn_row list \<Rightarrow> string \<Rightarrow> int" where
  "group_sum ts g = sum_list (map txn_amount_cents (filter (\<lambda>t. txn_group t = g) ts))"

definition balanced :: "txn_row list \<Rightarrow> bool" where
  "balanced ts \<longleftrightarrow> (\<forall>g \<in> txn_group ` set ts. group_sum ts g = 0)"

definition account_sum :: "txn_row list \<Rightarrow> string \<Rightarrow> string option \<Rightarrow> int" where
  "account_sum ts kind ref =
     sum_list (map txn_amount_cents
       (filter (\<lambda>t. txn_account_kind t = kind \<and> txn_account_ref t = ref) ts))"

definition kind_sum :: "txn_row list \<Rightarrow> string \<Rightarrow> int" where
  "kind_sum ts kind =
     sum_list (map txn_amount_cents (filter (\<lambda>t. txn_account_kind t = kind) ts))"

lemma group_sum_append [simp]: "group_sum (xs @ ys) g = group_sum xs g + group_sum ys g"
  by (simp add: group_sum_def)

lemma account_sum_append [simp]:
  "account_sum (xs @ ys) k r = account_sum xs k r + account_sum ys k r"
  by (simp add: account_sum_def)

lemma kind_sum_append [simp]: "kind_sum (xs @ ys) k = kind_sum xs k + kind_sum ys k"
  by (simp add: kind_sum_def)

lemma group_sum_absent: "g \<notin> txn_group ` set ts \<Longrightarrow> group_sum ts g = 0"
  by (induction ts) (auto simp: group_sum_def)

lemma balanced_iff: "balanced ts \<longleftrightarrow> (\<forall>g. group_sum ts g = 0)"
  by (metis balanced_def group_sum_absent)

lemma balanced_Nil [simp]: "balanced []"
  by (simp add: balanced_def)

text \<open>A balanced ledger also sums to zero as a whole: money is only ever moved.\<close>

lemma sum_by_groups:
  "finite G \<Longrightarrow> txn_group ` set ts \<subseteq> G \<Longrightarrow>
   sum_list (map txn_amount_cents ts) = (\<Sum>g \<in> G. group_sum ts g)"
proof (induction ts)
  case (Cons t ts)
  have "(\<Sum>g \<in> G. group_sum (t # ts) g)
      = (\<Sum>g \<in> G. (if g = txn_group t then txn_amount_cents t else 0) + group_sum ts g)"
    by (rule sum.cong) (auto simp: group_sum_def)
  with Cons show ?case by (simp add: sum.distrib)
qed (simp add: group_sum_def)

lemma balanced_total: "balanced ts \<Longrightarrow> sum_list (map txn_amount_cents ts) = 0"
  using sum_by_groups [of "txn_group ` set ts" ts] by (simp add: balanced_def sum.neutral)

section \<open>The ledger writer interface\<close>

text \<open>
  What \<open>WriteLegs\<close> promises to its callers: on success the legs are appended as one transaction
  group, their \<open>int64\<close> sum was zero and nothing else of the database changed.
\<close>

locale ledger_writer =
  fixes leg_row :: "string \<Rightarrow> 'leg \<Rightarrow> txn_row"
    and write_legs :: "string \<Rightarrow> 'leg list \<Rightarrow> (db, unit) io"
  assumes leg_row_group: "txn_group (leg_row g l) = g"
    and write_legs_ok: "write_legs g ls s = (Inr u, t) \<Longrightarrow>
      work t = (work s)\<lparr>transactions := transactions (work s) @ map (leg_row g) ls\<rparr> \<and>
      int64 (sum_list (map (\<lambda>l. txn_amount_cents (leg_row g l)) ls)) = 0"
begin

lemma group_sum_legs:
  "group_sum (map (leg_row g) ls) h =
     (if h = g then sum_list (map (\<lambda>l. txn_amount_cents (leg_row g l)) ls) else 0)"
  by (induction ls) (auto simp: group_sum_def leg_row_group)

text \<open>
  The \<open>int64\<close> check of the code is an exact zero-sum check as long as the true sum stays below
  \<open>2^64\<close> in absolute value; then posting keeps the ledger balanced.
\<close>

lemma write_legs_exact:
  assumes "write_legs g ls s = (Inr u, t)"
    and "\<bar>sum_list (map (\<lambda>l. txn_amount_cents (leg_row g l)) ls)\<bar> < 2 ^ 64"
  shows "sum_list (map (\<lambda>l. txn_amount_cents (leg_row g l)) ls) = 0"
proof -
  let ?S = "sum_list (map (\<lambda>l. txn_amount_cents (leg_row g l)) ls)"
  from write_legs_ok [OF assms(1)] have "int64 ?S = 0" by blast
  then obtain k where eq: "?S = 2 ^ 64 * k" by (simp add: int64_cong)
  with assms(2) have "2 ^ 64 * \<bar>k\<bar> < 2 ^ 64 * (1 :: int)" by (simp only: abs_mult) simp
  then have "k = 0" by simp
  with eq show ?thesis by simp
qed

lemma write_legs_balanced:
  assumes "write_legs g ls s = (Inr u, t)"
    and "\<bar>sum_list (map (\<lambda>l. txn_amount_cents (leg_row g l)) ls)\<bar> < 2 ^ 64"
    and "balanced (transactions (work s))"
  shows "balanced (transactions (work t))"
  using write_legs_ok [OF assms(1)] write_legs_exact [OF assms(1,2)] assms(3)
  by (simp add: balanced_iff group_sum_legs)

end

end
