(* ===== verification/Escrow_Store.thy ===== *)
theory Escrow_Store
  imports Outbox Ledger
begin

text \<open>
  \<open>services/escrow/internal/store\<close>: the statements on \<open>escrow_accounts\<close>,
  \<open>escrow_allocations\<close>, \<open>escrow_fund_idempotency\<close> and the ledger, with the constraints
  migrations 000008, 000011 and 000013 put on those tables (primary keys, the partial unique
  indexes, \<open>CHECK\<close>s, the foreign keys to contracts and milestones, \<open>BIGINT\<close> ranges).
  \<open>ORDER BY created_at LIMIT 1\<close> is the first matching row in insertion order.
\<close>

section \<open>escrow\_accounts\<close>

text \<open>The \<open>CHECK\<close>s and the column ranges of an account row.\<close>

definition escrow_row_check :: "Escrow \<Rightarrow> err option" where
  "escrow_row_check e =
     (if \<not> is_int64 (esc_HeldCents e) \<or> \<not> is_int64 (esc_ReleasedCents e)
         \<or> \<not> is_int64 (esc_RefundedCents e) then Some NumericOutOfRange
      else if esc_HeldCents e < 0 \<or> esc_ReleasedCents e < 0 \<or> esc_RefundedCents e < 0
      then Some CheckViolation else None)"

definition GetEscrow :: "string \<Rightarrow> (db, Escrow) io" where
  "GetEscrow i =
     scan_row (pool_query (\<lambda>d. select_one (\<lambda>e. esc_ID e = i) (escrow_accounts d)))"

definition GetEscrowByContract :: "string \<Rightarrow> (db, Escrow) io" where
  "GetEscrowByContract contractID =
     scan_row (pool_query (\<lambda>d. select_one (\<lambda>e. esc_ContractID e = contractID) (escrow_accounts d)))"

definition new_escrow :: "string \<Rightarrow> string \<Rightarrow> string \<Rightarrow> int \<Rightarrow> Escrow" where
  "new_escrow uid contractID currency now =
     \<lparr>esc_ID = uid, esc_ContractID = contractID, esc_Currency = currency,
      esc_HeldCents = 0, esc_ReleasedCents = 0, esc_RefundedCents = 0,
      esc_Status = ''held'', esc_CreatedAt = now, esc_UpdatedAt = now\<rparr>"

definition upsert_escrow_sql :: "string \<Rightarrow> string \<Rightarrow> (db, Escrow option) sql" where
  "upsert_escrow_sql contractID currency = (\<lambda>now uid d.
     case char3 currency of None \<Rightarrow> Inl CheckViolation
     | Some cur \<Rightarrow>
       (case select_one (\<lambda>e. esc_ContractID e = contractID) (escrow_accounts d) of
          Some e \<Rightarrow> Inr (Some (e\<lparr>esc_UpdatedAt := now\<rparr>),
            d\<lparr>escrow_accounts := update_where (\<lambda>r. esc_ContractID r = contractID)
                (\<lambda>r. r\<lparr>esc_UpdatedAt := now\<rparr>) (escrow_accounts d)\<rparr>)
        | None \<Rightarrow>
            if contractID \<notin> con_ID ` set (contracts d) then Inl ForeignKeyViolation
            else if uid \<in> esc_ID ` set (escrow_accounts d) then Inl UniqueViolation
            else Inr (Some (new_escrow uid contractID cur now),
              d\<lparr>escrow_accounts := escrow_accounts d @ [new_escrow uid contractID cur now]\<rparr>)))"

definition UpsertEscrowForContract :: "string \<Rightarrow> string \<Rightarrow> (db, Escrow) io" where
  "UpsertEscrowForContract contractID currency =
     scan_row (tx_stmt (upsert_escrow_sql contractID currency))"

definition LockEscrow :: "string \<Rightarrow> (db, Escrow) io" where
  "LockEscrow i = scan_row (tx_stmt (\<lambda>now uid d.
     Inr (select_one (\<lambda>e. esc_ID e = i) (escrow_accounts d), d)))"

definition RecordFundIdempotency :: "string \<Rightarrow> string \<Rightarrow> string \<Rightarrow> (db, unit) io" where
  "RecordFundIdempotency contractID key escrowID =
     map_error (\<lambda>e. if e = UniqueViolation then ErrDuplicateFund else e)
       (tx_stmt (\<lambda>now uid d.
          if (\<exists>r \<in> set (escrow_fund_idempotency d).
                fk_contract_id r = contractID \<and> fk_idempotency_key r = key)
          then Inl UniqueViolation
          else Inr ((), d\<lparr>escrow_fund_idempotency := escrow_fund_idempotency d @
                 [\<lparr>fk_contract_id = contractID, fk_idempotency_key = key,
                   fk_escrow_id = escrowID\<rparr>]\<rparr>)))"

text \<open>\<open>UPDATE escrow_accounts SET ... WHERE id=$1 RETURNING ...\<close>.\<close>

definition update_escrow_sql :: "string \<Rightarrow> (int \<Rightarrow> Escrow \<Rightarrow> Escrow) \<Rightarrow> (db, Escrow option) sql" where
  "update_escrow_sql i f = (\<lambda>now uid d.
     case select_one (\<lambda>e. esc_ID e = i) (escrow_accounts d) of
       None \<Rightarrow> Inr (None, d)
     | Some e \<Rightarrow>
         (case escrow_row_check (f now e) of
            Some er \<Rightarrow> Inl er
          | None \<Rightarrow> Inr (Some (f now e),
              d\<lparr>escrow_accounts :=
                  update_where (\<lambda>r. esc_ID r = i) (f now) (escrow_accounts d)\<rparr>)))"

definition add_held :: "int \<Rightarrow> int \<Rightarrow> Escrow \<Rightarrow> Escrow" where
  "add_held amountCents now e =
     e\<lparr>esc_HeldCents := esc_HeldCents e + amountCents, esc_UpdatedAt := now\<rparr>"

definition AddHeld :: "string \<Rightarrow> int \<Rightarrow> (db, Escrow) io" where
  "AddHeld i amountCents = scan_row (tx_stmt (update_escrow_sql i (add_held amountCents)))"

definition held_to_released :: "int \<Rightarrow> string \<Rightarrow> int \<Rightarrow> Escrow \<Rightarrow> Escrow" where
  "held_to_released amountCents status now e =
     e\<lparr>esc_HeldCents := esc_HeldCents e - amountCents,
       esc_ReleasedCents := esc_ReleasedCents e + amountCents,
       esc_Status := status, esc_UpdatedAt := now\<rparr>"

definition MoveHeldToReleased :: "string \<Rightarrow> int \<Rightarrow> string \<Rightarrow> (db, Escrow) io" where
  "MoveHeldToReleased i amountCents status =
     scan_row (tx_stmt (update_escrow_sql i (held_to_released amountCents status)))"

definition held_to_refunded :: "int \<Rightarrow> string \<Rightarrow> int \<Rightarrow> Escrow \<Rightarrow> Escrow" where
  "held_to_refunded amountCents status now e =
     e\<lparr>esc_HeldCents := esc_HeldCents e - amountCents,
       esc_RefundedCents := esc_RefundedCents e + amountCents,
       esc_Status := status, esc_UpdatedAt := now\<rparr>"

definition MoveHeldToRefunded :: "string \<Rightarrow> int \<Rightarrow> string \<Rightarrow> (db, Escrow) io" where
  "MoveHeldToRefunded i amountCents status =
     scan_row (tx_stmt (update_escrow_sql i (held_to_refunded amountCents status)))"

section \<open>escrow\_allocations\<close>

definition is_active_for_milestone :: "string \<Rightarrow> string \<Rightarrow> Allocation \<Rightarrow> bool" where
  "is_active_for_milestone escrowID milestoneID a \<longleftrightarrow>
     alc_EscrowID a = escrowID \<and> alc_MilestoneID a = Some milestoneID \<and>
     alc_Status a \<noteq> ''refunded''"

definition is_active_for_week :: "string \<Rightarrow> string \<Rightarrow> Allocation \<Rightarrow> bool" where
  "is_active_for_week escrowID billingWeek a \<longleftrightarrow>
     alc_EscrowID a = escrowID \<and> alc_BillingWeek a = Some billingWeek \<and>
     alc_Status a \<noteq> ''refunded''"

definition is_held_for_milestone :: "string \<Rightarrow> string \<Rightarrow> Allocation \<Rightarrow> bool" where
  "is_held_for_milestone escrowID milestoneID a \<longleftrightarrow>
     alc_EscrowID a = escrowID \<and> alc_MilestoneID a = Some milestoneID \<and>
     alc_Status a = ''held''"

definition new_allocation ::
  "string \<Rightarrow> string \<Rightarrow> string option \<Rightarrow> string option \<Rightarrow> int \<Rightarrow> int \<Rightarrow> Allocation" where
  "new_allocation uid escrowID milestoneID billingWeek amountCents now =
     \<lparr>alc_ID = uid, alc_EscrowID = escrowID, alc_MilestoneID = milestoneID,
      alc_BillingWeek = billingWeek, alc_AmountCents = amountCents, alc_Status = ''held'',
      alc_CreatedAt = now, alc_ReleasedAt = None\<rparr>"

text \<open>
  The \<open>INSERT\<close>: ranges and \<open>CHECK\<close>s of the new row, its foreign keys, then the primary key and
  the partial unique indexes of migration 000011.
\<close>

definition insert_allocation_sql ::
  "string \<Rightarrow> string option \<Rightarrow> string option \<Rightarrow> int \<Rightarrow> (db, Allocation option) sql" where
  "insert_allocation_sql escrowID milestoneID billingWeek amountCents = (\<lambda>now uid d.
     if \<not> is_int64 amountCents then Inl NumericOutOfRange
     else if amountCents \<le> 0 \<or> (milestoneID = None \<and> billingWeek = None) then Inl CheckViolation
     else if uid \<in> alc_ID ` set (escrow_allocations d)
        \<or> (\<exists>m \<in> set_option milestoneID. \<exists>a \<in> set (escrow_allocations d).
              is_active_for_milestone escrowID m a)
        \<or> (\<exists>w \<in> set_option billingWeek. \<exists>a \<in> set (escrow_allocations d).
              is_active_for_week escrowID w a)
     then Inl UniqueViolation
     else if escrowID \<notin> esc_ID ` set (escrow_accounts d)
        \<or> (\<exists>m \<in> set_option milestoneID. m \<notin> ms_ID ` set (milestones d))
     then Inl ForeignKeyViolation
     else Inr (Some (new_allocation uid escrowID milestoneID billingWeek amountCents now),
       d\<lparr>escrow_allocations := escrow_allocations d @
           [new_allocation uid escrowID milestoneID billingWeek amountCents now]\<rparr>))"

definition InsertAllocation ::
  "string \<Rightarrow> string option \<Rightarrow> string option \<Rightarrow> int \<Rightarrow> (db, Allocation) io" where
  "InsertAllocation escrowID milestoneID billingWeek amountCents =
     map_error (\<lambda>e. if e = UniqueViolation then ErrDuplicateAllocation else e)
       (scan_row (tx_stmt (insert_allocation_sql escrowID milestoneID billingWeek amountCents)))"

definition HeldAllocationByMilestone :: "string \<Rightarrow> string \<Rightarrow> (db, Allocation) io" where
  "HeldAllocationByMilestone escrowID milestoneID = scan_row (tx_stmt (\<lambda>now uid d.
     Inr (select_one (is_held_for_milestone escrowID milestoneID) (escrow_allocations d), d)))"

definition AllocationByMilestone :: "string \<Rightarrow> string \<Rightarrow> (db, Allocation) io" where
  "AllocationByMilestone escrowID milestoneID = scan_row (tx_stmt (\<lambda>now uid d.
     Inr (select_one (is_active_for_milestone escrowID milestoneID) (escrow_allocations d), d)))"

definition AllocationByBillingWeek :: "string \<Rightarrow> string \<Rightarrow> (db, Allocation) io" where
  "AllocationByBillingWeek escrowID billingWeek = scan_row (tx_stmt (\<lambda>now uid d.
     Inr (select_one (is_active_for_week escrowID billingWeek) (escrow_allocations d), d)))"

definition mark_released :: "int \<Rightarrow> Allocation \<Rightarrow> Allocation" where
  "mark_released now a = a\<lparr>alc_Status := ''released'', alc_ReleasedAt := Some now\<rparr>"

definition MarkAllocationReleased :: "string \<Rightarrow> (db, Allocation) io" where
  "MarkAllocationReleased i = scan_row (tx_stmt (\<lambda>now uid d.
     case select_one (\<lambda>a. alc_ID a = i \<and> alc_Status a = ''held'') (escrow_allocations d) of
       None \<Rightarrow> Inr (None, d)
     | Some a \<Rightarrow> Inr (Some (mark_released now a),
         d\<lparr>escrow_allocations :=
             update_where (\<lambda>a. alc_ID a = i \<and> alc_Status a = ''held'') (mark_released now)
               (escrow_allocations d)\<rparr>)))"

definition held_sum :: "Allocation list \<Rightarrow> string \<Rightarrow> int" where
  "held_sum as escrowID =
     sum_list (map alc_AmountCents
       (filter (\<lambda>a. alc_EscrowID a = escrowID \<and> alc_Status a = ''held'') as))"

text \<open>\<open>sum(bigint)\<close> is a numeric; scanning it into an \<open>int64\<close> fails when it does not fit.\<close>

definition SumHeldAllocations :: "string \<Rightarrow> (db, int) io" where
  "SumHeldAllocations escrowID =
     bindE (tx_stmt (\<lambda>now uid d. Inr (held_sum (escrow_allocations d) escrowID, d)))
       (\<lambda>sum. if is_int64 sum then ret sum else throw NumericOutOfRange)"

definition ListAllocations :: "string \<Rightarrow> (db, Allocation list) io" where
  "ListAllocations escrowID =
     pool_query (\<lambda>d. filter (\<lambda>a. alc_EscrowID a = escrowID) (escrow_allocations d))"

section \<open>Ledger legs\<close>

record Leg =
  leg_Type :: string
  leg_AccountKind :: string
  leg_AccountRef :: "string option"
  leg_ContractID :: "string option"
  leg_AmountCents :: int
  leg_Currency :: string
  leg_Memo :: "string option"

definition leg_txn :: "string \<Rightarrow> Leg \<Rightarrow> txn_row" where
  "leg_txn txnGroup l =
     \<lparr>txn_group = txnGroup, txn_type = leg_Type l, txn_account_kind = leg_AccountKind l,
      txn_account_ref = leg_AccountRef l, txn_contract_id = leg_ContractID l,
      txn_amount_cents = leg_AmountCents l, txn_currency = leg_Currency l,
      txn_payment_id = None, txn_memo = leg_Memo l\<rparr>"

fun insert_legs :: "string \<Rightarrow> Leg list \<Rightarrow> (db, unit) io" where
  "insert_legs g [] = ret ()"
| "insert_legs g (l # ls) =
     bindE (tx_stmt (\<lambda>now uid d.
        if is_int64 (leg_AmountCents l)
        then Inr ((), d\<lparr>transactions := transactions d @ [leg_txn g l]\<rparr>)
        else Inl NumericOutOfRange))
      (\<lambda>_. insert_legs g ls)"

definition WriteLegs :: "string \<Rightarrow> Leg list \<Rightarrow> (db, unit) io" where
  "WriteLegs txnGroup legs =
     (if sum_int64 0 (map leg_AmountCents legs) \<noteq> 0
      then throw (Errorf ''store: unbalanced ledger txn_group'')
      else insert_legs txnGroup legs)"

section \<open>What the statements do\<close>

lemmas store_defs =
  GetEscrow_def GetEscrowByContract_def UpsertEscrowForContract_def LockEscrow_def
  RecordFundIdempotency_def AddHeld_def MoveHeldToReleased_def MoveHeldToRefunded_def
  InsertAllocation_def HeldAllocationByMilestone_def AllocationByMilestone_def
  AllocationByBillingWeek_def MarkAllocationReleased_def SumHeldAllocations_def
  ListAllocations_def WriteLegs_def

lemma keeps_insert_legs [io_keeps]: "keeps (insert_legs g ls)"
  by (induction g ls rule: insert_legs.induct) (auto intro!: io_keeps)

lemma keeps_store [io_keeps]:
  "keeps (GetEscrow i)" "keeps (GetEscrowByContract i)" "keeps (UpsertEscrowForContract c cur)"
  "keeps (LockEscrow i)" "keeps (RecordFundIdempotency c k i)" "keeps (AddHeld i n)"
  "keeps (MoveHeldToReleased i n st)" "keeps (MoveHeldToRefunded i n st)"
  "keeps (InsertAllocation i m w n)" "keeps (HeldAllocationByMilestone i m')"
  "keeps (AllocationByMilestone i m')" "keeps (AllocationByBillingWeek i w')"
  "keeps (MarkAllocationReleased a)" "keeps (SumHeldAllocations i)" "keeps (ListAllocations i)"
  "keeps (WriteLegs g ls)"
  unfolding store_defs by (intro io_keeps)+

lemma LockEscrow_ok [io_ok]:
  "LockEscrow i s = (Inr e, t) \<longleftrightarrow>
     \<not> aborted s \<and> \<not> faults s 0 \<and>
     select_one (\<lambda>e. esc_ID e = i) (escrow_accounts (work s)) = Some e \<and> t = tick s"
  by (auto simp: LockEscrow_def io_ok)

lemma update_escrow_ok:
  "scan_row (tx_stmt (update_escrow_sql i f)) s = (Inr e', t) \<longleftrightarrow>
     \<not> aborted s \<and> \<not> faults s 0 \<and>
     (\<exists>e. select_one (\<lambda>e. esc_ID e = i) (escrow_accounts (work s)) = Some e \<and>
          e' = f (clock s) e \<and> escrow_row_check e' = None \<and>
          t = (tick s)\<lparr>work := (work s)\<lparr>escrow_accounts :=
                update_where (\<lambda>r. esc_ID r = i) (f (clock s)) (escrow_accounts (work s))\<rparr>\<rparr>)"
  by (auto simp: io_ok update_escrow_sql_def split: option.splits)

lemmas escrow_updates_ok [io_ok] =
  update_escrow_ok [of _ "add_held _", folded AddHeld_def]
  update_escrow_ok [of _ "held_to_released _ _", folded MoveHeldToReleased_def]
  update_escrow_ok [of _ "held_to_refunded _ _", folded MoveHeldToRefunded_def]

lemma select_allocation_ok [io_ok]:
  "AllocationByMilestone i m s = (Inr a, t) \<longleftrightarrow>
     \<not> aborted s \<and> \<not> faults s 0 \<and>
     select_one (is_active_for_milestone i m) (escrow_allocations (work s)) = Some a \<and> t = tick s"
  "AllocationByBillingWeek i w s = (Inr a, t) \<longleftrightarrow>
     \<not> aborted s \<and> \<not> faults s 0 \<and>
     select_one (is_active_for_week i w) (escrow_allocations (work s)) = Some a \<and> t = tick s"
  "HeldAllocationByMilestone i m s = (Inr a, t) \<longleftrightarrow>
     \<not> aborted s \<and> \<not> faults s 0 \<and>
     select_one (is_held_for_milestone i m) (escrow_allocations (work s)) = Some a \<and> t = tick s"
  by (auto simp: AllocationByMilestone_def AllocationByBillingWeek_def
      HeldAllocationByMilestone_def io_ok)

text \<open>The lookups fail with \<open>ErrNotFound\<close> exactly when no row matches.\<close>

lemma select_allocation_not_found:
  "AllocationByMilestone i m s = (Inl ErrNotFound, t) \<longleftrightarrow>
     \<not> aborted s \<and> \<not> faults s 0 \<and>
     select_one (is_active_for_milestone i m) (escrow_allocations (work s)) = None \<and> t = tick s"
  "AllocationByBillingWeek i w s = (Inl ErrNotFound, t) \<longleftrightarrow>
     \<not> aborted s \<and> \<not> faults s 0 \<and>
     select_one (is_active_for_week i w) (escrow_allocations (work s)) = None \<and> t = tick s"
  by (auto simp: AllocationByMilestone_def AllocationByBillingWeek_def scan_row_def bindE_def
      tx_stmt_def throw_def ret_def tick_def split: option.splits)

lemma MarkAllocationReleased_ok [io_ok]:
  "MarkAllocationReleased i s = (Inr a', t) \<longleftrightarrow>
     \<not> aborted s \<and> \<not> faults s 0 \<and>
     (\<exists>a. select_one (\<lambda>a. alc_ID a = i \<and> alc_Status a = ''held'')
            (escrow_allocations (work s)) = Some a \<and>
          a' = mark_released (clock s) a \<and>
          t = (tick s)\<lparr>work := (work s)\<lparr>escrow_allocations :=
                update_where (\<lambda>a. alc_ID a = i \<and> alc_Status a = ''held'')
                  (mark_released (clock s)) (escrow_allocations (work s))\<rparr>\<rparr>)"
  by (auto simp: MarkAllocationReleased_def io_ok split: option.splits)

lemma SumHeldAllocations_ok [io_ok]:
  "SumHeldAllocations i s = (Inr n, t) \<longleftrightarrow>
     \<not> aborted s \<and> \<not> faults s 0 \<and> n = held_sum (escrow_allocations (work s)) i \<and>
     is_int64 n \<and> t = tick s"
  by (auto simp: SumHeldAllocations_def io_ok split: if_splits)

lemma insert_allocation_ok:
  "insert_allocation_sql i m w n now uid d = Inr (r, d') \<longleftrightarrow>
     is_int64 n \<and> 0 < n \<and> (m \<noteq> None \<or> w \<noteq> None) \<and>
     uid \<notin> alc_ID ` set (escrow_allocations d) \<and>
     (\<forall>m'. m = Some m' \<longrightarrow> (\<forall>a \<in> set (escrow_allocations d). \<not> is_active_for_milestone i m' a)) \<and>
     (\<forall>w'. w = Some w' \<longrightarrow> (\<forall>a \<in> set (escrow_allocations d). \<not> is_active_for_week i w' a)) \<and>
     i \<in> esc_ID ` set (escrow_accounts d) \<and>
     (\<forall>m'. m = Some m' \<longrightarrow> m' \<in> ms_ID ` set (milestones d)) \<and>
     r = Some (new_allocation uid i m w n now) \<and>
     d' = d\<lparr>escrow_allocations := escrow_allocations d @ [new_allocation uid i m w n now]\<rparr>"
  unfolding insert_allocation_sql_def by (auto simp: not_le)

lemma InsertAllocation_ok [io_ok]:
  "InsertAllocation i m w n s = (Inr a, t) \<longleftrightarrow>
     \<not> aborted s \<and> \<not> faults s 0 \<and>
     (\<exists>d'. insert_allocation_sql i m w n (clock s) (ids s 0) (work s) = Inr (Some a, d') \<and>
           t = (tick s)\<lparr>work := d'\<rparr>)"
  by (auto simp: InsertAllocation_def io_ok)

text \<open>An insert reports a duplicate only when a row of the index is there.\<close>

lemma insert_allocation_unique:
  "insert_allocation_sql i m w n now uid d = Inl UniqueViolation \<Longrightarrow>
     uid \<in> alc_ID ` set (escrow_allocations d)
     \<or> (\<exists>m'. m = Some m' \<and> (\<exists>a \<in> set (escrow_allocations d). is_active_for_milestone i m' a))
     \<or> (\<exists>w'. w = Some w' \<and> (\<exists>a \<in> set (escrow_allocations d). is_active_for_week i w' a))"
  unfolding insert_allocation_sql_def by (auto split: if_splits)

lemma insert_legs_ok:
  "insert_legs g ls s = (Inr u, t) \<Longrightarrow>
     work t = (work s)\<lparr>transactions := transactions (work s) @ map (leg_txn g) ls\<rparr> \<and>
     committed t = committed s \<and> clock t = clock s \<and> aborted t = aborted s"
proof (induction g ls arbitrary: s rule: insert_legs.induct)
  case (1 g)
  then show ?case by (simp add: io_ok)
next
  case (2 g l ls)
  from "2.prems" obtain s' where
    s': "s' = (tick s)\<lparr>work := (work s)\<lparr>transactions := transactions (work s) @ [leg_txn g l]\<rparr>\<rparr>"
    and "insert_legs g ls s' = (Inr u, t)"
    by (auto simp: io_ok split: if_splits)
  with "2.IH" [of s'] show ?case by simp
qed

lemma WriteLegs_ok:
  "WriteLegs g ls s = (Inr u, t) \<Longrightarrow>
     work t = (work s)\<lparr>transactions := transactions (work s) @ map (leg_txn g) ls\<rparr> \<and>
     committed t = committed s \<and> clock t = clock s \<and> aborted t = aborted s \<and>
     int64 (sum_list (map leg_AmountCents ls)) = 0"
  by (auto simp: WriteLegs_def io_ok sum_int64_0 split: if_splits dest!: insert_legs_ok)

interpretation escrow_ledger: ledger_writer leg_txn WriteLegs
  by unfold_locales (auto simp: leg_txn_def dest!: WriteLegs_ok)

end
