(* ===== verification/Escrow.thy ===== *)
theory Escrow
  imports Escrow_Store
begin

text \<open>
  \<open>services/escrow/internal/service\<close>: funding, allocating, releasing and refunding escrow, each
  operation statement by statement as in the Go code, with its early returns; then the invariant
  of the escrow tables and the shared ledger, which every operation keeps.
\<close>

section \<open>Operations\<close>

definition amount_error :: err where
  "amount_error = Errorf ''service: amount_cents must be > 0''"

definition statusAfterRelease :: "int \<Rightarrow> string" where
  "statusAfterRelease remainingHeld =
     (if remainingHeld \<le> 0 then ''released'' else ''partially_released'')"

definition opt_field :: "string \<Rightarrow> string option \<Rightarrow> (string \<times> json) list" where
  "opt_field k v = (case v of None \<Rightarrow> [] | Some x \<Rightarrow> [(k, JStr x)])"

definition released_event :: "Escrow \<Rightarrow> string option \<Rightarrow> string option \<Rightarrow> int \<Rightarrow> Event" where
  "released_event e milestoneID billingWeek amountCents =
     \<lparr>ev_AggregateType = ''escrow'', ev_AggregateID = esc_ID e,
      ev_EventType = ''escrow.released'', ev_Topic = ''escrow.events'',
      ev_PartitionKey = esc_ContractID e,
      ev_Payload = JObj ([(''escrow_id'', JStr (esc_ID e)),
         (''contract_id'', JStr (esc_ContractID e)), (''amount_cents'', JInt amountCents)]
         @ opt_field ''milestone_id'' milestoneID @ opt_field ''billing_week'' billingWeek),
      ev_Headers = []\<rparr>"

definition emitReleased :: "Escrow \<Rightarrow> string option \<Rightarrow> string option \<Rightarrow> int \<Rightarrow> (db, unit) io" where
  "emitReleased e milestoneID billingWeek amountCents =
     Enqueue (released_event e milestoneID billingWeek amountCents)"

definition funded_event :: "Escrow \<Rightarrow> string \<Rightarrow> int \<Rightarrow> Event" where
  "funded_event e contractID amountCents =
     \<lparr>ev_AggregateType = ''escrow'', ev_AggregateID = esc_ID e,
      ev_EventType = ''escrow.funded'', ev_Topic = ''escrow.events'',
      ev_PartitionKey = contractID,
      ev_Payload = JObj [(''escrow_id'', JStr (esc_ID e)),
        (''contract_id'', JStr contractID), (''amount_cents'', JInt amountCents),
        (''held_cents'', JInt (esc_HeldCents e))],
      ev_Headers = []\<rparr>"

definition refunded_event :: "Escrow \<Rightarrow> int \<Rightarrow> string \<Rightarrow> Event" where
  "refunded_event e amountCents reason =
     \<lparr>ev_AggregateType = ''escrow'', ev_AggregateID = esc_ID e,
      ev_EventType = ''escrow.refunded'', ev_Topic = ''escrow.events'',
      ev_PartitionKey = esc_ContractID e,
      ev_Payload = JObj [(''escrow_id'', JStr (esc_ID e)),
        (''contract_id'', JStr (esc_ContractID e)), (''amount_cents'', JInt amountCents),
        (''reason'', JStr reason)],
      ev_Headers = []\<rparr>"

definition hold_legs :: "Escrow \<Rightarrow> string \<Rightarrow> int \<Rightarrow> Leg list" where
  "hold_legs e contractID amountCents =
     [\<lparr>leg_Type = ''escrow_hold'', leg_AccountKind = ''escrow'', leg_AccountRef = None,
       leg_ContractID = None, leg_AmountCents = int64 (- amountCents),
       leg_Currency = esc_Currency e, leg_Memo = None\<rparr>,
      \<lparr>leg_Type = ''escrow_hold'', leg_AccountKind = ''escrow_contract'',
       leg_AccountRef = Some (esc_ID e), leg_ContractID = Some contractID,
       leg_AmountCents = amountCents, leg_Currency = esc_Currency e, leg_Memo = None\<rparr>]"

definition FundEscrow :: "string \<Rightarrow> int \<Rightarrow> string \<Rightarrow> string \<Rightarrow> (db, Escrow) io" where
  "FundEscrow contractID amountCents currency idempotencyKey =
     (if amountCents \<le> 0 then throw amount_error else
      bindE begin_tx (\<lambda>_.
      bindE (UpsertEscrowForContract contractID (if currency = '''' then ''USD'' else currency)) (\<lambda>e.
      bindE (LockEscrow (esc_ID e)) (\<lambda>_.
      bindE (if idempotencyKey \<noteq> ''''
             then attempt (RecordFundIdempotency contractID idempotencyKey (esc_ID e))
             else ret (Inr ())) (\<lambda>r.
      case r of
        Inl er \<Rightarrow>
          if er = ErrDuplicateFund then bindE rollback_tx (\<lambda>_. GetEscrow (esc_ID e)) else throw er
      | Inr _ \<Rightarrow>
          bindE (AddHeld (esc_ID e) amountCents) (\<lambda>e.
          bindE new_id (\<lambda>group.
          bindE (WriteLegs group (hold_legs e contractID amountCents)) (\<lambda>_.
          bindE (Enqueue (funded_event e contractID amountCents)) (\<lambda>_.
          bindE commit_tx (\<lambda>_. ret e))))))))))"

definition AllocateToMilestone :: "string \<Rightarrow> string \<Rightarrow> int \<Rightarrow> (db, Allocation) io" where
  "AllocateToMilestone escrowID milestoneID amountCents =
     (if amountCents \<le> 0 then throw amount_error else
      bindE begin_tx (\<lambda>_.
      bindE (LockEscrow escrowID) (\<lambda>e.
      bindE (attempt (AllocationByMilestone escrowID milestoneID)) (\<lambda>r.
      case r of
        Inr existing \<Rightarrow> bindE commit_tx (\<lambda>_. ret existing)
      | Inl er \<Rightarrow> if er \<noteq> ErrNotFound then throw er else
          bindE (SumHeldAllocations escrowID) (\<lambda>allocated.
          if amountCents > int64 (esc_HeldCents e - allocated) then throw ErrInsufficientFunds else
          bindE (attempt (InsertAllocation escrowID (Some milestoneID) None amountCents)) (\<lambda>r.
          case r of
            Inl er \<Rightarrow>
              if er = ErrDuplicateAllocation
              then bindE (AllocationByMilestone escrowID milestoneID) (\<lambda>existing.
                   bindE commit_tx (\<lambda>_. ret existing))
              else throw er
          | Inr a \<Rightarrow> bindE commit_tx (\<lambda>_. ret a)))))))"

definition release_legs :: "Escrow \<Rightarrow> int \<Rightarrow> Leg list" where
  "release_legs e amountCents =
     [\<lparr>leg_Type = ''escrow_release'', leg_AccountKind = ''escrow'', leg_AccountRef = Some (esc_ID e),
       leg_ContractID = Some (esc_ContractID e), leg_AmountCents = int64 (- amountCents),
       leg_Currency = esc_Currency e, leg_Memo = None\<rparr>,
      \<lparr>leg_Type = ''escrow_release'', leg_AccountKind = ''freelancer_balance'',
       leg_AccountRef = None, leg_ContractID = Some (esc_ContractID e),
       leg_AmountCents = amountCents, leg_Currency = esc_Currency e, leg_Memo = None\<rparr>]"

definition ReleaseMilestone :: "string \<Rightarrow> string \<Rightarrow> int \<Rightarrow> (db, Escrow) io" where
  "ReleaseMilestone escrowID milestoneID amountCents =
      bindE begin_tx (\<lambda>_.
      bindE (LockEscrow escrowID) (\<lambda>e.
      bindE (HeldAllocationByMilestone escrowID milestoneID) (\<lambda>alloc.
      bindE (SumHeldAllocations escrowID) (\<lambda>allocated.
      if alc_AmountCents alloc > esc_HeldCents e \<or> allocated > esc_HeldCents e
      then throw ErrInsufficientFunds else
      bindE (MarkAllocationReleased (alc_ID alloc)) (\<lambda>_.
      bindE (MoveHeldToReleased escrowID (alc_AmountCents alloc)
               (statusAfterRelease (int64 (esc_HeldCents e - alc_AmountCents alloc)))) (\<lambda>e.
      bindE new_id (\<lambda>group.
      bindE (WriteLegs group (release_legs e (alc_AmountCents alloc))) (\<lambda>_.
      bindE (emitReleased e (Some milestoneID) None (alc_AmountCents alloc)) (\<lambda>_.
      bindE commit_tx (\<lambda>_. ret e))))))))))"

definition ReleaseHours :: "string \<Rightarrow> string \<Rightarrow> int \<Rightarrow> (db, Escrow) io" where
  "ReleaseHours escrowID billingWeek amountCents =
     (if amountCents \<le> 0 then throw amount_error else
      bindE begin_tx (\<lambda>_.
      bindE (LockEscrow escrowID) (\<lambda>e.
      bindE (attempt (AllocationByBillingWeek escrowID billingWeek)) (\<lambda>r.
      case r of
        Inr _ \<Rightarrow> bindE commit_tx (\<lambda>_. ret e)
      | Inl er \<Rightarrow> if er \<noteq> ErrNotFound then throw er else
          bindE (SumHeldAllocations escrowID) (\<lambda>allocated.
          if amountCents > int64 (esc_HeldCents e - allocated) then throw ErrInsufficientFunds else
          bindE (attempt (InsertAllocation escrowID None (Some billingWeek) amountCents)) (\<lambda>r.
          case r of
            Inl er \<Rightarrow>
              if er = ErrDuplicateAllocation then bindE commit_tx (\<lambda>_. ret e) else throw er
          | Inr alloc \<Rightarrow>
              bindE (MarkAllocationReleased (alc_ID alloc)) (\<lambda>_.
              bindE (MoveHeldToReleased escrowID amountCents
                       (statusAfterRelease (int64 (esc_HeldCents e - amountCents)))) (\<lambda>e.
              bindE new_id (\<lambda>group.
              bindE (WriteLegs group (release_legs e amountCents)) (\<lambda>_.
              bindE (emitReleased e None (Some billingWeek) amountCents) (\<lambda>_.
              bindE commit_tx (\<lambda>_. ret e))))))))))))"

definition refund_legs :: "Escrow \<Rightarrow> int \<Rightarrow> string \<Rightarrow> Leg list" where
  "refund_legs e amountCents reason =
     (let memo = (if reason \<noteq> '''' then Some reason else None) in
     [\<lparr>leg_Type = ''refund'', leg_AccountKind = ''escrow'', leg_AccountRef = Some (esc_ID e),
       leg_ContractID = Some (esc_ContractID e), leg_AmountCents = int64 (- amountCents),
       leg_Currency = esc_Currency e, leg_Memo = memo\<rparr>,
      \<lparr>leg_Type = ''refund'', leg_AccountKind = ''refunds'', leg_AccountRef = None,
       leg_ContractID = Some (esc_ContractID e), leg_AmountCents = amountCents,
       leg_Currency = esc_Currency e, leg_Memo = memo\<rparr>])"

definition RefundEscrow :: "string \<Rightarrow> int \<Rightarrow> string \<Rightarrow> (db, Escrow) io" where
  "RefundEscrow escrowID amountCents reason =
     (if amountCents \<le> 0 then throw amount_error else
      bindE begin_tx (\<lambda>_.
      bindE (LockEscrow escrowID) (\<lambda>e.
      bindE (SumHeldAllocations escrowID) (\<lambda>allocated.
      if amountCents > int64 (esc_HeldCents e - allocated) then throw ErrInsufficientFunds else
      bindE (MoveHeldToRefunded escrowID amountCents
               (if int64 (esc_HeldCents e - amountCents) = 0 then ''refunded'' else ''held'')) (\<lambda>e.
      bindE new_id (\<lambda>group.
      bindE (WriteLegs group (refund_legs e amountCents reason)) (\<lambda>_.
      bindE (Enqueue (refunded_event e amountCents reason)) (\<lambda>_.
      bindE commit_tx (\<lambda>_. ret e)))))))))"

section \<open>Atomicity\<close>

lemma keeps_emitReleased [io_keeps]: "keeps (emitReleased e m w n)"
  unfolding emitReleased_def by (intro io_keeps)

lemma atomic_FundEscrow: "atomic (FundEscrow c n cur k)"
  unfolding FundEscrow_def by (intro io_atomic io_keeps keeps_atomic)

lemma atomic_AllocateToMilestone: "atomic (AllocateToMilestone i m n)"
  unfolding AllocateToMilestone_def by (intro io_atomic io_keeps)

lemma atomic_ReleaseMilestone: "atomic (ReleaseMilestone i m n)"
  unfolding ReleaseMilestone_def by (intro io_atomic io_keeps)

lemma atomic_ReleaseHours: "atomic (ReleaseHours i w n)"
  unfolding ReleaseHours_def by (intro io_atomic io_keeps)

lemma atomic_RefundEscrow: "atomic (RefundEscrow i n why)"
  unfolding RefundEscrow_def by (intro io_atomic io_keeps)

end
