(* ===== verification/Escrow_Inv.thy ===== *)
theory Escrow_Inv
  imports Escrow
begin

text \<open>
  The invariant of the escrow tables. Keys are unique; every allocation belongs to an account, has
  a positive amount, and there is at most one live allocation per milestone and per billing week;
  for every account the reserved funds are covered by what is held, what was released is the sum
  of the released allocations, and the balances agree with the ledger: everything ever put on hold
  for the account is held, released or refunded.
\<close>

section \<open>The invariant\<close>

definition released_sum :: "Allocation list \<Rightarrow> string \<Rightarrow> int" where
  "released_sum as escrowID =
     sum_list (map alc_AmountCents
       (filter (\<lambda>a. alc_EscrowID a = escrowID \<and> alc_Status a = ''released'') as))"

definition account_ok :: "Allocation list \<Rightarrow> txn_row list \<Rightarrow> Escrow \<Rightarrow> bool" where
  "account_ok as ts e \<longleftrightarrow>
     escrow_row_check e = None \<and>
     held_sum as (esc_ID e) \<le> esc_HeldCents e \<and>
     released_sum as (esc_ID e) = esc_ReleasedCents e \<and>
     account_sum ts ''escrow_contract'' (Some (esc_ID e)) =
       esc_HeldCents e + esc_ReleasedCents e + esc_RefundedCents e \<and>
     account_sum ts ''escrow'' (Some (esc_ID e)) = - (esc_ReleasedCents e + esc_RefundedCents e)"

definition allocs_ok :: "string set \<Rightarrow> Allocation list \<Rightarrow> bool" where
  "allocs_ok eids as \<longleftrightarrow>
     distinct (map alc_ID as) \<and>
     (\<forall>a \<in> set as. 0 < alc_AmountCents a \<and> alc_EscrowID a \<in> eids \<and>
        (alc_MilestoneID a \<noteq> None \<or> alc_BillingWeek a \<noteq> None) \<and>
        alc_Status a \<in> {''held'', ''released'', ''refunded''}) \<and>
     (\<forall>a \<in> set as. \<forall>b \<in> set as. \<forall>i m.
        is_active_for_milestone i m a \<and> is_active_for_milestone i m b \<longrightarrow> a = b) \<and>
     (\<forall>a \<in> set as. \<forall>b \<in> set as. \<forall>i w.
        is_active_for_week i w a \<and> is_active_for_week i w b \<longrightarrow> a = b)"

definition refs_ok :: "string set \<Rightarrow> txn_row list \<Rightarrow> bool" where
  "refs_ok eids ts \<longleftrightarrow>
     (\<forall>t \<in> set ts. txn_account_kind t \<in> {''escrow'', ''escrow_contract''} \<longrightarrow>
        (\<forall>r. txn_account_ref t = Some r \<longrightarrow> r \<in> eids))"

definition escrow_inv :: "db \<Rightarrow> bool" where
  "escrow_inv d \<longleftrightarrow>
     distinct (map esc_ID (escrow_accounts d)) \<and>
     distinct (map esc_ContractID (escrow_accounts d)) \<and>
     allocs_ok (esc_ID ` set (escrow_accounts d)) (escrow_allocations d) \<and>
     refs_ok (esc_ID ` set (escrow_accounts d)) (transactions d) \<and>
     balanced (transactions d) \<and>
     (\<forall>e \<in> set (escrow_accounts d). account_ok (escrow_allocations d) (transactions d) e)"

lemma escrow_invD:
  assumes "escrow_inv d"
  shows "distinct (map esc_ID (escrow_accounts d))"
    and "distinct (map esc_ContractID (escrow_accounts d))"
    and "allocs_ok (esc_ID ` set (escrow_accounts d)) (escrow_allocations d)"
    and "refs_ok (esc_ID ` set (escrow_accounts d)) (transactions d)"
    and "balanced (transactions d)"
    and "e \<in> set (escrow_accounts d) \<Longrightarrow> account_ok (escrow_allocations d) (transactions d) e"
  using assms by (auto simp: escrow_inv_def)

lemma escrow_inv_empty: "escrow_inv empty_db"
  by (simp add: escrow_inv_def empty_db_def allocs_ok_def refs_ok_def)

section \<open>Sums over allocations\<close>

lemma held_sum_append: "held_sum (as @ bs) i = held_sum as i + held_sum bs i"
  by (simp add: held_sum_def)

lemma released_sum_append: "released_sum (as @ bs) i = released_sum as i + released_sum bs i"
  by (simp add: released_sum_def)

lemma held_sum_new:
  "held_sum [new_allocation uid e m w n now] i = (if i = e then n else 0)"
  by (simp add: held_sum_def new_allocation_def)

lemma released_sum_new: "released_sum [new_allocation uid e m w n now] i = 0"
  by (simp add: released_sum_def new_allocation_def)

lemma held_sum_nonneg:
  "(\<And>a. a \<in> set as \<Longrightarrow> 0 < alc_AmountCents a) \<Longrightarrow> 0 \<le> held_sum as i"
  unfolding held_sum_def by (rule sum_list_nonneg) (auto simp: less_imp_le)

lemma held_sum_member:
  assumes "\<And>a. a \<in> set as \<Longrightarrow> 0 < alc_AmountCents a"
    and "a \<in> set as" and "alc_Status a = ''held''"
  shows "alc_AmountCents a \<le> held_sum as (alc_EscrowID a)"
proof -
  let ?g = "\<lambda>b. if alc_EscrowID b = alc_EscrowID a \<and> alc_Status b = ''held''
                  then alc_AmountCents b else 0"
  have "?g a \<le> sum_list (map ?g as)"
    using assms by (intro sum_list_nonneg_member) (auto simp: less_imp_le)
  with assms(3) show ?thesis by (simp add: held_sum_def sum_list_filter_eq)
qed

lemma mark_released_fields [simp]:
  "alc_ID (mark_released now a) = alc_ID a" "alc_EscrowID (mark_released now a) = alc_EscrowID a"
  "alc_MilestoneID (mark_released now a) = alc_MilestoneID a"
  "alc_BillingWeek (mark_released now a) = alc_BillingWeek a"
  "alc_AmountCents (mark_released now a) = alc_AmountCents a"
  "alc_Status (mark_released now a) = ''released''"
  by (simp_all add: mark_released_def)

lemma update_where_held_eq:
  assumes "distinct (map alc_ID as)" and "a \<in> set as" and "alc_Status a = ''held''"
  shows "update_where (\<lambda>b. alc_ID b = alc_ID a \<and> alc_Status b = ''held'') f as
       = update_where (\<lambda>b. alc_ID b = alc_ID a) f as"
  unfolding update_where_def
  by (rule map_cong) (use assms distinct_key_unique [OF assms(1)] in auto)

lemma sums_mark_released:
  assumes "distinct (map alc_ID as)" and "a \<in> set as" and "alc_Status a = ''held''"
  shows "held_sum (update_where (\<lambda>b. alc_ID b = alc_ID a \<and> alc_Status b = ''held'')
            (mark_released now) as) i
         = held_sum as i - (if i = alc_EscrowID a then alc_AmountCents a else 0)"
    and "released_sum (update_where (\<lambda>b. alc_ID b = alc_ID a \<and> alc_Status b = ''held'')
            (mark_released now) as) i
         = released_sum as i + (if i = alc_EscrowID a then alc_AmountCents a else 0)"
  unfolding held_sum_def released_sum_def sum_list_filter_eq update_where_held_eq [OF assms]
  by (simp_all add: sum_list_update_where [OF assms(1,2) refl] assms(3))

section \<open>Keeping the allocation table well formed\<close>

lemma is_active_mark_released:
  assumes "alc_Status a = ''held''"
  shows "is_active_for_milestone i m (mark_released now a) \<longleftrightarrow> is_active_for_milestone i m a"
    and "is_active_for_week i w (mark_released now a) \<longleftrightarrow> is_active_for_week i w a"
  using assms by (auto simp: is_active_for_milestone_def is_active_for_week_def)

text \<open>A "no two rows satisfy it" property survives replacing a row by an equivalent one.\<close>

lemma unique_replace:
  assumes "\<forall>x \<in> A. \<forall>y \<in> A. P x \<and> P y \<longrightarrow> x = y" and "a \<in> A" and "P a' \<longleftrightarrow> P a"
  shows "\<forall>x \<in> (A - {a}) \<union> {a'}. \<forall>y \<in> (A - {a}) \<union> {a'}. P x \<and> P y \<longrightarrow> x = y"
  using assms by blast

lemma allocs_okD:
  assumes "allocs_ok E as"
  shows "distinct (map alc_ID as)"
    and "\<forall>x \<in> set as. \<forall>y \<in> set as.
           is_active_for_milestone i m x \<and> is_active_for_milestone i m y \<longrightarrow> x = y"
    and "\<forall>x \<in> set as. \<forall>y \<in> set as. is_active_for_week i w x \<and> is_active_for_week i w y \<longrightarrow> x = y"
    and "a \<in> set as \<Longrightarrow> 0 < alc_AmountCents a"
    and "a \<in> set as \<Longrightarrow> alc_EscrowID a \<in> E"
  using assms unfolding allocs_ok_def by blast+

lemma allocs_ok_mono: "allocs_ok E as \<Longrightarrow> E \<subseteq> F \<Longrightarrow> allocs_ok F as"
  by (auto simp: allocs_ok_def)

lemma allocs_ok_insert:
  assumes "allocs_ok (esc_ID ` set (escrow_accounts d)) (escrow_allocations d)"
    and "insert_allocation_sql i m w n now uid d = Inr (r, d')"
  shows "allocs_ok (esc_ID ` set (escrow_accounts d)) (escrow_allocations d')"
proof -
  let ?a = "new_allocation uid i m w n now"
  from assms(2) have d': "escrow_allocations d' = escrow_allocations d @ [?a]"
    and new: "0 < n" "i \<in> esc_ID ` set (escrow_accounts d)" "m \<noteq> None \<or> w \<noteq> None"
      "uid \<notin> alc_ID ` set (escrow_allocations d)"
    and free: "\<And>m' b. m = Some m' \<Longrightarrow> b \<in> set (escrow_allocations d) \<Longrightarrow>
        \<not> is_active_for_milestone i m' b"
      "\<And>w' b. w = Some w' \<Longrightarrow> b \<in> set (escrow_allocations d) \<Longrightarrow> \<not> is_active_for_week i w' b"
    by (auto simp: insert_allocation_ok)
  have a: "alc_ID ?a = uid" "alc_EscrowID ?a = i" "alc_MilestoneID ?a = m"
    "alc_BillingWeek ?a = w" "alc_AmountCents ?a = n" "alc_Status ?a = ''held''"
    by (simp_all add: new_allocation_def)
  have act: "is_active_for_milestone j k ?a \<longleftrightarrow> j = i \<and> m = Some k"
    "is_active_for_week j k ?a \<longleftrightarrow> j = i \<and> w = Some k" for j k
    by (auto simp: is_active_for_milestone_def is_active_for_week_def a)
  show ?thesis
    using assms(1) new free unfolding allocs_ok_def d' by (auto simp: a act)
qed

lemma allocs_ok_mark_released:
  assumes ok: "allocs_ok E as" and a: "a \<in> set as" "alc_Status a = ''held''"
  shows "allocs_ok E (update_where (\<lambda>b. alc_ID b = alc_ID a \<and> alc_Status b = ''held'')
           (mark_released now) as)" (is "allocs_ok E ?as")
proof -
  from ok have dist: "distinct (map alc_ID as)" by (simp add: allocs_ok_def)
  have as: "?as = update_where (\<lambda>b. alc_ID b = alc_ID a) (mark_released now) as"
    by (rule update_where_held_eq [OF dist a])
  have set_as: "set ?as = (set as - {a}) \<union> {mark_released now a}"
  proof -
    have k: "alc_ID b = alc_ID a \<longleftrightarrow> b = a" if "b \<in> set as" for b
      using distinct_key_unique [OF dist that a(1)] by blast
    have "{b \<in> set as. alc_ID b = alc_ID a} = {a}" "{b \<in> set as. alc_ID b \<noteq> alc_ID a} = set as - {a}"
      using a(1) k by auto
    then show ?thesis unfolding as set_update_where by simp
  qed
  have ids: "map alc_ID ?as = map alc_ID as"
    unfolding as by (rule map_update_where_same) simp
  have uniq: "\<forall>x \<in> set ?as. \<forall>y \<in> set ?as. P x \<and> P y \<longrightarrow> x = y"
    if "\<forall>x \<in> set as. \<forall>y \<in> set as. P x \<and> P y \<longrightarrow> x = y" "P (mark_released now a) \<longleftrightarrow> P a" for P
    unfolding set_as by (rule unique_replace [OF that(1) a(1) that(2)])
  have rows: "0 < alc_AmountCents b \<and> alc_EscrowID b \<in> E \<and>
      (alc_MilestoneID b \<noteq> None \<or> alc_BillingWeek b \<noteq> None) \<and>
      alc_Status b \<in> {''held'', ''released'', ''refunded''}" if "b \<in> set ?as" for b
    using ok a that unfolding allocs_ok_def set_as by auto
  have m: "\<forall>x \<in> set ?as. \<forall>y \<in> set ?as. is_active_for_milestone i m x \<and>
      is_active_for_milestone i m y \<longrightarrow> x = y" for i m
    by (rule uniq [OF allocs_okD(2) [OF ok] is_active_mark_released(1) [OF a(2)]])
  have w: "\<forall>x \<in> set ?as. \<forall>y \<in> set ?as. is_active_for_week i w x \<and>
      is_active_for_week i w y \<longrightarrow> x = y" for i w
    by (rule uniq [OF allocs_okD(3) [OF ok] is_active_mark_released(2) [OF a(2)]])
  show ?thesis
    unfolding allocs_ok_def ids using dist rows m w by blast
qed

section \<open>Keeping the whole invariant\<close>

text \<open>
  One account changes, keeping its keys; the other accounts see the same sums. Every operation
  below is an instance.
\<close>

lemma escrow_inv_update:
  assumes inv: "escrow_inv d"
    and e: "select_one (\<lambda>e. esc_ID e = i) (escrow_accounts d) = Some e"
    and acc: "escrow_accounts d' = update_where (\<lambda>r. esc_ID r = i) f (escrow_accounts d)"
    and keys: "\<And>r. esc_ID (f r) = esc_ID r" "\<And>r. esc_ContractID (f r) = esc_ContractID r"
    and al: "allocs_ok (esc_ID ` set (escrow_accounts d)) (escrow_allocations d')"
    and refs: "refs_ok (esc_ID ` set (escrow_accounts d)) (transactions d')"
    and bal: "balanced (transactions d')"
    and changed: "account_ok (escrow_allocations d') (transactions d') (f e)"
    and others: "\<And>r. r \<noteq> i \<Longrightarrow> held_sum (escrow_allocations d') r = held_sum (escrow_allocations d) r \<and>
        released_sum (escrow_allocations d') r = released_sum (escrow_allocations d) r \<and>
        account_sum (transactions d') ''escrow_contract'' (Some r)
          = account_sum (transactions d) ''escrow_contract'' (Some r) \<and>
        account_sum (transactions d') ''escrow'' (Some r)
          = account_sum (transactions d) ''escrow'' (Some r)"
  shows "escrow_inv d'"
proof -
  note D = escrow_invD [OF inv]
  have ids: "map esc_ID (escrow_accounts d') = map esc_ID (escrow_accounts d)"
    "map esc_ContractID (escrow_accounts d') = map esc_ContractID (escrow_accounts d)"
    unfolding acc by (rule map_update_where_same, simp add: keys)+
  then have img: "esc_ID ` set (escrow_accounts d') = esc_ID ` set (escrow_accounts d)"
    by (metis list.set_map)
  have "account_ok (escrow_allocations d') (transactions d') r"
    if "r \<in> set (escrow_accounts d')" for r
  proof (cases "esc_ID r = i")
    case True
    with that have "r \<in> f ` {x \<in> set (escrow_accounts d). esc_ID x = i}"
      unfolding acc set_update_where by auto
    with e D(1) have "r = f e"
      by (auto dest!: select_one_SomeD dest: distinct_key_unique)
    with changed show ?thesis by simp
  next
    case False
    with that have "r \<in> set (escrow_accounts d)"
      unfolding acc set_update_where using keys by auto
    from D(6) [OF this] others [OF False] show ?thesis by (simp add: account_ok_def)
  qed
  with D(1,2) al refs bal show ?thesis
    by (simp add: escrow_inv_def ids img)
qed

lemma escrow_inv_frame:
  assumes "escrow_inv d" "escrow_accounts d' = escrow_accounts d"
    "escrow_allocations d' = escrow_allocations d" "transactions d' = transactions d"
  shows "escrow_inv d'"
  using assms by (simp add: escrow_inv_def)

section \<open>What a successful operation has done\<close>

definition fund_effect :: "int \<Rightarrow> string \<Rightarrow> string \<Rightarrow> Escrow \<Rightarrow> int \<Rightarrow> db \<Rightarrow> db" where
  "fund_effect now g cid e n d =
     post_event (funded_event (add_held n now e) cid n)
       (d\<lparr>escrow_accounts := update_where (\<lambda>r. esc_ID r = esc_ID e) (add_held n now) (escrow_accounts d),
          transactions := transactions d @ map (leg_txn g) (hold_legs (add_held n now e) cid n)\<rparr>)"

definition released_escrow :: "int \<Rightarrow> Escrow \<Rightarrow> int \<Rightarrow> Escrow \<Rightarrow> Escrow" where
  "released_escrow now e n =
     held_to_released n (statusAfterRelease (int64 (esc_HeldCents e - n))) now"

definition release_effect ::
  "int \<Rightarrow> string \<Rightarrow> string option \<Rightarrow> string option \<Rightarrow> Escrow \<Rightarrow> int \<Rightarrow> db \<Rightarrow> db" where
  "release_effect now g m w e n d =
     post_event (released_event (released_escrow now e n e) m w n)
       (d\<lparr>escrow_accounts :=
            update_where (\<lambda>r. esc_ID r = esc_ID e) (released_escrow now e n) (escrow_accounts d),
          transactions := transactions d @
            map (leg_txn g) (release_legs (released_escrow now e n e) n)\<rparr>)"

definition refunded_escrow :: "int \<Rightarrow> Escrow \<Rightarrow> int \<Rightarrow> Escrow \<Rightarrow> Escrow" where
  "refunded_escrow now e n =
     held_to_refunded n (if int64 (esc_HeldCents e - n) = 0 then ''refunded'' else ''held'') now"

definition refund_effect :: "int \<Rightarrow> string \<Rightarrow> string \<Rightarrow> Escrow \<Rightarrow> int \<Rightarrow> db \<Rightarrow> db" where
  "refund_effect now g why e n d =
     post_event (refunded_event (refunded_escrow now e n e) n why)
       (d\<lparr>escrow_accounts :=
            update_where (\<lambda>r. esc_ID r = esc_ID e) (refunded_escrow now e n) (escrow_accounts d),
          transactions := transactions d @
            map (leg_txn g) (refund_legs (refunded_escrow now e n e) n why)\<rparr>)"

abbreviation find_escrow :: "string \<Rightarrow> db \<Rightarrow> Escrow option" where
  "find_escrow i d \<equiv> select_one (\<lambda>e. esc_ID e = i) (escrow_accounts d)"

lemma find_escrow_ID: "find_escrow i d = Some e \<Longrightarrow> esc_ID e = i"
  by (auto dest: select_one_SomeD)

lemma ReleaseMilestone_effect:
  assumes "ReleaseMilestone i m n s = (Inr e', t)"
  shows "\<exists>e a g. find_escrow i (committed s) = Some e \<and>
    select_one (is_held_for_milestone i m) (escrow_allocations (committed s)) = Some a \<and>
    held_sum (escrow_allocations (committed s)) i \<le> esc_HeldCents e \<and>
    alc_AmountCents a \<le> esc_HeldCents e \<and>
    e' = released_escrow (clock s) e (alc_AmountCents a) e \<and> escrow_row_check e' = None \<and>
    committed t = release_effect (clock s) g (Some m) None e (alc_AmountCents a)
      ((committed s)\<lparr>escrow_allocations :=
         update_where (\<lambda>b. alc_ID b = alc_ID a \<and> alc_Status b = ''held'') (mark_released (clock s))
           (escrow_allocations (committed s))\<rparr>)"
  using assms unfolding ReleaseMilestone_def emitReleased_def
  by (fastforce simp: io_ok not_less release_effect_def released_escrow_def split: if_splits
      dest!: WriteLegs_ok dest: find_escrow_ID)

text \<open>A failed insert aborts the transaction, so nothing after it can be committed.\<close>

lemma InsertAllocation_aborts:
  "InsertAllocation i m w n s = (Inl er, t) \<Longrightarrow> aborted t"
  by (auto simp: InsertAllocation_def map_error_err scan_row_def bindE_def tx_stmt_def ret_def
      throw_def insert_allocation_sql_def split: if_splits option.splits sum.splits prod.splits)

lemma AllocateToMilestone_effect:
  assumes "AllocateToMilestone i m n s = (Inr a, t)"
  shows "0 < n \<and> (\<exists>e. find_escrow i (committed s) = Some e \<and>
    (select_one (is_active_for_milestone i m) (escrow_allocations (committed s)) = Some a \<and>
       committed t = committed s \<or>
     select_one (is_active_for_milestone i m) (escrow_allocations (committed s)) = None \<and>
       is_int64 (held_sum (escrow_allocations (committed s)) i) \<and>
       n \<le> int64 (esc_HeldCents e - held_sum (escrow_allocations (committed s)) i) \<and>
       (\<exists>uid. insert_allocation_sql i (Some m) None n (clock s) uid (committed s)
          = Inr (Some a, committed t))))"
  using assms unfolding AllocateToMilestone_def
  by (fastforce simp: io_ok not_less not_le select_allocation_not_found
      split: if_splits dest!: InsertAllocation_aborts)

lemma ReleaseHours_effect:
  assumes "ReleaseHours i w n s = (Inr e', t)"
  shows "0 < n \<and> (\<exists>e. find_escrow i (committed s) = Some e \<and>
    (select_one (is_active_for_week i w) (escrow_allocations (committed s)) \<noteq> None \<and>
       committed t = committed s \<and> e' = e \<or>
     select_one (is_active_for_week i w) (escrow_allocations (committed s)) = None \<and>
       is_int64 (held_sum (escrow_allocations (committed s)) i) \<and>
       n \<le> int64 (esc_HeldCents e - held_sum (escrow_allocations (committed s)) i) \<and>
       e' = released_escrow (clock s) e n e \<and> escrow_row_check e' = None \<and>
       (\<exists>uid a g d1. insert_allocation_sql i None (Some w) n (clock s) uid (committed s)
            = Inr (Some a, d1) \<and>
          committed t = release_effect (clock s) g None (Some w) e n
            (d1\<lparr>escrow_allocations :=
               update_where (\<lambda>b. alc_ID b = alc_ID a \<and> alc_Status b = ''held'')
                 (mark_released (clock s)) (escrow_allocations d1)\<rparr>))))"
  using assms unfolding ReleaseHours_def emitReleased_def
  by (fastforce simp: io_ok not_less not_le select_allocation_not_found insert_allocation_ok
      release_effect_def released_escrow_def
      split: if_splits dest!: InsertAllocation_aborts WriteLegs_ok dest: find_escrow_ID)

lemma RefundEscrow_effect:
  assumes "RefundEscrow i n why s = (Inr e', t)"
  shows "0 < n \<and> (\<exists>e g. find_escrow i (committed s) = Some e \<and>
    is_int64 (held_sum (escrow_allocations (committed s)) i) \<and>
    n \<le> int64 (esc_HeldCents e - held_sum (escrow_allocations (committed s)) i) \<and>
    e' = refunded_escrow (clock s) e n e \<and> escrow_row_check e' = None \<and>
    committed t = refund_effect (clock s) g why e n (committed s))"
  using assms unfolding RefundEscrow_def
  by (fastforce simp: io_ok not_less not_le refund_effect_def refunded_escrow_def
      split: if_splits dest!: WriteLegs_ok dest: find_escrow_ID)

definition key_used :: "db \<Rightarrow> string \<Rightarrow> string \<Rightarrow> bool" where
  "key_used d c k \<longleftrightarrow> (\<exists>r \<in> set (escrow_fund_idempotency d).
     fk_contract_id r = c \<and> fk_idempotency_key r = k)"

definition claim_key :: "string \<Rightarrow> string \<Rightarrow> string \<Rightarrow> db \<Rightarrow> db" where
  "claim_key c k i d = (if k = '''' then d else d\<lparr>escrow_fund_idempotency :=
     escrow_fund_idempotency d @
       [\<lparr>fk_contract_id = c, fk_idempotency_key = k, fk_escrow_id = i\<rparr>]\<rparr>)"

lemma RecordFundIdempotency_cases:
  "RecordFundIdempotency c k i s = (r, t) \<Longrightarrow>
     (r = Inr () \<longrightarrow> \<not> aborted s \<and> \<not> faults s 0 \<and> \<not> key_used (work s) c k \<and>
        t = (tick s)\<lparr>work := (work s)\<lparr>escrow_fund_idempotency := escrow_fund_idempotency (work s) @
              [\<lparr>fk_contract_id = c, fk_idempotency_key = k, fk_escrow_id = i\<rparr>]\<rparr>\<rparr>) \<and>
     (r = Inl ErrDuplicateFund \<longrightarrow> key_used (work s) c k \<and> committed t = committed s)"
  by (auto simp: RecordFundIdempotency_def map_error_def tx_stmt_def key_used_def
      split: if_splits sum.splits prod.splits)

lemma FundEscrow_effect:
  assumes "FundEscrow c n cur k s = (Inr e', t)"
  shows "0 < n \<and> (\<exists>e0 d1 uid.
    upsert_escrow_sql c (if cur = '''' then ''USD'' else cur) (clock s) uid (committed s)
      = Inr (Some e0, d1) \<and>
    (k \<noteq> '''' \<and> key_used d1 c k \<and> committed t = committed s \<and>
       find_escrow (esc_ID e0) (committed s) = Some e' \<or>
     (\<exists>e g. find_escrow (esc_ID e0) d1 = Some e \<and> e' = add_held n (clock s) e \<and>
        escrow_row_check e' = None \<and> (k \<noteq> '''' \<longrightarrow> \<not> key_used d1 c k) \<and>
        committed t = fund_effect (clock s) g c e n (claim_key c k (esc_ID e0) d1))))"
proof (cases "k = ''''")
  case True
  with assms show ?thesis
    unfolding FundEscrow_def UpsertEscrowForContract_def
    by (fastforce simp: io_ok not_le fund_effect_def claim_key_def split: if_splits
        dest!: WriteLegs_ok dest: find_escrow_ID)
next
  case False
  with assms show ?thesis
    unfolding FundEscrow_def UpsertEscrowForContract_def GetEscrow_def
    by (fastforce simp: io_ok not_le fund_effect_def claim_key_def split: if_splits
        dest!: WriteLegs_ok RecordFundIdempotency_cases dest: find_escrow_ID)
qed

section \<open>Every operation keeps the invariant\<close>

lemma int64_neg: "0 < n \<Longrightarrow> n < 2 ^ 63 \<Longrightarrow> int64 (- n) = - n"
  by (rule int64_id) (simp add: is_int64_def)

lemma escrow_row_check_None:
  "escrow_row_check e = None \<longleftrightarrow>
     0 \<le> esc_HeldCents e \<and> esc_HeldCents e < 2 ^ 63 \<and>
     0 \<le> esc_ReleasedCents e \<and> esc_ReleasedCents e < 2 ^ 63 \<and>
     0 \<le> esc_RefundedCents e \<and> esc_RefundedCents e < 2 ^ 63"
  by (auto simp: escrow_row_check_def is_int64_def)

lemma balanced_legs:
  "sum_list (map leg_AmountCents ls) = 0 \<Longrightarrow> balanced ts \<Longrightarrow>
   balanced (ts @ map (leg_txn g) ls)"
  by (simp add: balanced_iff escrow_ledger.group_sum_legs leg_txn_def)

lemma refs_ok_append: "refs_ok E (ts @ us) \<longleftrightarrow> refs_ok E ts \<and> refs_ok E us"
  by (auto simp: refs_ok_def)

lemma legs_account_sum:
  "account_sum (map (leg_txn g) (release_legs e n)) k (Some r) =
     (if k = ''escrow'' \<and> r = esc_ID e then int64 (- n) else 0)"
  "account_sum (map (leg_txn g) (refund_legs e n why)) k (Some r) =
     (if k = ''escrow'' \<and> r = esc_ID e then int64 (- n) else 0)"
  "account_sum (map (leg_txn g) (hold_legs e c n)) k (Some r) =
     (if k = ''escrow_contract'' \<and> r = esc_ID e then n else 0)"
  by (auto simp: account_sum_def release_legs_def refund_legs_def hold_legs_def leg_txn_def Let_def)

lemma legs_refs_ok:
  "esc_ID e \<in> E \<Longrightarrow> refs_ok E (map (leg_txn g) (release_legs e n))"
  "esc_ID e \<in> E \<Longrightarrow> refs_ok E (map (leg_txn g) (refund_legs e n why))"
  "esc_ID e \<in> E \<Longrightarrow> refs_ok E (map (leg_txn g) (hold_legs e c n))"
  by (auto simp: refs_ok_def release_legs_def refund_legs_def hold_legs_def leg_txn_def Let_def)

lemma legs_sum:
  assumes "0 < n" "n < 2 ^ 63"
  shows "sum_list (map leg_AmountCents (release_legs e n)) = 0"
    and "sum_list (map leg_AmountCents (refund_legs e n why)) = 0"
    and "sum_list (map leg_AmountCents (hold_legs e c n)) = 0"
  using int64_neg [OF assms]
  by (simp_all add: release_legs_def refund_legs_def hold_legs_def Let_def)

lemmas escrow_change_defs =
  released_escrow_def held_to_released_def refunded_escrow_def held_to_refunded_def add_held_def

lemma escrow_change_keys [simp]:
  "esc_ID (released_escrow now e n r) = esc_ID r"
  "esc_ContractID (released_escrow now e n r) = esc_ContractID r"
  "esc_ID (refunded_escrow now e n r) = esc_ID r"
  "esc_ContractID (refunded_escrow now e n r) = esc_ContractID r"
  "esc_ID (add_held n now r) = esc_ID r" "esc_ContractID (add_held n now r) = esc_ContractID r"
  by (simp_all add: escrow_change_defs)

text \<open>
  Releasing \<open>n\<close> for an account after an allocation of that amount went from held to released, with
  \<open>as\<close> the allocations before and \<open>as'\<close> the ones after.
\<close>

lemma release_inv:
  assumes inv: "escrow_inv d" and e: "find_escrow i d = Some e" and n: "0 < n" "n \<le> esc_HeldCents e"
    and chk: "escrow_row_check (released_escrow now e n e) = None"
    and ok: "allocs_ok (esc_ID ` set (escrow_accounts d)) as"
    and held: "held_sum as i \<le> esc_HeldCents e - n"
      "\<And>r. r \<noteq> i \<Longrightarrow> held_sum as r = held_sum (escrow_allocations d) r"
    and rel: "\<And>r. released_sum as r = released_sum (escrow_allocations d) r + (if r = i then n else 0)"
  shows "escrow_inv (release_effect now g m w e n (d\<lparr>escrow_allocations := as\<rparr>))" (is "escrow_inv ?d'")
proof (rule escrow_inv_update [OF inv e])
  note D = escrow_invD [OF inv]
  have i: "esc_ID e = i" and mem: "e \<in> set (escrow_accounts d)"
    using select_one_SomeD [OF e] by auto
  from D(6) [OF mem] have acc: "account_ok (escrow_allocations d) (transactions d) e" .
  then have small: "n < 2 ^ 63" using n by (simp add: account_ok_def escrow_row_check_None)
  note neg = int64_neg [OF n(1) small]
  show "escrow_accounts ?d' = update_where (\<lambda>r. esc_ID r = i) (released_escrow now e n) (escrow_accounts d)"
    by (simp add: release_effect_def i)
  show "allocs_ok (esc_ID ` set (escrow_accounts d)) (escrow_allocations ?d')"
    using ok by (simp add: release_effect_def)
  show "refs_ok (esc_ID ` set (escrow_accounts d)) (transactions ?d')"
    using D(4) mem by (simp add: release_effect_def refs_ok_append legs_refs_ok)
  show "balanced (transactions ?d')"
    using D(5) legs_sum(1) [OF n(1) small] by (simp add: release_effect_def balanced_legs)
  show "account_ok (escrow_allocations ?d') (transactions ?d') (released_escrow now e n e)"
    using acc chk held(1) rel [of i] neg
    by (auto simp: account_ok_def release_effect_def legs_account_sum i escrow_change_defs)
qed (use held(2) rel in \<open>auto simp: release_effect_def legs_account_sum find_escrow_ID [OF e]\<close>)


text \<open>The free balance \<open>held - allocated\<close> does not wrap.\<close>

lemma free_no_wrap:
  assumes "account_ok as ts e" and "allocs_ok E as"
  shows "int64 (esc_HeldCents e - held_sum as (esc_ID e)) = esc_HeldCents e - held_sum as (esc_ID e)"
    and "0 \<le> held_sum as (esc_ID e)"
proof -
  show nonneg: "0 \<le> held_sum as (esc_ID e)"
    by (rule held_sum_nonneg) (rule allocs_okD(4) [OF assms(2)])
  with assms(1) show "int64 (esc_HeldCents e - held_sum as (esc_ID e))
      = esc_HeldCents e - held_sum as (esc_ID e)"
    by (intro int64_id) (simp add: account_ok_def escrow_row_check_None is_int64_def)
qed

lemma ReleaseMilestone_inv:
  assumes "ReleaseMilestone i m n s = (Inr e', t)" and inv: "escrow_inv (committed s)"
  shows "escrow_inv (committed t)"
proof -
  let ?as = "escrow_allocations (committed s)"
  from ReleaseMilestone_effect [OF assms(1)] obtain e a g where
    e: "find_escrow i (committed s) = Some e"
    and a: "select_one (is_held_for_milestone i m) ?as = Some a"
    and le: "held_sum ?as i \<le> esc_HeldCents e" "alc_AmountCents a \<le> esc_HeldCents e"
    and chk: "escrow_row_check (released_escrow (clock s) e (alc_AmountCents a) e) = None"
    and t: "committed t = release_effect (clock s) g (Some m) None e (alc_AmountCents a)
      ((committed s)\<lparr>escrow_allocations :=
         update_where (\<lambda>b. alc_ID b = alc_ID a \<and> alc_Status b = ''held'') (mark_released (clock s))
           ?as\<rparr>)" by blast
  from select_one_SomeD [OF a] have mem: "a \<in> set ?as" and h: "alc_Status a = ''held''"
    and i: "alc_EscrowID a = i" by (auto simp: is_held_for_milestone_def)
  note ok = escrow_invD(3) [OF inv]
  note sums = sums_mark_released [OF allocs_okD(1) [OF ok] mem h]
  show ?thesis unfolding t
    by (rule release_inv [OF inv e allocs_okD(4) [OF ok mem] le(2) chk
          allocs_ok_mark_released [OF ok mem h]]) (use le in \<open>simp_all add: sums i\<close>)
qed

lemma ReleaseHours_inv:
  assumes "ReleaseHours i w n s = (Inr e', t)" and inv: "escrow_inv (committed s)"
  shows "escrow_inv (committed t)"
proof -
  let ?d = "committed s" and ?as = "escrow_allocations (committed s)"
  note ok = escrow_invD(3) [OF inv]
  from ReleaseHours_effect [OF assms(1)] obtain e where n: "0 < n"
    and e: "find_escrow i ?d = Some e" and
    "committed t = ?d \<or>
       n \<le> int64 (esc_HeldCents e - held_sum ?as i) \<and>
       escrow_row_check (released_escrow (clock s) e n e) = None \<and>
       (\<exists>uid a g d1. insert_allocation_sql i None (Some w) n (clock s) uid ?d = Inr (Some a, d1) \<and>
          committed t = release_effect (clock s) g None (Some w) e n
            (d1\<lparr>escrow_allocations :=
               update_where (\<lambda>b. alc_ID b = alc_ID a \<and> alc_Status b = ''held'')
                 (mark_released (clock s)) (escrow_allocations d1)\<rparr>))"
    by blast
  then show ?thesis
  proof (elim disjE conjE exE)
    fix uid a g d1
    assume free: "n \<le> int64 (esc_HeldCents e - held_sum ?as i)"
      and chk: "escrow_row_check (released_escrow (clock s) e n e) = None"
      and ins: "insert_allocation_sql i None (Some w) n (clock s) uid ?d = Inr (Some a, d1)"
      and t: "committed t = release_effect (clock s) g None (Some w) e n
            (d1\<lparr>escrow_allocations :=
               update_where (\<lambda>b. alc_ID b = alc_ID a \<and> alc_Status b = ''held'')
                 (mark_released (clock s)) (escrow_allocations d1)\<rparr>)"
    have i: "esc_ID e = i" and mem: "e \<in> set (escrow_accounts ?d)"
      using select_one_SomeD [OF e] by auto
    from ins have a: "a = new_allocation uid i None (Some w) n (clock s)"
      and d1: "d1 = ?d\<lparr>escrow_allocations := ?as @ [a]\<rparr>"
      by (auto simp: insert_allocation_ok)
    have af: "alc_Status a = ''held''" "alc_EscrowID a = i" "alc_AmountCents a = n"
      by (simp_all add: a new_allocation_def)
    have new: "held_sum [a] r = (if r = i then n else 0)" "released_sum [a] r = 0" for r
      by (simp_all add: a held_sum_new released_sum_new)
    have ok1: "allocs_ok (esc_ID ` set (escrow_accounts ?d)) (?as @ [a])"
      using allocs_ok_insert [OF ok ins] by (simp add: d1)
    have am: "a \<in> set (?as @ [a])" by simp
    note sums = sums_mark_released [OF allocs_okD(1) [OF ok1] am af(1)]
    from free_no_wrap [OF escrow_invD(6) [OF inv mem] ok] free
    have le: "held_sum ?as i + n \<le> esc_HeldCents e" "n \<le> esc_HeldCents e" by (simp_all add: i)
    show ?thesis unfolding t d1
      by (simp, rule release_inv [OF inv e n le(2) chk allocs_ok_mark_released [OF ok1 am af(1)]])
        (use le in \<open>simp_all add: sums af held_sum_append released_sum_append new\<close>)
  qed (use inv in simp)
qed

lemma RefundEscrow_inv:
  assumes "RefundEscrow i n why s = (Inr e', t)" and inv: "escrow_inv (committed s)"
  shows "escrow_inv (committed t)"
proof -
  let ?d = "committed s" and ?as = "escrow_allocations (committed s)"
  note D = escrow_invD [OF inv]
  from RefundEscrow_effect [OF assms(1)] obtain e g where n: "0 < n"
    and e: "find_escrow i ?d = Some e"
    and free: "n \<le> int64 (esc_HeldCents e - held_sum ?as i)"
    and chk: "escrow_row_check (refunded_escrow (clock s) e n e) = None"
    and t: "committed t = refund_effect (clock s) g why e n ?d" by blast
  have i: "esc_ID e = i" and mem: "e \<in> set (escrow_accounts ?d)"
    using select_one_SomeD [OF e] by auto
  note acc = D(6) [OF mem]
  from free_no_wrap [OF acc D(3)] free have le: "held_sum ?as i + n \<le> esc_HeldCents e"
    by (simp add: i)
  then have small: "n < 2 ^ 63"
    using acc free_no_wrap(2) [OF acc D(3)] by (simp add: account_ok_def escrow_row_check_None i)
  show ?thesis unfolding t
  proof (rule escrow_inv_update [OF inv e])
    show "escrow_accounts (refund_effect (clock s) g why e n ?d)
        = update_where (\<lambda>r. esc_ID r = i) (refunded_escrow (clock s) e n) (escrow_accounts ?d)"
      by (simp add: refund_effect_def i)
    show "account_ok (escrow_allocations (refund_effect (clock s) g why e n ?d))
        (transactions (refund_effect (clock s) g why e n ?d)) (refunded_escrow (clock s) e n e)"
      using acc chk le int64_neg [OF n small]
      by (auto simp: account_ok_def refund_effect_def legs_account_sum i escrow_change_defs)
  qed (use D imageI [OF mem, of esc_ID] legs_sum(2) [OF n small] i in \<open>simp_all add: refund_effect_def legs_account_sum
      refs_ok_append legs_refs_ok balanced_legs\<close>)
qed

lemma AllocateToMilestone_inv:
  assumes "AllocateToMilestone i m n s = (Inr a, t)" and inv: "escrow_inv (committed s)"
  shows "escrow_inv (committed t)"
proof -
  let ?d = "committed s" and ?as = "escrow_allocations (committed s)"
  note D = escrow_invD [OF inv]
  from AllocateToMilestone_effect [OF assms(1)] obtain e where
    e: "find_escrow i ?d = Some e" and
    "committed t = ?d \<or> n \<le> int64 (esc_HeldCents e - held_sum ?as i) \<and>
       (\<exists>uid. insert_allocation_sql i (Some m) None n (clock s) uid ?d = Inr (Some a, committed t))"
    by blast
  then show ?thesis
  proof (elim disjE conjE exE)
    fix uid
    assume free: "n \<le> int64 (esc_HeldCents e - held_sum ?as i)"
      and ins: "insert_allocation_sql i (Some m) None n (clock s) uid ?d = Inr (Some a, committed t)"
    have i: "esc_ID e = i" and mem: "e \<in> set (escrow_accounts ?d)"
      using select_one_SomeD [OF e] by auto
    from ins have t: "committed t = ?d\<lparr>escrow_allocations := ?as @ [a]\<rparr>"
      and a: "a = new_allocation uid i (Some m) None n (clock s)"
      by (auto simp: insert_allocation_ok)
    have new: "held_sum [a] r = (if r = i then n else 0)" "released_sum [a] r = 0" for r
      by (simp_all add: a held_sum_new released_sum_new)
    have le: "held_sum ?as i + n \<le> esc_HeldCents e"
      using free_no_wrap [OF D(6) [OF mem] D(3)] free by (simp add: i)
    show ?thesis
    proof (rule escrow_inv_update [OF inv e, of _ "\<lambda>r. r"])
      show "allocs_ok (esc_ID ` set (escrow_accounts ?d)) (escrow_allocations (committed t))"
        by (rule allocs_ok_insert [OF D(3) ins])
      show "account_ok (escrow_allocations (committed t)) (transactions (committed t)) e"
        using D(6) [OF mem] le
        by (simp add: t account_ok_def held_sum_append released_sum_append new i)
    qed (use D in \<open>simp_all add: t update_where_def held_sum_append released_sum_append new\<close>)
  qed (use inv in simp)
qed

text \<open>The upsert opens an empty account under a fresh key, or touches \<open>updated_at\<close> only.\<close>

lemma sum_absent:
  "allocs_ok E as \<Longrightarrow> i \<notin> E \<Longrightarrow> held_sum as i = 0"
  "allocs_ok E as \<Longrightarrow> i \<notin> E \<Longrightarrow> released_sum as i = 0"
  unfolding held_sum_def released_sum_def
  by (subst filter_False; auto dest: allocs_okD(5))+

lemma account_sum_absent:
  "refs_ok E ts \<Longrightarrow> i \<notin> E \<Longrightarrow> k \<in> {''escrow'', ''escrow_contract''} \<Longrightarrow> account_sum ts k (Some i) = 0"
  unfolding account_sum_def by (subst filter_False) (auto simp: refs_ok_def)

lemma upsert_inv:
  assumes inv: "escrow_inv d" and "upsert_escrow_sql c cur now uid d = Inr (Some e, d')"
  shows "escrow_inv d'"
proof (cases "select_one (\<lambda>e. esc_ContractID e = c) (escrow_accounts d)")
  case None
  note D = escrow_invD [OF inv]
  let ?E = "esc_ID ` set (escrow_accounts d)"
  from None assms(2) obtain cur' where
    d': "d' = d\<lparr>escrow_accounts := escrow_accounts d @ [new_escrow uid c cur' now]\<rparr>"
    and fresh: "uid \<notin> ?E"
    by (auto simp: upsert_escrow_sql_def split: option.splits if_splits)
  have new: "account_ok (escrow_allocations d) (transactions d) (new_escrow uid c cur' now)"
    using sum_absent [OF D(3) fresh] account_sum_absent [OF D(4) fresh]
    by (simp add: account_ok_def new_escrow_def escrow_row_check_None)
  have "c \<notin> esc_ContractID ` set (escrow_accounts d)"
    using None by (auto simp: select_one_None_iff)
  with D fresh new show ?thesis
    by (auto simp: escrow_inv_def d' new_escrow_def refs_ok_def elim!: allocs_ok_mono)
next
  case (Some e0)
  note D = escrow_invD [OF inv]
  let ?f = "\<lambda>r. r\<lparr>esc_UpdatedAt := now\<rparr>"
  have mem: "e0 \<in> set (escrow_accounts d)" and c: "esc_ContractID e0 = c"
    using select_one_SomeD [OF Some] by auto
  have e0: "find_escrow (esc_ID e0) d = Some e0"
    using mem D(1) by (rule select_one_key)
  have d': "d' = d\<lparr>escrow_accounts := update_where (\<lambda>r. esc_ID r = esc_ID e0) ?f (escrow_accounts d)\<rparr>"
    using assms(2) Some update_where_same_row [OF D(1,2) mem] c
    by (auto simp: upsert_escrow_sql_def split: option.splits)
  show ?thesis
  proof (rule escrow_inv_update [OF inv e0, of _ ?f])
    show "account_ok (escrow_allocations d') (transactions d') (?f e0)"
      using D(6) [OF mem] by (simp add: d' account_ok_def escrow_row_check_None)
  qed (use D in \<open>simp_all add: d'\<close>)
qed

lemma FundEscrow_inv:
  assumes "FundEscrow c n cur k s = (Inr e', t)" and inv: "escrow_inv (committed s)"
  shows "escrow_inv (committed t)"
proof -
  from FundEscrow_effect [OF assms(1)] obtain e0 d1 uid where n: "0 < n"
    and ups: "upsert_escrow_sql c (if cur = '''' then ''USD'' else cur) (clock s) uid (committed s)
      = Inr (Some e0, d1)"
    and "committed t = committed s \<or> (\<exists>e g. find_escrow (esc_ID e0) d1 = Some e \<and>
      escrow_row_check (add_held n (clock s) e) = None \<and>
      committed t = fund_effect (clock s) g c e n (claim_key c k (esc_ID e0) d1))"
    by blast
  then show ?thesis
  proof (elim disjE exE conjE)
    fix e g
    assume e: "find_escrow (esc_ID e0) d1 = Some e"
      and chk: "escrow_row_check (add_held n (clock s) e) = None"
      and t: "committed t = fund_effect (clock s) g c e n (claim_key c k (esc_ID e0) d1)"
    have inv1: "escrow_inv d1" by (rule upsert_inv [OF inv ups])
    note D = escrow_invD [OF inv1]
    have i: "esc_ID e0 = esc_ID e" and mem: "e \<in> set (escrow_accounts d1)"
      using select_one_SomeD [OF e] by auto
    note acc = D(6) [OF mem]
    from chk acc have small: "n < 2 ^ 63"
      by (simp add: account_ok_def escrow_row_check_None add_held_def)
    have fr: "escrow_accounts (committed t) =
        update_where (\<lambda>r. esc_ID r = esc_ID e) (add_held n (clock s)) (escrow_accounts d1)"
      "escrow_allocations (committed t) = escrow_allocations d1"
      "transactions (committed t) = transactions d1 @ map (leg_txn g) (hold_legs (add_held n (clock s) e) c n)"
      by (simp_all add: t fund_effect_def claim_key_def)
    show ?thesis
    proof (rule escrow_inv_update [OF inv1 e [unfolded i] fr(1)])
      show "account_ok (escrow_allocations (committed t)) (transactions (committed t))
          (add_held n (clock s) e)"
        using acc chk n by (auto simp: account_ok_def fr legs_account_sum add_held_def)
    qed (use D mem legs_sum(3) [OF n small] in \<open>simp_all add: fr legs_account_sum
      refs_ok_append legs_refs_ok balanced_legs\<close>)
  qed (use inv in simp)
qed

end
