(* ===== verification/Escrow_Spec.thy ===== *)
theory Escrow_Spec
  imports Escrow_Inv
begin

text \<open>
  What the escrow service promises. The service is a step relation on the committed database (one
  step per call of an operation, whatever its outcome, its arguments and its environment); an
  abstract account, the \<open>pot\<close>, says what may happen to the money of one contract; the service
  refines it. The properties of single operations follow.
\<close>

section \<open>The service as a step relation\<close>

inductive escrow_step :: "db \<Rightarrow> db \<Rightarrow> bool" where
  step_fund: "FundEscrow c n cur k s = (r, t) \<Longrightarrow> escrow_step (committed s) (committed t)"
| step_allocate: "AllocateToMilestone i m n s = (r', t) \<Longrightarrow> escrow_step (committed s) (committed t)"
| step_release: "ReleaseMilestone i m n s = (r, t) \<Longrightarrow> escrow_step (committed s) (committed t)"
| step_hours: "ReleaseHours i w n s = (r, t) \<Longrightarrow> escrow_step (committed s) (committed t)"
| step_refund: "RefundEscrow i n why s = (r, t) \<Longrightarrow> escrow_step (committed s) (committed t)"

inductive_cases escrow_stepE: "escrow_step d d'"

lemma escrow_step_cases [consumes 1, case_names same fund allocate release hours refund]:
  assumes "escrow_step d d'"
  obtains "d' = d"
  | c n cur k e s t where "FundEscrow c n cur k s = (Inr e, t)" "committed s = d" "committed t = d'"
  | i m n a s t where "AllocateToMilestone i m n s = (Inr a, t)" "committed s = d" "committed t = d'"
  | i m n e s t where "ReleaseMilestone i m n s = (Inr e, t)" "committed s = d" "committed t = d'"
  | i w n e s t where "ReleaseHours i w n s = (Inr e, t)" "committed s = d" "committed t = d'"
  | i n why e s t where "RefundEscrow i n why s = (Inr e, t)" "committed s = d" "committed t = d'"
  using assms
proof (cases rule: escrow_step.cases)
  case (step_fund c n cur k s r t)
  with that atomicD [OF atomic_FundEscrow] show ?thesis by (cases r) auto
next
  case (step_allocate i m n s r' t)
  with that atomicD [OF atomic_AllocateToMilestone] show ?thesis by (cases r') auto
next
  case (step_release i m n s r t)
  with that atomicD [OF atomic_ReleaseMilestone] show ?thesis by (cases r) auto
next
  case (step_hours i w n s r t)
  with that atomicD [OF atomic_ReleaseHours] show ?thesis by (cases r) auto
next
  case (step_refund i n why s r t)
  with that atomicD [OF atomic_RefundEscrow] show ?thesis by (cases r) auto
qed

interpretation escrow_system: invariant_system escrow_step escrow_inv
proof
  fix d d' assume "escrow_step d d'" and inv: "escrow_inv d"
  then show "escrow_inv d'"
    by (cases rule: escrow_step_cases)
      (auto intro: FundEscrow_inv AllocateToMilestone_inv ReleaseMilestone_inv ReleaseHours_inv
        RefundEscrow_inv)
qed

section \<open>The abstract account\<close>

record pot =
  pot_free :: int
  pot_reserved :: int
  pot_paid :: int
  pot_refunded :: int

inductive pot_step :: "pot option \<Rightarrow> pot option \<Rightarrow> bool" where
  pot_open: "0 < n \<Longrightarrow>
     pot_step None (Some \<lparr>pot_free = n, pot_reserved = 0, pot_paid = 0, pot_refunded = 0\<rparr>)"
| pot_deposit: "0 < n \<Longrightarrow> pot_step (Some p) (Some (p\<lparr>pot_free := pot_free p + n\<rparr>))"
| pot_reserve: "0 < n \<Longrightarrow> n \<le> pot_free p \<Longrightarrow> pot_step (Some p)
     (Some (p\<lparr>pot_free := pot_free p - n, pot_reserved := pot_reserved p + n\<rparr>))"
| pot_pay_reserved: "0 < n \<Longrightarrow> n \<le> pot_reserved p \<Longrightarrow> pot_step (Some p)
     (Some (p\<lparr>pot_reserved := pot_reserved p - n, pot_paid := pot_paid p + n\<rparr>))"
| pot_pay_free: "0 < n \<Longrightarrow> n \<le> pot_free p \<Longrightarrow> pot_step (Some p)
     (Some (p\<lparr>pot_free := pot_free p - n, pot_paid := pot_paid p + n\<rparr>))"
| pot_refund: "0 < n \<Longrightarrow> n \<le> pot_free p \<Longrightarrow> pot_step (Some p)
     (Some (p\<lparr>pot_free := pot_free p - n, pot_refunded := pot_refunded p + n\<rparr>))"

definition pot_of :: "db \<Rightarrow> string \<Rightarrow> pot option" where
  "pot_of d i = map_option (\<lambda>e. \<lparr>pot_free = esc_HeldCents e - held_sum (escrow_allocations d) i,
     pot_reserved = held_sum (escrow_allocations d) i, pot_paid = esc_ReleasedCents e,
     pot_refunded = esc_RefundedCents e\<rparr>) (find_escrow i d)"

lemma pot_of_effects:
  "pot_of (release_effect now g m w e n d) j =
     (if j = esc_ID e then map_option (\<lambda>p. p\<lparr>pot_free := pot_free p - n, pot_paid := pot_paid p + n\<rparr>)
        (pot_of d j) else pot_of d j)"
  "pot_of (refund_effect now g why e n d) j =
     (if j = esc_ID e then map_option (\<lambda>p. p\<lparr>pot_free := pot_free p - n,
        pot_refunded := pot_refunded p + n\<rparr>) (pot_of d j) else pot_of d j)"
  "pot_of (fund_effect now g c e n d) j =
     (if j = esc_ID e then map_option (\<lambda>p. p\<lparr>pot_free := pot_free p + n\<rparr>) (pot_of d j)
      else pot_of d j)"
  by (auto simp: pot_of_def release_effect_def refund_effect_def fund_effect_def
      select_one_update_where option.map_comp comp_def escrow_change_defs intro!: option.map_cong)

lemma pot_of_allocations:
  "pot_of (d\<lparr>escrow_allocations := as\<rparr>) j =
     (let h = held_sum as j - held_sum (escrow_allocations d) j in
      map_option (\<lambda>p. p\<lparr>pot_free := pot_free p - h, pot_reserved := pot_reserved p + h\<rparr>) (pot_of d j))"
  by (auto simp: pot_of_def option.map_comp comp_def Let_def intro!: option.map_cong)

lemma pot_of_found:
  "find_escrow i d = Some e \<Longrightarrow> pot_of d i = Some
     \<lparr>pot_free = esc_HeldCents e - held_sum (escrow_allocations d) i,
      pot_reserved = held_sum (escrow_allocations d) i, pot_paid = esc_ReleasedCents e,
      pot_refunded = esc_RefundedCents e\<rparr>"
  by (simp add: pot_of_def)

lemma pot_of_upsert:
  assumes "escrow_inv d" and "upsert_escrow_sql c cur now uid d = Inr (Some e, d')"
  shows "pot_of d' j = pot_of d j \<or> pot_of d j = None \<and> j = esc_ID e \<and>
    pot_of d' j = Some \<lparr>pot_free = 0, pot_reserved = 0, pot_paid = 0, pot_refunded = 0\<rparr>"
  using assms(2)
proof (cases "select_one (\<lambda>e. esc_ContractID e = c) (escrow_accounts d)")
  case None
  with assms(2) obtain cur' where fresh: "uid \<notin> esc_ID ` set (escrow_accounts d)"
    and d': "e = new_escrow uid c cur' now" "d' = d\<lparr>escrow_accounts := escrow_accounts d @ [e]\<rparr>"
    by (auto simp: upsert_escrow_sql_def split: option.splits if_splits)
  from fresh have "find_escrow uid d = None" by (auto simp: select_one_None_iff)
  then show ?thesis
    using sum_absent(1) [OF escrow_invD(3) [OF assms(1)] fresh]
    by (auto simp: pot_of_def d' select_one_append new_escrow_def split: option.splits)
next
  case (Some e0)
  let ?f = "\<lambda>r. r\<lparr>esc_UpdatedAt := now\<rparr>"
  have "d' = d\<lparr>escrow_accounts := update_where (\<lambda>r. esc_ContractID r = c) ?f (escrow_accounts d)\<rparr>"
    using assms(2) Some by (auto simp: upsert_escrow_sql_def split: option.splits)
  then show ?thesis by (simp add: pot_of_def map_option_select_update)
qed

lemma hours_sums:
  assumes inv: "escrow_inv d" and ins: "insert_allocation_sql i m w n now uid d = Inr (Some a, d1)"
  shows "d1 = d\<lparr>escrow_allocations := escrow_allocations d @ [a]\<rparr>"
    and "held_sum (update_where (\<lambda>b. alc_ID b = alc_ID a \<and> alc_Status b = ''held'')
      (mark_released now) (escrow_allocations d @ [a])) r = held_sum (escrow_allocations d) r"
proof -
  from ins show d1: "d1 = d\<lparr>escrow_allocations := escrow_allocations d @ [a]\<rparr>"
    by (auto simp: insert_allocation_ok)
  from ins have a: "a = new_allocation uid i m w n now" by (auto simp: insert_allocation_ok)
  have new: "held_sum [a] r = (if r = i then n else 0)" for r by (simp add: a held_sum_new)
  have f: "alc_Status a = ''held''" "alc_EscrowID a = i" "alc_AmountCents a = n"
    by (simp_all add: a new_allocation_def)
  from allocs_ok_insert [OF escrow_invD(3) [OF inv] ins]
  have "distinct (map alc_ID (escrow_allocations d @ [a]))"
    by (simp add: d1 allocs_okD(1) del: distinct_append map_append)
  from sums_mark_released(1) [OF this _ f(1)] show "held_sum (update_where
      (\<lambda>b. alc_ID b = alc_ID a \<and> alc_Status b = ''held'') (mark_released now)
      (escrow_allocations d @ [a])) r = held_sum (escrow_allocations d) r"
    by (simp add: held_sum_append new f)
qed

lemma ReleaseMilestone_pot:
  assumes "ReleaseMilestone i m n s = (Inr e', t)" and inv: "escrow_inv (committed s)"
  shows "pot_step\<^sup>=\<^sup>= (pot_of (committed s) j) (pot_of (committed t) j)"
proof -
  let ?as = "escrow_allocations (committed s)"
  from ReleaseMilestone_effect [OF assms(1)] obtain e a g where
    e: "find_escrow i (committed s) = Some e"
    and a: "select_one (is_held_for_milestone i m) ?as = Some a"
    and t: "committed t = release_effect (clock s) g (Some m) None e (alc_AmountCents a)
      ((committed s)\<lparr>escrow_allocations :=
         update_where (\<lambda>b. alc_ID b = alc_ID a \<and> alc_Status b = ''held'') (mark_released (clock s))
           ?as\<rparr>)" by blast
  from select_one_SomeD [OF a] have mem: "a \<in> set ?as" and h: "alc_Status a = ''held''"
    and i: "alc_EscrowID a = i" by (auto simp: is_held_for_milestone_def)
  note ok = escrow_invD(3) [OF inv]
  note sums = sums_mark_released [OF allocs_okD(1) [OF ok] mem h]
  have le: "alc_AmountCents a \<le> held_sum ?as i"
    using held_sum_member [OF allocs_okD(4) [OF ok] mem h] by (simp add: i)
  show ?thesis
    using pot_pay_reserved [OF allocs_okD(4) [OF ok mem], of "the (pot_of (committed s) i)"] le
    by (auto simp: t pot_of_effects pot_of_allocations sums i Let_def find_escrow_ID [OF e]
        pot_of_found [OF e] option.map_ident)
qed

text \<open>The guard the code computes in \<open>int64\<close> is the guard of the abstract account.\<close>

lemma free_guard:
  assumes "escrow_inv d" "find_escrow i d = Some e"
  shows "int64 (esc_HeldCents e - held_sum (escrow_allocations d) i)
       = esc_HeldCents e - held_sum (escrow_allocations d) i"
proof -
  from select_one_SomeD [OF assms(2)] have "e \<in> set (escrow_accounts d)" "esc_ID e = i" by auto
  with free_no_wrap(1) [OF escrow_invD(6) [OF assms(1)] escrow_invD(3) [OF assms(1)]]
  show ?thesis by auto
qed

lemma AllocateToMilestone_pot:
  assumes "AllocateToMilestone i m n s = (Inr a, t)" and inv: "escrow_inv (committed s)"
  shows "pot_step\<^sup>=\<^sup>= (pot_of (committed s) j) (pot_of (committed t) j)"
proof -
  let ?d = "committed s" and ?as = "escrow_allocations (committed s)"
  from AllocateToMilestone_effect [OF assms(1)] obtain e where n: "0 < n" and
    e: "find_escrow i ?d = Some e" and
    "committed t = ?d \<or> n \<le> int64 (esc_HeldCents e - held_sum ?as i) \<and>
       (\<exists>uid. committed t = ?d\<lparr>escrow_allocations :=
          ?as @ [new_allocation uid i (Some m) None n (clock s)]\<rparr>)"
    by (auto simp: insert_allocation_ok)
  then show ?thesis
    using pot_reserve [OF n, of "the (pot_of ?d i)"] free_guard [OF inv e]
    by (auto simp: pot_of_allocations held_sum_append held_sum_new Let_def pot_of_found [OF e]
        option.map_ident)
qed

lemma ReleaseHours_pot:
  assumes "ReleaseHours i w n s = (Inr e', t)" and inv: "escrow_inv (committed s)"
  shows "pot_step\<^sup>=\<^sup>= (pot_of (committed s) j) (pot_of (committed t) j)"
proof -
  let ?d = "committed s" and ?as = "escrow_allocations (committed s)"
  from ReleaseHours_effect [OF assms(1)] obtain e where n: "0 < n" and
    e: "find_escrow i ?d = Some e" and
    "committed t = ?d \<or> n \<le> int64 (esc_HeldCents e - held_sum ?as i) \<and>
       (\<exists>uid a g d1. insert_allocation_sql i None (Some w) n (clock s) uid ?d = Inr (Some a, d1) \<and>
          committed t = release_effect (clock s) g None (Some w) e n
            (d1\<lparr>escrow_allocations :=
               update_where (\<lambda>b. alc_ID b = alc_ID a \<and> alc_Status b = ''held'')
                 (mark_released (clock s)) (escrow_allocations d1)\<rparr>))"
    by blast
  then show ?thesis
  proof (elim disjE conjE exE)
    fix uid a g d1
    assume free: "n \<le> int64 (esc_HeldCents e - held_sum ?as i)"
      and ins: "insert_allocation_sql i None (Some w) n (clock s) uid ?d = Inr (Some a, d1)"
      and t: "committed t = release_effect (clock s) g None (Some w) e n
            (d1\<lparr>escrow_allocations :=
               update_where (\<lambda>b. alc_ID b = alc_ID a \<and> alc_Status b = ''held'')
                 (mark_released (clock s)) (escrow_allocations d1)\<rparr>)"
    from hours_sums [OF inv ins] have
      d1: "d1 = ?d\<lparr>escrow_allocations := ?as @ [a]\<rparr>" and
      h: "held_sum (update_where (\<lambda>b. alc_ID b = alc_ID a \<and> alc_Status b = ''held'')
            (mark_released (clock s)) (?as @ [a])) r = held_sum ?as r" for r
      by blast+
    show ?thesis
      using pot_pay_free [OF n, of "the (pot_of ?d i)"] free_guard [OF inv e] free
      by (auto simp: t d1 pot_of_effects pot_of_allocations h Let_def find_escrow_ID [OF e]
          pot_of_found [OF e] option.map_ident)
  qed simp
qed

lemma RefundEscrow_pot:
  assumes "RefundEscrow i n why s = (Inr e', t)" and inv: "escrow_inv (committed s)"
  shows "pot_step\<^sup>=\<^sup>= (pot_of (committed s) j) (pot_of (committed t) j)"
proof -
  from RefundEscrow_effect [OF assms(1)] obtain e g where n: "0 < n"
    and e: "find_escrow i (committed s) = Some e"
    and free: "n \<le> int64 (esc_HeldCents e - held_sum (escrow_allocations (committed s)) i)"
    and t: "committed t = refund_effect (clock s) g why e n (committed s)" by blast
  then show ?thesis
    using pot_refund [OF n, of "the (pot_of (committed s) i)"] free_guard [OF inv e] free
    by (auto simp: t pot_of_effects pot_of_found [OF e] find_escrow_ID [OF e])
qed

lemma FundEscrow_pot:
  assumes "FundEscrow c n cur k s = (Inr e', t)" and inv: "escrow_inv (committed s)"
  shows "pot_step\<^sup>=\<^sup>= (pot_of (committed s) j) (pot_of (committed t) j)"
proof -
  let ?d = "committed s"
  from FundEscrow_effect [OF assms(1)] obtain e0 d1 uid cur' where n: "0 < n"
    and ups: "upsert_escrow_sql c cur' (clock s) uid ?d = Inr (Some e0, d1)"
    and "committed t = ?d \<or> (\<exists>e g. find_escrow (esc_ID e0) d1 = Some e \<and>
      committed t = fund_effect (clock s) g c e n (claim_key c k (esc_ID e0) d1))"
    by blast
  then show ?thesis
  proof (elim disjE exE conjE)
    fix e g
    assume e: "find_escrow (esc_ID e0) d1 = Some e"
      and t: "committed t = fund_effect (clock s) g c e n (claim_key c k (esc_ID e0) d1)"
    have i: "esc_ID e0 = esc_ID e" using find_escrow_ID [OF e] by simp
    have claim: "pot_of (claim_key c k i' d1) j' = pot_of d1 j'" for i' j'
      by (simp add: pot_of_def claim_key_def)
    from pot_of_upsert [OF inv ups, of j] show ?thesis
      using pot_open [OF n] pot_deposit [OF n, of "the (pot_of ?d j)"]
      by (cases "pot_of ?d j") (auto simp: t pot_of_effects claim i)
  qed simp
qed

lemma escrow_step_pot:
  assumes "escrow_step d d'" and "escrow_inv d"
  shows "pot_step\<^sup>=\<^sup>= (pot_of d j) (pot_of d' j)"
  using assms
  by (cases rule: escrow_step_cases)
    (auto dest: FundEscrow_pot AllocateToMilestone_pot ReleaseMilestone_pot ReleaseHours_pot
      RefundEscrow_pot)

section \<open>What is never undone\<close>

lemma upsert_frame:
  assumes "upsert_escrow_sql c cur now uid d = Inr (r, d1)"
  shows "escrow_allocations d1 = escrow_allocations d"
    and "escrow_fund_idempotency d1 = escrow_fund_idempotency d"
  using assms by (auto simp: upsert_escrow_sql_def split: option.splits if_splits)

text \<open>Released allocations stay, and a used funding key stays used.\<close>

lemma escrow_step_released:
  assumes "escrow_step d d'" and "a \<in> set (escrow_allocations d)" "alc_Status a = ''released''"
  shows "a \<in> set (escrow_allocations d')"
  using assms
proof (cases rule: escrow_step_cases)
  case (fund c n cur k e s t)
  from FundEscrow_effect [OF this(1)] assms show ?thesis
    by (auto simp: fund(2,3) fund_effect_def claim_key_def upsert_frame)
next
  case (allocate i m n b s t)
  from AllocateToMilestone_effect [OF this(1)] assms show ?thesis
    by (auto simp: allocate(2,3) insert_allocation_ok)
next
  case (release i m n e s t)
  from ReleaseMilestone_effect [OF this(1)] assms show ?thesis
    by (auto simp: release(2,3) release_effect_def set_update_where)
next
  case (hours i w n e s t)
  from ReleaseHours_effect [OF this(1)] assms show ?thesis
    by (auto simp: hours(2,3) release_effect_def set_update_where insert_allocation_ok)
next
  case (refund i n why e s t)
  from RefundEscrow_effect [OF this(1)] assms show ?thesis
    by (auto simp: refund(2,3) refund_effect_def)
qed simp

lemma key_used_frame:
  "escrow_fund_idempotency d' = escrow_fund_idempotency d \<Longrightarrow> key_used d' c k = key_used d c k"
  by (simp add: key_used_def)

lemma key_used_claim: "key_used (claim_key c k i d) c' k' \<longleftrightarrow>
    key_used d c' k' \<or> k \<noteq> '''' \<and> c' = c \<and> k' = k"
  by (auto simp: key_used_def claim_key_def)

lemma key_used_upsert:
  "upsert_escrow_sql c cur now uid d = Inr (r, d1) \<Longrightarrow> key_used d1 c' k = key_used d c' k"
  by (rule key_used_frame) (rule upsert_frame(2))

lemma key_used_effects [simp]:
  "key_used (fund_effect now g c e n d) c' k = key_used d c' k"
  "key_used (release_effect now g m w e n d) c' k = key_used d c' k"
  "key_used (refund_effect now g why e n d) c' k = key_used d c' k"
  "key_used (d\<lparr>escrow_allocations := as\<rparr>) c' k = key_used d c' k"
  by (rule key_used_frame, simp add: fund_effect_def release_effect_def refund_effect_def)+

lemma escrow_step_key:
  assumes "escrow_step d d'" and "key_used d c' k'"
  shows "key_used d' c' k'"
  using assms
proof (cases rule: escrow_step_cases)
  case (fund c n cur k e s t)
  from FundEscrow_effect [OF this(1)] assms show ?thesis
    by (auto simp: fund(2,3) key_used_claim key_used_upsert)
next
  case (allocate i m n b s t)
  from AllocateToMilestone_effect [OF this(1)] assms show ?thesis
    by (auto simp: allocate(2,3) insert_allocation_ok)
next
  case (release i m n e s t)
  from ReleaseMilestone_effect [OF this(1)] assms show ?thesis
    by (auto simp: release(2,3))
next
  case (hours i w n e s t)
  from ReleaseHours_effect [OF this(1)] assms show ?thesis
    by (auto simp: hours(2,3) insert_allocation_ok)
next
  case (refund i n why e s t)
  from RefundEscrow_effect [OF this(1)] assms show ?thesis
    by (auto simp: refund(2,3))
qed simp

lemma escrow_steps_released:
  "escrow_step\<^sup>*\<^sup>* d d' \<Longrightarrow> a \<in> set (escrow_allocations d) \<Longrightarrow> alc_Status a = ''released'' \<Longrightarrow>
   a \<in> set (escrow_allocations d')"
  by (induction rule: rtranclp_induct) (auto intro: escrow_step_released)

lemma escrow_steps_key: "escrow_step\<^sup>*\<^sup>* d d' \<Longrightarrow> key_used d c k \<Longrightarrow> key_used d' c k"
  by (induction rule: rtranclp_induct) (auto intro: escrow_step_key)

lemma ReleaseMilestone_leaves_released:
  assumes "ReleaseMilestone i m n s = (Inr e, t)"
  shows "\<exists>a \<in> set (escrow_allocations (committed t)). alc_EscrowID a = i \<and>
    alc_MilestoneID a = Some m \<and> alc_Status a = ''released''"
proof -
  from ReleaseMilestone_effect [OF assms] obtain e0 a g where
    a: "select_one (is_held_for_milestone i m) (escrow_allocations (committed s)) = Some a" and
    t: "committed t = release_effect (clock s) g (Some m) None e0 (alc_AmountCents a)
      ((committed s)\<lparr>escrow_allocations :=
         update_where (\<lambda>b. alc_ID b = alc_ID a \<and> alc_Status b = ''held'') (mark_released (clock s))
           (escrow_allocations (committed s))\<rparr>)" by blast
  from select_one_SomeD [OF a] show ?thesis
    by (auto simp: t release_effect_def set_update_where is_held_for_milestone_def
        intro!: bexI [of _ "mark_released (clock s) a"])
qed

lemma ReleaseHours_leaves_released:
  assumes "ReleaseHours i w n s = (Inr e, t)" and "committed t \<noteq> committed s"
  shows "\<exists>a \<in> set (escrow_allocations (committed t)). alc_EscrowID a = i \<and>
    alc_BillingWeek a = Some w \<and> alc_Status a = ''released''"
proof -
  from ReleaseHours_effect [OF assms(1)] assms(2) obtain uid a g d1 e0 where
    ins: "insert_allocation_sql i None (Some w) n (clock s) uid (committed s) = Inr (Some a, d1)" and
    t: "committed t = release_effect (clock s) g None (Some w) e0 n
      (d1\<lparr>escrow_allocations :=
         update_where (\<lambda>b. alc_ID b = alc_ID a \<and> alc_Status b = ''held'') (mark_released (clock s))
           (escrow_allocations d1)\<rparr>)" by blast
  from ins show ?thesis
    by (auto simp: t release_effect_def set_update_where insert_allocation_ok new_allocation_def
        intro!: bexI [of _ "mark_released (clock s) a"])
qed

lemma FundEscrow_uses_key:
  assumes "FundEscrow c n cur k s = (Inr e, t)" and "k \<noteq> ''''"
  shows "key_used (committed t) c k"
  using FundEscrow_effect [OF assms(1)] assms(2) by (auto simp: key_used_upsert key_used_claim)

section \<open>Runs without infrastructure failures\<close>

lemma run_legs [io_run]:
  assumes "reliable s" "\<not> aborted s" "is_int64 n"
  shows "WriteLegs g (release_legs e n) s = (Inr (), (tick (tick s))\<lparr>work := (work s)\<lparr>transactions :=
           transactions (work s) @ map (leg_txn g) (release_legs e n)\<rparr>\<rparr>)"
    and "WriteLegs g (refund_legs e n why) s = (Inr (), (tick (tick s))\<lparr>work := (work s)\<lparr>transactions :=
           transactions (work s) @ map (leg_txn g) (refund_legs e n why)\<rparr>\<rparr>)"
    and "WriteLegs g (hold_legs e c n) s = (Inr (), (tick (tick s))\<lparr>work := (work s)\<lparr>transactions :=
           transactions (work s) @ map (leg_txn g) (hold_legs e c n)\<rparr>\<rparr>)"
  using assms
  by (simp_all add: WriteLegs_def release_legs_def refund_legs_def hold_legs_def Let_def io_run)

lemma account_bounds:
  assumes "escrow_inv d" and "find_escrow i d = Some e"
  shows "0 \<le> esc_HeldCents e" "esc_HeldCents e < 2 ^ 63" "0 \<le> esc_ReleasedCents e"
    "esc_ReleasedCents e < 2 ^ 63" "0 \<le> esc_RefundedCents e" "esc_RefundedCents e < 2 ^ 63"
    "held_sum (escrow_allocations d) i \<le> esc_HeldCents e" "0 \<le> held_sum (escrow_allocations d) i"
proof -
  from assms have "account_ok (escrow_allocations d) (transactions d) e" "esc_ID e = i"
    by (auto simp: escrow_inv_def dest!: select_one_SomeD)
  then show "0 \<le> esc_HeldCents e" "esc_HeldCents e < 2 ^ 63" "0 \<le> esc_ReleasedCents e"
    "esc_ReleasedCents e < 2 ^ 63" "0 \<le> esc_RefundedCents e" "esc_RefundedCents e < 2 ^ 63"
    "held_sum (escrow_allocations d) i \<le> esc_HeldCents e"
    by (auto simp: account_ok_def escrow_row_check_None)
  show "0 \<le> held_sum (escrow_allocations d) i"
    by (rule held_sum_nonneg) (rule allocs_okD(4) [OF escrow_invD(3) [OF assms(1)]])
qed

lemma held_allocation_bounds:
  assumes "escrow_inv d"
    and "select_one (is_held_for_milestone i m) (escrow_allocations d) = Some a"
  shows "0 < alc_AmountCents a" "alc_AmountCents a \<le> held_sum (escrow_allocations d) i"
    "select_one (\<lambda>b. alc_ID b = alc_ID a \<and> alc_Status b = ''held'') (escrow_allocations d) = Some a"
proof -
  from select_one_SomeD [OF assms(2)] have mem: "a \<in> set (escrow_allocations d)"
    and h: "alc_Status a = ''held''" "alc_EscrowID a = i" by (auto simp: is_held_for_milestone_def)
  note ok = escrow_invD(3) [OF assms(1)]
  show "0 < alc_AmountCents a" by (rule allocs_okD(4) [OF ok mem])
  show "alc_AmountCents a \<le> held_sum (escrow_allocations d) i"
    using held_sum_member [OF allocs_okD(4) [OF ok] mem h(1)] by (simp add: h)
  show "select_one (\<lambda>b. alc_ID b = alc_ID a \<and> alc_Status b = ''held'') (escrow_allocations d) = Some a"
    using mem h(1) allocs_okD(1) [OF ok]
    by (cases "select_one (\<lambda>b. alc_ID b = alc_ID a \<and> alc_Status b = ''held'') (escrow_allocations d)")
      (auto simp: select_one_None_iff dest!: select_one_SomeD dest: distinct_key_unique)
qed

lemmas escrow_run = io_run LockEscrow_def SumHeldAllocations_def MoveHeldToRefunded_def
  MoveHeldToReleased_def AddHeld_def HeldAllocationByMilestone_def AllocationByMilestone_def
  AllocationByBillingWeek_def MarkAllocationReleased_def InsertAllocation_def emitReleased_def
  update_escrow_sql_def Enqueue_def

end
