(* ===== verification/Escrow_Props.thy ===== *)
theory Escrow_Props
  imports Escrow_Spec
begin

text \<open>
  The properties of the escrow service: what holds in every state it can reach, whatever calls
  were made and whatever failed, and what each operation returns when nothing fails. The sample
  runs (fund a contract, reserve a milestone, release it) are evaluated in the witnesses.
\<close>

section \<open>Sample runs\<close>

definition demo_funded :: db where
  "demo_funded = committed (snd (FundEscrow ''c1'' 1000 ''USD'' ''k1'' (quiet ''f'' demo_db)))"

definition demo_reserved :: db where
  "demo_reserved = committed (snd (AllocateToMilestone ''fi'' ''m1'' 600 (quiet ''a'' demo_funded)))"

definition demo_released :: db where
  "demo_released = committed (snd (ReleaseMilestone ''fi'' ''m1'' 0 (quiet ''r'' demo_reserved)))"

definition demo_hours :: db where
  "demo_hours = committed (snd (ReleaseHours ''fi'' ''w1'' 100 (quiet ''h'' demo_released)))"

lemma escrow_step_runs:
  "escrow_step (committed s) (committed (snd (FundEscrow c n cur k s)))"
  "escrow_step (committed s) (committed (snd (AllocateToMilestone i m n s)))"
  "escrow_step (committed s) (committed (snd (ReleaseMilestone i m n s)))"
  "escrow_step (committed s) (committed (snd (ReleaseHours i w n s)))"
  "escrow_step (committed s) (committed (snd (RefundEscrow i n why s)))"
  by (auto intro: escrow_step.intros [OF surjective_pairing])

lemma demo_steps:
  "escrow_step\<^sup>*\<^sup>* demo_db demo_released"
  "escrow_step\<^sup>*\<^sup>* demo_released demo_hours"
  "escrow_step\<^sup>*\<^sup>* demo_db demo_reserved"
  "escrow_step\<^sup>*\<^sup>* demo_db demo_funded"
proof -
  have s: "escrow_step demo_db demo_funded" "escrow_step demo_funded demo_reserved"
    "escrow_step demo_reserved demo_released" "escrow_step demo_released demo_hours"
    unfolding demo_funded_def demo_reserved_def demo_released_def demo_hours_def
    by (metis escrow_step_runs quiet_simps(1))+
  from s show "escrow_step\<^sup>*\<^sup>* demo_db demo_released" "escrow_step\<^sup>*\<^sup>* demo_released demo_hours"
    "escrow_step\<^sup>*\<^sup>* demo_db demo_reserved" "escrow_step\<^sup>*\<^sup>* demo_db demo_funded"
    by (meson r_into_rtranclp rtranclp_trans)+
qed

lemma demo_inv: "escrow_inv demo_db"
  by (simp add: escrow_inv_def demo_db_def empty_db_def allocs_ok_def refs_ok_def)

section \<open>Every reachable state\<close>

text \<open>
  C1: Whatever sequence of escrow calls is made, with any arguments, any failing statement and any
  UUIDs, the escrow tables stay consistent: reserved funds are covered by held funds, released
  funds are exactly the released allocations, no milestone and no billing week has two live
  allocations, balances are non-negative \<open>int64\<close> values that agree with the ledger, and the ledger
  is balanced.
\<close>

theorem escrow_invariant: "escrow_step\<^sup>*\<^sup>* d d' \<Longrightarrow> escrow_inv d \<Longrightarrow> escrow_inv d'"
  by (rule escrow_system.steps_inv)

theorem escrow_invariant_witness:
  "escrow_inv demo_released \<and> map esc_ReleasedCents (escrow_accounts demo_released) = [600]"
proof
  show "escrow_inv demo_released" by (rule escrow_invariant [OF demo_steps(1) demo_inv])
  show "map esc_ReleasedCents (escrow_accounts demo_released) = [600]" by code_simp
qed

text \<open>
  C2: The service refines the abstract account. Seen through \<open>pot_of\<close>, any sequence of calls is a
  sequence of abstract moves on each contract's money: it is opened and topped up by deposits, and
  every cent then goes from free to reserved, from reserved or free to paid, or from free to
  refunded; reserved money is never refunded and nothing leaves paid or refunded.
\<close>

theorem escrow_refines_pot:
  "escrow_step\<^sup>*\<^sup>* d d' \<Longrightarrow> escrow_inv d \<Longrightarrow> pot_step\<^sup>*\<^sup>* (pot_of d i) (pot_of d' i)"
proof (induction rule: rtranclp_induct)
  case (step d1 d2)
  from escrow_step_pot [OF step.hyps(2) escrow_system.steps_inv [OF step.hyps(1) step.prems]] step
  show ?case by (metis rtranclp.rtrancl_into_rtrancl rtranclp_reflclp sup2CI)
qed simp

theorem escrow_refines_pot_witness:
  "pot_step\<^sup>*\<^sup>* (pot_of demo_db ''fi'') (pot_of demo_released ''fi'') \<and>
   pot_of demo_released ''fi'' =
     Some \<lparr>pot_free = 400, pot_reserved = 0, pot_paid = 600, pot_refunded = 0\<rparr>"
proof
  show "pot_step\<^sup>*\<^sup>* (pot_of demo_db ''fi'') (pot_of demo_released ''fi'')"
    by (rule escrow_refines_pot [OF demo_steps(1) demo_inv])
  show "pot_of demo_released ''fi'' =
     Some \<lparr>pot_free = 400, pot_reserved = 0, pot_paid = 600, pot_refunded = 0\<rparr>" by code_simp
qed

text \<open>
  C3: A milestone is paid out at most once. After \<open>ReleaseMilestone\<close> has succeeded for a milestone,
  no later call for it succeeds, whatever calls came in between (a repeated allocation included)
  and whatever amount is asked for.
\<close>

theorem milestone_paid_once:
  assumes "ReleaseMilestone i m n s = (Inr e, t)" and "escrow_inv (committed s)"
    and "escrow_step\<^sup>*\<^sup>* (committed t) (committed s')"
  shows "\<exists>er. fst (ReleaseMilestone i m n' s') = Inl er"
proof (rule ccontr)
  assume "\<not> ?thesis"
  then obtain e' t' where "ReleaseMilestone i m n' s' = (Inr e', t')"
    by (metis prod.collapse sum.exhaust)
  from ReleaseMilestone_effect [OF this] obtain b where
    b: "select_one (is_held_for_milestone i m) (escrow_allocations (committed s')) = Some b"
    by blast
  from ReleaseMilestone_leaves_released [OF assms(1)] obtain a where
    a: "a \<in> set (escrow_allocations (committed s'))" "alc_EscrowID a = i"
      "alc_MilestoneID a = Some m" "alc_Status a = ''released''"
    using escrow_steps_released [OF assms(3)] by blast
  have inv: "escrow_inv (committed s')"
    using escrow_system.steps_inv [OF assms(3)] ReleaseMilestone_inv [OF assms(1,2)] by blast
  from a select_one_SomeD [OF b] allocs_okD(2) [OF escrow_invD(3) [OF inv], of i m]
  have "a = b" by (auto simp: is_active_for_milestone_def is_held_for_milestone_def)
  with a(4) select_one_SomeD [OF b] show False by (simp add: is_held_for_milestone_def)
qed

theorem milestone_paid_once_witness:
  "\<exists>er. fst (ReleaseMilestone ''fi'' ''m1'' 0 (quiet ''x'' demo_hours)) = Inl er"
proof (rule milestone_paid_once [of "''fi''" "''m1''" 0 "quiet ''r'' demo_reserved"])
  let ?run = "ReleaseMilestone ''fi'' ''m1'' 0 (quiet ''r'' demo_reserved)"
  have "case fst ?run of Inl er \<Rightarrow> False | Inr e \<Rightarrow> True" by code_simp
  then show "?run = (Inr (projr (fst ?run)), snd ?run)"
    by (cases "fst ?run") (auto simp: prod_eq_iff)
  show "escrow_inv (committed (quiet ''r'' demo_reserved))"
    using escrow_system.steps_inv [OF demo_steps(3) demo_inv] by simp
  show "escrow_step\<^sup>*\<^sup>* (committed (snd ?run)) (committed (quiet ''x'' demo_hours))"
    using demo_steps(2) by (simp add: demo_released_def)
qed

text \<open>
  A billing week is paid out at most once: after \<open>ReleaseHours\<close> has paid a week, every later
  successful call for that week leaves the database unchanged.
\<close>

theorem week_paid_once:
  assumes "ReleaseHours i w n s = (Inr e, t)" and "committed t \<noteq> committed s"
    and "escrow_step\<^sup>*\<^sup>* (committed t) (committed s')"
    and "ReleaseHours i w n' s' = (Inr e', t')"
  shows "committed t' = committed s'"
proof -
  from ReleaseHours_leaves_released [OF assms(1,2)] obtain a where
    a: "a \<in> set (escrow_allocations (committed s'))" "alc_EscrowID a = i"
      "alc_BillingWeek a = Some w" "alc_Status a = ''released''"
    using escrow_steps_released [OF assms(3)] by blast
  then have "is_active_for_week i w a" by (simp add: is_active_for_week_def)
  with a have "select_one (is_active_for_week i w) (escrow_allocations (committed s')) \<noteq> None"
    by (auto simp: select_one_None_iff)
  with ReleaseHours_effect [OF assms(4)] show ?thesis by auto
qed

theorem week_paid_once_witness:
  "committed (snd (ReleaseHours ''fi'' ''w1'' 100 (quiet ''y'' demo_hours))) = demo_hours"
proof -
  let ?run1 = "ReleaseHours ''fi'' ''w1'' 100 (quiet ''h'' demo_released)"
  let ?run2 = "ReleaseHours ''fi'' ''w1'' 100 (quiet ''y'' demo_hours)"
  have "\<not> isl (fst ?run1)" "\<not> isl (fst ?run2)" by code_simp+
  then have runs: "?run1 = (Inr (projr (fst ?run1)), snd ?run1)"
    "?run2 = (Inr (projr (fst ?run2)), snd ?run2)"
    by (simp_all add: prod_eq_iff)
  have "map esc_ReleasedCents (escrow_accounts demo_hours) \<noteq>
      map esc_ReleasedCents (escrow_accounts demo_released)" by code_simp
  then have changed: "committed (snd ?run1) \<noteq> committed (quiet ''h'' demo_released)"
    by (auto simp: demo_hours_def)
  show ?thesis
    using week_paid_once [OF runs(1) changed _ runs(2)] by (simp add: demo_hours_def)
qed

text \<open>
  C4: Funding is idempotent per contract and key: after \<open>FundEscrow\<close> has succeeded with a
  non-empty idempotency key, every later successful call for the same contract with the same key
  leaves the database unchanged, whatever its amount.
\<close>

theorem fund_once:
  assumes "FundEscrow c n cur k s = (Inr e, t)" and "k \<noteq> ''''"
    and "escrow_step\<^sup>*\<^sup>* (committed t) (committed s')"
    and "FundEscrow c n' cur' k s' = (Inr e', t')"
  shows "committed t' = committed s'"
  using escrow_steps_key [OF assms(3) FundEscrow_uses_key [OF assms(1,2)]]
    FundEscrow_effect [OF assms(4)] assms(2)
  by (auto simp: key_used_upsert)

theorem fund_once_witness:
  "committed (snd (FundEscrow ''c1'' 5000 ''USD'' ''k1'' (quiet ''z'' demo_funded))) = demo_funded"
proof -
  let ?run1 = "FundEscrow ''c1'' 1000 ''USD'' ''k1'' (quiet ''f'' demo_db)"
  let ?run2 = "FundEscrow ''c1'' 5000 ''USD'' ''k1'' (quiet ''z'' demo_funded)"
  have "\<not> isl (fst ?run1)" "\<not> isl (fst ?run2)" by code_simp+
  then have runs: "?run1 = (Inr (projr (fst ?run1)), snd ?run1)"
    "?run2 = (Inr (projr (fst ?run2)), snd ?run2)"
    by (simp_all add: prod_eq_iff)
  show ?thesis
    using fund_once [OF runs(1) _ _ runs(2)] by (simp add: demo_funded_def)
qed

section \<open>Each operation, when nothing fails\<close>

lemma demo_invs: "escrow_inv demo_funded" "escrow_inv demo_reserved" "escrow_inv demo_released"
  using demo_steps demo_inv by (blast intro: escrow_system.steps_inv)+

lemma demo_ids:
  "alc_ID ` set (escrow_allocations demo_funded) = {}"
  "alc_ID ` set (escrow_allocations demo_reserved) = {''aiiii''}"
  "esc_ID ` set (escrow_accounts demo_funded) = {''fi''}"
  by code_simp+

text \<open>
  What \<open>ReleaseMilestone\<close> returns when no statement fails: not found without an account or a
  held allocation, an overflow error when the account's released total would leave \<open>BIGINT\<close>, and
  otherwise success with exactly the allocated amount moved from held to released. The amount in
  the request plays no role and a reserved milestone can always be paid (the insufficient-funds
  branch is never taken).
\<close>

theorem ReleaseMilestone_outcome:
  assumes "reliable s" and "escrow_inv (committed s)"
  shows "fst (ReleaseMilestone i m n s) =
    (case find_escrow i (committed s) of
       None \<Rightarrow> Inl ErrNotFound
     | Some e \<Rightarrow>
         (case select_one (is_held_for_milestone i m) (escrow_allocations (committed s)) of
            None \<Rightarrow> Inl ErrNotFound
          | Some a \<Rightarrow>
              if esc_ReleasedCents e + alc_AmountCents a \<ge> 2 ^ 63 then Inl NumericOutOfRange
              else Inr (released_escrow (clock s) e (alc_AmountCents a) e)))"
proof (cases "find_escrow i (committed s)")
  case None
  with assms show ?thesis by (simp add: ReleaseMilestone_def escrow_run)
next
  case (Some e)
  note e = account_bounds [OF assms(2) Some]
  show ?thesis
  proof (cases "select_one (is_held_for_milestone i m) (escrow_allocations (committed s))")
    case None
    with assms Some show ?thesis by (simp add: ReleaseMilestone_def escrow_run)
  next
    case a: (Some a)
    with assms Some e held_allocation_bounds [OF assms(2) a] show ?thesis
      by (simp add: ReleaseMilestone_def escrow_run is_int64_def)
        (auto simp: io_run is_int64_def escrow_row_check_def released_escrow_def held_to_released_def)
  qed
qed

theorem ReleaseMilestone_outcome_witness:
  "map_sum (\<lambda>e. e) esc_ReleasedCents
     (fst (ReleaseMilestone ''fi'' ''m1'' 999999 (quiet ''q'' demo_reserved))) = Inr 600"
  unfolding ReleaseMilestone_outcome [OF reliable_quiet, unfolded quiet_simps, OF demo_invs(2)]
  by code_simp

text \<open>
  What \<open>AllocateToMilestone\<close> returns when no statement fails and UUIDs are fresh: the existing
  live allocation if the milestone has one, insufficient funds if the amount exceeds what is held
  and not yet reserved, a foreign-key error for an unknown milestone, and otherwise the new held
  allocation.
\<close>

theorem AllocateToMilestone_outcome:
  assumes "reliable s" and "escrow_inv (committed s)" and "is_int64 n"
    and "\<forall>k. ids s k \<notin> alc_ID ` set (escrow_allocations (committed s))"
  shows "fst (AllocateToMilestone i m n s) =
    (if n \<le> 0 then Inl amount_error
     else case find_escrow i (committed s) of
       None \<Rightarrow> Inl ErrNotFound
     | Some e \<Rightarrow>
         (case select_one (is_active_for_milestone i m) (escrow_allocations (committed s)) of
            Some a \<Rightarrow> Inr a
          | None \<Rightarrow>
              if n > esc_HeldCents e - held_sum (escrow_allocations (committed s)) i
              then Inl ErrInsufficientFunds
              else if m \<notin> ms_ID ` set (milestones (committed s)) then Inl ForeignKeyViolation
              else Inr (new_allocation (ids s 4) i (Some m) None n (clock s))))"
proof (cases "find_escrow i (committed s)")
  case None
  with assms show ?thesis by (simp add: AllocateToMilestone_def escrow_run)
next
  case (Some e)
  note e = account_bounds [OF assms(2) Some] free_guard [OF assms(2) Some]
  have i: "i \<in> esc_ID ` set (escrow_accounts (committed s))"
    using select_one_SomeD [OF Some] by auto
  show ?thesis
  proof (cases "select_one (is_active_for_milestone i m) (escrow_allocations (committed s))")
    case (Some a)
    with assms \<open>find_escrow i (committed s) = Some e\<close> show ?thesis
      by (simp add: AllocateToMilestone_def escrow_run)
  next
    case None
    then have "\<forall>a \<in> set (escrow_allocations (committed s)). \<not> is_active_for_milestone i m a"
      by (simp add: select_one_None_iff)
    with None assms Some e i show ?thesis
      by (simp add: AllocateToMilestone_def escrow_run is_int64_def insert_allocation_sql_def
          numeral_eq_Suc)
  qed
qed

theorem AllocateToMilestone_outcome_witness:
  "fst (AllocateToMilestone ''fi'' ''m1'' 1001 (quiet ''q'' demo_funded)) = Inl ErrInsufficientFunds"
proof -
  have "is_int64 1001"
    "\<forall>k. ids (quiet ''q'' demo_funded) k \<notin> alc_ID ` set (escrow_allocations demo_funded)"
    by (simp_all add: is_int64_def demo_ids)
  note run = AllocateToMilestone_outcome [OF reliable_quiet, unfolded quiet_simps(1), OF demo_invs(1) this]
  show ?thesis unfolding run by code_simp
qed

text \<open>
  What \<open>RefundEscrow\<close> returns when no statement fails: at most what is held and not reserved
  for a milestone can be refunded, and any such amount is.
\<close>

theorem RefundEscrow_outcome:
  assumes "reliable s" and "escrow_inv (committed s)"
  shows "fst (RefundEscrow i n why s) =
    (if n \<le> 0 then Inl amount_error
     else case find_escrow i (committed s) of
       None \<Rightarrow> Inl ErrNotFound
     | Some e \<Rightarrow>
         if n > esc_HeldCents e - held_sum (escrow_allocations (committed s)) i
         then Inl ErrInsufficientFunds
         else if esc_RefundedCents e + n \<ge> 2 ^ 63 then Inl NumericOutOfRange
         else Inr (refunded_escrow (clock s) e n e))"
proof (cases "find_escrow i (committed s)")
  case None
  with assms show ?thesis by (simp add: RefundEscrow_def escrow_run)
next
  case (Some e)
  with assms account_bounds [OF assms(2) Some] free_guard [OF assms(2) Some] show ?thesis
    by (simp add: RefundEscrow_def escrow_run is_int64_def)
      (auto simp: io_run is_int64_def escrow_row_check_def refunded_escrow_def held_to_refunded_def)
qed

theorem RefundEscrow_outcome_witness:
  "fst (RefundEscrow ''fi'' 401 ''dispute'' (quiet ''q'' demo_reserved)) = Inl ErrInsufficientFunds"
  unfolding RefundEscrow_outcome [OF reliable_quiet, unfolded quiet_simps, OF demo_invs(2)]
  by code_simp

text \<open>
  What \<open>ReleaseHours\<close> returns when no statement fails and UUIDs are fresh: the unchanged account
  for a week that was already paid, insufficient funds beyond the unreserved balance, and otherwise
  the account with the amount moved from held to released.
\<close>

theorem ReleaseHours_outcome:
  assumes "reliable s" and "escrow_inv (committed s)" and "is_int64 n"
    and "\<forall>k. ids s k \<notin> alc_ID ` set (escrow_allocations (committed s))"
  shows "fst (ReleaseHours i w n s) =
    (if n \<le> 0 then Inl amount_error
     else case find_escrow i (committed s) of
       None \<Rightarrow> Inl ErrNotFound
     | Some e \<Rightarrow>
         if select_one (is_active_for_week i w) (escrow_allocations (committed s)) \<noteq> None then Inr e
         else if n > esc_HeldCents e - held_sum (escrow_allocations (committed s)) i
         then Inl ErrInsufficientFunds
         else if esc_ReleasedCents e + n \<ge> 2 ^ 63 then Inl NumericOutOfRange
         else Inr (released_escrow (clock s) e n e))"
proof (cases "find_escrow i (committed s)")
  case None
  with assms show ?thesis by (simp add: ReleaseHours_def escrow_run)
next
  case (Some e)
  note e = account_bounds [OF assms(2) Some] free_guard [OF assms(2) Some]
  have i: "i \<in> esc_ID ` set (escrow_accounts (committed s))"
    using select_one_SomeD [OF Some] by auto
  show ?thesis
  proof (cases "select_one (is_active_for_week i w) (escrow_allocations (committed s))")
    case (Some a)
    with assms \<open>find_escrow i (committed s) = Some e\<close> show ?thesis
      by (simp add: ReleaseHours_def escrow_run)
  next
    case None
    then have free: "\<forall>a \<in> set (escrow_allocations (committed s)). \<not> is_active_for_week i w a"
      by (simp add: select_one_None_iff)
    let ?P = "\<lambda>k a. alc_ID a = ids s k \<and> alc_Status a = ''held''"
    have none: "select_one (?P k) (escrow_allocations (committed s)) = None" for k
      using assms(4) [rule_format, of k] by (auto simp: select_one_None_iff image_iff)
    have new: "alc_ID (new_allocation u j m' w' n' c) = u"
      "alc_Status (new_allocation u j m' w' n' c) = ''held''" for u j m' w' n' c
      by (simp_all add: new_allocation_def)
    from None free assms Some e i show ?thesis
      by (simp add: ReleaseHours_def escrow_run is_int64_def insert_allocation_sql_def
          select_one_append none new)
       (auto simp: io_run is_int64_def escrow_row_check_def released_escrow_def held_to_released_def)
  qed
qed

theorem ReleaseHours_outcome_witness:
  "map_sum (\<lambda>e. e) esc_HeldCents
     (fst (ReleaseHours ''fi'' ''w1'' 400 (quiet ''q'' demo_reserved))) = Inr 600"
proof -
  have "is_int64 400"
    "\<forall>k. ids (quiet ''q'' demo_reserved) k \<notin> alc_ID ` set (escrow_allocations demo_reserved)"
    by (simp_all add: is_int64_def demo_ids)
  note run = ReleaseHours_outcome [OF reliable_quiet, unfolded quiet_simps(1), OF demo_invs(2) this]
  show ?thesis unfolding run by code_simp
qed

text \<open>
  What \<open>FundEscrow\<close> returns when no statement fails and UUIDs are fresh: an account is opened
  for a known contract, a repeated idempotency key returns the stored account, and otherwise the
  held balance grows by the amount unless it would leave \<open>BIGINT\<close>.
\<close>

theorem FundEscrow_outcome:
  assumes "reliable s" and "escrow_inv (committed s)" and "is_int64 n"
    and "\<forall>k. ids s k \<notin> esc_ID ` set (escrow_accounts (committed s))"
    and "char3 (if cur = '''' then ''USD'' else cur) = Some cur'"
  shows "fst (FundEscrow c n cur k s) =
    (if n \<le> 0 then Inl amount_error
     else case select_one (\<lambda>e. esc_ContractID e = c) (escrow_accounts (committed s)) of
       None \<Rightarrow>
         if c \<notin> con_ID ` set (contracts (committed s)) then Inl ForeignKeyViolation
         else if k \<noteq> '''' \<and> key_used (committed s) c k then Inl ErrNotFound
         else Inr (add_held n (clock s) (new_escrow (ids s 1) c cur' (clock s)))
     | Some e \<Rightarrow>
         if k \<noteq> '''' \<and> key_used (committed s) c k then Inr e
         else if esc_HeldCents e + n \<ge> 2 ^ 63 then Inl NumericOutOfRange
         else Inr (add_held n (clock s) e))"
proof (cases "select_one (\<lambda>e. esc_ContractID e = c) (escrow_accounts (committed s))")
  case None
  have none: "find_escrow (ids s j) (committed s) = None" for j
    using assms(4) [rule_format, of j] by (auto simp: select_one_None_iff image_iff)
  have new: "esc_ID (new_escrow u c cu t) = u" "esc_HeldCents (new_escrow u c cu t) = 0"
    "esc_ReleasedCents (new_escrow u c cu t) = 0" "esc_RefundedCents (new_escrow u c cu t) = 0" for u cu t
    by (simp_all add: new_escrow_def)
  from None assms show ?thesis
    by (simp add: FundEscrow_def escrow_run UpsertEscrowForContract_def upsert_escrow_sql_def
        RecordFundIdempotency_def GetEscrow_def select_one_append none new)
      (auto simp: io_run is_int64_def escrow_row_check_def add_held_def key_used_def none new)
next
  case (Some e)
  have mem: "e \<in> set (escrow_accounts (committed s))" and c: "esc_ContractID e = c"
    using select_one_SomeD [OF Some] by auto
  note D = escrow_invD [OF assms(2)]
  have e: "find_escrow (esc_ID e) (committed s) = Some e"
    by (rule select_one_key [OF mem D(1)])
  show ?thesis
    using Some assms account_bounds [OF assms(2) e] e update_where_same_row [OF D(1,2) mem, unfolded c]
    by (simp add: FundEscrow_def escrow_run UpsertEscrowForContract_def upsert_escrow_sql_def
        RecordFundIdempotency_def GetEscrow_def select_one_update_where)
      (auto simp: io_run is_int64_def escrow_row_check_def add_held_def key_used_def)
qed

theorem FundEscrow_outcome_witness:
  "map_sum (\<lambda>e. e) esc_HeldCents
     (fst (FundEscrow ''c1'' 500 '''' ''k2'' (quiet ''q'' demo_funded))) = Inr 1500"
proof -
  have "is_int64 500"
    "\<forall>k. ids (quiet ''q'' demo_funded) k \<notin> esc_ID ` set (escrow_accounts demo_funded)"
    "char3 (if '''' = '''' then ''USD'' else '''') = Some ''USD''"
    by (simp_all add: is_int64_def demo_ids char3_def)
  note run = FundEscrow_outcome [OF reliable_quiet, unfolded quiet_simps(1), OF demo_invs(1) this]
  show ?thesis unfolding run by code_simp
qed

section \<open>Errors and the ledger\<close>

text \<open>
  Every escrow operation is all or nothing: when it returns an error, the committed database
  is what it was before the call, at whatever statement it failed.
\<close>

theorem escrow_all_or_nothing:
  "atomic (FundEscrow c n cur k) \<and> atomic (AllocateToMilestone i m n) \<and>
   atomic (ReleaseMilestone i m n) \<and> atomic (ReleaseHours i w n) \<and> atomic (RefundEscrow i n why)"
  by (simp add: atomic_FundEscrow atomic_AllocateToMilestone atomic_ReleaseMilestone
      atomic_ReleaseHours atomic_RefundEscrow)



end
