(* ===== verification/Go_Text.thy ===== *)
theory Go_Text
  imports Prelude
begin

text \<open>
  The parts of Go's \<open>strings\<close>, \<open>strconv\<close> and \<open>fmt\<close> packages the services use, on strings of
  bytes, and the round trip between printing and parsing integers.
\<close>

section \<open>strings\<close>

text \<open>\<open>strings.HasPrefix\<close>.\<close>

definition has_prefix :: "string \<Rightarrow> string \<Rightarrow> bool" where
  "has_prefix s p \<longleftrightarrow> take (length p) s = p"

text \<open>\<open>strings.Split\<close> on one character, \<open>strings.TrimSpace\<close> and \<open>strings.SplitN(s, "=", 2)\<close>.\<close>

fun split_on :: "char \<Rightarrow> string \<Rightarrow> string list" where
  "split_on c [] = [[]]"
| "split_on c (x # xs) =
     (case split_on c xs of
        [] \<Rightarrow> [[x]]
      | w # ws \<Rightarrow> if x = c then [] # w # ws else (x # w) # ws)"

definition is_space :: "char \<Rightarrow> bool" where
  "is_space c \<longleftrightarrow> (of_char c :: nat) \<in> {9, 10, 11, 12, 13, 32}"

definition trim_space :: "string \<Rightarrow> string" where
  "trim_space s = rev (dropWhile is_space (rev (dropWhile is_space s)))"

definition split_kv :: "string \<Rightarrow> (string \<times> string) option" where
  "split_kv s = (case dropWhile (\<lambda>c. c \<noteq> CHR ''='') s of
     [] \<Rightarrow> None | _ # v \<Rightarrow> Some (takeWhile (\<lambda>c. c \<noteq> CHR ''='') s, v))"

section \<open>strconv and fmt\<close>

text \<open>\<open>strconv.ParseInt(s, 10, 64)\<close>: an optional sign, at least one digit, in range.\<close>

definition is_digit :: "char \<Rightarrow> bool" where
  "is_digit c \<longleftrightarrow> 48 \<le> (of_char c :: nat) \<and> (of_char c :: nat) \<le> 57"

definition digits_value :: "string \<Rightarrow> int" where
  "digits_value ds = foldl (\<lambda>n c. 10 * n + (of_char c - 48)) 0 ds"

definition ParseInt :: "string \<Rightarrow> int option" where
  "ParseInt s =
     (let (neg, ds) = (case s of
            [] \<Rightarrow> (False, [])
          | c # cs \<Rightarrow> if c = CHR ''-'' then (True, cs) else if c = CHR ''+'' then (False, cs) else (False, s))
      in if ds = [] \<or> \<not> list_all is_digit ds then None
         else let v = (if neg then - digits_value ds else digits_value ds)
              in if is_int64 v then Some v else None)"

text \<open>\<open>fmt.Sprintf("%d", i)\<close>.\<close>

fun show_nat :: "nat \<Rightarrow> string" where
  "show_nat n = (if n < 10 then [char_of (48 + n)] else show_nat (n div 10) @ [char_of (48 + n mod 10)])"

declare show_nat.simps [simp del]

definition show_int :: "int \<Rightarrow> string" where
  "show_int i = (if i < 0 then CHR ''-'' # show_nat (nat (- i)) else show_nat (nat i))"

lemma digits_value_snoc [simp]:
  "digits_value (ds @ [c]) = 10 * digits_value ds + (of_char c - 48)"
  by (simp add: digits_value_def)

lemma of_char_digit: "n < 10 \<Longrightarrow> (of_char (char_of (48 + n) :: char) :: nat) = 48 + n"
  by (simp add: of_char_mod_256)

lemma show_nat_digits: "list_all is_digit (show_nat n)"
proof (induction n rule: show_nat.induct)
  case (1 n)
  have "is_digit (char_of (48 + m))" if "m < 10" for m :: nat
    using that by (simp add: is_digit_def)
  with 1 show ?case by (subst show_nat.simps) auto
qed

lemma show_nat_nonempty: "show_nat n \<noteq> []"
  by (subst show_nat.simps) auto

lemma digits_value_show_nat: "digits_value (show_nat n) = int n"
proof (induction n rule: show_nat.induct)
  case (1 n)
  have c: "(of_char (char_of (48 + m) :: char) :: int) = 48 + int m" if "m < 10" for m :: nat
    using of_char_digit [OF that] by (metis of_nat_add of_nat_numeral of_nat_of_char)
  show ?case
  proof (cases "n < 10")
    case True
    then show ?thesis by (subst show_nat.simps) (simp add: digits_value_def c)
  next
    case False
    have "10 * int (n div 10) + int (n mod 10) = int n"
      by (metis div_mult_mod_eq mult.commute of_nat_add of_nat_mult of_nat_numeral)
    with 1 False show ?thesis by (subst show_nat.simps) (simp add: c)
  qed
qed

text \<open>Parsing what was printed gives the number back, for every \<open>int64\<close>.\<close>

lemma ParseInt_show_int: "is_int64 i \<Longrightarrow> ParseInt (show_int i) = Some i"
proof -
  assume i: "is_int64 i"
  obtain c cs where n: "show_nat (nat i) = c # cs" by (meson neq_Nil_conv show_nat_nonempty)
  from show_nat_digits [of "nat i"] n have "is_digit c" by simp
  then have "c \<noteq> CHR ''-''" "c \<noteq> CHR ''+''" by (auto simp: is_digit_def)
  then show ?thesis
    using i n show_nat_digits [of "nat i"] show_nat_digits [of "nat (- i)"]
      digits_value_show_nat [of "nat i"] digits_value_show_nat [of "nat (- i)"]
      show_nat_nonempty [of "nat (- i)"]
    by (auto simp: ParseInt_def show_int_def)
qed

lemma show_int_eq_iff: "is_int64 i \<Longrightarrow> is_int64 j \<Longrightarrow> show_int i = show_int j \<longleftrightarrow> i = j"
  by (metis ParseInt_show_int option.inject)

lemma show_int_no_colon: "CHR '':'' \<notin> set (show_int i)"
  using show_nat_digits [of "nat i"] show_nat_digits [of "nat (- i)"]
  by (auto simp: show_int_def list_all_iff is_digit_def)

text \<open>
  \<open>n, _ := strconv.Atoi(s)\<close>: on a syntax error the number is 0, out of range it is the nearest
  \<open>int\<close>.
\<close>

definition Atoi_value :: "string \<Rightarrow> int" where
  "Atoi_value s =
     (let (neg, ds) = (case s of
            [] \<Rightarrow> (False, [])
          | c # cs \<Rightarrow> if c = CHR ''-'' then (True, cs) else if c = CHR ''+'' then (False, cs) else (False, s))
      in if ds = [] \<or> \<not> list_all is_digit ds then 0
         else let v = (if neg then - digits_value ds else digits_value ds)
              in max (- (2 ^ 63)) (min (2 ^ 63 - 1) v))"

lemma Atoi_value_ParseInt: "ParseInt s = Some v \<Longrightarrow> Atoi_value s = v"
  by (auto simp: ParseInt_def Atoi_value_def is_int64_def Let_def split: list.splits if_splits)

text \<open>\<open>strings.Contains\<close> as the services write it: a substring test by position.\<close>

fun contains :: "string \<Rightarrow> string \<Rightarrow> bool" where
  "contains [] sub = (sub = [])"
| "contains (c # cs) sub = (take (length sub) (c # cs) = sub \<or> contains cs sub)"

lemma contains_iff: "contains s sub \<longleftrightarrow> (\<exists>l r. s = l @ sub @ r)"
proof (induction s)
  case (Cons c cs)
  show ?case
  proof
    assume "contains (c # cs) sub"
    then consider "take (length sub) (c # cs) = sub" | "contains cs sub" by auto
    then show "\<exists>l r. c # cs = l @ sub @ r"
    proof cases
      case 1
      then have "c # cs = [] @ sub @ drop (length sub) (c # cs)"
        by (metis append_Nil append_take_drop_id)
      then show ?thesis by blast
    next
      case 2
      with Cons obtain l r where "cs = l @ sub @ r" by blast
      then have "c # cs = (c # l) @ sub @ r" by simp
      then show ?thesis by blast
    qed
  next
    assume "\<exists>l r. c # cs = l @ sub @ r"
    then obtain l r where lr: "c # cs = l @ sub @ r" by blast
    show "contains (c # cs) sub"
    proof (cases l)
      case Nil
      with lr have "take (length sub) (c # cs) = sub" by simp
      then show ?thesis by simp
    next
      case (Cons a l')
      then have "cs = l' @ sub @ r" using lr by simp
      with Cons.IH show ?thesis by auto
    qed
  qed
qed auto

end
