(* ===== verification/Rbac.thy ===== *)
theory Rbac
  imports Schema Go_Text
begin

text \<open>
  \<open>services/pkg/rbac\<close>: the principal the gateway's headers describe, role and permission tests and
  the ownership guard; and the HTTP answers of the services' transport layers.
\<close>

section \<open>Principals\<close>

record Principal =
  pr_UserID :: string
  pr_Roles :: "string list"
  pr_Permissions :: "string list"
  pr_AccountType :: string

fun HasRole_loop :: "string list \<Rightarrow> string \<Rightarrow> bool" where
  "HasRole_loop [] role = False"
| "HasRole_loop (r # rs) role = (if r = role then True else HasRole_loop rs role)"

definition HasRole :: "Principal \<Rightarrow> string \<Rightarrow> bool" where
  "HasRole p role = HasRole_loop (pr_Roles p) role"

fun Can_loop :: "string list \<Rightarrow> string \<Rightarrow> bool" where
  "Can_loop [] permission = False"
| "Can_loop (perm # ps) permission =
     (if perm = permission \<or> perm = ''*'' then True else Can_loop ps permission)"

definition Can :: "Principal \<Rightarrow> string \<Rightarrow> bool" where
  "Can p permission = Can_loop (pr_Permissions p) permission"

definition Require :: "Principal \<Rightarrow> string \<Rightarrow> err option" where
  "Require p permission = (if Can p permission then None else Some ErrForbidden)"

fun RequireOneOf :: "string \<Rightarrow> string list \<Rightarrow> err option" where
  "RequireOneOf actor [] = Some ErrForbidden"
| "RequireOneOf actor (a # as) = (if a = actor then None else RequireOneOf actor as)"

lemma HasRole_iff: "HasRole p role \<longleftrightarrow> role \<in> set (pr_Roles p)"
proof -
  have "HasRole_loop rs role \<longleftrightarrow> role \<in> set rs" for rs
    by (induction rs) auto
  then show ?thesis by (simp add: HasRole_def)
qed

lemma Can_iff: "Can p permission \<longleftrightarrow> permission \<in> set (pr_Permissions p) \<or> ''*'' \<in> set (pr_Permissions p)"
proof -
  have "Can_loop ps permission \<longleftrightarrow> permission \<in> set ps \<or> ''*'' \<in> set ps" for ps
    by (induction ps) auto
  then show ?thesis by (simp add: Can_def)
qed

lemma RequireOneOf_iff:
  "RequireOneOf actor as = (if actor \<in> set as then None else Some ErrForbidden)"
  by (induction as) auto

text \<open>A comma separated header as the services read it: trimmed, without empty entries.\<close>

definition header_list :: "string \<Rightarrow> string list" where
  "header_list raw = (if raw = '''' then [] else filter (\<lambda>t. t \<noteq> '''') (map trim_space (split_on (CHR '','') raw)))"

text \<open>An identity, and the permission or the wildcard, in the headers the gateway sets.\<close>

definition permitted :: "(string \<Rightarrow> string) \<Rightarrow> string \<Rightarrow> bool" where
  "permitted h perm \<longleftrightarrow> h ''X-User-Id'' \<noteq> '''' \<and>
     (perm \<in> set (header_list (h ''X-User-Permissions'')) \<or> ''*'' \<in> set (header_list (h ''X-User-Permissions'')))"

text \<open>\<open>if err := rbac.Require...(...); err != nil { return err }\<close>.\<close>

definition check :: "err option \<Rightarrow> ('d, unit) io" where
  "check r = (case r of None \<Rightarrow> ret () | Some e \<Rightarrow> throw e)"

lemma check_ok [io_ok]: "check r s = (Inr u, t) \<longleftrightarrow> r = None \<and> t = s"
  by (cases r) (simp_all add: check_def io_ok)

lemma check_run [io_run]: "check r s = (case r of None \<Rightarrow> (Inr (), s) | Some e \<Rightarrow> (Inl e, s))"
  by (cases r) (simp_all add: check_def io_run)

lemma keeps_check [io_keeps]: "keeps (check r)"
  unfolding check_def by (intro io_keeps)

section \<open>HTTP answers\<close>

text \<open>\<open>writeErr\<close> and \<open>writeJSON\<close>: the status and, for an error, its code.\<close>

datatype response = Reply int json | Problem int string

text \<open>A pointer in an answer: \<open>null\<close> or the value.\<close>

definition opt_json :: "('a \<Rightarrow> json) \<Rightarrow> 'a option \<Rightarrow> json" where
  "opt_json f r = (case r of None \<Rightarrow> JNull | Some x \<Rightarrow> f x)"

fun status_of :: "response \<Rightarrow> int" where
  "status_of (Reply st b) = st"
| "status_of (Problem st c) = st"

text \<open>
  \<open>x, err := m; if err != nil { mapError(w, err); return }; writeJSON(...)\<close>: a handler always
  answers.
\<close>

definition handle :: "(err \<Rightarrow> response) \<Rightarrow> ('d, 'a) io \<Rightarrow> ('a \<Rightarrow> response) \<Rightarrow> ('d, response) io" where
  "handle mapErr m answer =
     bindE (attempt m) (\<lambda>r. case r of Inl e \<Rightarrow> ret (mapErr e) | Inr x \<Rightarrow> ret (answer x))"

lemma handle_run [io_run]:
  "handle me m an s = (case m s of (Inl e, t) \<Rightarrow> (Inr (me e), t) | (Inr x, t) \<Rightarrow> (Inr (an x), t))"
  by (cases "m s") (auto simp: handle_def io_run split: sum.splits)

lemma handle_ok [io_ok]:
  "handle me m an s = (Inr r, t) \<longleftrightarrow>
     (\<exists>e. m s = (Inl e, t) \<and> r = me e) \<or> (\<exists>x. m s = (Inr x, t) \<and> r = an x)"
  by (auto simp: handle_run split: prod.splits sum.splits)

lemma keeps_handle [io_keeps]: "keeps m \<Longrightarrow> keeps (handle me m an)"
  unfolding handle_def by (intro io_keeps)

lemma handle_changed:
  assumes "handle me m an s = (r, t)" "atomic m" "committed t \<noteq> committed s"
  shows "\<exists>x. m s = (Inr x, t)"
  using assms by (cases "m s") (auto simp: handle_run dest: atomicD split: sum.splits)

section \<open>Lookup clients\<close>

text \<open>
  The internal HTTP clients (\<open>contractparties.Client.Get\<close>, \<open>proposallookup.Client.Get\<close>) ask another
  service and fail closed. The transport's answer is a parameter: no response, or a status code
  with the body as \<open>json.Unmarshal\<close> sees it.
\<close>

datatype 'a http_answer = TransportError | Answer int "'a option"

definition lookup_get :: "'a http_answer \<Rightarrow> err + 'a" where
  "lookup_get a = (case a of
     TransportError \<Rightarrow> Inl ErrLookupFailed
   | Answer st body \<Rightarrow>
       if st = 404 then Inl ErrLookupNotFound
       else if st < 200 \<or> st \<ge> 300 then Inl ErrLookupFailed
       else (case body of None \<Rightarrow> Inl ErrLookupFailed | Some x \<Rightarrow> Inr x))"

lemma lookup_get_Inr: "lookup_get a = Inr x \<longleftrightarrow> (\<exists>st. a = Answer st (Some x) \<and> 200 \<le> st \<and> st < 300)"
  by (cases a) (auto simp: lookup_get_def split: option.splits)

text \<open>\<open>contractparties.Parties\<close> and \<open>IsParty\<close>.\<close>

record Parties =
  par_ContractID :: string
  par_ClientID :: string
  par_FreelancerID :: string
  par_Status :: string

definition IsParty :: "Parties \<Rightarrow> string \<Rightarrow> bool" where
  "IsParty p userID \<longleftrightarrow> userID \<noteq> '''' \<and> (userID = par_ClientID p \<or> userID = par_FreelancerID p)"

section \<open>Handlers with early answers\<close>

text \<open>
  A guard of a handler either writes an answer and reports \<open>false\<close> (\<open>Inl\<close>), so that the handler
  returns, or lets it go on with a value (\<open>Inr\<close>).
\<close>

definition guarded :: "('d, response + 'a) io \<Rightarrow> ('a \<Rightarrow> ('d, response) io) \<Rightarrow> ('d, response) io" where
  "guarded m f = bindE m (\<lambda>r. case r of Inl resp \<Rightarrow> ret resp | Inr x \<Rightarrow> f x)"

lemma guarded_run [io_run]:
  "guarded m f s = (case m s of (Inl e, t) \<Rightarrow> (Inl e, t) | (Inr (Inl resp), t) \<Rightarrow> (Inr resp, t)
     | (Inr (Inr x), t) \<Rightarrow> f x t)"
  by (auto simp: guarded_def io_run split: prod.splits sum.splits)

lemma guarded_ret:
  "guarded (ret r) f s = (case r of Inl resp \<Rightarrow> (Inr resp, s) | Inr x \<Rightarrow> f x s)"
  by (simp add: guarded_run run_basic split: sum.splits)

lemma guarded_changedE:
  assumes "committed (snd (guarded (ret e) f s)) \<noteq> committed s"
  obtains x where "e = Inr x" "committed (snd (f x s)) \<noteq> committed s" "guarded (ret e) f s = f x s"
  using assms that by (cases e) (auto simp: guarded_ret)

lemma handle_changed_snd:
  assumes "committed (snd (handle me m an s)) \<noteq> committed s" "atomic m"
  obtains x where "m s = (Inr x, snd (handle me m an s))"
  using handle_changed [OF surjective_pairing assms(2,1)] that by blast

text \<open>\<open>json.NewDecoder(...).Decode(v)\<close>: \<open>None\<close> is a body that does not parse.\<close>

definition decode :: "'a option \<Rightarrow> response + 'a" where
  "decode body = (case body of None \<Rightarrow> Inl (Problem 400 ''INVALID_JSON'') | Some x \<Rightarrow> Inr x)"

end
