(* ===== verification/Contract_Store.thy ===== *)
theory Contract_Store
  imports Outbox Rbac
begin

text \<open>
  \<open>services/contract/internal/store\<close>: the statements on \<open>contracts\<close>, \<open>milestones\<close>,
  \<open>contract_events\<close>, \<open>hourly_contracts\<close>, \<open>deliverables\<close> and \<open>disputes\<close> with the constraints
  of migration 000005. \<open>ORDER BY created_at DESC\<close> is reverse insertion order.
\<close>

definition opt_ok :: "('a \<Rightarrow> bool) \<Rightarrow> 'a option \<Rightarrow> bool" where
  "opt_ok P r = (case r of None \<Rightarrow> True | Some x \<Rightarrow> P x)"

lemma opt_ok_simps [simp]: "opt_ok P None" "opt_ok P (Some x) = P x"
  by (simp_all add: opt_ok_def)

section \<open>contracts\<close>

text \<open>The column types and \<open>CHECK\<close>s of a \<open>contracts\<close> row, and its foreign keys.\<close>

definition contract_row_check :: "Contract \<Rightarrow> db \<Rightarrow> err option" where
  "contract_row_check c d =
     (if \<not> opt_ok is_int64 (con_TotalAmountCents c) \<or> \<not> opt_ok is_int64 (con_HourlyRateCents c)
         \<or> \<not> opt_ok is_int32 (con_WeeklyHourLimit c) \<or> \<not> is_int32 (con_PlatformFeeBps c)
      then Some NumericOutOfRange
      else if con_BudgetType c \<notin> {''fixed'', ''hourly''} \<or> con_ClientID c = con_FreelancerID c
         \<or> (con_BudgetType c = ''hourly'' \<and> con_HourlyRateCents c = None)
      then Some CheckViolation
      else if con_ID c \<in> con_ID ` set (contracts d) then Some UniqueViolation
      else if (''projects'', con_ProjectID c) \<notin> set (other_keys d)
         \<or> (''proposals'', con_ProposalID c) \<notin> set (other_keys d)
         \<or> (''users'', con_ClientID c) \<notin> set (other_keys d)
         \<or> (''users'', con_FreelancerID c) \<notin> set (other_keys d)
      then Some ForeignKeyViolation else None)"

definition InsertContract :: "Contract \<Rightarrow> (db, string) io" where
  "InsertContract c = tx_stmt (\<lambda>now uid d.
     case char3 (con_Currency c) of None \<Rightarrow> Inl CheckViolation
     | Some cur \<Rightarrow>
         let row = c\<lparr>con_ID := uid, con_Currency := cur, con_Status := ''pending_funding'',
                     con_StartedAt := None, con_EndedAt := None, con_EndReason := None\<rparr>
         in (case contract_row_check row d of
               Some e \<Rightarrow> Inl e
             | None \<Rightarrow> Inr (uid, d\<lparr>contracts := contracts d @ [row]\<rparr>)))"

definition InsertHourlyContract :: "string \<Rightarrow> (db, unit) io" where
  "InsertHourlyContract contractID = tx_stmt (\<lambda>now uid d.
     if contractID \<in> set (hourly_contracts d) then Inl UniqueViolation
     else if contractID \<notin> con_ID ` set (contracts d) then Inl ForeignKeyViolation
     else Inr ((), d\<lparr>hourly_contracts := hourly_contracts d @ [contractID]\<rparr>))"

definition new_milestone :: "string \<Rightarrow> string \<Rightarrow> MilestoneInput \<Rightarrow> Milestone" where
  "new_milestone uid contractID m =
     \<lparr>ms_ID = uid, ms_ContractID = contractID, ms_Seq = mi_Seq m, ms_Title = mi_Title m,
      ms_Description = mi_Description m, ms_AmountCents = mi_AmountCents m,
      ms_Status = ''pending'', ms_DueAt = mi_DueAt m, ms_FundedAt = None,
      ms_SubmittedAt = None, ms_ApprovedAt = None, ms_ReleasedAt = None\<rparr>"

definition InsertMilestone :: "string \<Rightarrow> MilestoneInput \<Rightarrow> (db, unit) io" where
  "InsertMilestone contractID m = tx_stmt (\<lambda>now uid d.
     if \<not> is_int32 (mi_Seq m) \<or> \<not> is_int64 (mi_AmountCents m) then Inl NumericOutOfRange
     else if mi_AmountCents m \<le> 0 then Inl CheckViolation
     else if uid \<in> ms_ID ` set (milestones d)
        \<or> (\<exists>r \<in> set (milestones d). ms_ContractID r = contractID \<and> ms_Seq r = mi_Seq m)
     then Inl UniqueViolation
     else if contractID \<notin> con_ID ` set (contracts d) then Inl ForeignKeyViolation
     else Inr ((), d\<lparr>milestones := milestones d @ [new_milestone uid contractID m]\<rparr>))"

definition new_event ::
  "string \<Rightarrow> string option \<Rightarrow> string \<Rightarrow> string \<Rightarrow> string option \<Rightarrow> json option \<Rightarrow> int \<Rightarrow> ContractEvent" where
  "new_event contractID fromStatus toStatus event actorID payload now =
     \<lparr>ce_contract_id = contractID, ce_FromStatus = fromStatus, ce_ToStatus = toStatus,
      ce_Event = event, ce_ActorID = actorID,
      ce_Payload = (case payload of None \<Rightarrow> JObj [] | Some p \<Rightarrow> p), ce_CreatedAt = now\<rparr>"

definition InsertContractEvent ::
  "string \<Rightarrow> string option \<Rightarrow> string \<Rightarrow> string \<Rightarrow> string option \<Rightarrow> json option \<Rightarrow> (db, unit) io" where
  "InsertContractEvent contractID fromStatus toStatus event actorID payload = tx_stmt (\<lambda>now uid d.
     if contractID \<notin> con_ID ` set (contracts d) then Inl ForeignKeyViolation
     else Inr ((), d\<lparr>contract_events := contract_events d @
            [new_event contractID fromStatus toStatus event actorID payload now]\<rparr>))"

definition TransitionContract :: "string \<Rightarrow> string \<Rightarrow> string \<Rightarrow> (db, bool) io" where
  "TransitionContract i fromStatus toStatus = tx_stmt (\<lambda>now uid d.
     let P = (\<lambda>c. con_ID c = i \<and> con_Status c = fromStatus) in
     Inr (length (filter P (contracts d)) = 1,
       d\<lparr>contracts := update_where P (\<lambda>c. c\<lparr>con_Status := toStatus\<rparr>) (contracts d)\<rparr>))"

definition MarkContractStarted :: "string \<Rightarrow> (db, unit) io" where
  "MarkContractStarted i = tx_stmt (\<lambda>now uid d.
     Inr ((), d\<lparr>contracts :=
       update_where (\<lambda>c. con_ID c = i) (\<lambda>c. c\<lparr>con_StartedAt := Some now\<rparr>) (contracts d)\<rparr>))"

section \<open>The milestone state machine\<close>

definition milestoneInfo :: "string \<Rightarrow> (db, string \<times> string \<times> int) io" where
  "milestoneInfo milestoneID = scan_row (tx_stmt (\<lambda>now uid d.
     Inr (map_option (\<lambda>m. (ms_ContractID m, ms_Status m, ms_AmountCents m))
            (select_one (\<lambda>m. ms_ID m = milestoneID) (milestones d)), d)))"

definition update_milestone :: "string \<Rightarrow> (int \<Rightarrow> Milestone \<Rightarrow> Milestone) \<Rightarrow> (db, unit) io" where
  "update_milestone milestoneID f = tx_stmt (\<lambda>now uid d.
     Inr ((), d\<lparr>milestones := update_where (\<lambda>m. ms_ID m = milestoneID) (f now) (milestones d)\<rparr>))"

definition FundMilestone :: "string \<Rightarrow> (db, string \<times> bool) io" where
  "FundMilestone milestoneID =
     bindE (milestoneInfo milestoneID) (\<lambda>(contractID, status, _).
     if status \<noteq> ''pending'' then ret (contractID, False) else
     bindE (update_milestone milestoneID
              (\<lambda>now m. m\<lparr>ms_Status := ''funded'', ms_FundedAt := Some now\<rparr>)) (\<lambda>_.
     ret (contractID, True)))"

definition SubmitMilestone :: "string \<Rightarrow> (db, string \<times> bool) io" where
  "SubmitMilestone milestoneID =
     bindE (milestoneInfo milestoneID) (\<lambda>(contractID, status, _).
     if status \<noteq> ''funded'' then ret (contractID, False) else
     bindE (update_milestone milestoneID
              (\<lambda>now m. m\<lparr>ms_Status := ''submitted'', ms_SubmittedAt := Some now\<rparr>)) (\<lambda>_.
     ret (contractID, True)))"

definition ApproveMilestone :: "string \<Rightarrow> (db, string \<times> int \<times> bool) io" where
  "ApproveMilestone milestoneID =
     bindE (milestoneInfo milestoneID) (\<lambda>(contractID, status, amount).
     if status \<noteq> ''submitted'' then ret (contractID, amount, False) else
     bindE (update_milestone milestoneID
              (\<lambda>now m. m\<lparr>ms_Status := ''approved'', ms_ApprovedAt := Some now\<rparr>)) (\<lambda>_.
     ret (contractID, amount, True)))"

definition FreelancerOfContract :: "string \<Rightarrow> (db, string) io" where
  "FreelancerOfContract contractID = scan_row (tx_stmt (\<lambda>now uid d.
     Inr (map_option con_FreelancerID (select_one (\<lambda>c. con_ID c = contractID) (contracts d)), d)))"

text \<open>A \<open>nil\<close> slice is sent as \<open>NULL\<close>, which the column \<open>s3_keys ... NOT NULL\<close> refuses.\<close>

definition InsertDeliverable ::
  "string \<Rightarrow> string \<Rightarrow> string \<Rightarrow> string list option \<Rightarrow> (db, unit) io" where
  "InsertDeliverable milestoneID submittedBy note s3Keys = tx_stmt (\<lambda>now uid d.
     case s3Keys of None \<Rightarrow> Inl CheckViolation
     | Some keys \<Rightarrow>
         if milestoneID \<notin> ms_ID ` set (milestones d) \<or> (''users'', submittedBy) \<notin> set (other_keys d)
         then Inl ForeignKeyViolation
         else Inr ((), d\<lparr>deliverables := deliverables d @
                [\<lparr>dl_milestone_id = milestoneID, dl_submitted_by = submittedBy, dl_note = note,
                  dl_s3_keys = keys\<rparr>]\<rparr>))"

section \<open>disputes\<close>

definition InsertDispute :: "Dispute \<Rightarrow> (db, string) io" where
  "InsertDispute ds = tx_stmt (\<lambda>now uid d.
     if \<not> opt_ok is_int64 (dsp_AmountCents ds) then Inl NumericOutOfRange
     else if uid \<in> dsp_ID ` set (disputes d) then Inl UniqueViolation
     else if dsp_ContractID ds \<notin> con_ID ` set (contracts d)
        \<or> \<not> opt_ok (\<lambda>m. m \<in> ms_ID ` set (milestones d)) (dsp_MilestoneID ds)
        \<or> (''users'', dsp_RaisedBy ds) \<notin> set (other_keys d)
        \<or> (''users'', dsp_Against ds) \<notin> set (other_keys d)
     then Inl ForeignKeyViolation
     else Inr (uid, d\<lparr>disputes := disputes d @ [ds\<lparr>dsp_ID := uid, dsp_Status := ''open''\<rparr>]\<rparr>))"

definition CurrentStatus :: "string \<Rightarrow> (db, string) io" where
  "CurrentStatus contractID = scan_row (tx_stmt (\<lambda>now uid d.
     Inr (map_option con_Status (select_one (\<lambda>c. con_ID c = contractID) (contracts d)), d)))"

definition ForceStatus :: "string \<Rightarrow> string \<Rightarrow> (db, unit) io" where
  "ForceStatus contractID toStatus = tx_stmt (\<lambda>now uid d.
     Inr ((), d\<lparr>contracts :=
       update_where (\<lambda>c. con_ID c = contractID) (\<lambda>c. c\<lparr>con_Status := toStatus\<rparr>) (contracts d)\<rparr>))"

section \<open>Reads\<close>

definition GetContract :: "string \<Rightarrow> (db, Contract) io" where
  "GetContract i = scan_row (pool_query (\<lambda>d. select_one (\<lambda>c. con_ID c = i) (contracts d)))"

definition GetContractTx :: "string \<Rightarrow> (db, Contract) io" where
  "GetContractTx i = scan_row (tx_stmt (\<lambda>now uid d.
     Inr (select_one (\<lambda>c. con_ID c = i) (contracts d), d)))"

definition ListMilestones :: "string \<Rightarrow> (db, Milestone list) io" where
  "ListMilestones contractID = pool_query (\<lambda>d.
     sort_key ms_Seq (filter (\<lambda>m. ms_ContractID m = contractID) (milestones d)))"

definition ListContractEvents :: "string \<Rightarrow> (db, ContractEvent list) io" where
  "ListContractEvents contractID = pool_query (\<lambda>d.
     filter (\<lambda>e. ce_contract_id e = contractID) (contract_events d))"

definition ListForUser :: "string \<Rightarrow> string \<Rightarrow> (db, Contract list) io" where
  "ListForUser userID role = pool_query (\<lambda>d.
     let col = (if role = ''freelancer'' then con_FreelancerID else con_ClientID) in
     rev (filter (\<lambda>c. col c = userID) (contracts d)))"

lemmas contract_store_defs =
  InsertContract_def InsertHourlyContract_def InsertMilestone_def InsertContractEvent_def
  TransitionContract_def MarkContractStarted_def milestoneInfo_def update_milestone_def
  FundMilestone_def SubmitMilestone_def ApproveMilestone_def FreelancerOfContract_def
  InsertDeliverable_def InsertDispute_def CurrentStatus_def ForceStatus_def GetContract_def
  GetContractTx_def ListMilestones_def ListContractEvents_def ListForUser_def

lemma keeps_contract_store [io_keeps]:
  "keeps (InsertContract c)" "keeps (InsertHourlyContract i)" "keeps (InsertMilestone i m)"
  "keeps (InsertContractEvent i f t ev a p)" "keeps (TransitionContract i st st')"
  "keeps (MarkContractStarted i)" "keeps (FundMilestone i)" "keeps (SubmitMilestone i)"
  "keeps (ApproveMilestone i)" "keeps (FreelancerOfContract i)" "keeps (InsertDeliverable i u n ks)"
  "keeps (InsertDispute ds)" "keeps (CurrentStatus i)" "keeps (ForceStatus i st)"
  "keeps (GetContract i)" "keeps (GetContractTx i)" "keeps (ListMilestones i)"
  "keeps (ListContractEvents i)" "keeps (ListForUser u r)"
  unfolding contract_store_defs by (intro io_keeps)+

end
