(* ===== verification/Contract.thy ===== *)
theory Contract
  imports Contract_Store
begin

text \<open>
  \<open>services/contract/internal/service\<close> and \<open>httpapi\<close>: forming a contract from the authoritative
  proposal, activation, the milestone state machine, disputes and the guarded reads. The proposal
  service's answer is an argument (\<open>lookup_get\<close> interprets it).
\<close>

section \<open>Creating a contract\<close>

text \<open>\<open>proposallookup.Proposal\<close>.\<close>

record LookupProposal =
  lp_ProposalID :: string
  lp_ProjectID :: string
  lp_ProjectClientID :: string
  lp_FreelancerID :: string
  lp_Status :: string
  lp_BidAmountCents :: int
  lp_Currency :: string

record CreateInput =
  ci_ProjectID :: string
  ci_ProposalID :: string
  ci_ClientID :: string
  ci_FreelancerID :: string
  ci_BudgetType :: string
  ci_Currency :: string
  ci_TotalAmountCents :: "int option"
  ci_HourlyRateCents :: "int option"
  ci_WeeklyHourLimit :: "int option"
  ci_PlatformFeeBps :: int
  ci_Milestones :: "MilestoneInput list"

definition derive_amounts :: "CreateInput \<Rightarrow> int \<Rightarrow> err + CreateInput" where
  "derive_amounts i bid =
     (if ci_BudgetType i = ''fixed'' then
        if ci_Milestones i = [] then Inl ErrNoMilestones
        else if sum_int64 0 (map mi_AmountCents (ci_Milestones i)) \<noteq> bid then Inl ErrProposalMismatch
        else Inr (i\<lparr>ci_TotalAmountCents := Some bid, ci_HourlyRateCents := None\<rparr>)
      else if ci_BudgetType i = ''hourly''
      then Inr (i\<lparr>ci_HourlyRateCents := Some bid, ci_TotalAmountCents := None\<rparr>)
      else Inr i)"

definition deriveContractTerms :: "CreateInput \<Rightarrow> LookupProposal \<Rightarrow> err + CreateInput" where
  "deriveContractTerms i p =
     (if lp_ProjectClientID p = '''' \<or> lp_ProjectClientID p \<noteq> ci_ClientID i then Inl ErrForbidden
      else if lp_Status p = ''withdrawn'' \<or> lp_Status p = ''declined'' then Inl ErrProposalNotSelected
      else
        let i1 = i\<lparr>ci_ProjectID := lp_ProjectID p, ci_FreelancerID := lp_FreelancerID p,
                   ci_PlatformFeeBps := 1000\<rparr>;
            i2 = (if lp_Currency p \<noteq> '''' then i1\<lparr>ci_Currency := lp_Currency p\<rparr> else i1)
        in if ci_ClientID i2 = ci_FreelancerID i2 \<or> ci_FreelancerID i2 = '''' then Inl ErrInvalidParties
           else
             let i3 = (if ci_Currency i2 = '''' then i2\<lparr>ci_Currency := ''USD''\<rparr> else i2)
             in derive_amounts i3 (lp_BidAmountCents p))"

definition input_contract :: "CreateInput \<Rightarrow> string \<Rightarrow> Contract" where
  "input_contract i cid =
     \<lparr>con_ID = cid, con_ProjectID = ci_ProjectID i, con_ProposalID = ci_ProposalID i,
      con_ClientID = ci_ClientID i, con_FreelancerID = ci_FreelancerID i,
      con_BudgetType = ci_BudgetType i, con_Currency = ci_Currency i,
      con_TotalAmountCents = ci_TotalAmountCents i, con_HourlyRateCents = ci_HourlyRateCents i,
      con_WeeklyHourLimit = ci_WeeklyHourLimit i, con_Status = ''pending_funding'',
      con_PlatformFeeBps = ci_PlatformFeeBps i, con_StartedAt = None, con_EndedAt = None,
      con_EndReason = None\<rparr>"

fun insert_milestones :: "string \<Rightarrow> MilestoneInput list \<Rightarrow> (db, unit) io" where
  "insert_milestones cid [] = ret ()"
| "insert_milestones cid (m # ms) = bindE (InsertMilestone cid m) (\<lambda>_. insert_milestones cid ms)"

definition CreateFromProposal :: "LookupProposal http_answer \<Rightarrow> CreateInput \<Rightarrow> (db, Contract) io" where
  "CreateFromProposal answer i =
     (if ci_ProposalID i = '''' then throw ErrProposalRequired
      else if ci_ClientID i = '''' then throw ErrInvalidParties
      else
      bindE (case lookup_get answer of
               Inl e \<Rightarrow> throw (if e = ErrLookupNotFound then ErrNotFound else ErrForbidden)
             | Inr p \<Rightarrow> ret p) (\<lambda>prop.
      bindE (liftE (deriveContractTerms i prop)) (\<lambda>i.
      bindE begin_tx (\<lambda>_.
      bindE (InsertContract (input_contract i '''')) (\<lambda>cid.
      bindE (if ci_BudgetType i = ''hourly'' then InsertHourlyContract cid
             else insert_milestones cid (ci_Milestones i)) (\<lambda>_.
      bindE (InsertContractEvent cid None ''pending_funding'' ''create'' (Some (ci_ClientID i)) None) (\<lambda>_.
      bindE commit_tx (\<lambda>_.
      ret (input_contract i cid)))))))))"

section \<open>Contract and milestone transitions\<close>

definition activated_event :: "string \<Rightarrow> Contract \<Rightarrow> Event" where
  "activated_event i c =
     \<lparr>ev_AggregateType = ''contract'', ev_AggregateID = i, ev_EventType = ''contract.activated'',
      ev_Topic = ''contract.events'', ev_PartitionKey = i,
      ev_Payload = JObj [(''contract_id'', JStr i), (''client_id'', JStr (con_ClientID c)),
        (''freelancer_id'', JStr (con_FreelancerID c)), (''budget_type'', JStr (con_BudgetType c))],
      ev_Headers = []\<rparr>"

definition ActivateContract :: "string \<Rightarrow> string \<Rightarrow> (db, unit) io" where
  "ActivateContract i actor =
      bindE begin_tx (\<lambda>_.
      bindE (TransitionContract i ''pending_funding'' ''active'') (\<lambda>ok.
      if \<not> ok then throw ErrInvalidState else
      bindE (MarkContractStarted i) (\<lambda>_.
      bindE (GetContractTx i) (\<lambda>c.
      bindE (InsertContractEvent i (Some ''pending_funding'') ''active'' ''activate'' (Some actor) None) (\<lambda>_.
      bindE (Enqueue (activated_event i c)) (\<lambda>_.
      commit_tx))))))"

definition FundMilestone :: "string \<Rightarrow> string \<Rightarrow> (db, unit) io" where
  "FundMilestone milestoneID caller =
      bindE begin_tx (\<lambda>_.
      bindE (Contract_Store.FundMilestone milestoneID) (\<lambda>(contractID, ok).
      if \<not> ok then throw ErrInvalidMilestoneState else
      bindE (GetContractTx contractID) (\<lambda>c.
      if caller \<noteq> con_ClientID c then throw ErrForbidden else
      commit_tx)))"

definition SubmitMilestone ::
  "string \<Rightarrow> string \<Rightarrow> string \<Rightarrow> string list option \<Rightarrow> (db, unit) io" where
  "SubmitMilestone milestoneID actorFreelancerID note s3Keys =
      bindE begin_tx (\<lambda>_.
      bindE (Contract_Store.SubmitMilestone milestoneID) (\<lambda>(contractID, ok).
      if \<not> ok then throw ErrInvalidMilestoneState else
      bindE (FreelancerOfContract contractID) (\<lambda>freelancerID.
      if actorFreelancerID \<noteq> freelancerID then throw ErrForbidden else
      bindE (if note \<noteq> '''' \<or> (s3Keys \<noteq> None \<and> s3Keys \<noteq> Some [])
             then InsertDeliverable milestoneID actorFreelancerID note s3Keys else ret ()) (\<lambda>_.
      commit_tx))))"

definition approved_event :: "string \<Rightarrow> string \<Rightarrow> int \<Rightarrow> string \<Rightarrow> Event" where
  "approved_event milestoneID contractID amount freelancerID =
     \<lparr>ev_AggregateType = ''contract'', ev_AggregateID = contractID,
      ev_EventType = ''milestone.approved'', ev_Topic = ''contract.events'',
      ev_PartitionKey = contractID,
      ev_Payload = JObj [(''milestone_id'', JStr milestoneID), (''contract_id'', JStr contractID),
        (''amount_cents'', JInt amount), (''freelancer_id'', JStr freelancerID)],
      ev_Headers = []\<rparr>"

definition ApproveMilestone :: "string \<Rightarrow> string \<Rightarrow> (db, unit) io" where
  "ApproveMilestone milestoneID actorClientID =
      bindE begin_tx (\<lambda>_.
      bindE (Contract_Store.ApproveMilestone milestoneID) (\<lambda>(contractID, amount, ok).
      if \<not> ok then throw ErrInvalidMilestoneState else
      bindE (GetContractTx contractID) (\<lambda>c.
      if actorClientID \<noteq> con_ClientID c then throw ErrForbidden else
      bindE (Enqueue (approved_event milestoneID contractID amount (con_FreelancerID c))) (\<lambda>_.
      commit_tx))))"

definition disputed_event :: "string \<Rightarrow> string \<Rightarrow> string \<Rightarrow> string \<Rightarrow> Event" where
  "disputed_event contractID disputeID raisedBy against =
     \<lparr>ev_AggregateType = ''contract'', ev_AggregateID = contractID,
      ev_EventType = ''contract.disputed'', ev_Topic = ''contract.events'',
      ev_PartitionKey = contractID,
      ev_Payload = JObj [(''contract_id'', JStr contractID), (''dispute_id'', JStr disputeID),
        (''raised_by'', JStr raisedBy), (''against'', JStr against)],
      ev_Headers = []\<rparr>"

definition RaiseDispute ::
  "string \<Rightarrow> string \<Rightarrow> string \<Rightarrow> string option \<Rightarrow> string \<Rightarrow> int option \<Rightarrow> (db, string) io" where
  "RaiseDispute contractID raisedBy against milestoneID reason amountCents =
      bindE begin_tx (\<lambda>_.
      bindE (CurrentStatus contractID) (\<lambda>from.
      bindE (GetContractTx contractID) (\<lambda>c.
      bindE (check (RequireOneOf raisedBy [con_ClientID c, con_FreelancerID c])) (\<lambda>_.
      bindE (InsertDispute \<lparr>dsp_ID = '''', dsp_ContractID = contractID, dsp_MilestoneID = milestoneID,
               dsp_RaisedBy = raisedBy, dsp_Against = against, dsp_Reason = reason,
               dsp_AmountCents = amountCents, dsp_Status = ''''\<rparr>) (\<lambda>disputeID.
      bindE (ForceStatus contractID ''disputed'') (\<lambda>_.
      bindE (InsertContractEvent contractID (Some from) ''disputed'' ''dispute'' (Some raisedBy)
               (Some (JObj [(''dispute_id'', JStr disputeID), (''reason'', JStr reason)]))) (\<lambda>_.
      bindE (Enqueue (disputed_event contractID disputeID raisedBy against)) (\<lambda>_.
      bindE commit_tx (\<lambda>_. ret disputeID)))))))))"

section \<open>Reads\<close>

definition requireParty :: "string \<Rightarrow> string \<Rightarrow> (db, Contract) io" where
  "requireParty contractID userID =
     bindE (Contract_Store.GetContract contractID) (\<lambda>c.
     bindE (check (RequireOneOf userID [con_ClientID c, con_FreelancerID c])) (\<lambda>_. ret c))"

definition GetContract :: "string \<Rightarrow> string \<Rightarrow> (db, Contract \<times> Milestone list) io" where
  "GetContract i userID =
     bindE (requireParty i userID) (\<lambda>c. bindE (ListMilestones i) (\<lambda>ms. ret (c, ms)))"

definition ContractParties :: "string \<Rightarrow> (db, string \<times> string \<times> string) io" where
  "ContractParties contractID =
     bindE (Contract_Store.GetContract contractID) (\<lambda>c.
     ret (con_ClientID c, con_FreelancerID c, con_Status c))"

definition ListContractsForUser :: "string \<Rightarrow> string \<Rightarrow> (db, Contract list) io" where
  "ListContractsForUser userID role =
     ListForUser userID (if role \<noteq> ''freelancer'' then ''client'' else role)"

definition ContractEvents :: "string \<Rightarrow> string \<Rightarrow> (db, ContractEvent list) io" where
  "ContractEvents contractID userID =
     bindE (requireParty contractID userID) (\<lambda>_. ListContractEvents contractID)"

section \<open>Atomicity\<close>

lemma keeps_insert_milestones [io_keeps]: "keeps (insert_milestones cid ms)"
  by (induction cid ms rule: insert_milestones.induct) (auto intro!: io_keeps)

lemma atomic_contract_ops:
  "atomic (CreateFromProposal answer i)" "atomic (ActivateContract cid actor)"
  "atomic (FundMilestone m u)" "atomic (SubmitMilestone m u note ks)"
  "atomic (ApproveMilestone m u)" "atomic (RaiseDispute cid u v mo why amt)"
  unfolding CreateFromProposal_def ActivateContract_def FundMilestone_def SubmitMilestone_def
    ApproveMilestone_def RaiseDispute_def
  by (intro io_atomic io_keeps)+

end
