(* ===== verification/Contract_Inv.thy ===== *)
theory Contract_Inv
  imports Contract
begin

text \<open>
  The invariant of the contract tables: keys are unique, every contract's status is the replay of
  its event log, a fixed-price contract's milestones add up to its total, and a milestone's time
  stamps say exactly how far it went. Every operation keeps it.
\<close>

section \<open>The invariant\<close>

abbreviation find_contract :: "string \<Rightarrow> db \<Rightarrow> Contract option" where
  "find_contract i d \<equiv> select_one (\<lambda>c. con_ID c = i) (contracts d)"

abbreviation find_milestone :: "string \<Rightarrow> db \<Rightarrow> Milestone option" where
  "find_milestone m d \<equiv> select_one (\<lambda>x. ms_ID x = m) (milestones d)"

text \<open>Replaying an event log: each transition starts where the one before ended.\<close>

fun replay :: "string option \<Rightarrow> ContractEvent list \<Rightarrow> string option option" where
  "replay st [] = Some st"
| "replay st (e # es) = (if ce_FromStatus e = st then replay (Some (ce_ToStatus e)) es else None)"

definition events_of :: "ContractEvent list \<Rightarrow> string \<Rightarrow> ContractEvent list" where
  "events_of es i = filter (\<lambda>e. ce_contract_id e = i) es"

definition milestone_total :: "Milestone list \<Rightarrow> string \<Rightarrow> int" where
  "milestone_total ms i = sum_list (map ms_AmountCents (filter (\<lambda>m. ms_ContractID m = i) ms))"

definition stamps_ok :: "Milestone \<Rightarrow> bool" where
  "stamps_ok m \<longleftrightarrow>
     ms_Status m \<in> {''pending'', ''funded'', ''submitted'', ''approved''} \<and>
     (ms_FundedAt m \<noteq> None \<longleftrightarrow> ms_Status m \<noteq> ''pending'') \<and>
     (ms_SubmittedAt m \<noteq> None \<longleftrightarrow> ms_Status m \<in> {''submitted'', ''approved''}) \<and>
     (ms_ApprovedAt m \<noteq> None \<longleftrightarrow> ms_Status m = ''approved'')"

definition contract_ok :: "Milestone list \<Rightarrow> ContractEvent list \<Rightarrow> Contract \<Rightarrow> bool" where
  "contract_ok ms es c \<longleftrightarrow>
     con_ClientID c \<noteq> con_FreelancerID c \<and> con_PlatformFeeBps c = 1000 \<and>
     replay None (events_of es (con_ID c)) = Some (Some (con_Status c)) \<and>
     (con_BudgetType c = ''fixed'' \<longrightarrow>
        con_TotalAmountCents c = Some (int64 (milestone_total ms (con_ID c))))"

definition contract_inv :: "db \<Rightarrow> bool" where
  "contract_inv d \<longleftrightarrow>
     distinct (map con_ID (contracts d)) \<and> distinct (map ms_ID (milestones d)) \<and>
     (\<forall>e \<in> set (contract_events d). ce_contract_id e \<in> con_ID ` set (contracts d)) \<and>
     (\<forall>m \<in> set (milestones d).
        ms_ContractID m \<in> con_ID ` set (contracts d) \<and> 0 < ms_AmountCents m \<and> stamps_ok m) \<and>
     (\<forall>c \<in> set (contracts d). contract_ok (milestones d) (contract_events d) c)"

lemma contract_invD:
  assumes "contract_inv d"
  shows "distinct (map con_ID (contracts d))" and "distinct (map ms_ID (milestones d))"
    and "e \<in> set (contract_events d) \<Longrightarrow> ce_contract_id e \<in> con_ID ` set (contracts d)"
    and "m \<in> set (milestones d) \<Longrightarrow>
      ms_ContractID m \<in> con_ID ` set (contracts d) \<and> 0 < ms_AmountCents m \<and> stamps_ok m"
    and "c \<in> set (contracts d) \<Longrightarrow> contract_ok (milestones d) (contract_events d) c"
  using assms by (auto simp: contract_inv_def)

lemma contract_inv_empty: "contract_inv empty_db"
  by (simp add: contract_inv_def empty_db_def)

lemma contract_inv_frame:
  "contract_inv d \<Longrightarrow> contracts d' = contracts d \<Longrightarrow> milestones d' = milestones d \<Longrightarrow>
   contract_events d' = contract_events d \<Longrightarrow> contract_inv d'"
  by (simp add: contract_inv_def)

lemma replay_append:
  "replay st (xs @ ys) = (case replay st xs of None \<Rightarrow> None | Some st' \<Rightarrow> replay st' ys)"
  by (induction st xs rule: replay.induct) auto

lemma events_of_append: "events_of (xs @ ys) i = events_of xs i @ events_of ys i"
  by (simp add: events_of_def)

lemma milestone_total_append: "milestone_total (xs @ ys) i = milestone_total xs i + milestone_total ys i"
  by (simp add: milestone_total_def)

section \<open>What a successful operation has done\<close>

definition started :: "int \<Rightarrow> Contract \<Rightarrow> Contract" where
  "started now c = c\<lparr>con_Status := ''active'', con_StartedAt := Some now\<rparr>"

lemma ActivateContract_effect:
  assumes "ActivateContract i actor s = (Inr u, t)"
  shows "\<exists>c. length (filter (\<lambda>c. con_ID c = i \<and> con_Status c = ''pending_funding'') (contracts (committed s))) = 1 \<and>
    committed t = post_event (activated_event i c)
      ((committed s)\<lparr>contracts := update_where (\<lambda>c. con_ID c = i) (\<lambda>c. c\<lparr>con_StartedAt := Some (clock s)\<rparr>)
          (update_where (\<lambda>c. con_ID c = i \<and> con_Status c = ''pending_funding'')
             (\<lambda>c. c\<lparr>con_Status := ''active''\<rparr>) (contracts (committed s))),
        contract_events := contract_events (committed s) @
          [new_event i (Some ''pending_funding'') ''active'' ''activate'' (Some actor) None (clock s)]\<rparr>)"
  using assms unfolding ActivateContract_def TransitionContract_def MarkContractStarted_def
    GetContractTx_def InsertContractEvent_def
  by (fastforce simp: io_ok Let_def split: if_splits)

lemma FundMilestone_effect:
  assumes "FundMilestone m u s = (Inr x, t)"
  shows "\<exists>r c. find_milestone m (committed s) = Some r \<and> ms_Status r = ''pending'' \<and>
    find_contract (ms_ContractID r) (committed s) = Some c \<and> con_ClientID c = u \<and>
    committed t = (committed s)\<lparr>milestones := update_where (\<lambda>x. ms_ID x = m)
      (\<lambda>x. x\<lparr>ms_Status := ''funded'', ms_FundedAt := Some (clock s)\<rparr>) (milestones (committed s))\<rparr>"
  using assms unfolding FundMilestone_def Contract_Store.FundMilestone_def milestoneInfo_def
    update_milestone_def GetContractTx_def
  by (fastforce simp: io_ok split: if_splits)

definition delivered :: "string \<Rightarrow> string \<Rightarrow> string \<Rightarrow> string list option \<Rightarrow> db \<Rightarrow> db" where
  "delivered m u note ks d =
     (case ks of None \<Rightarrow> d
      | Some keys \<Rightarrow> if note = '''' \<and> keys = [] then d
          else d\<lparr>deliverables := deliverables d @ [\<lparr>dl_milestone_id = m, dl_submitted_by = u,
                 dl_note = note, dl_s3_keys = keys\<rparr>]\<rparr>)"

lemma InsertDeliverable_ok [io_ok]:
  "InsertDeliverable m u note ks s = (Inr x, t) \<longleftrightarrow>
     \<not> aborted s \<and> \<not> faults s 0 \<and> m \<in> ms_ID ` set (milestones (work s)) \<and>
     (''users'', u) \<in> set (other_keys (work s)) \<and>
     (\<exists>keys. ks = Some keys \<and> t = (tick s)\<lparr>work := (work s)\<lparr>deliverables := deliverables (work s) @
        [\<lparr>dl_milestone_id = m, dl_submitted_by = u, dl_note = note, dl_s3_keys = keys\<rparr>]\<rparr>\<rparr>)"
  by (auto simp: InsertDeliverable_def io_ok split: option.splits if_splits)

lemma SubmitMilestone_effect:
  assumes "SubmitMilestone m u note ks s = (Inr x, t)"
  shows "\<exists>r c. find_milestone m (committed s) = Some r \<and> ms_Status r = ''funded'' \<and>
    find_contract (ms_ContractID r) (committed s) = Some c \<and> con_FreelancerID c = u \<and>
    committed t = delivered m u note ks ((committed s)\<lparr>milestones := update_where (\<lambda>x. ms_ID x = m)
      (\<lambda>x. x\<lparr>ms_Status := ''submitted'', ms_SubmittedAt := Some (clock s)\<rparr>) (milestones (committed s))\<rparr>)"
  using assms unfolding SubmitMilestone_def Contract_Store.SubmitMilestone_def milestoneInfo_def
    update_milestone_def FreelancerOfContract_def
  by (clarsimp simp: io_ok) (auto simp: io_ok delivered_def split: if_splits option.splits)

lemma ApproveMilestone_effect:
  assumes "ApproveMilestone m u s = (Inr x, t)"
  shows "\<exists>r c. find_milestone m (committed s) = Some r \<and> ms_Status r = ''submitted'' \<and>
    find_contract (ms_ContractID r) (committed s) = Some c \<and> con_ClientID c = u \<and>
    committed t = post_event (approved_event m (ms_ContractID r) (ms_AmountCents r) (con_FreelancerID c))
     ((committed s)\<lparr>milestones := update_where (\<lambda>x. ms_ID x = m)
      (\<lambda>x. x\<lparr>ms_Status := ''approved'', ms_ApprovedAt := Some (clock s)\<rparr>) (milestones (committed s))\<rparr>)"
  using assms unfolding ApproveMilestone_def Contract_Store.ApproveMilestone_def milestoneInfo_def
    update_milestone_def GetContractTx_def
  by (fastforce simp: io_ok split: if_splits)

lemma RaiseDispute_effect:
  assumes "RaiseDispute i u v mo why amt s = (Inr did, t)"
  shows "\<exists>c. find_contract i (committed s) = Some c \<and> u \<in> {con_ClientID c, con_FreelancerID c} \<and>
    committed t = post_event (disputed_event i did u v)
     ((committed s)\<lparr>contracts := update_where (\<lambda>c. con_ID c = i) (\<lambda>c. c\<lparr>con_Status := ''disputed''\<rparr>)
        (contracts (committed s)),
      contract_events := contract_events (committed s) @
        [new_event i (Some (con_Status c)) ''disputed'' ''dispute'' (Some u)
           (Some (JObj [(''dispute_id'', JStr did), (''reason'', JStr why)])) (clock s)],
      disputes := disputes (committed s) @
        [\<lparr>dsp_ID = did, dsp_ContractID = i, dsp_MilestoneID = mo, dsp_RaisedBy = u,
          dsp_Against = v, dsp_Reason = why, dsp_AmountCents = amt, dsp_Status = ''open''\<rparr>]\<rparr>)"
  using assms unfolding RaiseDispute_def CurrentStatus_def GetContractTx_def InsertDispute_def
    ForceStatus_def InsertContractEvent_def
  by (fastforce simp: io_ok RequireOneOf_iff split: if_splits)

lemma insert_milestones_ok:
  "insert_milestones cid ms s = (Inr u, t) \<Longrightarrow>
   \<exists>uids. length uids = length ms \<and> distinct uids \<and>
     set uids \<inter> ms_ID ` set (milestones (work s)) = {} \<and> (\<forall>m \<in> set ms. 0 < mi_AmountCents m) \<and>
     work t = (work s)\<lparr>milestones := milestones (work s) @ map2 (\<lambda>uid. new_milestone uid cid) uids ms\<rparr> \<and>
     committed t = committed s \<and> clock t = clock s \<and> aborted t = aborted s"
proof (induction cid ms arbitrary: s rule: insert_milestones.induct)
  case (1 cid)
  then show ?case by (auto simp: io_ok)
next
  case (2 cid m ms)
  from "2.prems" obtain s' uid where
    s': "s' = (tick s)\<lparr>work := (work s)\<lparr>milestones := milestones (work s) @ [new_milestone uid cid m]\<rparr>\<rparr>"
    and uid: "uid \<notin> ms_ID ` set (milestones (work s))" "0 < mi_AmountCents m"
    and rest: "insert_milestones cid ms s' = (Inr u, t)"
    by (auto simp: io_ok InsertMilestone_def not_le split: if_splits)
  from "2.IH" [OF rest] obtain uids where
    "length uids = length ms" "distinct uids" "\<forall>m \<in> set ms. 0 < mi_AmountCents m"
    "set uids \<inter> ms_ID ` set (milestones (work s')) = {}"
    "work t = (work s')\<lparr>milestones := milestones (work s') @ map2 (\<lambda>uid. new_milestone uid cid) uids ms\<rparr>"
    "committed t = committed s'" "clock t = clock s'" "aborted t = aborted s'" by blast
  with uid show ?case
    by (intro exI [of _ "uid # uids"]) (auto simp: s' new_milestone_def)
qed

definition created_row :: "CreateInput \<Rightarrow> string \<Rightarrow> string \<Rightarrow> Contract" where
  "created_row i uid cur = (input_contract i uid)\<lparr>con_Currency := cur\<rparr>"

definition create_effect ::
  "CreateInput \<Rightarrow> string \<Rightarrow> string \<Rightarrow> Milestone list \<Rightarrow> int \<Rightarrow> db \<Rightarrow> db" where
  "create_effect i uid cur new now d =
     d\<lparr>contracts := contracts d @ [created_row i uid cur],
       hourly_contracts := hourly_contracts d @ (if ci_BudgetType i = ''hourly'' then [uid] else []),
       milestones := milestones d @ new,
       contract_events := contract_events d @
         [new_event uid None ''pending_funding'' ''create'' (Some (ci_ClientID i)) None now]\<rparr>"

lemma InsertContract_ok:
  "InsertContract c s = (Inr uid, t) \<longleftrightarrow>
     \<not> aborted s \<and> \<not> faults s 0 \<and> uid = ids s 0 \<and>
     (\<exists>cur row. char3 (con_Currency c) = Some cur \<and>
        row = c\<lparr>con_ID := uid, con_Currency := cur, con_Status := ''pending_funding'',
                con_StartedAt := None, con_EndedAt := None, con_EndReason := None\<rparr> \<and>
        contract_row_check row (work s) = None \<and>
        t = (tick s)\<lparr>work := (work s)\<lparr>contracts := contracts (work s) @ [row]\<rparr>\<rparr>)"
  unfolding InsertContract_def
  by (simp add: tx_stmt_ok Let_def split: option.splits) blast

lemma CreateFromProposal_effect:
  assumes "CreateFromProposal answer i s = (Inr c, t)"
  shows "\<exists>p i' uid cur uids. lookup_get answer = Inr p \<and> deriveContractTerms i p = Inr i' \<and>
    c = input_contract i' uid \<and>
    contract_row_check (created_row i' uid cur) (committed s) = None \<and>
    (if ci_BudgetType i' = ''hourly'' then uids = []
     else length uids = length (ci_Milestones i') \<and> (\<forall>m \<in> set (ci_Milestones i'). 0 < mi_AmountCents m)) \<and>
    distinct uids \<and> set uids \<inter> ms_ID ` set (milestones (committed s)) = {} \<and>
    committed t = create_effect i' uid cur
      (map2 (\<lambda>u. new_milestone u uid) uids (ci_Milestones i')) (clock s) (committed s)"
proof -
  from assms obtain p i' where p: "lookup_get answer = Inr p" and i': "deriveContractTerms i p = Inr i'"
    by (auto simp: CreateFromProposal_def io_ok split: if_splits sum.splits)
  from assms p i' obtain uid s0 s1 s2 s3 s4 where
    s0: "begin_tx s = (Inr (), s0)" and ins: "InsertContract (input_contract i' '''') s0 = (Inr uid, s1)"
    and mid: "(if ci_BudgetType i' = ''hourly'' then InsertHourlyContract uid
             else insert_milestones uid (ci_Milestones i')) s1 = (Inr (), s2)"
    and ev: "InsertContractEvent uid None ''pending_funding'' ''create'' (Some (ci_ClientID i')) None s2
      = (Inr (), s3)" and com: "commit_tx s3 = (Inr (), s4)" and c: "t = s4" "c = input_contract i' uid"
    unfolding CreateFromProposal_def
    by (cases "ci_ProposalID i = ''''"; cases "ci_ClientID i = ''''";
        simp add: bindE_ok liftE_ok ret_ok throw_ok) blast
  have b: "committed s0 = committed s" "work s0 = committed s" "clock s0 = clock s"
    using s0 by (simp_all add: begin_tx_ok)
  from ins [unfolded InsertContract_ok] obtain cur row where
    row: "row = (input_contract i' '''')\<lparr>con_ID := uid, con_Currency := cur,
      con_Status := ''pending_funding'', con_StartedAt := None, con_EndedAt := None, con_EndReason := None\<rparr>"
    and r: "contract_row_check row (work s0) = None"
      "s1 = (tick s0)\<lparr>work := (work s0)\<lparr>contracts := contracts (work s0) @ [row]\<rparr>\<rparr>" by blast
  have "row = created_row i' uid cur" by (simp add: row created_row_def input_contract_def)
  with r b have chk: "contract_row_check (created_row i' uid cur) (committed s) = None"
    and s1: "work s1 = (committed s)\<lparr>contracts := contracts (committed s) @ [created_row i' uid cur]\<rparr>"
      "committed s1 = committed s" "clock s1 = clock s"
    by simp_all
  from ev com c have fin: "c = input_contract i' uid"
      "committed t = (work s2)\<lparr>contract_events := contract_events (work s2) @
         [new_event uid None ''pending_funding'' ''create'' (Some (ci_ClientID i')) None (clock s2)]\<rparr>"
    by (auto simp: io_ok InsertContractEvent_def split: if_splits)
  show ?thesis
  proof (cases "ci_BudgetType i' = ''hourly''")
    case True
    with mid have "work s2 = (work s1)\<lparr>hourly_contracts := hourly_contracts (work s1) @ [uid]\<rparr>"
      "clock s2 = clock s1"
      by (auto simp: InsertHourlyContract_def io_ok split: if_splits)
    with True p i' chk fin show ?thesis
      by (intro exI [of _ p] exI [of _ i'] exI [of _ uid] exI [of _ cur] exI [of _ "[]"])
        (simp add: s1 create_effect_def)
  next
    case False
    with mid insert_milestones_ok [of uid "ci_Milestones i'" s1 "()" s2] obtain uids where
      "length uids = length (ci_Milestones i')" "distinct uids"
      "set uids \<inter> ms_ID ` set (milestones (work s1)) = {}"
      "\<forall>m \<in> set (ci_Milestones i'). 0 < mi_AmountCents m"
      "work s2 = (work s1)\<lparr>milestones := milestones (work s1) @
         map2 (\<lambda>u. new_milestone u uid) uids (ci_Milestones i')\<rparr>" "clock s2 = clock s1"
      by auto
    with False p i' chk fin show ?thesis
      by (intro exI [of _ p] exI [of _ i'] exI [of _ uid] exI [of _ cur] exI [of _ uids])
        (simp add: s1 create_effect_def)
  qed
qed

section \<open>Every operation keeps the invariant\<close>

text \<open>
  One contract takes a transition, recorded at the end of the event log with the status it came
  from.
\<close>

lemma contract_inv_transition:
  assumes inv: "contract_inv d" and c: "find_contract i d = Some c"
    and con: "contracts d' = update_where (\<lambda>r. con_ID r = i) f (contracts d)"
    and f: "\<And>r. con_ID (f r) = con_ID r" "\<And>r. con_ClientID (f r) = con_ClientID r"
      "\<And>r. con_FreelancerID (f r) = con_FreelancerID r"
      "\<And>r. con_PlatformFeeBps (f r) = con_PlatformFeeBps r"
      "\<And>r. con_BudgetType (f r) = con_BudgetType r"
      "\<And>r. con_TotalAmountCents (f r) = con_TotalAmountCents r"
      "\<And>r. con_Status (f r) = st"
    and ms: "milestones d' = milestones d"
    and ev: "contract_events d' = contract_events d @ [new_event i (Some (con_Status c)) st e a p now]"
  shows "contract_inv d'"
proof -
  note D = contract_invD [OF inv]
  have ids: "map con_ID (contracts d') = map con_ID (contracts d)"
    unfolding con by (rule map_update_where_same) (rule f(1))
  then have img: "con_ID ` set (contracts d') = con_ID ` set (contracts d)"
    by (metis list.set_map)
  from select_one_SomeD [OF c] have cm: "c \<in> set (contracts d)" "con_ID c = i" by auto
  have evs: "events_of (contract_events d') j = events_of (contract_events d) j @
      (if j = i then [new_event i (Some (con_Status c)) st e a p now] else [])" for j
    by (simp add: ev events_of_def new_event_def)
  have "contract_ok (milestones d') (contract_events d') r" if "r \<in> set (contracts d')" for r
  proof (cases "con_ID r = i")
    case True
    with that have "r \<in> f ` {x \<in> set (contracts d). con_ID x = i}"
      unfolding con set_update_where by auto
    with cm D(1) have r: "r = f c" by (auto dest: distinct_key_unique)
    from D(5) [OF cm(1)] show ?thesis
      by (simp add: contract_ok_def r f cm ms evs replay_append new_event_def)
  next
    case False
    with that have "r \<in> set (contracts d)" unfolding con set_update_where using f(1) by auto
    from D(5) [OF this] False show ?thesis by (simp add: contract_ok_def ms evs)
  qed
  moreover have "ce_contract_id x \<in> con_ID ` set (contracts d')" if "x \<in> set (contract_events d')" for x
    using that D(3) cm by (auto simp: ev img new_event_def)
  ultimately show ?thesis
    using D(1,2,4) by (simp add: contract_inv_def ids img ms)
qed

text \<open>One milestone changes its status and stamps.\<close>

lemma contract_inv_milestone:
  assumes inv: "contract_inv d" and m: "find_milestone i d = Some m"
    and ms: "milestones d' = update_where (\<lambda>r. ms_ID r = i) f (milestones d)"
    and f: "\<And>r. ms_ID (f r) = ms_ID r" "\<And>r. ms_ContractID (f r) = ms_ContractID r"
      "\<And>r. ms_AmountCents (f r) = ms_AmountCents r"
    and ok: "stamps_ok (f m)"
    and same: "contracts d' = contracts d" "contract_events d' = contract_events d"
  shows "contract_inv d'"
proof -
  note D = contract_invD [OF inv]
  have ids: "map ms_ID (milestones d') = map ms_ID (milestones d)"
    unfolding ms by (rule map_update_where_same) (rule f(1))
  from select_one_SomeD [OF m] have mm: "m \<in> set (milestones d)" "ms_ID m = i" by auto
  have total: "milestone_total (milestones d') j = milestone_total (milestones d) j" for j
    unfolding milestone_total_def sum_list_filter_eq ms
    by (rule arg_cong [of _ _ sum_list]) (rule map_update_where_same, simp add: f)
  have "ms_ContractID r \<in> con_ID ` set (contracts d) \<and> 0 < ms_AmountCents r \<and> stamps_ok r"
    if "r \<in> set (milestones d')" for r
  proof (cases "ms_ID r = i")
    case True
    with that have "r \<in> f ` {x \<in> set (milestones d). ms_ID x = i}"
      unfolding ms set_update_where by (auto simp: f)
    with mm D(2) have "r = f m" by (auto dest: distinct_key_unique)
    with D(4) [OF mm(1)] ok show ?thesis by (simp add: f)
  next
    case False
    with that have "r \<in> set (milestones d)" unfolding ms set_update_where using f(1) by auto
    with D(4) show ?thesis by blast
  qed
  moreover have "contract_ok (milestones d') (contract_events d) c" if "c \<in> set (contracts d)" for c
    using D(5) [OF that] by (simp add: contract_ok_def total)
  ultimately show ?thesis
    using D(1,2,3) by (simp add: contract_inv_def ids same)
qed

lemma milestone_ops_inv:
  assumes inv: "contract_inv (committed s)"
  shows "FundMilestone m u s = (Inr x, t) \<Longrightarrow> contract_inv (committed t)"
    and "SubmitMilestone m u note ks s = (Inr x, t) \<Longrightarrow> contract_inv (committed t)"
    and "ApproveMilestone m u s = (Inr x, t) \<Longrightarrow> contract_inv (committed t)"
proof -
  have ok: "stamps_ok r" if "find_milestone m (committed s) = Some r" for r
    using contract_invD(4) [OF inv] select_one_SomeD [OF that] by blast
  show "contract_inv (committed t)" if "FundMilestone m u s = (Inr x, t)"
    using FundMilestone_effect [OF that]
    by (elim exE conjE,
      intro contract_inv_milestone [OF inv, where f = "\<lambda>x. x\<lparr>ms_Status := ''funded'', ms_FundedAt := Some (clock s)\<rparr>"])
      (auto dest!: ok simp: stamps_ok_def)
  show "contract_inv (committed t)" if "SubmitMilestone m u note ks s = (Inr x, t)"
    using SubmitMilestone_effect [OF that]
    by (elim exE conjE,
      intro contract_inv_milestone [OF inv, where f = "\<lambda>x. x\<lparr>ms_Status := ''submitted'', ms_SubmittedAt := Some (clock s)\<rparr>"])
      (auto dest!: ok simp: stamps_ok_def delivered_def split: option.splits)
  show "contract_inv (committed t)" if "ApproveMilestone m u s = (Inr x, t)"
    using ApproveMilestone_effect [OF that]
    by (elim exE conjE,
      intro contract_inv_milestone [OF inv, where f = "\<lambda>x. x\<lparr>ms_Status := ''approved'', ms_ApprovedAt := Some (clock s)\<rparr>"])
      (auto dest!: ok simp: stamps_ok_def)
qed

lemma RaiseDispute_inv:
  assumes "contract_inv (committed s)" "RaiseDispute i u v mo why amt s = (Inr did, t)"
  shows "contract_inv (committed t)"
  using RaiseDispute_effect [OF assms(2)]
  by (elim exE conjE, intro contract_inv_transition [OF assms(1), where f = "\<lambda>c. c\<lparr>con_Status := ''disputed''\<rparr>"])
    simp_all

lemma ActivateContract_inv:
  assumes inv: "contract_inv (committed s)" and run: "ActivateContract i actor s = (Inr u, t)"
  shows "contract_inv (committed t)"
proof -
  let ?cs = "contracts (committed s)"
  let ?P = "\<lambda>c. con_ID c = i \<and> con_Status c = ''pending_funding''"
  from ActivateContract_effect [OF run] obtain a where
    one: "length (filter ?P ?cs) = 1" and
    t: "committed t = post_event (activated_event i a) ((committed s)\<lparr>contracts :=
        update_where (\<lambda>c. con_ID c = i) (\<lambda>c. c\<lparr>con_StartedAt := Some (clock s)\<rparr>)
          (update_where ?P (\<lambda>c. c\<lparr>con_Status := ''active''\<rparr>) ?cs),
        contract_events := contract_events (committed s) @
          [new_event i (Some ''pending_funding'') ''active'' ''activate'' (Some actor) None (clock s)]\<rparr>)"
    by blast
  from one have "filter ?P ?cs \<noteq> []" by auto
  then obtain c where c: "c \<in> set ?cs" "con_ID c = i" "con_Status c = ''pending_funding''"
    by (auto simp: filter_empty_conv)
  note dist = contract_invD(1) [OF inv]
  have found: "find_contract i (committed s) = Some c"
    using select_one_key [OF c(1) dist] c(2) by simp
  have "update_where (\<lambda>c. con_ID c = i) (\<lambda>c. c\<lparr>con_StartedAt := Some (clock s)\<rparr>)
          (update_where ?P (\<lambda>c. c\<lparr>con_Status := ''active''\<rparr>) ?cs)
      = update_where (\<lambda>c. con_ID c = i) (started (clock s)) ?cs"
  proof -
    have "(if con_ID x = i \<and> con_Status x = ''pending_funding'' then x\<lparr>con_Status := ''active''\<rparr> else x)
        = (if con_ID x = i then x\<lparr>con_Status := ''active''\<rparr> else x)" if "x \<in> set ?cs" for x
      using distinct_key_unique [OF dist that c(1)] c(2,3) by auto
    then have "update_where ?P (\<lambda>c. c\<lparr>con_Status := ''active''\<rparr>) ?cs
        = update_where (\<lambda>c. con_ID c = i) (\<lambda>c. c\<lparr>con_Status := ''active''\<rparr>) ?cs"
      unfolding update_where_def by (rule map_cong [OF refl])
    then show ?thesis
      by (simp only:) (simp add: update_where_compose comp_def flip: started_def)
  qed
  then show ?thesis
    by (intro contract_inv_transition [OF inv found, where f = "started (clock s)"])
      (simp_all add: t c(3) started_def)
qed

lemma deriveContractTerms_ok:
  assumes "deriveContractTerms i p = Inr i'"
  shows "ci_ClientID i' = ci_ClientID i \<and> lp_ProjectClientID p = ci_ClientID i \<and>
    lp_Status p \<notin> {''withdrawn'', ''declined''} \<and>
    ci_ProjectID i' = lp_ProjectID p \<and> ci_FreelancerID i' = lp_FreelancerID p \<and>
    ci_PlatformFeeBps i' = 1000 \<and> ci_ClientID i' \<noteq> ci_FreelancerID i' \<and>
    ci_BudgetType i' = ci_BudgetType i \<and> ci_Milestones i' = ci_Milestones i \<and>
    (ci_BudgetType i = ''fixed'' \<longrightarrow> ci_TotalAmountCents i' = Some (lp_BidAmountCents p) \<and>
       int64 (sum_list (map mi_AmountCents (ci_Milestones i))) = lp_BidAmountCents p \<and>
       ci_Milestones i \<noteq> []) \<and>
    (ci_BudgetType i = ''hourly'' \<longrightarrow> ci_HourlyRateCents i' = Some (lp_BidAmountCents p) \<and>
       ci_TotalAmountCents i' = None)"
  using assms
  by (auto simp: deriveContractTerms_def derive_amounts_def Let_def sum_int64_0 split: if_splits)

lemma map2_new_milestone_ids:
  "length uids = length ms \<Longrightarrow> map ms_ID (map2 (\<lambda>u. new_milestone u cid) uids ms) = uids"
  by (induction uids ms rule: list_induct2) (auto simp: new_milestone_def)

lemma map2_new_milestone_total:
  "length uids = length ms \<Longrightarrow> milestone_total (map2 (\<lambda>u. new_milestone u cid) uids ms) j =
     (if j = cid then sum_list (map mi_AmountCents ms) else 0)"
  by (induction uids ms rule: list_induct2) (auto simp: new_milestone_def milestone_total_def)

lemma map2_new_milestone_rows:
  "x \<in> set (map2 (\<lambda>u. new_milestone u cid) uids ms) \<Longrightarrow>
     ms_ContractID x = cid \<and> stamps_ok x \<and> ms_AmountCents x \<in> mi_AmountCents ` set ms"
  by (auto simp: new_milestone_def stamps_ok_def dest: set_zip_rightD)

lemma contract_row_check_None:
  "contract_row_check c d = None \<Longrightarrow>
     con_ClientID c \<noteq> con_FreelancerID c \<and> con_ID c \<notin> con_ID ` set (contracts d) \<and>
     con_BudgetType c \<in> {''fixed'', ''hourly''}"
  by (auto simp: contract_row_check_def split: if_splits)

lemma milestone_total_absent:
  "contract_inv d \<Longrightarrow> i \<notin> con_ID ` set (contracts d) \<Longrightarrow> milestone_total (milestones d) i = 0"
  unfolding milestone_total_def by (subst filter_False) (auto dest: contract_invD(4))

lemma events_of_absent:
  "contract_inv d \<Longrightarrow> i \<notin> con_ID ` set (contracts d) \<Longrightarrow> events_of (contract_events d) i = []"
  unfolding events_of_def by (rule filter_False) (auto dest: contract_invD(3))

lemma CreateFromProposal_inv:
  assumes inv: "contract_inv (committed s)" and run: "CreateFromProposal answer i s = (Inr c, t)"
  shows "contract_inv (committed t)"
proof -
  let ?d = "committed s"
  note D = contract_invD [OF inv]
  from CreateFromProposal_effect [OF run] obtain p i' uid cur uids where
    terms: "deriveContractTerms i p = Inr i'"
    and chk: "contract_row_check (created_row i' uid cur) ?d = None"
    and uids: "if ci_BudgetType i' = ''hourly'' then uids = []
     else length uids = length (ci_Milestones i') \<and> (\<forall>m \<in> set (ci_Milestones i'). 0 < mi_AmountCents m)"
      "distinct uids" "set uids \<inter> ms_ID ` set (milestones ?d) = {}"
    and t: "committed t = create_effect i' uid cur
      (map2 (\<lambda>u. new_milestone u uid) uids (ci_Milestones i')) (clock s) ?d" by blast
  define new where "new = map2 (\<lambda>u. new_milestone u uid) uids (ci_Milestones i')"
  let ?row = "created_row i' uid cur"
  have row: "con_ID ?row = uid" "con_ClientID ?row = ci_ClientID i'" "con_Status ?row = ''pending_funding''"
    "con_FreelancerID ?row = ci_FreelancerID i'" "con_PlatformFeeBps ?row = ci_PlatformFeeBps i'"
    "con_BudgetType ?row = ci_BudgetType i'" "con_TotalAmountCents ?row = ci_TotalAmountCents i'"
    by (simp_all add: created_row_def input_contract_def)
  from contract_row_check_None [OF chk] have fresh: "uid \<notin> con_ID ` set (contracts ?d)" by (simp add: row)
  have ids: "map ms_ID new = uids"
    using uids(1) map2_new_milestone_ids [of uids "ci_Milestones i'" uid]
    by (cases "ci_BudgetType i' = ''hourly''") (simp_all only: new_def if_True if_False, simp)
  have rows: "ms_ContractID x = uid \<and> 0 < ms_AmountCents x \<and> stamps_ok x" if "x \<in> set new" for x
    using map2_new_milestone_rows [of x uid uids "ci_Milestones i'"] that uids(1)
    by (cases "ci_BudgetType i' = ''hourly''") (auto simp flip: new_def, simp_all add: new_def)
  have total: "milestone_total new j = 0" if "j \<noteq> uid" for j
    unfolding milestone_total_def by (subst filter_False) (use rows that in auto)
  have sum: "ci_BudgetType i' = ''fixed'' \<Longrightarrow>
      milestone_total new uid = sum_list (map mi_AmountCents (ci_Milestones i'))"
    using uids(1) by (simp add: new_def map2_new_milestone_total)
  have ms: "milestones (committed t) = milestones ?d @ new"
    and con: "contracts (committed t) = contracts ?d @ [?row]"
    and evs: "contract_events (committed t) = contract_events ?d @
      [new_event uid None ''pending_funding'' ''create'' (Some (ci_ClientID i')) None (clock s)]"
    by (simp_all add: t create_effect_def new_def)
  have ev: "events_of (contract_events (committed t)) j = events_of (contract_events ?d) j @
      (if j = uid then [new_event uid None ''pending_funding'' ''create'' (Some (ci_ClientID i')) None (clock s)]
       else [])" for j
    by (simp add: evs events_of_def new_event_def)
  have old: "contract_ok (milestones (committed t)) (contract_events (committed t)) r"
    if "r \<in> set (contracts ?d)" for r
  proof -
    from that fresh have "con_ID r \<noteq> uid" by auto
    with D(5) [OF that] show ?thesis
      by (simp add: contract_ok_def ev ms milestone_total_append total)
  qed
  have "contract_ok (milestones (committed t)) (contract_events (committed t)) ?row"
    using deriveContractTerms_ok [OF terms] sum
    by (auto simp: contract_ok_def row ev events_of_absent [OF inv fresh] new_event_def ms
        milestone_total_append milestone_total_absent [OF inv fresh])
  moreover have "distinct (map ms_ID (milestones ?d @ new))"
    using D(2) uids(2,3) by (auto simp: ids simp flip: ids)
  ultimately show ?thesis
    using D(1,3,4) old rows fresh
    by (auto simp: contract_inv_def ms con evs row new_event_def)
qed

end
