(* ===== verification/Contract_Props.thy ===== *)
theory Contract_Props
  imports Contract_Inv
begin

text \<open>
  What the contract service promises: the invariant and the event log in every reachable state,
  the milestone state machine as an abstract relation the operations refine, who may move what,
  and where the terms of a contract come from.
\<close>

section \<open>The service as a step relation\<close>

inductive contract_step :: "db \<Rightarrow> db \<Rightarrow> bool" where
  step_create: "CreateFromProposal answer i s = (r, t) \<Longrightarrow> contract_step (committed s) (committed t)"
| step_activate: "ActivateContract c u s = (r', t) \<Longrightarrow> contract_step (committed s) (committed t)"
| step_fund_ms: "FundMilestone m u s = (r', t) \<Longrightarrow> contract_step (committed s) (committed t)"
| step_submit: "SubmitMilestone m u nt ks s = (r', t) \<Longrightarrow> contract_step (committed s) (committed t)"
| step_approve: "ApproveMilestone m u s = (r', t) \<Longrightarrow> contract_step (committed s) (committed t)"
| step_dispute: "RaiseDispute c u v mo why amt s = (r'', t) \<Longrightarrow> contract_step (committed s) (committed t)"

lemma contract_step_cases [consumes 1, case_names same create activate fund submit approve dispute]:
  assumes "contract_step d d'"
  obtains "d' = d"
  | answer i c s t where "CreateFromProposal answer i s = (Inr c, t)" "committed s = d" "committed t = d'"
  | c u x s t where "ActivateContract c u s = (Inr x, t)" "committed s = d" "committed t = d'"
  | m u x s t where "FundMilestone m u s = (Inr x, t)" "committed s = d" "committed t = d'"
  | m u nt ks x s t where "SubmitMilestone m u nt ks s = (Inr x, t)" "committed s = d" "committed t = d'"
  | m u x s t where "ApproveMilestone m u s = (Inr x, t)" "committed s = d" "committed t = d'"
  | c u v mo why amt x s t where "RaiseDispute c u v mo why amt s = (Inr x, t)" "committed s = d" "committed t = d'"
  using assms
proof (cases rule: contract_step.cases)
  case (step_create answer i s r t)
  with that atomicD [OF atomic_contract_ops(1)] show ?thesis by (cases r) auto
next
  case (step_activate c u s r' t)
  with that atomicD [OF atomic_contract_ops(2)] show ?thesis by (cases r') auto
next
  case (step_fund_ms m u s r' t)
  with that atomicD [OF atomic_contract_ops(3)] show ?thesis by (cases r') auto
next
  case (step_submit m u nt ks s r' t)
  with that atomicD [OF atomic_contract_ops(4)] show ?thesis by (cases r') auto
next
  case (step_approve m u s r' t)
  with that atomicD [OF atomic_contract_ops(5)] show ?thesis by (cases r') auto
next
  case (step_dispute c u v mo why amt s r'' t)
  with that atomicD [OF atomic_contract_ops(6)] show ?thesis by (cases r'') auto
qed

interpretation contract_system: invariant_system contract_step contract_inv
proof
  fix d d' assume "contract_step d d'" and "contract_inv d"
  then show "contract_inv d'"
    by (cases rule: contract_step_cases)
      (auto intro: CreateFromProposal_inv ActivateContract_inv milestone_ops_inv RaiseDispute_inv)
qed

section \<open>The milestone state machine\<close>

inductive ms_next :: "string \<Rightarrow> string \<Rightarrow> bool" where
  "ms_next ''pending'' ''funded''"
| "ms_next ''funded'' ''submitted''"
| "ms_next ''submitted'' ''approved''"

inductive_simps ms_next_simps: "ms_next a b"

text \<open>What may happen to one milestone: nothing, or one move of the machine with the terms kept.\<close>

definition ms_moves :: "Milestone \<Rightarrow> Milestone \<Rightarrow> bool" where
  "ms_moves m m' \<longleftrightarrow> ms_ID m' = ms_ID m \<and> ms_ContractID m' = ms_ContractID m \<and>
     ms_AmountCents m' = ms_AmountCents m \<and> ms_next\<^sup>*\<^sup>* (ms_Status m) (ms_Status m')"

lemma ms_moves_refl [simp]: "ms_moves m m"
  by (simp add: ms_moves_def)

lemma ms_moves_trans: "ms_moves m m' \<Longrightarrow> ms_moves m' m'' \<Longrightarrow> ms_moves m m''"
  by (auto simp: ms_moves_def)

lemma ms_moves_step:
  "ms_next (ms_Status m) (ms_Status m') \<Longrightarrow> ms_ID m' = ms_ID m \<Longrightarrow>
   ms_ContractID m' = ms_ContractID m \<Longrightarrow> ms_AmountCents m' = ms_AmountCents m \<Longrightarrow> ms_moves m m'"
  by (simp add: ms_moves_def r_into_rtranclp)

lemma contract_step_milestone:
  assumes "contract_step d d'" and m: "find_milestone i d = Some m"
  shows "\<exists>m'. find_milestone i d' = Some m' \<and> ms_moves m m'"
  using assms(1)
proof (cases rule: contract_step_cases)
  case (create answer j c s t)
  from CreateFromProposal_effect [OF create(1)] m show ?thesis
    by (auto simp: create(2,3) create_effect_def select_one_append)
next
  case (activate c u x s t)
  from ActivateContract_effect [OF activate(1)] m show ?thesis by (auto simp: activate(2,3))
next
  case (fund j u x s t)
  from FundMilestone_effect [OF fund(1)] m show ?thesis
    by (cases "i = j")
      (auto simp: fund(2,3) select_one_update_where ms_next_simps intro!: ms_moves_step)
next
  case (submit j u nt ks x s t)
  from SubmitMilestone_effect [OF submit(1)] m show ?thesis
    by (cases "i = j"; cases ks)
      (auto simp: submit(2,3) delivered_def select_one_update_where ms_next_simps intro!: ms_moves_step)
next
  case (approve j u x s t)
  from ApproveMilestone_effect [OF approve(1)] m show ?thesis
    by (cases "i = j")
      (auto simp: approve(2,3) select_one_update_where ms_next_simps intro!: ms_moves_step)
next
  case (dispute c u v mo why amt x s t)
  from RaiseDispute_effect [OF dispute(1)] m show ?thesis by (auto simp: dispute(2,3))
qed (use m in simp)

section \<open>Contract terms\<close>

text \<open>Everything of a contract but its status and start stamp.\<close>

definition same_terms :: "Contract \<Rightarrow> Contract \<Rightarrow> bool" where
  "same_terms c c' \<longleftrightarrow>
     c'\<lparr>con_Status := con_Status c, con_StartedAt := con_StartedAt c\<rparr> = c"

lemma same_terms_refl [simp]: "same_terms c c"
  by (simp add: same_terms_def)

lemma same_terms_updates [simp]:
  "same_terms c (c\<lparr>con_Status := st\<rparr>)" "same_terms c (c\<lparr>con_StartedAt := x\<rparr>)"
  by (simp_all add: same_terms_def)

lemma same_terms_trans: "same_terms c c' \<Longrightarrow> same_terms c' c'' \<Longrightarrow> same_terms c c''"
  by (cases c; cases c'; cases c'') (simp add: same_terms_def)

lemma same_terms_key: "same_terms c c' \<Longrightarrow> con_ID c' = con_ID c"
  by (cases c; cases c') (simp add: same_terms_def)

lemma select_one_update_terms:
  assumes "select_one (\<lambda>x. con_ID x = i) cs = Some c"
    and "\<And>x. same_terms x (f x)"
  shows "\<exists>c'. select_one (\<lambda>x. con_ID x = i) (update_where P f cs) = Some c' \<and> same_terms c c'"
  using assms(1)
proof (induction cs)
  case (Cons a cs)
  have "con_ID (f a) = con_ID a" by (rule same_terms_key [OF assms(2)])
  with Cons assms(2) show ?case by auto
qed simp

lemma contract_step_terms:
  assumes "contract_step d d'" and c: "find_contract i d = Some c"
  shows "\<exists>c'. find_contract i d' = Some c' \<and> same_terms c c'"
  using assms(1)
proof (cases rule: contract_step_cases)
  case (create answer j c1 s t)
  from CreateFromProposal_effect [OF create(1)] c show ?thesis
    by (auto simp: create(2,3) create_effect_def select_one_append)
next
  case (activate j u x s t)
  let ?P = "\<lambda>c. con_ID c = j \<and> con_Status c = ''pending_funding''"
  obtain c1 where c1: "select_one (\<lambda>x. con_ID x = i) (update_where ?P (\<lambda>c. c\<lparr>con_Status := ''active''\<rparr>)
      (contracts d)) = Some c1" "same_terms c c1"
    using select_one_update_terms [OF c, of "\<lambda>c. c\<lparr>con_Status := ''active''\<rparr>" ?P]
    by auto
  from select_one_update_terms [OF c1(1), of "\<lambda>c. c\<lparr>con_StartedAt := Some (clock s)\<rparr>" "\<lambda>c. con_ID c = j"]
    ActivateContract_effect [OF activate(1)] show ?thesis
    by (auto simp: activate(2,3) intro: same_terms_trans [OF c1(2)])
next
  case (fund j u x s t)
  from FundMilestone_effect [OF fund(1)] c show ?thesis by (auto simp: fund(2,3))
next
  case (submit j u nt ks x s t)
  from SubmitMilestone_effect [OF submit(1)] c show ?thesis
    by (auto simp: submit(2,3) delivered_def split: option.splits)
next
  case (approve j u x s t)
  from ApproveMilestone_effect [OF approve(1)] c show ?thesis by (auto simp: approve(2,3))
next
  case (dispute j u v mo why amt x s t)
  from RaiseDispute_effect [OF dispute(1)]
    select_one_update_terms [OF c, of "\<lambda>c. c\<lparr>con_Status := ''disputed''\<rparr>" "\<lambda>c. con_ID c = j"]
  show ?thesis by (auto simp: dispute(2,3))
qed (use c in simp)

section \<open>Sample run\<close>

definition demo_keys :: db where
  "demo_keys = empty_db\<lparr>other_keys := [(''projects'', ''p1''), (''proposals'', ''pr1''),
     (''users'', ''client''), (''users'', ''freelancer'')]\<rparr>"

definition demo_proposal :: LookupProposal where
  "demo_proposal = \<lparr>lp_ProposalID = ''pr1'', lp_ProjectID = ''p1'', lp_ProjectClientID = ''client'',
     lp_FreelancerID = ''freelancer'', lp_Status = ''submitted'', lp_BidAmountCents = 1000,
     lp_Currency = ''USD''\<rparr>"

definition demo_ms_input :: "int \<Rightarrow> int \<Rightarrow> MilestoneInput" where
  "demo_ms_input n amount = \<lparr>mi_Seq = n, mi_Title = ''part'', mi_Description = None,
     mi_AmountCents = amount, mi_DueAt = None\<rparr>"

definition demo_input :: "MilestoneInput list \<Rightarrow> CreateInput" where
  "demo_input ms = \<lparr>ci_ProjectID = ''other'', ci_ProposalID = ''pr1'', ci_ClientID = ''client'',
     ci_FreelancerID = ''other'', ci_BudgetType = ''fixed'', ci_Currency = '''',
     ci_TotalAmountCents = Some 9999, ci_HourlyRateCents = None, ci_WeeklyHourLimit = None,
     ci_PlatformFeeBps = 0, ci_Milestones = ms\<rparr>"

definition demo_create :: "(err + Contract) \<times> db conn" where
  "demo_create = CreateFromProposal (Answer 200 (Some demo_proposal))
     (demo_input [demo_ms_input 1 400, demo_ms_input 2 600]) (quiet ''n'' demo_keys)"

definition demo_created :: db where
  "demo_created = committed (snd demo_create)"

definition demo_active :: db where
  "demo_active = committed (snd (ActivateContract ''ni'' ''stranger'' (quiet ''b'' demo_created)))"

definition demo_ms_funded :: db where
  "demo_ms_funded = committed (snd (FundMilestone ''nii'' ''client'' (quiet ''c'' demo_active)))"

definition demo_ms_submitted :: db where
  "demo_ms_submitted = committed (snd (SubmitMilestone ''nii'' ''freelancer'' ''done'' (Some [])
     (quiet ''d'' demo_ms_funded)))"

definition demo_ms_approved :: db where
  "demo_ms_approved = committed (snd (ApproveMilestone ''nii'' ''client'' (quiet ''e'' demo_ms_submitted)))"

lemma contract_step_runs:
  "contract_step (committed s) (committed (snd (CreateFromProposal answer i s)))"
  "contract_step (committed s) (committed (snd (ActivateContract c u s)))"
  "contract_step (committed s) (committed (snd (FundMilestone m u s)))"
  "contract_step (committed s) (committed (snd (SubmitMilestone m u nt ks s)))"
  "contract_step (committed s) (committed (snd (ApproveMilestone m u s)))"
  by (auto intro: contract_step.intros [OF surjective_pairing])

lemma demo_contract_steps:
  "contract_step\<^sup>*\<^sup>* demo_keys demo_created" "contract_step\<^sup>*\<^sup>* demo_created demo_ms_approved"
proof -
  have s: "contract_step demo_keys demo_created" "contract_step demo_created demo_active"
    "contract_step demo_active demo_ms_funded" "contract_step demo_ms_funded demo_ms_submitted"
    "contract_step demo_ms_submitted demo_ms_approved"
    unfolding demo_created_def demo_create_def demo_active_def demo_ms_funded_def
      demo_ms_submitted_def demo_ms_approved_def
    by (metis contract_step_runs quiet_simps(1))+
  then show "contract_step\<^sup>*\<^sup>* demo_keys demo_created" "contract_step\<^sup>*\<^sup>* demo_created demo_ms_approved"
    by (meson r_into_rtranclp rtranclp_trans)+
qed

lemma demo_keys_inv: "contract_inv demo_keys"
  by (simp add: contract_inv_def demo_keys_def empty_db_def)

section \<open>Properties\<close>

text \<open>
  C6: Whatever contract calls are made and whatever fails, every contract's status is what
  replaying its event log gives (each event starts from the status the previous one left, the
  first from nothing), the parties differ, the fee is the platform's, the milestones of a
  fixed-price contract add up to its total in \<open>int64\<close>, and a milestone carries exactly the time
  stamps of the states it has passed.
\<close>

theorem contract_invariant: "contract_step\<^sup>*\<^sup>* d d' \<Longrightarrow> contract_inv d \<Longrightarrow> contract_inv d'"
  by (rule contract_system.steps_inv)

theorem contract_invariant_witness:
  "contract_inv demo_ms_approved \<and>
   map ce_Event (contract_events demo_ms_approved) = [''create'', ''activate''] \<and>
   map ms_Status (milestones demo_ms_approved) = [''approved'', ''pending'']"
proof (intro conjI)
  show "contract_inv demo_ms_approved"
    by (rule contract_invariant [OF rtranclp_trans [OF demo_contract_steps] demo_keys_inv])
  show "map ce_Event (contract_events demo_ms_approved) = [''create'', ''activate'']"
    "map ms_Status (milestones demo_ms_approved) = [''approved'', ''pending'']" by code_simp+
qed



text \<open>
  The terms of a contract never change once it exists: after any sequence of calls the same
  contract is there with the same parties, amounts, currency and fee; only its status and start
  time may differ.
\<close>

theorem contract_terms_fixed:
  assumes "contract_step\<^sup>*\<^sup>* d d'" and "find_contract i d = Some c"
  shows "\<exists>c'. find_contract i d' = Some c' \<and> same_terms c c'"
  using assms
proof (induction rule: rtranclp_induct)
  case (step d1 d2)
  then obtain c1 where c1: "find_contract i d1 = Some c1" "same_terms c c1" by blast
  from contract_step_terms [OF step.hyps(2) c1(1)] c1(2) show ?case
    by (blast intro: same_terms_trans)
qed simp

theorem contract_terms_fixed_witness:
  "\<exists>c'. find_contract ''ni'' demo_ms_approved = Some c' \<and>
     same_terms (the (find_contract ''ni'' demo_created)) c'"
proof -
  have "find_contract ''ni'' demo_created = Some (the (find_contract ''ni'' demo_created))" by code_simp
  from contract_terms_fixed [OF demo_contract_steps(2) this] show ?thesis .
qed

text \<open>
  C8: Who may move a contract's work: funding and approving a milestone succeed only for the
  contract's client and from the right state, submitting only for its freelancer, raising a dispute
  only for one of the two, and a contract and its events are only shown to one of the two.
\<close>

theorem contract_authorization:
  "(fst (FundMilestone m u s) = Inr x \<longrightarrow> (\<exists>r c. find_milestone m (committed s) = Some r \<and>
      ms_Status r = ''pending'' \<and> find_contract (ms_ContractID r) (committed s) = Some c \<and> con_ClientID c = u)) \<and>
   (fst (SubmitMilestone m u nt ks s) = Inr x \<longrightarrow> (\<exists>r c. find_milestone m (committed s) = Some r \<and>
      ms_Status r = ''funded'' \<and> find_contract (ms_ContractID r) (committed s) = Some c \<and> con_FreelancerID c = u)) \<and>
   (fst (ApproveMilestone m u s) = Inr x \<longrightarrow> (\<exists>r c. find_milestone m (committed s) = Some r \<and>
      ms_Status r = ''submitted'' \<and> find_contract (ms_ContractID r) (committed s) = Some c \<and> con_ClientID c = u)) \<and>
   (fst (RaiseDispute i u v mo why amt s) = Inr y \<longrightarrow> (\<exists>c. find_contract i (committed s) = Some c \<and>
      u \<in> {con_ClientID c, con_FreelancerID c})) \<and>
   (fst (GetContract i u s) = Inr z \<longrightarrow> u \<in> {con_ClientID (fst z), con_FreelancerID (fst z)}) \<and>
   (fst (ContractEvents i u s) = Inr w \<longrightarrow> (\<exists>c. find_contract i (committed s) = Some c \<and>
      u \<in> {con_ClientID c, con_FreelancerID c}))"
proof (intro conjI impI)
  show "\<exists>r c. find_milestone m (committed s) = Some r \<and> ms_Status r = ''pending'' \<and>
      find_contract (ms_ContractID r) (committed s) = Some c \<and> con_ClientID c = u"
    if "fst (FundMilestone m u s) = Inr x"
    using FundMilestone_effect that by (metis prod.collapse)
  show "\<exists>r c. find_milestone m (committed s) = Some r \<and> ms_Status r = ''funded'' \<and>
      find_contract (ms_ContractID r) (committed s) = Some c \<and> con_FreelancerID c = u"
    if "fst (SubmitMilestone m u nt ks s) = Inr x"
    using SubmitMilestone_effect that by (metis prod.collapse)
  show "\<exists>r c. find_milestone m (committed s) = Some r \<and> ms_Status r = ''submitted'' \<and>
      find_contract (ms_ContractID r) (committed s) = Some c \<and> con_ClientID c = u"
    if "fst (ApproveMilestone m u s) = Inr x"
    using ApproveMilestone_effect that by (metis prod.collapse)
  show "\<exists>c. find_contract i (committed s) = Some c \<and> u \<in> {con_ClientID c, con_FreelancerID c}"
    if "fst (RaiseDispute i u v mo why amt s) = Inr y"
    using RaiseDispute_effect that by (metis prod.collapse)
  show "u \<in> {con_ClientID (fst z), con_FreelancerID (fst z)}" if "fst (GetContract i u s) = Inr z"
    using that by (cases "GetContract i u s")
      (auto simp: GetContract_def requireParty_def io_ok RequireOneOf_iff split: if_splits)
  show "\<exists>c. find_contract i (committed s) = Some c \<and> u \<in> {con_ClientID c, con_FreelancerID c}"
    if "fst (ContractEvents i u s) = Inr w"
    using that by (cases "ContractEvents i u s")
      (auto simp: ContractEvents_def requireParty_def Contract_Store.GetContract_def io_ok
        RequireOneOf_iff split: if_splits)
qed

theorem contract_authorization_witness:
  "\<exists>r c. find_milestone ''nii'' demo_ms_submitted = Some r \<and> ms_Status r = ''submitted'' \<and>
     find_contract (ms_ContractID r) demo_ms_submitted = Some c \<and> con_ClientID c = ''client''"
proof -
  have "fst (ApproveMilestone ''nii'' ''client'' (quiet ''e'' demo_ms_submitted)) = Inr ()" by code_simp
  with contract_authorization [of "''nii''" "''client''" "quiet ''e'' demo_ms_submitted" "()"]
  show ?thesis by simp
qed

text \<open>
  The request body cannot fabricate a contract. A contract that \<open>CreateFromProposal\<close> returns
  comes from a proposal the lookup service confirmed (a 2xx answer), on a project owned by the
  caller, not withdrawn or declined; its freelancer, project, fee and amount are the proposal's; and
  a fixed-price contract's milestones are positive and total the accepted bid, exactly so if their
  true sum is below \<open>2^63\<close>.
\<close>

theorem CreateFromProposal_terms:
  assumes "CreateFromProposal answer i s = (Inr c, t)"
  shows "\<exists>st p. answer = Answer st (Some p) \<and> 200 \<le> st \<and> st < 300 \<and>
    con_ClientID c = ci_ClientID i \<and> lp_ProjectClientID p = ci_ClientID i \<and>
    lp_Status p \<notin> {''withdrawn'', ''declined''} \<and> con_ProjectID c = lp_ProjectID p \<and>
    con_FreelancerID c = lp_FreelancerID p \<and> con_ClientID c \<noteq> con_FreelancerID c \<and>
    con_PlatformFeeBps c = 1000 \<and> con_Status c = ''pending_funding'' \<and>
    (con_BudgetType c = ''hourly'' \<longrightarrow> con_HourlyRateCents c = Some (lp_BidAmountCents p)) \<and>
    (con_BudgetType c = ''fixed'' \<longrightarrow> con_TotalAmountCents c = Some (lp_BidAmountCents p) \<and>
       (\<forall>m \<in> set (ci_Milestones i). 0 < mi_AmountCents m) \<and>
       (sum_list (map mi_AmountCents (ci_Milestones i)) < 2 ^ 63 \<longrightarrow>
          sum_list (map mi_AmountCents (ci_Milestones i)) = lp_BidAmountCents p))"
proof -
  from CreateFromProposal_effect [OF assms] obtain p i' uid where
    p: "lookup_get answer = Inr p" and terms: "deriveContractTerms i p = Inr i'"
    and c: "c = input_contract i' uid"
    and pos: "ci_BudgetType i' \<noteq> ''hourly'' \<Longrightarrow> \<forall>m \<in> set (ci_Milestones i'). 0 < mi_AmountCents m"
    by (metis (no_types, lifting))
  note T = deriveContractTerms_ok [OF terms]
  have exact: "sum_list (map mi_AmountCents (ci_Milestones i)) = lp_BidAmountCents p"
    if "ci_BudgetType i = ''fixed''" "sum_list (map mi_AmountCents (ci_Milestones i)) < 2 ^ 63"
  proof -
    from T that(1) have "ci_BudgetType i' = ''fixed''" "ci_Milestones i' = ci_Milestones i" by simp_all
    with pos have "0 \<le> sum_list (map mi_AmountCents (ci_Milestones i))"
      by (intro sum_list_nonneg) (auto simp: less_imp_le)
    with that(2) have "int64 (sum_list (map mi_AmountCents (ci_Milestones i)))
        = sum_list (map mi_AmountCents (ci_Milestones i))"
      by (intro int64_id) (simp add: is_int64_def)
    with T that(1) show ?thesis by simp
  qed
  from p obtain st where "answer = Answer st (Some p)" "200 \<le> st" "st < 300"
    by (auto simp: lookup_get_Inr)
  with T pos exact show ?thesis
    by (intro exI [of _ st] exI [of _ p]) (auto simp: c input_contract_def)
qed

theorem CreateFromProposal_terms_witness:
  "\<exists>c. fst demo_create = Inr c \<and> con_FreelancerID c = ''freelancer'' \<and> con_PlatformFeeBps c = 1000 \<and>
     con_TotalAmountCents c = Some 1000"
proof -
  have "\<not> isl (fst demo_create)" by code_simp
  then have "demo_create = (Inr (projr (fst demo_create)), snd demo_create)"
    by (simp add: prod_eq_iff)
  then have run: "CreateFromProposal (Answer 200 (Some demo_proposal))
     (demo_input [demo_ms_input 1 400, demo_ms_input 2 600]) (quiet ''n'' demo_keys)
     = (Inr (projr (fst demo_create)), snd demo_create)" by (simp add: demo_create_def)
  have "con_BudgetType (projr (fst demo_create)) = ''fixed''" by code_simp
  with CreateFromProposal_terms [OF run] \<open>demo_create = _\<close> show ?thesis
    by (intro exI [of _ "projr (fst demo_create)"]) (auto simp: demo_proposal_def prod_eq_iff)
qed

text \<open>
  The check that the milestones total the accepted bid is made in wrapping \<open>int64\<close> arithmetic:
  with a bid of 10.00, three positive milestones that total \<open>2^64 + 1000\<close> cents pass it.
\<close>

theorem milestone_sum_wraps:
  "\<exists>i'. deriveContractTerms (demo_input [demo_ms_input 1 (2 ^ 63 - 1), demo_ms_input 2 (2 ^ 63 - 1),
       demo_ms_input 3 1002]) demo_proposal = Inr i' \<and> ci_TotalAmountCents i' = Some 1000 \<and>
     sum_list (map mi_AmountCents (ci_Milestones i')) = 2 ^ 64 + 1000"
proof -
  let ?i = "demo_input [demo_ms_input 1 (2 ^ 63 - 1), demo_ms_input 2 (2 ^ 63 - 1), demo_ms_input 3 1002]"
  have "case deriveContractTerms ?i demo_proposal of Inl e \<Rightarrow> False
      | Inr i' \<Rightarrow> ci_TotalAmountCents i' = Some 1000 \<and>
          sum_list (map mi_AmountCents (ci_Milestones i')) = 2 ^ 64 + 1000"
    by code_simp
  then show ?thesis by (auto split: sum.splits)
qed

text \<open>
  When no statement fails, \<open>ActivateContract\<close> succeeds exactly for a contract that awaits
  funding, for every caller: the caller is recorded in the event log and not compared with the
  contract's parties.
\<close>

theorem ActivateContract_outcome:
  assumes "reliable s" and "contract_inv (committed s)"
  shows "fst (ActivateContract i actor s) =
    (case find_contract i (committed s) of
       None \<Rightarrow> Inl ErrInvalidState
     | Some c \<Rightarrow> if con_Status c = ''pending_funding'' then Inr () else Inl ErrInvalidState)"
proof -
  let ?cs = "contracts (committed s)"
  let ?P = "\<lambda>c. con_ID c = i \<and> con_Status c = ''pending_funding''"
  note dist = contract_invD(1) [OF assms(2)]
  have len: "length (filter ?P ?cs) = 1 \<longleftrightarrow> (\<exists>c. find_contract i (committed s) = Some c \<and>
      con_Status c = ''pending_funding'')"
    by (rule length_filter_key [OF dist])
  have get: "\<exists>c'. select_one (\<lambda>x. con_ID x = i) (update_where (\<lambda>c. con_ID c = i)
      (\<lambda>c. c\<lparr>con_StartedAt := y\<rparr>) (update_where ?P (\<lambda>c. c\<lparr>con_Status := ''active''\<rparr>) ?cs)) = Some c'"
    if "find_contract i (committed s) = Some c" for c y
  proof -
    from select_one_update_terms [OF that, of "\<lambda>c. c\<lparr>con_Status := ''active''\<rparr>" ?P] obtain c1 where
      "select_one (\<lambda>x. con_ID x = i) (update_where ?P (\<lambda>c. c\<lparr>con_Status := ''active''\<rparr>) ?cs) = Some c1"
      by auto
    from select_one_update_terms [OF this, of "\<lambda>c. c\<lparr>con_StartedAt := y\<rparr>" "\<lambda>c. con_ID c = i"]
    show ?thesis by auto
  qed
  have mem: "i \<in> con_ID ` set (update_where (\<lambda>c. con_ID c = i) (\<lambda>c. c\<lparr>con_StartedAt := y\<rparr>)
      (update_where ?P (\<lambda>c. c\<lparr>con_Status := ''active''\<rparr>) ?cs))"
    if "find_contract i (committed s) = Some c" for c y
    using get [OF that, of y] by (auto dest: select_one_SomeD)
  show ?thesis
  proof (cases "\<exists>c. find_contract i (committed s) = Some c \<and> con_Status c = ''pending_funding''")
    case True
    then obtain c where c: "find_contract i (committed s) = Some c" "con_Status c = ''pending_funding''" by blast
    from get [OF c(1), of "Some (clock s)"] obtain c' where
      "select_one (\<lambda>x. con_ID x = i) (update_where (\<lambda>c. con_ID c = i)
        (\<lambda>c. c\<lparr>con_StartedAt := Some (clock s)\<rparr>) (update_where ?P (\<lambda>c. c\<lparr>con_Status := ''active''\<rparr>) ?cs)) = Some c'" ..
    with True len c mem [OF c(1)] assms(1) show ?thesis
      by (simp add: ActivateContract_def TransitionContract_def MarkContractStarted_def GetContractTx_def
          InsertContractEvent_def Enqueue_def io_run Let_def)
  next
    case False
    with len assms(1) show ?thesis
      by (auto simp: ActivateContract_def TransitionContract_def io_run Let_def split: option.splits)
  qed
qed

theorem ActivateContract_outcome_witness:
  "fst (ActivateContract ''ni'' ''stranger'' (quiet ''b'' demo_created)) = Inr ()"
proof -
  have "contract_inv (committed (quiet ''b'' demo_created))"
    using contract_system.steps_inv [OF demo_contract_steps(1) demo_keys_inv] by simp
  note run = ActivateContract_outcome [OF reliable_quiet this]
  show ?thesis unfolding run by code_simp
qed

text \<open>
  Every operation of the contract service that writes is all or nothing: an error leaves the
  committed database as it was.
\<close>

theorem contract_all_or_nothing:
  "atomic (CreateFromProposal answer i) \<and> atomic (ActivateContract c u) \<and> atomic (FundMilestone m u) \<and>
   atomic (SubmitMilestone m u nt ks) \<and> atomic (ApproveMilestone m u) \<and>
   atomic (RaiseDispute c u v mo why amt)"
  by (simp add: atomic_contract_ops)

end
