(* ===== verification/Escrow_API.thy ===== *)
theory Escrow_API
  imports Escrow_Inv Rbac
begin

text \<open>
  \<open>services/escrow/internal/httpapi\<close>: the money endpoints with their guards, in the order the
  handlers run them. \<open>uid\<close> is the \<open>X-User-Id\<close> header, \<open>parties\<close> the contract service's answer to a
  parties lookup, a body of \<open>None\<close> one that does not parse.
\<close>

section \<open>Guards\<close>

definition mapError :: "err \<Rightarrow> response" where
  "mapError e =
     (if e = ErrNotFound then Problem 404 ''NOT_FOUND''
      else if e = ErrInsufficientFunds then Problem 409 ''INSUFFICIENT_FUNDS''
      else Problem 500 ''INTERNAL'')"

definition requireUser :: "string \<Rightarrow> response + string" where
  "requireUser uid = (if uid = '''' then Inl (Problem 401 ''UNAUTHENTICATED'') else Inr uid)"

definition resolveParties :: "(string \<Rightarrow> Parties http_answer) \<Rightarrow> string \<Rightarrow> response + Parties" where
  "resolveParties parties contractID =
     (case lookup_get (parties contractID) of
        Inl e \<Rightarrow> Inl (Problem 403 ''FORBIDDEN'')
      | Inr p \<Rightarrow> Inr p)"

definition requireClient :: "(string \<Rightarrow> Parties http_answer) \<Rightarrow> string \<Rightarrow> string \<Rightarrow> response + unit" where
  "requireClient parties uid contractID =
     (case resolveParties parties contractID of
        Inl resp \<Rightarrow> Inl resp
      | Inr p \<Rightarrow> if uid \<noteq> par_ClientID p then Inl (Problem 403 ''FORBIDDEN'') else Inr ())"

definition requireParty :: "(string \<Rightarrow> Parties http_answer) \<Rightarrow> string \<Rightarrow> string \<Rightarrow> response + unit" where
  "requireParty parties uid contractID =
     (case resolveParties parties contractID of
        Inl resp \<Rightarrow> Inl resp
      | Inr p \<Rightarrow> if \<not> IsParty p uid then Inl (Problem 403 ''FORBIDDEN'') else Inr ())"

definition contractIDForEscrow :: "string \<Rightarrow> (db, response + string) io" where
  "contractIDForEscrow escrowID =
     bindE (attempt (GetEscrow escrowID)) (\<lambda>r. ret (case r of
        Inl e \<Rightarrow> Inl (mapError e) | Inr e \<Rightarrow> Inr (esc_ContractID e)))"

section \<open>Answers\<close>

definition escrowDTO :: "Escrow \<Rightarrow> json" where
  "escrowDTO e = JObj [(''escrow_id'', JStr (esc_ID e)), (''contract_id'', JStr (esc_ContractID e)),
     (''currency'', JStr (esc_Currency e)), (''held_cents'', JInt (esc_HeldCents e)),
     (''released_cents'', JInt (esc_ReleasedCents e)), (''refunded_cents'', JInt (esc_RefundedCents e)),
     (''status'', JStr (esc_Status e)), (''created_at'', JInt (esc_CreatedAt e)),
     (''updated_at'', JInt (esc_UpdatedAt e))]"

definition allocationDTO :: "Allocation \<Rightarrow> json" where
  "allocationDTO a = JObj [(''allocation_id'', JStr (alc_ID a)), (''escrow_id'', JStr (alc_EscrowID a)),
     (''milestone_id'', opt_json JStr (alc_MilestoneID a)),
     (''billing_week'', opt_json JStr (alc_BillingWeek a)),
     (''amount_cents'', JInt (alc_AmountCents a)), (''status'', JStr (alc_Status a)),
     (''created_at'', JInt (alc_CreatedAt a)), (''released_at'', opt_json JInt (alc_ReleasedAt a))]"

section \<open>Handlers\<close>

record fundReq =
  fr_ContractID :: string
  fr_AmountCents :: int
  fr_Currency :: string
  fr_IdempotencyKey :: string

definition fund ::
  "(string \<Rightarrow> Parties http_answer) \<Rightarrow> string \<Rightarrow> fundReq option \<Rightarrow> (db, response) io" where
  "fund parties uid body =
     guarded (ret (requireUser uid)) (\<lambda>uid.
     guarded (ret (decode body)) (\<lambda>req.
     if fr_ContractID req = '''' then ret (Problem 400 ''MISSING_PARAM'') else
     guarded (ret (requireClient parties uid (fr_ContractID req))) (\<lambda>_.
     handle mapError
       (FundEscrow (fr_ContractID req) (fr_AmountCents req) (fr_Currency req) (fr_IdempotencyKey req))
       (\<lambda>e. Reply 201 (escrowDTO e)))))"

definition getEscrow :: "(string \<Rightarrow> Parties http_answer) \<Rightarrow> string \<Rightarrow> string \<Rightarrow> (db, response) io" where
  "getEscrow parties uid i =
     guarded (ret (requireUser uid)) (\<lambda>uid.
     guarded (contractIDForEscrow i) (\<lambda>contractID.
     guarded (ret (requireParty parties uid contractID)) (\<lambda>_.
     handle mapError (GetEscrow i) (\<lambda>e. Reply 200 (escrowDTO e)))))"

definition getByContract :: "(string \<Rightarrow> Parties http_answer) \<Rightarrow> string \<Rightarrow> string \<Rightarrow> (db, response) io" where
  "getByContract parties uid contractID =
     guarded (ret (requireUser uid)) (\<lambda>uid.
     if contractID = '''' then ret (Problem 400 ''MISSING_PARAM'') else
     guarded (ret (requireParty parties uid contractID)) (\<lambda>_.
     handle mapError (GetEscrowByContract contractID) (\<lambda>e. Reply 200 (escrowDTO e))))"

definition allocate ::
  "(string \<Rightarrow> Parties http_answer) \<Rightarrow> string \<Rightarrow> string \<Rightarrow> (string \<times> int) option \<Rightarrow> (db, response) io" where
  "allocate parties uid i body =
     guarded (ret (requireUser uid)) (\<lambda>uid.
     guarded (ret (decode body)) (\<lambda>(milestoneID, amountCents).
     if milestoneID = '''' then ret (Problem 400 ''MISSING_PARAM'') else
     guarded (contractIDForEscrow i) (\<lambda>contractID.
     guarded (ret (requireClient parties uid contractID)) (\<lambda>_.
     handle mapError (AllocateToMilestone i milestoneID amountCents)
       (\<lambda>a. Reply 201 (allocationDTO a))))))"

definition releaseMilestone ::
  "(string \<Rightarrow> Parties http_answer) \<Rightarrow> string \<Rightarrow> string \<Rightarrow> (string \<times> int) option \<Rightarrow> (db, response) io" where
  "releaseMilestone parties uid i body =
     guarded (ret (requireUser uid)) (\<lambda>uid.
     guarded (ret (decode body)) (\<lambda>(milestoneID, amountCents).
     if milestoneID = '''' then ret (Problem 400 ''MISSING_PARAM'') else
     guarded (contractIDForEscrow i) (\<lambda>contractID.
     guarded (ret (requireClient parties uid contractID)) (\<lambda>_.
     handle mapError (ReleaseMilestone i milestoneID amountCents)
       (\<lambda>e. Reply 200 (escrowDTO e))))))"

definition releaseHours ::
  "(string \<Rightarrow> Parties http_answer) \<Rightarrow> string \<Rightarrow> string \<Rightarrow> (string \<times> int) option \<Rightarrow> (db, response) io" where
  "releaseHours parties uid i body =
     guarded (ret (requireUser uid)) (\<lambda>uid.
     guarded (ret (decode body)) (\<lambda>(billingWeek, amountCents).
     if billingWeek = '''' then ret (Problem 400 ''MISSING_PARAM'') else
     guarded (contractIDForEscrow i) (\<lambda>contractID.
     guarded (ret (requireClient parties uid contractID)) (\<lambda>_.
     handle mapError (ReleaseHours i billingWeek amountCents)
       (\<lambda>e. Reply 200 (escrowDTO e))))))"

definition refund ::
  "(string \<Rightarrow> Parties http_answer) \<Rightarrow> string \<Rightarrow> string \<Rightarrow> (int \<times> string) option \<Rightarrow> (db, response) io" where
  "refund parties uid i body =
     guarded (ret (requireUser uid)) (\<lambda>uid.
     guarded (ret (decode body)) (\<lambda>(amountCents, reason).
     guarded (contractIDForEscrow i) (\<lambda>contractID.
     guarded (ret (requireClient parties uid contractID)) (\<lambda>_.
     handle mapError (RefundEscrow i amountCents reason) (\<lambda>e. Reply 200 (escrowDTO e))))))"

definition listAllocations :: "(string \<Rightarrow> Parties http_answer) \<Rightarrow> string \<Rightarrow> string \<Rightarrow> (db, response) io" where
  "listAllocations parties uid i =
     guarded (ret (requireUser uid)) (\<lambda>uid.
     guarded (contractIDForEscrow i) (\<lambda>contractID.
     guarded (ret (requireParty parties uid contractID)) (\<lambda>_.
     handle mapError (ListAllocations i)
       (\<lambda>as. Reply 200 (JObj [(''allocations'', JArr (map allocationDTO as))])))))"

section \<open>Nothing changes without the client\<close>

lemma requireClient_Inr:
  "requireClient parties uid c = Inr x \<longleftrightarrow>
     (\<exists>p. lookup_get (parties c) = Inr p \<and> par_ClientID p = uid)"
  by (auto simp: requireClient_def resolveParties_def split: sum.splits)

lemma requireParty_Inr:
  "requireParty parties uid c = Inr x \<longleftrightarrow>
     (\<exists>p. lookup_get (parties c) = Inr p \<and> IsParty p uid)"
  by (auto simp: requireParty_def resolveParties_def split: sum.splits)

lemma requireUser_Inr: "requireUser uid = Inr x \<longleftrightarrow> uid \<noteq> '''' \<and> x = uid"
  by (auto simp: requireUser_def)

lemma decode_Inr: "decode body = Inr x \<longleftrightarrow> body = Some x"
  by (auto simp: decode_def split: option.splits)

text \<open>A guarded handler that changed the committed database got past its guard.\<close>

lemma guarded_changed:
  assumes "committed (snd (guarded m f s)) \<noteq> committed s" and "keeps m"
  shows "\<exists>x t. m s = (Inr (Inr x), t) \<and> committed t = committed s \<and>
    committed (snd (f x t)) \<noteq> committed t"
proof (cases "m s")
  case (Pair r t)
  with assms(2) have "committed t = committed s" by (auto dest: keepsD)
  with Pair assms(1) show ?thesis by (auto simp: guarded_run split: sum.splits)
qed

lemma keeps_contractIDForEscrow [io_keeps]: "keeps (contractIDForEscrow i)"
  unfolding contractIDForEscrow_def by (intro io_keeps)

lemma contractIDForEscrow_Inr:
  assumes "contractIDForEscrow i s = (Inr (Inr c), t)"
  shows "\<exists>e. find_escrow i (committed s) = Some e \<and> esc_ContractID e = c"
  using assms by (auto simp: contractIDForEscrow_def io_ok GetEscrow_def split: sum.splits)

definition authorised :: "(string \<Rightarrow> Parties http_answer) \<Rightarrow> string \<Rightarrow> string \<Rightarrow> bool" where
  "authorised parties uid c \<longleftrightarrow> uid \<noteq> '''' \<and>
     (\<exists>p. lookup_get (parties c) = Inr p \<and> par_ClientID p = uid)"

lemma fund_changed:
  assumes "committed (snd (fund parties uid body s)) \<noteq> committed s"
  shows "\<exists>req. body = Some req \<and> authorised parties uid (fr_ContractID req)"
  using assms unfolding fund_def
  by (auto simp: guarded_ret requireUser_Inr decode_Inr requireClient_Inr authorised_def run_basic(1)
      split: if_splits sum.splits)

lemma escrow_id_changed:
  assumes "committed (snd (guarded (contractIDForEscrow i) (\<lambda>c.
      guarded (ret (requireClient parties uid c)) f) s)) \<noteq> committed s" and "uid \<noteq> ''''"
  shows "\<exists>e. find_escrow i (committed s) = Some e \<and> authorised parties uid (esc_ContractID e)"
proof -
  from guarded_changed [OF assms(1)] obtain c t where
    c: "contractIDForEscrow i s = (Inr (Inr c), t)" and
    g: "committed (snd (guarded (ret (requireClient parties uid c)) f t)) \<noteq> committed t"
    by (auto intro!: io_keeps)
  from g have "\<exists>p. lookup_get (parties c) = Inr p \<and> par_ClientID p = uid"
    by (auto simp: guarded_ret requireClient_Inr split: sum.splits)
  with contractIDForEscrow_Inr [OF c] assms(2) show ?thesis by (auto simp: authorised_def)
qed

lemma escrow_handlers_changed:
  "committed (snd (allocate parties uid i b1 s)) \<noteq> committed s \<Longrightarrow>
     \<exists>e. find_escrow i (committed s) = Some e \<and> authorised parties uid (esc_ContractID e)"
  "committed (snd (releaseMilestone parties uid i b1 s)) \<noteq> committed s \<Longrightarrow>
     \<exists>e. find_escrow i (committed s) = Some e \<and> authorised parties uid (esc_ContractID e)"
  "committed (snd (releaseHours parties uid i b1 s)) \<noteq> committed s \<Longrightarrow>
     \<exists>e. find_escrow i (committed s) = Some e \<and> authorised parties uid (esc_ContractID e)"
  "committed (snd (refund parties uid i b2 s)) \<noteq> committed s \<Longrightarrow>
     \<exists>e. find_escrow i (committed s) = Some e \<and> authorised parties uid (esc_ContractID e)"
  unfolding allocate_def releaseMilestone_def releaseHours_def refund_def
  by (auto dest!: escrow_id_changed simp: guarded_ret [of "requireUser uid"] guarded_ret [of "decode b" for b]
      requireUser_Inr decode_Inr run_basic(1) split: if_splits prod.splits sum.splits)

lemma escrow_reads_keep:
  "keeps (getEscrow parties uid i)" "keeps (getByContract parties uid c)"
  "keeps (listAllocations parties uid i)"
  unfolding getEscrow_def getByContract_def listAllocations_def guarded_def handle_def
  by (intro io_keeps)+

end
