(* ===== verification/Contract_API.thy ===== *)
theory Contract_API
  imports Contract_Inv
begin

text \<open>
  \<open>services/contract/internal/httpapi\<close>: the handlers with their guards and the internal parties
  endpoint other services authorise against. \<open>uid\<close> is the \<open>X-User-Id\<close> header; times in a body
  are already parsed.
\<close>

section \<open>Errors and bodies\<close>

definition mapError :: "err \<Rightarrow> response" where
  "mapError e =
     (if e = ErrInvalidParties then Problem 400 ''INVALID_PARTIES''
      else if e = ErrNoMilestones then Problem 400 ''NO_MILESTONES''
      else if e = ErrProposalRequired then Problem 400 ''PROPOSAL_REQUIRED''
      else if e = ErrProposalMismatch then Problem 400 ''PROPOSAL_MISMATCH''
      else if e = ErrProposalNotSelected then Problem 409 ''PROPOSAL_NOT_SELECTED''
      else if e = ErrInvalidState then Problem 409 ''INVALID_STATE''
      else if e = ErrInvalidMilestoneState then Problem 409 ''INVALID_MILESTONE_STATE''
      else if e = ErrNotFound then Problem 404 ''NOT_FOUND''
      else if e = ErrForbidden then Problem 403 ''FORBIDDEN''
      else Problem 500 ''INTERNAL'')"

definition unauthorized :: "('d, response) io" where
  "unauthorized = ret (Problem 401 ''UNAUTHORIZED'')"

definition contractJSON :: "Contract \<Rightarrow> (string \<times> json) list" where
  "contractJSON c = [(''id'', JStr (con_ID c)), (''project_id'', JStr (con_ProjectID c)),
     (''proposal_id'', JStr (con_ProposalID c)), (''client_id'', JStr (con_ClientID c)),
     (''freelancer_id'', JStr (con_FreelancerID c)), (''budget_type'', JStr (con_BudgetType c)),
     (''currency'', JStr (con_Currency c)),
     (''total_amount_cents'', opt_json JInt (con_TotalAmountCents c)),
     (''hourly_rate_cents'', opt_json JInt (con_HourlyRateCents c)),
     (''weekly_hour_limit'', opt_json JInt (con_WeeklyHourLimit c)),
     (''status'', JStr (con_Status c)), (''platform_fee_bps'', JInt (con_PlatformFeeBps c)),
     (''started_at'', opt_json JInt (con_StartedAt c)), (''ended_at'', opt_json JInt (con_EndedAt c)),
     (''end_reason'', opt_json JStr (con_EndReason c))]"

definition milestoneJSON :: "Milestone \<Rightarrow> json" where
  "milestoneJSON m = JObj [(''id'', JStr (ms_ID m)), (''contract_id'', JStr (ms_ContractID m)),
     (''seq'', JInt (ms_Seq m)), (''title'', JStr (ms_Title m)),
     (''description'', opt_json JStr (ms_Description m)), (''amount_cents'', JInt (ms_AmountCents m)),
     (''status'', JStr (ms_Status m)), (''due_at'', opt_json JInt (ms_DueAt m)),
     (''funded_at'', opt_json JInt (ms_FundedAt m)), (''submitted_at'', opt_json JInt (ms_SubmittedAt m)),
     (''approved_at'', opt_json JInt (ms_ApprovedAt m)), (''released_at'', opt_json JInt (ms_ReleasedAt m))]"

definition contractEventJSON :: "ContractEvent \<Rightarrow> json" where
  "contractEventJSON e = JObj [(''from_status'', opt_json JStr (ce_FromStatus e)),
     (''to_status'', JStr (ce_ToStatus e)), (''event'', JStr (ce_Event e)),
     (''actor_id'', opt_json JStr (ce_ActorID e)), (''payload'', ce_Payload e),
     (''created_at'', JInt (ce_CreatedAt e))]"

definition success :: response where
  "success = Reply 200 (JObj [(''success'', JBool True)])"

section \<open>Handlers\<close>

text \<open>The request's milestones: a \<open>due_at\<close> that is no RFC 3339 time is \<open>Some None\<close>.\<close>

record milestoneReq =
  mr_Seq :: int
  mr_Title :: string
  mr_Description :: "string option"
  mr_AmountCents :: int
  mr_DueAt :: "int option option"

fun milestone_inputs :: "milestoneReq list \<Rightarrow> MilestoneInput list option" where
  "milestone_inputs [] = Some []"
| "milestone_inputs (m # ms) =
     (if mr_DueAt m = Some None then None
      else map_option (\<lambda>r. \<lparr>mi_Seq = mr_Seq m, mi_Title = mr_Title m,
             mi_Description = mr_Description m, mi_AmountCents = mr_AmountCents m,
             mi_DueAt = Option.bind (mr_DueAt m) (\<lambda>t. t)\<rparr> # r) (milestone_inputs ms))"

record createReq =
  cr_ProjectID :: string
  cr_ProposalID :: string
  cr_ClientID :: string
  cr_FreelancerID :: string
  cr_BudgetType :: string
  cr_Currency :: string
  cr_TotalAmountCents :: "int option"
  cr_HourlyRateCents :: "int option"
  cr_WeeklyHourLimit :: "int option"
  cr_PlatformFeeBps :: int
  cr_Milestones :: "milestoneReq list"

definition create ::
  "(string \<Rightarrow> LookupProposal http_answer) \<Rightarrow> string \<Rightarrow> createReq option \<Rightarrow> (db, response) io" where
  "create lookup uid body =
     (if uid = '''' then unauthorized else
      guarded (ret (decode body)) (\<lambda>req.
      if cr_BudgetType req \<noteq> ''fixed'' \<and> cr_BudgetType req \<noteq> ''hourly''
      then ret (Problem 400 ''VALIDATION_FAILED'')
      else if cr_ClientID req \<noteq> uid then ret (Problem 403 ''FORBIDDEN'')
      else (case milestone_inputs (cr_Milestones req) of
         None \<Rightarrow> ret (Problem 400 ''VALIDATION_FAILED'')
       | Some ms \<Rightarrow>
           handle mapError
             (CreateFromProposal (lookup (cr_ProposalID req))
                \<lparr>ci_ProjectID = cr_ProjectID req, ci_ProposalID = cr_ProposalID req,
                 ci_ClientID = cr_ClientID req, ci_FreelancerID = cr_FreelancerID req,
                 ci_BudgetType = cr_BudgetType req, ci_Currency = cr_Currency req,
                 ci_TotalAmountCents = cr_TotalAmountCents req,
                 ci_HourlyRateCents = cr_HourlyRateCents req,
                 ci_WeeklyHourLimit = cr_WeeklyHourLimit req,
                 ci_PlatformFeeBps = cr_PlatformFeeBps req, ci_Milestones = ms\<rparr>)
             (\<lambda>c. Reply 201 (JObj (contractJSON c))))))"

definition get_handler :: "string \<Rightarrow> string \<Rightarrow> (db, response) io" where
  "get_handler uid i =
     (if uid = '''' then unauthorized else
      handle mapError (GetContract i uid) (\<lambda>(c, ms).
        Reply 200 (JObj (contractJSON c @ [(''milestones'', JArr (map milestoneJSON ms))]))))"

definition events_handler :: "string \<Rightarrow> string \<Rightarrow> (db, response) io" where
  "events_handler uid i =
     (if uid = '''' then unauthorized else
      handle mapError (ContractEvents i uid) (\<lambda>es.
        Reply 200 (JObj [(''events'', JArr (map contractEventJSON es))])))"

definition list_handler :: "string \<Rightarrow> string \<Rightarrow> (db, response) io" where
  "list_handler uid role =
     (if uid = '''' then unauthorized else
      handle mapError (ListContractsForUser uid role) (\<lambda>cs.
        Reply 200 (JObj [(''contracts'', JArr (map (\<lambda>c. JObj (contractJSON c)) cs))])))"

definition activate_handler :: "string \<Rightarrow> string \<Rightarrow> (db, response) io" where
  "activate_handler uid i =
     (if uid = '''' then unauthorized else
      handle mapError (ActivateContract i uid) (\<lambda>_. success))"

definition fundMilestone_handler :: "string \<Rightarrow> string \<Rightarrow> (db, response) io" where
  "fundMilestone_handler uid mid =
     (if uid = '''' then unauthorized else
      handle mapError (FundMilestone mid uid) (\<lambda>_. success))"

text \<open>With \<open>ContentLength\<close> 0 the body is not read and the request stays empty.\<close>

definition submitMilestone_handler ::
  "string \<Rightarrow> string \<Rightarrow> int \<Rightarrow> (string \<times> string list option) option \<Rightarrow> (db, response) io" where
  "submitMilestone_handler uid mid contentLength body =
     (if uid = '''' then unauthorized else
      guarded (ret (if contentLength \<noteq> 0 then decode body else Inr ('''', None))) (\<lambda>(nt, s3Keys).
      handle mapError (SubmitMilestone mid uid nt s3Keys) (\<lambda>_. success)))"

definition approveMilestone_handler :: "string \<Rightarrow> string \<Rightarrow> (db, response) io" where
  "approveMilestone_handler uid mid =
     (if uid = '''' then unauthorized else
      handle mapError (ApproveMilestone mid uid) (\<lambda>_. success))"

record disputeReq =
  dr_Against :: string
  dr_MilestoneID :: "string option"
  dr_Reason :: string
  dr_AmountCents :: "int option"

definition raiseDispute_handler :: "string \<Rightarrow> string \<Rightarrow> disputeReq option \<Rightarrow> (db, response) io" where
  "raiseDispute_handler uid i body =
     (if uid = '''' then unauthorized else
      guarded (ret (decode body)) (\<lambda>req.
      if dr_Against req = '''' \<or> dr_Reason req = '''' then ret (Problem 400 ''VALIDATION_FAILED'') else
      handle mapError
        (RaiseDispute i uid (dr_Against req) (dr_MilestoneID req) (dr_Reason req) (dr_AmountCents req))
        (\<lambda>did. Reply 201 (JObj [(''dispute_id'', JStr did)]))))"

section \<open>The internal parties endpoint\<close>

definition internalParties :: "string \<Rightarrow> (db, response + Parties) io" where
  "internalParties i =
     bindE (attempt (ContractParties i)) (\<lambda>r. ret (case r of
        Inl e \<Rightarrow> Inl (mapError e)
      | Inr (clientID, freelancerID, status) \<Rightarrow>
          Inr \<lparr>par_ContractID = i, par_ClientID = clientID, par_FreelancerID = freelancerID,
               par_Status = status\<rparr>))"

text \<open>What the caller's HTTP client sees of an answer of the endpoint.\<close>

definition parties_answer :: "db conn \<Rightarrow> string \<Rightarrow> Parties http_answer" where
  "parties_answer s i = (case fst (internalParties i s) of
     Inl e \<Rightarrow> TransportError
   | Inr (Inl resp) \<Rightarrow> Answer (status_of resp) None
   | Inr (Inr p) \<Rightarrow> Answer 200 (Some p))"

lemma parties_answer_sound:
  "lookup_get (parties_answer s i) = Inr p \<Longrightarrow>
     \<exists>c. find_contract i (committed s) = Some c \<and> par_ClientID p = con_ClientID c \<and>
       par_FreelancerID p = con_FreelancerID c \<and> par_Status p = con_Status c"
proof -
  assume "lookup_get (parties_answer s i) = Inr p"
  then obtain t where "internalParties i s = (Inr (Inr p), t)"
    by (auto simp: lookup_get_Inr parties_answer_def prod_eq_iff split: sum.splits)
  then show ?thesis
    by (auto simp: internalParties_def ContractParties_def Contract_Store.GetContract_def io_ok
        split: sum.splits)
qed

lemma parties_answer_complete:
  "reliable s \<Longrightarrow> find_contract i (committed s) = Some c \<Longrightarrow>
   lookup_get (parties_answer s i) = Inr \<lparr>par_ContractID = i, par_ClientID = con_ClientID c,
     par_FreelancerID = con_FreelancerID c, par_Status = con_Status c\<rparr>"
  by (simp add: parties_answer_def internalParties_def ContractParties_def
      Contract_Store.GetContract_def io_run lookup_get_def)

end
