(* ===== verification/Money_Auth.thy ===== *)
theory Money_Auth
  imports Escrow_API Contract_API
begin

text \<open>
  Escrow relies on the contract service to know who a contract's client is. The interface is a
  locale: an endpoint whose positive answers are the parties of a stored contract. The contract
  service's internal endpoint implements it, so the money endpoints obey the contract's client.
\<close>

section \<open>The interface\<close>

locale parties_service =
  fixes parties :: "db conn \<Rightarrow> string \<Rightarrow> Parties http_answer"
  assumes parties_sound: "lookup_get (parties s c) = Inr p \<Longrightarrow>
    \<exists>con. find_contract c (committed s) = Some con \<and> par_ClientID p = con_ClientID con \<and>
      par_FreelancerID p = con_FreelancerID con"
begin

lemma authorised_client:
  "authorised (parties s) uid c \<Longrightarrow>
   \<exists>con. find_contract c (committed s) = Some con \<and> con_ClientID con = uid"
  by (auto simp: authorised_def dest: parties_sound)

lemma fund_by_client:
  assumes "committed (snd (fund (parties s0) uid body s)) \<noteq> committed s"
  shows "\<exists>req con. body = Some req \<and> find_contract (fr_ContractID req) (committed s0) = Some con \<and>
    con_ClientID con = uid"
  using fund_changed [OF assms] by (auto dest: authorised_client)

lemma account_by_client:
  assumes "committed (snd (allocate (parties s0) uid i b1 s)) \<noteq> committed s \<or>
    committed (snd (releaseMilestone (parties s0) uid i b1 s)) \<noteq> committed s \<or>
    committed (snd (releaseHours (parties s0) uid i b1 s)) \<noteq> committed s \<or>
    committed (snd (refund (parties s0) uid i b2 s)) \<noteq> committed s"
  shows "\<exists>e con. find_escrow i (committed s) = Some e \<and>
    find_contract (esc_ContractID e) (committed s0) = Some con \<and> con_ClientID con = uid"
  using assms by (elim disjE) (drule escrow_handlers_changed, auto dest: authorised_client)+

lemma shown_to_party:
  assumes "fst (getEscrow (parties s0) uid i s) = Inr (Reply st b)"
  shows "\<exists>e con. find_escrow i (committed s) = Some e \<and>
    find_contract (esc_ContractID e) (committed s0) = Some con \<and>
    uid \<in> {con_ClientID con, con_FreelancerID con}"
proof -
  from assms obtain c t p where c: "contractIDForEscrow i s = (Inr (Inr c), t)"
    and p: "lookup_get (parties s0 c) = Inr p" "IsParty p uid"
    by (cases "contractIDForEscrow i s")
      (auto simp: getEscrow_def guarded_ret guarded_run requireUser_def Escrow_API.requireParty_def resolveParties_def
        Escrow_API.mapError_def contractIDForEscrow_def io_run split: sum.splits if_splits prod.splits)
  from contractIDForEscrow_Inr [OF c] parties_sound [OF p(1)] p(2) show ?thesis
    by (auto simp: IsParty_def)
qed

end

interpretation internal_parties: parties_service parties_answer
  by unfold_locales (auto dest: parties_answer_sound)

section \<open>Properties\<close>

definition demo_money :: db where
  "demo_money = committed (snd (FundEscrow ''c1'' 1000 ''USD'' ''k1'' (quiet ''f'' demo_db)))"

definition demo_fundReq :: fundReq where
  "demo_fundReq = \<lparr>fr_ContractID = ''c1'', fr_AmountCents = 500, fr_Currency = ''USD'',
     fr_IdempotencyKey = ''''\<rparr>"

definition demo_fund :: "string \<Rightarrow> (err + response) \<times> db conn" where
  "demo_fund uid = fund (parties_answer (quiet ''p'' demo_db)) uid (Some demo_fundReq)
     (quiet ''q'' demo_db)"

text \<open>
  C9: No money endpoint changes anything unless the authenticated caller is the client of the
  contract concerned. If \<open>fund\<close> changed the database, the caller is the client of the contract in
  the request; if \<open>allocate\<close>, \<open>releaseMilestone\<close>, \<open>releaseHours\<close> or \<open>refund\<close> did, the caller is the
  client of the contract the escrow account belongs to, as the contract service stores it. A lookup
  that fails in any way denies.
\<close>

theorem money_needs_client:
  "(committed (snd (fund (parties_answer s0) uid body s)) \<noteq> committed s \<longrightarrow>
      (\<exists>req con. body = Some req \<and> find_contract (fr_ContractID req) (committed s0) = Some con \<and>
         con_ClientID con = uid)) \<and>
   (committed (snd (allocate (parties_answer s0) uid i b1 s)) \<noteq> committed s \<or>
    committed (snd (releaseMilestone (parties_answer s0) uid i b1 s)) \<noteq> committed s \<or>
    committed (snd (releaseHours (parties_answer s0) uid i b1 s)) \<noteq> committed s \<or>
    committed (snd (refund (parties_answer s0) uid i b2 s)) \<noteq> committed s \<longrightarrow>
      (\<exists>e con. find_escrow i (committed s) = Some e \<and>
         find_contract (esc_ContractID e) (committed s0) = Some con \<and> con_ClientID con = uid))"
  using internal_parties.fund_by_client internal_parties.account_by_client by (intro conjI impI)

theorem money_needs_client_witness:
  "committed (snd (demo_fund ''client'')) \<noteq> demo_db \<and> committed (snd (demo_fund ''freelancer'')) = demo_db \<and>
   (\<exists>con. find_contract ''c1'' demo_db = Some con \<and> con_ClientID con = ''client'')"
proof -
  have "length (escrow_accounts (committed (snd (demo_fund ''client'')))) = 1"
    "length (escrow_accounts demo_db) = 0" by code_simp+
  then have changed: "committed (snd (demo_fund ''client'')) \<noteq> demo_db" by force
  have c1: "find_contract ''c1'' demo_db = Some demo_contract" "con_ClientID demo_contract = ''client''"
    by code_simp+
  have "committed (snd (demo_fund ''freelancer'')) = demo_db"
  proof (rule ccontr)
    assume "committed (snd (demo_fund ''freelancer'')) \<noteq> demo_db"
    with money_needs_client [THEN conjunct1, of "quiet ''p'' demo_db" "''freelancer''"
        "Some demo_fundReq" "quiet ''q'' demo_db"] c1
    show False by (auto simp: demo_fund_def demo_fundReq_def)
  qed
  with changed c1 show ?thesis by blast
qed

text \<open>
  An escrow account is shown only to the client or the freelancer of its contract.
\<close>

theorem escrow_shown_to_party:
  assumes "fst (getEscrow (parties_answer s0) uid i s) = Inr (Reply st b)"
  shows "\<exists>e con. find_escrow i (committed s) = Some e \<and>
    find_contract (esc_ContractID e) (committed s0) = Some con \<and>
    uid \<in> {con_ClientID con, con_FreelancerID con}"
  by (rule internal_parties.shown_to_party [OF assms])

theorem escrow_shown_to_party_witness:
  "\<exists>e con. find_escrow ''fi'' demo_money = Some e \<and>
    find_contract (esc_ContractID e) demo_money = Some con \<and>
    ''freelancer'' \<in> {con_ClientID con, con_FreelancerID con}"
proof -
  let ?run = "getEscrow (parties_answer (quiet ''p'' demo_money)) ''freelancer'' ''fi'' (quiet ''q'' demo_money)"
  have "case fst ?run of Inr (Reply st b) \<Rightarrow> True | _ \<Rightarrow> False" by code_simp
  then obtain st b where "fst ?run = Inr (Reply st b)" by (auto split: sum.splits response.splits)
  from escrow_shown_to_party [OF this] show ?thesis by simp
qed

end
