(* ===== verification/Payment.thy ===== *)
theory Payment
  imports Outbox Ledger Go_Text
begin

text \<open>
  \<open>services/payment/internal\<close>: creating payment intents, confirming a payment, the Stripe webhook
  with its signature check and event de-duplication, and the deposit postings on the shared ledger.
  The Stripe API, HMAC-SHA256 and the JSON parser are arguments. The clock counts nanoseconds since
  the Unix epoch.
\<close>

section \<open>Store\<close>

text \<open>The constraints of migration 000008 on a new \<open>payments\<close> row.\<close>

definition payment_row_check :: "Payment \<Rightarrow> db \<Rightarrow> err option" where
  "payment_row_check p d =
     (if \<not> is_int64 (pay_AmountCents p) then Some NumericOutOfRange
      else if pay_AmountCents p \<le> 0 then Some CheckViolation
      else if pay_ID p \<in> pay_ID ` set (payments d)
         \<or> (\<exists>k \<in> set_option (pay_IdempotencyKey p). \<exists>q \<in> set (payments d). pay_IdempotencyKey q = Some k)
         \<or> (\<exists>i \<in> set_option (pay_StripePaymentIntentID p). \<exists>q \<in> set (payments d).
              pay_StripePaymentIntentID q = Some i)
      then Some UniqueViolation
      else if (''users'', pay_PayerID p) \<notin> set (other_keys d)
         \<or> (\<exists>c \<in> set_option (pay_ContractID p). c \<notin> con_ID ` set (contracts d))
      then Some ForeignKeyViolation else None)"

definition InsertPayment ::
  "string \<Rightarrow> string option \<Rightarrow> int \<Rightarrow> string \<Rightarrow> string \<Rightarrow> string option \<Rightarrow> (db, Payment) io" where
  "InsertPayment payerID contractID amountCents currency intentID idempotencyKey =
     map_error (\<lambda>e. if e = UniqueViolation then ErrDuplicateKey else e) (tx_stmt (\<lambda>now uid d.
       case char3 currency of None \<Rightarrow> Inl CheckViolation
       | Some cur \<Rightarrow>
           let p = \<lparr>pay_ID = uid, pay_ContractID = contractID, pay_PayerID = payerID,
                    pay_AmountCents = amountCents, pay_Currency = cur, pay_Status = ''processing'',
                    pay_StripePaymentIntentID = Some intentID, pay_StripeChargeID = None,
                    pay_IdempotencyKey = idempotencyKey, pay_FailureReason = None,
                    pay_CreatedAt = now, pay_UpdatedAt = now\<rparr>
           in (case payment_row_check p d of
                 Some e \<Rightarrow> Inl e
               | None \<Rightarrow> Inr (p, d\<lparr>payments := payments d @ [p]\<rparr>))))"

definition GetPayment :: "string \<Rightarrow> (db, Payment) io" where
  "GetPayment i = scan_row (pool_query (\<lambda>d. select_one (\<lambda>p. pay_ID p = i) (payments d)))"

definition GetPaymentByIdempotencyKey :: "string \<Rightarrow> (db, Payment) io" where
  "GetPaymentByIdempotencyKey key =
     scan_row (pool_query (\<lambda>d. select_one (\<lambda>p. pay_IdempotencyKey p = Some key) (payments d)))"

definition GetPaymentByIntent :: "string \<Rightarrow> (db, Payment) io" where
  "GetPaymentByIntent intentID = scan_row (tx_stmt (\<lambda>now uid d.
     Inr (select_one (\<lambda>p. pay_StripePaymentIntentID p = Some intentID) (payments d), d)))"

definition succeeded :: "int \<Rightarrow> string \<Rightarrow> Payment \<Rightarrow> Payment" where
  "succeeded now chargeID p = p\<lparr>pay_Status := ''succeeded'', pay_StripeChargeID := Some chargeID,
     pay_UpdatedAt := now\<rparr>"

definition MarkSucceeded :: "string \<Rightarrow> string \<Rightarrow> (db, Payment) io" where
  "MarkSucceeded i chargeID = scan_row (tx_stmt (\<lambda>now uid d.
     let P = (\<lambda>p. pay_ID p = i \<and> pay_Status p = ''processing'') in
     Inr (map_option (succeeded now chargeID) (select_one P (payments d)),
       d\<lparr>payments := update_where P (succeeded now chargeID) (payments d)\<rparr>)))"

definition ListPaymentsForContract :: "string \<Rightarrow> (db, Payment list) io" where
  "ListPaymentsForContract contractID =
     pool_query (\<lambda>d. rev (filter (\<lambda>p. pay_ContractID p = Some contractID) (payments d)))"

record PayLeg =
  pl_Type :: string
  pl_AccountKind :: string
  pl_AccountRef :: "string option"
  pl_ContractID :: "string option"
  pl_AmountCents :: int
  pl_Currency :: string
  pl_PaymentID :: "string option"
  pl_Memo :: "string option"

definition pay_leg_txn :: "string \<Rightarrow> PayLeg \<Rightarrow> txn_row" where
  "pay_leg_txn txnGroup l =
     \<lparr>txn_group = txnGroup, txn_type = pl_Type l, txn_account_kind = pl_AccountKind l,
      txn_account_ref = pl_AccountRef l, txn_contract_id = pl_ContractID l,
      txn_amount_cents = pl_AmountCents l, txn_currency = pl_Currency l,
      txn_payment_id = pl_PaymentID l, txn_memo = pl_Memo l\<rparr>"

fun insert_pay_legs :: "string \<Rightarrow> PayLeg list \<Rightarrow> (db, unit) io" where
  "insert_pay_legs g [] = ret ()"
| "insert_pay_legs g (l # ls) =
     bindE (tx_stmt (\<lambda>now uid d.
        if \<not> is_int64 (pl_AmountCents l) then Inl NumericOutOfRange
        else if \<exists>p \<in> set_option (pl_PaymentID l). p \<notin> pay_ID ` set (payments d)
        then Inl ForeignKeyViolation
        else Inr ((), d\<lparr>transactions := transactions d @ [pay_leg_txn g l]\<rparr>)))
      (\<lambda>_. insert_pay_legs g ls)"

definition WriteLegs :: "string \<Rightarrow> PayLeg list \<Rightarrow> (db, unit) io" where
  "WriteLegs txnGroup legs =
     (if sum_int64 0 (map pl_AmountCents legs) \<noteq> 0
      then throw (Errorf ''store: unbalanced ledger txn_group'')
      else insert_pay_legs txnGroup legs)"

definition InsertStripeEvent :: "string \<Rightarrow> string \<Rightarrow> string \<Rightarrow> (db, bool) io" where
  "InsertStripeEvent i typ payload = tx_stmt (\<lambda>now uid d.
     if i \<in> se_id ` set (stripe_events d) then Inr (False, d)
     else Inr (True, d\<lparr>stripe_events := stripe_events d @
            [\<lparr>se_id = i, se_type = typ, se_payload = payload, se_processed_at = None\<rparr>]\<rparr>))"

definition MarkStripeEventProcessed :: "string \<Rightarrow> (db, unit) io" where
  "MarkStripeEventProcessed i = tx_stmt (\<lambda>now uid d.
     Inr ((), d\<lparr>stripe_events := update_where (\<lambda>r. se_id r = i) (\<lambda>r. r\<lparr>se_processed_at := Some now\<rparr>)
       (stripe_events d)\<rparr>))"

section \<open>The Stripe client\<close>

type_synonym stripe_client = "int \<Rightarrow> string \<Rightarrow> string \<Rightarrow> (db, string \<times> string) io"

definition stubStripe :: stripe_client where
  "stubStripe amountCents currency idempotencyKey =
     bindE new_id (\<lambda>a. bindE new_id (\<lambda>b. ret (''pi_'' @ a, ''secret_'' @ b)))"

definition RealStripeKey :: "string \<Rightarrow> bool" where
  "RealStripeKey secretKey =
     (if secretKey = '''' then False
      else if secretKey \<in> {''changeme'', ''placeholder'', ''sk_test_xxx'', ''sk_live_xxx'', ''xxx'', ''none''}
      then False
      else has_prefix secretKey ''sk_'' \<or> has_prefix secretKey ''rk_'')"

text \<open>\<open>NewWithStripe\<close>: the live client (an argument) for a real key, the stub otherwise.\<close>

definition select_stripe :: "stripe_client \<Rightarrow> string \<Rightarrow> stripe_client" where
  "select_stripe live secretKey = (if RealStripeKey secretKey then live else stubStripe)"

definition stripeCurrency :: "string \<Rightarrow> string" where
  "stripeCurrency currency =
     (if currency = '''' then ''usd''
      else map (\<lambda>c. if 65 \<le> (of_char c :: nat) \<and> (of_char c :: nat) \<le> 90
                    then char_of ((of_char c :: nat) + 32) else c) currency)"

section \<open>Payments\<close>

record CreateIntentResult =
  cir_PaymentID :: string
  cir_StripePaymentIntentID :: string
  cir_ClientSecret :: string
  cir_Status :: string

definition deref :: "string option \<Rightarrow> string" where
  "deref s = (case s of None \<Rightarrow> '''' | Some x \<Rightarrow> x)"

definition resultFromPayment :: "Payment \<Rightarrow> CreateIntentResult" where
  "resultFromPayment p = \<lparr>cir_PaymentID = pay_ID p,
     cir_StripePaymentIntentID = deref (pay_StripePaymentIntentID p),
     cir_ClientSecret = '''', cir_Status = pay_Status p\<rparr>"

text \<open>\<open>CreatePaymentIntent\<close> from the call to Stripe on, and the whole of it.\<close>

definition create_intent_row ::
  "stripe_client \<Rightarrow> string \<Rightarrow> string option \<Rightarrow> int \<Rightarrow> string \<Rightarrow> string \<Rightarrow> (db, CreateIntentResult) io" where
  "create_intent_row stripe payerID contractID amountCents currency idempotencyKey =
     bindE (stripe amountCents currency idempotencyKey) (\<lambda>(intentID, clientSecret).
     bindE begin_tx (\<lambda>_.
     bindE (attempt (InsertPayment payerID contractID amountCents currency intentID
              (if idempotencyKey \<noteq> '''' then Some idempotencyKey else None))) (\<lambda>r.
     case r of
       Inl e \<Rightarrow>
         if e = ErrDuplicateKey then
           bindE rollback_tx (\<lambda>_.
           if idempotencyKey \<noteq> '''' then
             bindE (attempt (GetPaymentByIdempotencyKey idempotencyKey)) (\<lambda>g.
             case g of Inr existing \<Rightarrow> ret (resultFromPayment existing) | Inl _ \<Rightarrow> throw e)
           else throw e)
         else throw e
     | Inr p \<Rightarrow>
         bindE commit_tx (\<lambda>_.
         ret \<lparr>cir_PaymentID = pay_ID p,
              cir_StripePaymentIntentID = deref (pay_StripePaymentIntentID p),
              cir_ClientSecret = clientSecret, cir_Status = pay_Status p\<rparr>))))"

definition CreatePaymentIntent ::
  "stripe_client \<Rightarrow> string \<Rightarrow> string option \<Rightarrow> int \<Rightarrow> string \<Rightarrow> string \<Rightarrow> (db, CreateIntentResult) io" where
  "CreatePaymentIntent stripe payerID contractID amountCents currency idempotencyKey =
     (if amountCents \<le> 0 then throw (Errorf ''service: amount_cents must be > 0'') else
      let currency = (if currency = '''' then ''USD'' else currency);
          proceed = create_intent_row stripe payerID contractID amountCents currency idempotencyKey
      in if idempotencyKey \<noteq> '''' then
           bindE (attempt (GetPaymentByIdempotencyKey idempotencyKey)) (\<lambda>r.
           case r of
             Inr existing \<Rightarrow> ret (resultFromPayment existing)
           | Inl e \<Rightarrow> if e \<noteq> ErrNotFound then throw e else proceed)
         else proceed)"

definition deposit_legs :: "Payment \<Rightarrow> PayLeg list" where
  "deposit_legs p =
     map (\<lambda>(kind, amount). \<lparr>pl_Type = ''deposit'', pl_AccountKind = kind, pl_AccountRef = None,
            pl_ContractID = pay_ContractID p, pl_AmountCents = amount, pl_Currency = pay_Currency p,
            pl_PaymentID = Some (pay_ID p), pl_Memo = None\<rparr>)
       [(''stripe_clearing'', int64 (- pay_AmountCents p)), (''client_funding'', pay_AmountCents p),
        (''client_funding'', int64 (- pay_AmountCents p)), (''escrow'', pay_AmountCents p)]"

definition captured_event :: "Payment \<Rightarrow> Event" where
  "captured_event p =
     \<lparr>ev_AggregateType = ''payment'', ev_AggregateID = pay_ID p, ev_EventType = ''payment.captured'',
      ev_Topic = ''payment.events'', ev_PartitionKey = pay_ID p,
      ev_Payload = JObj [(''payment_id'', JStr (pay_ID p)),
        (''contract_id'', (case pay_ContractID p of None \<Rightarrow> JNull | Some c \<Rightarrow> JStr c)),
        (''amount_cents'', JInt (pay_AmountCents p)), (''currency'', JStr (pay_Currency p)),
        (''payer_id'', JStr (pay_PayerID p))],
      ev_Headers = []\<rparr>"

definition writeDepositLedger :: "Payment \<Rightarrow> (db, unit) io" where
  "writeDepositLedger p =
     bindE new_id (\<lambda>group.
     bindE (WriteLegs group (deposit_legs p)) (\<lambda>_.
     Enqueue (captured_event p)))"

definition ConfirmPayment :: "string \<Rightarrow> (db, Payment) io" where
  "ConfirmPayment paymentID =
     bindE begin_tx (\<lambda>_.
     bindE new_id (\<lambda>tok.
     bindE (MarkSucceeded paymentID (''ch_'' @ tok)) (\<lambda>p.
     bindE (writeDepositLedger p) (\<lambda>_.
     bindE commit_tx (\<lambda>_. ret p)))))"

section \<open>The webhook signature\<close>

text \<open>The header loop: the last \<open>t=\<close> and all \<open>v1=\<close> values.\<close>

fun scan_header :: "string list \<Rightarrow> string \<times> string list \<Rightarrow> string \<times> string list" where
  "scan_header [] acc = acc"
| "scan_header (part # parts) (ts, v1s) =
     scan_header parts
       (case split_kv (trim_space part) of
          None \<Rightarrow> (ts, v1s)
        | Some (k, v) \<Rightarrow>
            if k = ''t'' then (v, v1s) else if k = ''v1'' then (ts, v1s @ [v]) else (ts, v1s))"

text \<open>
  \<open>time.Since(time.Unix(sec, 0))\<close>: \<open>time.Unix\<close> adds the seconds from year 1 in wrapping \<open>int64\<close>, and
  \<open>Sub\<close> saturates at the bounds of \<open>Duration\<close>.
\<close>

definition unix_to_internal :: int where
  "unix_to_internal = 62135596800"

definition time_since :: "int \<Rightarrow> int \<Rightarrow> int" where
  "time_since now sec =
     (let d = now - (int64 (sec + unix_to_internal) - unix_to_internal) * 10 ^ 9
      in if is_int64 d then d else if d < 0 then - (2 ^ 63) else 2 ^ 63 - 1)"

definition webhookTolerance :: int where
  "webhookTolerance = 300 * 10 ^ 9"

definition verifySignature :: "(string \<Rightarrow> string \<Rightarrow> string) \<Rightarrow> int \<Rightarrow> string \<Rightarrow> string \<Rightarrow> string \<Rightarrow> err option" where
  "verifySignature hmac_hex now payload header secret =
     (if secret = '''' then None else
      let (ts, v1s) = scan_header (split_on (CHR '','') header) ('''', [])
      in if ts = '''' \<or> v1s = [] then Some ErrInvalidSignature
         else (case ParseInt ts of
            None \<Rightarrow> Some ErrInvalidSignature
          | Some tsUnix \<Rightarrow>
              let skew = time_since now tsUnix;
                  skew = (if skew < 0 then int64 (- skew) else skew)
              in if skew > webhookTolerance then Some ErrInvalidSignature
                 else if hmac_hex secret (ts @ ''.'' @ payload) \<in> set v1s then None
                 else Some ErrInvalidSignature))"

section \<open>The webhook\<close>

record stripeEvent =
  sev_ID :: string
  sev_Type :: string
  sev_ObjectID :: string

text \<open>
  The \<open>switch\<close> on the event type. The error for an unknown intent wraps \<open>ErrNotFound\<close> (\<open>%w\<close>), which
  is all callers look at.
\<close>

definition process_event :: "stripeEvent \<Rightarrow> (db, unit) io" where
  "process_event ev =
     (if sev_Type ev = ''payment_intent.succeeded'' then
        bindE (GetPaymentByIntent (sev_ObjectID ev)) (\<lambda>p.
        if pay_Status p = ''processing'' then
          bindE new_id (\<lambda>tok.
          bindE (MarkSucceeded (pay_ID p) (''ch_'' @ tok)) (\<lambda>marked.
          writeDepositLedger marked))
        else ret ())
      else ret ())"

definition HandleWebhook ::
  "(string \<Rightarrow> string \<Rightarrow> string) \<Rightarrow> (string \<Rightarrow> stripeEvent option) \<Rightarrow> string \<Rightarrow> string \<Rightarrow> string \<Rightarrow> (db, unit) io" where
  "HandleWebhook hmac_hex parse secret payload signatureHeader =
     bindE get_now (\<lambda>now.
     case verifySignature hmac_hex now payload signatureHeader secret of Some e \<Rightarrow> throw e
     | None \<Rightarrow>
     case parse payload of None \<Rightarrow> throw (Errorf ''service: parse webhook'')
     | Some ev \<Rightarrow>
     if sev_ID ev = '''' then throw (Errorf ''service: webhook missing event id'') else
     bindE begin_tx (\<lambda>_.
     bindE (InsertStripeEvent (sev_ID ev) (sev_Type ev) payload) (\<lambda>fresh.
     if \<not> fresh then bindE rollback_tx (\<lambda>_. ret ()) else
     bindE (process_event ev) (\<lambda>_.
     bindE (MarkStripeEventProcessed (sev_ID ev)) (\<lambda>_.
     commit_tx)))))"

section \<open>Atomicity\<close>

lemma keeps_insert_pay_legs [io_keeps]: "keeps (insert_pay_legs g ls)"
  by (induction g ls rule: insert_pay_legs.induct) (auto intro!: io_keeps)

lemma keeps_payment_store [io_keeps]:
  "keeps (InsertPayment u c n cur i k)" "keeps (GetPayment i)" "keeps (GetPaymentByIdempotencyKey k')"
  "keeps (GetPaymentByIntent i)" "keeps (MarkSucceeded i ch)" "keeps (ListPaymentsForContract c')"
  "keeps (WriteLegs g ls)" "keeps (InsertStripeEvent i ty pl)" "keeps (MarkStripeEventProcessed i)"
  "keeps (stubStripe n cur k'')" "keeps (writeDepositLedger p)" "keeps (process_event ev)"
  unfolding InsertPayment_def GetPayment_def GetPaymentByIdempotencyKey_def GetPaymentByIntent_def
    MarkSucceeded_def ListPaymentsForContract_def WriteLegs_def InsertStripeEvent_def
    MarkStripeEventProcessed_def stubStripe_def process_event_def writeDepositLedger_def Let_def
  by (intro io_keeps keeps_Enqueue)+

lemma atomic_payment_ops:
  "(\<And>n cur k. keeps (stripe n cur k)) \<Longrightarrow> atomic (CreatePaymentIntent stripe u c n cur k)"
  "atomic (ConfirmPayment i)" "atomic (HandleWebhook hm parse secret payload hdr)"
  unfolding CreatePaymentIntent_def create_intent_row_def ConfirmPayment_def HandleWebhook_def Let_def
  by (intro io_atomic io_keeps keeps_atomic; assumption?)+

end
