(* ===== verification/Payment_Inv.thy ===== *)
theory Payment_Inv
  imports Payment
begin

text \<open>
  The invariant of the payment tables and what each operation does to them: a payment is
  \<open>processing\<close> or \<open>succeeded\<close>, and the ledger's \<open>escrow\<close> account was credited its amount exactly
  once if it succeeded and not at all otherwise.
\<close>

section \<open>The ledger of the payment service\<close>

lemma insert_pay_legs_ok:
  "insert_pay_legs g ls s = (Inr u, t) \<Longrightarrow>
     work t = (work s)\<lparr>transactions := transactions (work s) @ map (pay_leg_txn g) ls\<rparr> \<and>
     committed t = committed s \<and> clock t = clock s \<and> aborted t = aborted s"
proof (induction g ls arbitrary: s rule: insert_pay_legs.induct)
  case (1 g)
  then show ?case by (simp add: io_ok)
next
  case (2 g l ls)
  from "2.prems" obtain s' where
    s': "s' = (tick s)\<lparr>work := (work s)\<lparr>transactions := transactions (work s) @ [pay_leg_txn g l]\<rparr>\<rparr>"
    and "insert_pay_legs g ls s' = (Inr u, t)"
    by (auto simp: io_ok split: if_splits)
  with "2.IH" [of s'] show ?case by simp
qed

lemma pay_WriteLegs_ok:
  "WriteLegs g ls s = (Inr u, t) \<Longrightarrow>
     work t = (work s)\<lparr>transactions := transactions (work s) @ map (pay_leg_txn g) ls\<rparr> \<and>
     committed t = committed s \<and> clock t = clock s \<and> aborted t = aborted s \<and>
     int64 (sum_list (map pl_AmountCents ls)) = 0"
  by (auto simp: WriteLegs_def io_ok sum_int64_0 split: if_splits dest!: insert_pay_legs_ok)

interpretation payment_ledger: ledger_writer pay_leg_txn WriteLegs
  by unfold_locales (auto simp: pay_leg_txn_def dest!: pay_WriteLegs_ok)

section \<open>Effects\<close>

definition is_processing :: "string \<Rightarrow> Payment \<Rightarrow> bool" where
  "is_processing i p \<longleftrightarrow> pay_ID p = i \<and> pay_Status p = ''processing''"

definition confirm_effect :: "int \<Rightarrow> string \<Rightarrow> string \<Rightarrow> Payment \<Rightarrow> db \<Rightarrow> db" where
  "confirm_effect now ch g p d = post_event (captured_event (succeeded now ch p))
     (d\<lparr>payments := update_where (is_processing (pay_ID p)) (succeeded now ch) (payments d),
        transactions := transactions d @ map (pay_leg_txn g) (deposit_legs (succeeded now ch p))\<rparr>)"

lemma MarkSucceeded_ok [io_ok]:
  "MarkSucceeded i ch s = (Inr p', t) \<longleftrightarrow>
     \<not> aborted s \<and> \<not> faults s 0 \<and>
     (\<exists>p. select_one (is_processing i) (payments (work s)) = Some p \<and> p' = succeeded (clock s) ch p \<and>
       t = (tick s)\<lparr>work := (work s)\<lparr>payments :=
         update_where (is_processing i) (succeeded (clock s) ch) (payments (work s))\<rparr>\<rparr>)"
  by (auto simp: MarkSucceeded_def io_ok Let_def is_processing_def [abs_def])

lemma writeDepositLedger_ok:
  assumes "writeDepositLedger p s = (Inr u, t)"
  shows "\<exists>g. work t = post_event (captured_event p)
      ((work s)\<lparr>transactions := transactions (work s) @ map (pay_leg_txn g) (deposit_legs p)\<rparr>) \<and>
    committed t = committed s \<and> clock t = clock s"
  using assms by (auto simp: writeDepositLedger_def io_ok dest!: pay_WriteLegs_ok)

text \<open>Marking and posting, the step \<open>ConfirmPayment\<close> and the webhook share.\<close>

lemma settle_ok:
  assumes "MarkSucceeded i ch s = (Inr p', s')" and "writeDepositLedger p' s' = (Inr u, t)"
  shows "\<exists>p g. select_one (is_processing i) (payments (work s)) = Some p \<and> p' = succeeded (clock s) ch p \<and>
    work t = confirm_effect (clock s) ch g p (work s) \<and> committed t = committed s \<and> clock t = clock s"
proof -
  from assms(1) obtain p where p: "select_one (is_processing i) (payments (work s)) = Some p"
    "p' = succeeded (clock s) ch p"
    and s': "s' = (tick s)\<lparr>work := (work s)\<lparr>payments :=
         update_where (is_processing i) (succeeded (clock s) ch) (payments (work s))\<rparr>\<rparr>"
    by (auto simp: io_ok)
  from p(1) have "pay_ID p = i" by (auto dest!: select_one_SomeD simp: is_processing_def)
  with writeDepositLedger_ok [OF assms(2)] p s' show ?thesis
    by (auto simp: confirm_effect_def)
qed

lemma ConfirmPayment_effect:
  assumes "ConfirmPayment i s = (Inr p', t)"
  shows "\<exists>p ch g. select_one (is_processing i) (payments (committed s)) = Some p \<and>
    p' = succeeded (clock s) ch p \<and> committed t = confirm_effect (clock s) ch g p (committed s)"
proof -
  from assms obtain ch s1 s2 s3 where m: "MarkSucceeded i ch s1 = (Inr p', s2)"
    and w: "writeDepositLedger p' s2 = (Inr (), s3)"
    and s1: "work s1 = committed s" "clock s1 = clock s" and t: "committed t = work s3"
    unfolding ConfirmPayment_def by (auto simp: bindE_ok begin_tx_ok new_id_ok commit_tx_ok ret_ok)
  from settle_ok [OF m w] s1 t show ?thesis by auto
qed

definition record_event :: "string \<Rightarrow> string \<Rightarrow> string \<Rightarrow> int \<Rightarrow> db \<Rightarrow> db" where
  "record_event i ty payload now d = d\<lparr>stripe_events :=
     update_where (\<lambda>r. se_id r = i) (\<lambda>r. r\<lparr>se_processed_at := Some now\<rparr>)
       (stripe_events d @ [\<lparr>se_id = i, se_type = ty, se_payload = payload, se_processed_at = None\<rparr>])\<rparr>"

lemma confirm_effect_frame [simp]:
  "stripe_events (confirm_effect now ch g p d) = stripe_events d"
  "payments (confirm_effect now ch g p d) = update_where (is_processing (pay_ID p)) (succeeded now ch) (payments d)"
  "transactions (confirm_effect now ch g p d) =
     transactions d @ map (pay_leg_txn g) (deposit_legs (succeeded now ch p))"
  by (simp_all add: confirm_effect_def)

lemma confirm_effect_events:
  "confirm_effect now ch g p (d\<lparr>stripe_events := es\<rparr>) = (confirm_effect now ch g p d)\<lparr>stripe_events := es\<rparr>"
  by (simp add: confirm_effect_def post_event_def)

text \<open>What a fresh event of the given kind does to the payments.\<close>

inductive event_effect :: "stripeEvent \<Rightarrow> int \<Rightarrow> db \<Rightarrow> db \<Rightarrow> bool" where
  event_pays: "sev_Type ev = ''payment_intent.succeeded'' \<Longrightarrow>
     select_one (\<lambda>p. pay_StripePaymentIntentID p = Some (sev_ObjectID ev)) (payments d) = Some p \<Longrightarrow>
     pay_Status p = ''processing'' \<Longrightarrow> select_one (is_processing (pay_ID p)) (payments d) = Some q \<Longrightarrow>
     event_effect ev now d (confirm_effect now ch g q d)"
| event_paid: "sev_Type ev = ''payment_intent.succeeded'' \<Longrightarrow>
     select_one (\<lambda>p. pay_StripePaymentIntentID p = Some (sev_ObjectID ev)) (payments d) = Some p \<Longrightarrow>
     pay_Status p \<noteq> ''processing'' \<Longrightarrow> event_effect ev now d d"
| event_other: "sev_Type ev \<noteq> ''payment_intent.succeeded'' \<Longrightarrow> event_effect ev now d d"

lemma process_event_effect:
  assumes "process_event ev s = (Inr u, t)"
  shows "event_effect ev (clock s) (work s) (work t) \<and> committed t = committed s \<and> clock t = clock s"
proof (cases "sev_Type ev = ''payment_intent.succeeded''")
  case True
  define s1 where "s1 = (tick s)\<lparr>work := work s\<rparr>"
  then have s1: "work s1 = work s" "clock s1 = clock s" "committed s1 = committed s" by simp_all
  from True assms obtain p where p: "select_one (\<lambda>p. pay_StripePaymentIntentID p = Some (sev_ObjectID ev))
      (payments (work s)) = Some p"
    and rest: "(if pay_Status p = ''processing'' then bindE new_id (\<lambda>tok.
          bindE (MarkSucceeded (pay_ID p) (''ch_'' @ tok)) (\<lambda>marked. writeDepositLedger marked))
        else ret ()) s1 = (Inr u, t)"
    by (auto simp: process_event_def bindE_ok GetPaymentByIntent_def scan_row_ok tx_stmt_ok s1_def
        simp del: if_split_asm)
  show ?thesis
  proof (cases "pay_Status p = ''processing''")
    case proc: True
    let ?s2 = "s1\<lparr>ids := (\<lambda>n. ids s1 (Suc n))\<rparr>"
    from proc rest obtain s3 p' where
      m: "MarkSucceeded (pay_ID p) (''ch_'' @ ids s1 0) ?s2 = (Inr p', s3)" "writeDepositLedger p' s3 = (Inr u, t)"
      by (auto simp: bindE_ok new_id_ok)
    from settle_ok [OF m] s1 True p proc show ?thesis by (auto intro: event_pays)
  next
    case False
    with rest True p s1 show ?thesis by (auto simp: ret_ok intro: event_paid)
  qed
qed (use assms in \<open>auto simp: process_event_def ret_ok intro: event_other\<close>)

lemma event_effect_events:
  assumes "event_effect ev now (d\<lparr>stripe_events := es\<rparr>) d'"
  shows "\<exists>d0. event_effect ev now d d0 \<and> d' = d0\<lparr>stripe_events := es\<rparr> \<and> stripe_events d0 = stripe_events d"
  using assms
proof cases
  case (event_pays p q ch g)
  then show ?thesis
    by (intro exI [of _ "confirm_effect now ch g q d"])
      (auto simp: confirm_effect_events intro: event_effect.event_pays)
qed (auto intro!: exI [of _ d] intro: event_paid event_other)

lemma HandleWebhook_effect:
  assumes "HandleWebhook hm parse secret payload sig s = (Inr u, t)"
  obtains ev where "verifySignature hm (clock s) payload sig secret = None"
    "parse payload = Some ev" "sev_ID ev \<noteq> ''''"
    "sev_ID ev \<in> se_id ` set (stripe_events (committed s))" "committed t = committed s"
  | ev d' where "verifySignature hm (clock s) payload sig secret = None"
    "parse payload = Some ev" "sev_ID ev \<noteq> ''''"
    "sev_ID ev \<notin> se_id ` set (stripe_events (committed s))"
    "event_effect ev (clock s) (committed s) d'" "stripe_events d' = stripe_events (committed s)"
    "committed t = record_event (sev_ID ev) (sev_Type ev) payload (clock s) d'"
proof -
  let ?d = "committed s"
  from assms obtain ev where v: "verifySignature hm (clock s) payload sig secret = None"
    and ev: "parse payload = Some ev" "sev_ID ev \<noteq> ''''"
    by (auto simp: HandleWebhook_def io_ok split: option.splits if_splits)
  show thesis
  proof (cases "sev_ID ev \<in> se_id ` set (stripe_events ?d)")
    case True
    then have "committed t = ?d" using assms
      by (auto simp: HandleWebhook_def io_ok v ev InsertStripeEvent_def split: if_splits)
    from that(1) [OF v ev True this] show ?thesis .
  next
    case False
    let ?es = "stripe_events ?d @ [\<lparr>se_id = sev_ID ev, se_type = sev_Type ev, se_payload = payload, se_processed_at = None\<rparr>]"
    let ?s = "(tick ((tick s)\<lparr>work := ?d, aborted := False\<rparr>))\<lparr>work := ?d\<lparr>stripe_events := ?es\<rparr>\<rparr>"
    from assms False obtain s2 x where body: "process_event ev ?s = (Inr x, s2)"
      and s2: "committed t = (work s2)\<lparr>stripe_events := update_where (\<lambda>r. se_id r = sev_ID ev)
          (\<lambda>r. r\<lparr>se_processed_at := Some (clock s2)\<rparr>) (stripe_events (work s2))\<rparr>"
      by (auto simp: HandleWebhook_def bindE_ok get_now_ok v ev begin_tx_ok InsertStripeEvent_def
          tx_stmt_ok MarkStripeEventProcessed_def commit_tx_ok split: if_splits)
    from process_event_effect [OF body] obtain d' where "event_effect ev (clock s) ?d d'"
      "work s2 = d'\<lparr>stripe_events := ?es\<rparr>" "clock s2 = clock s" "stripe_events d' = stripe_events ?d"
      by (auto dest!: event_effect_events)
    with that(2) [OF v ev False, of d'] s2 show ?thesis by (simp add: record_event_def)
  qed
qed

section \<open>Creating a payment\<close>

lemma InsertPayment_ok [io_ok]:
  "InsertPayment u c n cur i k s = (Inr p, t) \<longleftrightarrow>
     \<not> aborted s \<and> \<not> faults s 0 \<and>
     (\<exists>cur'. char3 cur = Some cur' \<and>
       p = \<lparr>pay_ID = ids s 0, pay_ContractID = c, pay_PayerID = u, pay_AmountCents = n,
            pay_Currency = cur', pay_Status = ''processing'', pay_StripePaymentIntentID = Some i,
            pay_StripeChargeID = None, pay_IdempotencyKey = k, pay_FailureReason = None,
            pay_CreatedAt = clock s, pay_UpdatedAt = clock s\<rparr> \<and>
       payment_row_check p (work s) = None \<and>
       t = (tick s)\<lparr>work := (work s)\<lparr>payments := payments (work s) @ [p]\<rparr>\<rparr>)"
  by (auto simp: InsertPayment_def io_ok Let_def split: option.splits)

lemma GetPaymentByIdempotencyKey_ok [io_ok]:
  "GetPaymentByIdempotencyKey k s = (Inr p, t) \<longleftrightarrow> \<not> faults s 0 \<and> t = tick s \<and>
     select_one (\<lambda>p. pay_IdempotencyKey p = Some k) (payments (committed s)) = Some p"
  by (auto simp: GetPaymentByIdempotencyKey_def io_ok)

text \<open>A successful call returns a payment that was there under the key, or inserts one.\<close>

definition create_effect ::
  "string \<Rightarrow> string option \<Rightarrow> int \<Rightarrow> string \<Rightarrow> CreateIntentResult \<Rightarrow> db \<Rightarrow> db \<Rightarrow> bool" where
  "create_effect u c n k r d d' \<longleftrightarrow>
     (\<exists>p. k \<noteq> '''' \<and> select_one (\<lambda>p. pay_IdempotencyKey p = Some k) (payments d) = Some p \<and>
        r = resultFromPayment p \<and> d' = d) \<or>
     (\<exists>p. payment_row_check p d = None \<and> pay_Status p = ''processing'' \<and> pay_AmountCents p = n \<and>
        pay_PayerID p = u \<and> pay_ContractID p = c \<and>
        pay_IdempotencyKey p = (if k = '''' then None else Some k) \<and> cir_PaymentID r = pay_ID p \<and>
        d' = d\<lparr>payments := payments d @ [p]\<rparr>)"

lemma create_intent_row_effect:
  assumes "create_intent_row stripe u c n cur k s = (Inr r, t)" and "keeps (stripe n cur k)"
  shows "create_effect u c n k r (committed s) (committed t)"
proof -
  let ?ins = "\<lambda>i. InsertPayment u c n cur i (if k \<noteq> '''' then Some k else None)"
  from assms obtain i sec s1 s2 s3 res x where s1: "stripe n cur k s = (Inr (i, sec), s1)"
    and s2: "begin_tx s1 = (Inr x, s2)" and ins: "?ins i s2 = (res, s3)"
    and rest: "(case res of
       Inl e \<Rightarrow> if e = ErrDuplicateKey then bindE rollback_tx (\<lambda>_.
           if k \<noteq> '''' then bindE (attempt (GetPaymentByIdempotencyKey k)) (\<lambda>g.
             case g of Inr existing \<Rightarrow> ret (resultFromPayment existing) | Inl _ \<Rightarrow> throw e)
           else throw e) else throw e
     | Inr p \<Rightarrow> bindE commit_tx (\<lambda>_. ret \<lparr>cir_PaymentID = pay_ID p,
              cir_StripePaymentIntentID = deref (pay_StripePaymentIntentID p),
              cir_ClientSecret = sec, cir_Status = pay_Status p\<rparr>)) s3 = (Inr r, t)"
    unfolding create_intent_row_def
    by (simp only: bindE_ok attempt_ok split_paired_Ex prod.case) blast
  from keepsD [OF assms(2) s1] s2 have d: "work s2 = committed s" "committed s2 = committed s"
    by (auto simp: begin_tx_ok)
  have s3: "committed s3 = committed s" using keepsD [OF keeps_payment_store(1) ins] d by simp
  show ?thesis
  proof (cases res)
    case (Inl e)
    with rest s3 show ?thesis
      by (auto simp: create_effect_def io_ok split: if_splits sum.splits)
  next
    case (Inr p)
    with ins have "payment_row_check p (work s2) = None" "pay_Status p = ''processing''"
      "pay_AmountCents p = n" "pay_PayerID p = u" "pay_ContractID p = c"
      "pay_IdempotencyKey p = (if k = '''' then None else Some k)"
      "work s3 = (work s2)\<lparr>payments := payments (work s2) @ [p]\<rparr>"
      by (auto simp: InsertPayment_ok)
    moreover from Inr rest have "committed t = work s3" "cir_PaymentID r = pay_ID p"
      by (auto simp: bindE_ok commit_tx_ok ret_ok)
    ultimately show ?thesis unfolding create_effect_def d by (intro disjI2 exI [of _ p]) simp
  qed
qed

lemma CreatePaymentIntent_effect:
  assumes "CreatePaymentIntent stripe u c n cur k s = (Inr r, t)" and "\<And>n cur k. keeps (stripe n cur k)"
  shows "create_effect u c n k r (committed s) (committed t)"
proof (cases "k = ''''")
  case True
  with assms show ?thesis
    by (auto simp: CreatePaymentIntent_def Let_def throw_ok split: if_splits dest!: create_intent_row_effect)
next
  case False
  from assms(1) False obtain res s1 where res: "GetPaymentByIdempotencyKey k s = (res, s1)"
    and rest: "(case res of Inr existing \<Rightarrow> ret (resultFromPayment existing)
      | Inl e \<Rightarrow> if e \<noteq> ErrNotFound then throw e else
          create_intent_row stripe u c n (if cur = '''' then ''USD'' else cur) k) s1 = (Inr r, t)"
    by (auto simp: CreatePaymentIntent_def Let_def throw_ok bindE_ok attempt_ok
        simp del: if_split_asm split: if_split_asm)
  have "committed s1 = committed s" using keepsD [OF keeps_payment_store(3) res] .
  show ?thesis
  proof (cases res)
    case (Inl e)
    with rest have "create_intent_row stripe u c n (if cur = '''' then ''USD'' else cur) k s1 = (Inr r, t)"
      by (auto simp: throw_ok split: if_split_asm)
    from create_intent_row_effect [OF this assms(2)] \<open>committed s1 = _\<close> show ?thesis by simp
  next
    case (Inr p)
    with rest res False show ?thesis by (auto simp: create_effect_def io_ok)
  qed
qed

section \<open>The invariant\<close>

text \<open>What the postings of one payment have credited to the \<open>escrow\<close> account.\<close>

definition deposited :: "txn_row list \<Rightarrow> string \<Rightarrow> int" where
  "deposited ts i = sum_list (map txn_amount_cents
     (filter (\<lambda>t. txn_account_kind t = ''escrow'' \<and> txn_payment_id t = Some i) ts))"

definition payment_ok :: "txn_row list \<Rightarrow> Payment \<Rightarrow> bool" where
  "payment_ok ts p \<longleftrightarrow> 0 < pay_AmountCents p \<and> is_int64 (pay_AmountCents p) \<and>
     pay_Status p \<in> {''processing'', ''succeeded''} \<and>
     deposited ts (pay_ID p) = (if pay_Status p = ''succeeded'' then pay_AmountCents p else 0)"

definition payment_inv :: "db \<Rightarrow> bool" where
  "payment_inv d \<longleftrightarrow>
     distinct (map pay_ID (payments d)) \<and>
     distinct (map pay_IdempotencyKey (filter (\<lambda>p. pay_IdempotencyKey p \<noteq> None) (payments d))) \<and>
     (\<forall>p \<in> set (payments d). payment_ok (transactions d) p) \<and>
     (\<forall>t \<in> set (transactions d). \<forall>i. txn_payment_id t = Some i \<longrightarrow> i \<in> pay_ID ` set (payments d)) \<and>
     balanced (transactions d)"

lemma payment_invD:
  assumes "payment_inv d"
  shows "distinct (map pay_ID (payments d))"
    and "p \<in> set (payments d) \<Longrightarrow> payment_ok (transactions d) p"
    and "balanced (transactions d)"
  using assms by (auto simp: payment_inv_def)

lemma deposited_append [simp]: "deposited (xs @ ys) i = deposited xs i + deposited ys i"
  by (simp add: deposited_def)

lemma succeeded_simps [simp]:
  "pay_ID (succeeded now ch p) = pay_ID p" "pay_AmountCents (succeeded now ch p) = pay_AmountCents p"
  "pay_Status (succeeded now ch p) = ''succeeded''" "pay_Currency (succeeded now ch p) = pay_Currency p"
  "pay_IdempotencyKey (succeeded now ch p) = pay_IdempotencyKey p"
  "pay_ContractID (succeeded now ch p) = pay_ContractID p" "pay_PayerID (succeeded now ch p) = pay_PayerID p"
  "pay_StripePaymentIntentID (succeeded now ch p) = pay_StripePaymentIntentID p"
  by (simp_all add: succeeded_def)

lemma int64_neg_amount: "0 < n \<Longrightarrow> is_int64 n \<Longrightarrow> int64 (- n) = - n"
  by (rule int64_id) (simp add: is_int64_def)

lemma deposited_legs:
  "deposited (map (pay_leg_txn g) (deposit_legs p)) i = (if i = pay_ID p then pay_AmountCents p else 0)"
  by (simp add: deposited_def deposit_legs_def pay_leg_txn_def)

lemma group_sum_deposit:
  assumes "0 < pay_AmountCents p" "is_int64 (pay_AmountCents p)"
  shows "group_sum (map (pay_leg_txn g) (deposit_legs p)) h = 0"
  using assms by (simp add: payment_ledger.group_sum_legs) (simp add: deposit_legs_def pay_leg_txn_def int64_neg_amount)

lemma deposited_absent:
  "(\<forall>t \<in> set ts. txn_payment_id t \<noteq> Some i) \<Longrightarrow> deposited ts i = 0"
  by (induction ts) (auto simp: deposited_def)

lemma filter_update_where_id:
  "(\<And>r. Q (f r) = Q r) \<Longrightarrow> (\<And>r. k (f r) = k r) \<Longrightarrow>
   map k (filter Q (update_where P f rs)) = map k (filter Q rs)"
  by (induction rs) auto

lemma confirm_effect_inv:
  assumes inv: "payment_inv d" and p: "select_one (is_processing i) (payments d) = Some p"
  shows "payment_inv (confirm_effect now ch g p d)"
proof -
  let ?P = "is_processing (pay_ID p)" and ?f = "succeeded now ch"
  from select_one_SomeD [OF p] have mem: "p \<in> set (payments d)" and st: "pay_Status p = ''processing''"
    by (auto simp: is_processing_def)
  from payment_invD(2) [OF inv mem] have ok: "payment_ok (transactions d) p" .
  have row: "q = p" if "q \<in> set (payments d)" "pay_ID q = pay_ID p" for q
    using distinct_key_unique [OF payment_invD(1) [OF inv]] that mem by blast
  have "payment_ok (transactions (confirm_effect now ch g p d)) q"
    if "q \<in> set (update_where ?P ?f (payments d))" for q
    using that ok st payment_invD(2) [OF inv] row
    by (auto simp: set_update_where deposited_legs payment_ok_def is_processing_def dest: row)
  moreover have "pay_ID ` set (update_where ?P ?f (payments d)) = pay_ID ` set (payments d)"
    by (simp add: image_update_where)
  moreover have "balanced (transactions (confirm_effect now ch g p d))"
    using payment_invD(3) [OF inv] ok by (simp add: balanced_iff group_sum_deposit payment_ok_def)
  moreover have "txn_payment_id t = Some (pay_ID p)"
    if "t \<in> set (map (pay_leg_txn g) (deposit_legs (?f p)))" for t
    using that by (auto simp: deposit_legs_def pay_leg_txn_def)
  ultimately show ?thesis using inv mem
    unfolding payment_inv_def
    by (auto simp: map_update_where_same filter_update_where_id simp del: set_map)
qed

lemma record_event_inv [simp]: "payment_inv (record_event i ty pl now d) = payment_inv d"
  by (simp add: payment_inv_def record_event_def)

lemma event_effect_inv: "event_effect ev now d d' \<Longrightarrow> payment_inv d \<Longrightarrow> payment_inv d'"
  by (induction rule: event_effect.induct) (auto intro: confirm_effect_inv)

lemma create_effect_inv:
  assumes "create_effect u c n k r d d'" and inv: "payment_inv d"
  shows "payment_inv d'"
  using assms(1) unfolding create_effect_def
proof (elim disjE exE conjE)
  fix p assume p: "payment_row_check p d = None" "pay_Status p = ''processing''"
    and d': "d' = d\<lparr>payments := payments d @ [p]\<rparr>"
  from p(1) have new: "pay_ID p \<notin> pay_ID ` set (payments d)" and amount: "0 < pay_AmountCents p" "is_int64 (pay_AmountCents p)"
    and key: "\<And>q. q \<in> set (payments d) \<Longrightarrow> pay_IdempotencyKey p \<noteq> None \<Longrightarrow> pay_IdempotencyKey q \<noteq> pay_IdempotencyKey p"
    by (auto simp: payment_row_check_def split: if_splits)
  from inv new have "deposited (transactions d) (pay_ID p) = 0"
    by (auto intro!: deposited_absent simp: payment_inv_def)
  with inv new amount p(2) key show ?thesis
    by (fastforce simp: payment_inv_def payment_ok_def d')
qed (use inv in simp)

section \<open>The service as a step relation\<close>

text \<open>
  Stripe's answer to \<open>CreateIntent\<close> is arbitrary; the client is the live one or the stub, as the
  configured key selects.
\<close>

inductive payment_step :: "db \<Rightarrow> db \<Rightarrow> bool" where
  step_create: "CreatePaymentIntent (select_stripe (\<lambda>n cur k. liftE (live n cur k)) key) u c n cur k s = (r, t) \<Longrightarrow>
     payment_step (committed s) (committed t)"
| step_confirm: "ConfirmPayment i s = (r', t) \<Longrightarrow> payment_step (committed s) (committed t)"
| step_webhook: "HandleWebhook hm parse secret payload sig s = (r'', t) \<Longrightarrow>
     payment_step (committed s) (committed t)"

lemma keeps_select_stripe [io_keeps]:
  "keeps (select_stripe (\<lambda>n cur k. liftE (live n cur k)) key n cur k)"
  by (simp add: select_stripe_def io_keeps)

lemma payment_step_cases [consumes 1, case_names same create confirm webhook]:
  assumes "payment_step d d'"
  obtains "d' = d"
  | u c n k r where "create_effect u c n k r d d'"
  | i p now ch g where "select_one (is_processing i) (payments d) = Some p" "d' = confirm_effect now ch g p d"
  | ev now payload d0 where "sev_ID ev \<notin> se_id ` set (stripe_events d)" "event_effect ev now d d0"
    "stripe_events d0 = stripe_events d" "d' = record_event (sev_ID ev) (sev_Type ev) payload now d0"
  using assms
proof (cases rule: payment_step.cases)
  case (step_create live key u c n cur k s r t)
  let ?st = "select_stripe (\<lambda>n cur k. liftE (live n cur k)) key"
  note eff = CreatePaymentIntent_effect [where stripe = ?st, OF _ keeps_select_stripe]
    and at = atomic_payment_ops(1) [where stripe = ?st, OF keeps_select_stripe, THEN atomicD]
  show ?thesis
  proof (cases r)
    case (Inl e)
    with step_create at that(1) show ?thesis by simp
  next
    case (Inr x)
    from eff [OF step_create(3) [unfolded Inr]] step_create(1,2) that(2) show ?thesis by simp
  qed
next
  case (step_confirm i s r' t)
  show ?thesis
  proof (cases r')
    case (Inl e)
    with step_confirm atomicD [OF atomic_payment_ops(2)] that(1) show ?thesis by simp
  next
    case (Inr x)
    from ConfirmPayment_effect [OF step_confirm(3) [unfolded Inr]] step_confirm(1,2) that(3) show ?thesis by blast
  qed
next
  case (step_webhook hm parse secret payload sig s r'' t)
  show ?thesis
  proof (cases r'')
    case (Inl e)
    with step_webhook atomicD [OF atomic_payment_ops(3)] that(1) show ?thesis by simp
  next
    case (Inr x)
    from HandleWebhook_effect [OF step_webhook(3) [unfolded Inr]] step_webhook(1,2) that(1,4)
    show ?thesis by metis
  qed
qed

interpretation payment_system: invariant_system payment_step payment_inv
proof
  fix d d' assume "payment_step d d'" and "payment_inv d"
  then show "payment_inv d'"
    by (cases rule: payment_step_cases)
      (auto intro: create_effect_inv confirm_effect_inv dest: event_effect_inv)
qed

end
