(* ===== verification/Payment_Props.thy ===== *)
theory Payment_Props
  imports Payment_Inv Rbac
begin

text \<open>
  What the payment service promises: a deposit is credited exactly once, a webhook event takes
  effect at most once, an idempotency key names one payment, and what the signature check accepts;
  then the HTTP handlers of \<open>services/payment/internal/httpapi\<close>.
\<close>

section \<open>Persistence\<close>

lemma payment_step_persists:
  assumes "payment_step d d'" "p \<in> set (payments d)"
  shows "\<exists>p' \<in> set (payments d'). p' = p \<or>
    pay_Status p = ''processing'' \<and> (\<exists>now ch. p' = succeeded now ch p)"
proof -
  have upd: "\<exists>p' \<in> set (payments (confirm_effect now ch g q d)). p' = p \<or>
    pay_Status p = ''processing'' \<and> (\<exists>now ch. p' = succeeded now ch p)" for now ch g q
    using assms(2) by (auto simp: set_update_where is_processing_def)
  from assms(1) show ?thesis
  proof (cases rule: payment_step_cases)
    case (webhook ev now payload d0)
    from webhook(2) have "\<exists>p' \<in> set (payments d0). p' = p \<or>
      pay_Status p = ''processing'' \<and> (\<exists>now ch. p' = succeeded now ch p)"
      by cases (use upd assms(2) in auto)
    then show ?thesis by (simp add: webhook(4) record_event_def)
  qed (use upd assms(2) in \<open>auto simp: create_effect_def\<close>)
qed

lemma payment_steps_persist:
  assumes "payment_step\<^sup>*\<^sup>* d d'" "p \<in> set (payments d)"
  shows "\<exists>p' \<in> set (payments d'). p' = p \<or>
    pay_Status p = ''processing'' \<and> (\<exists>now ch. p' = succeeded now ch p)"
  using assms
proof (induction rule: rtranclp_induct)
  case (step d1 d2)
  then obtain p' where p': "p' \<in> set (payments d1)"
    "p' = p \<or> pay_Status p = ''processing'' \<and> (\<exists>now ch. p' = succeeded now ch p)" by blast
  from payment_step_persists [OF step(2) p'(1)] obtain q where "q \<in> set (payments d2)"
    "q = p' \<or> pay_Status p' = ''processing'' \<and> (\<exists>now ch. q = succeeded now ch p')" by blast
  with p'(2) show ?case by (intro bexI [of _ q]) auto
qed blast

lemma stripe_events_persist:
  "payment_step\<^sup>*\<^sup>* d d' \<Longrightarrow> se_id ` set (stripe_events d) \<subseteq> se_id ` set (stripe_events d')"
proof (induction rule: rtranclp_induct)
  case (step d1 d2)
  have "se_id ` set (stripe_events d1) \<subseteq> se_id ` set (stripe_events d2)"
    using step(2) by (cases rule: payment_step_cases)
      (auto simp: create_effect_def record_event_def image_update_where)
  with step(3) show ?case by blast
qed simp

lemma create_effect_row:
  assumes "create_effect u c n k r d d'" "k \<noteq> ''''"
  shows "\<exists>p \<in> set (payments d'). pay_IdempotencyKey p = Some k \<and> pay_ID p = cir_PaymentID r"
  using assms by (auto simp: create_effect_def resultFromPayment_def dest!: select_one_SomeD)

section \<open>Properties\<close>

definition demo_live :: stripe_client where
  "demo_live = select_stripe (\<lambda>n cur k. liftE (Inl DBError)) ''''"

definition demo_payer :: db where
  "demo_payer = demo_db\<lparr>other_keys := [(''users'', ''client'')]\<rparr>"

definition demo_intent :: "string \<Rightarrow> db \<Rightarrow> (err + CreateIntentResult) \<times> db conn" where
  "demo_intent tag d =
     CreatePaymentIntent demo_live ''client'' (Some ''c1'') 2500 ''USD'' ''key'' (quiet tag d)"

definition demo_paying :: db where
  "demo_paying = committed (snd (demo_intent ''a'' demo_payer))"

definition demo_paid :: db where
  "demo_paid = committed (snd (ConfirmPayment ''aiiii'' (quiet ''b'' demo_paying)))"

lemma payment_inv_demo: "payment_inv demo_payer"
  by (simp add: payment_inv_def demo_payer_def demo_db_def empty_db_def)

lemma demo_intent_step: "payment_step d (committed (snd (demo_intent tag d)))"
  using payment_step.step_create [of "\<lambda>n cur k. Inl DBError" "''''" "''client''" "Some ''c1''" 2500 "''USD''"
      "''key''" "quiet tag d"]
  by (metis demo_intent_def demo_live_def prod.collapse quiet_simps(1))

lemma demo_paid_steps: "payment_step\<^sup>*\<^sup>* demo_paying demo_paid"
  by (rule r_into_rtranclp)
   (use payment_step.step_confirm [of "''aiiii''" "quiet ''b'' demo_paying"]
   in \<open>metis demo_paid_def prod.collapse quiet_simps(1)\<close>)

text \<open>
  C10: A deposit is credited exactly once. Whatever sequence of \<open>CreatePaymentIntent\<close>,
  \<open>ConfirmPayment\<close> and \<open>HandleWebhook\<close> calls follows, failing or not: a payment keeps its identity,
  payer, contract and amount; once succeeded it never changes; and the ledger's \<open>escrow\<close> account has
  been credited its amount if it succeeded and nothing otherwise, in a ledger whose every
  transaction group sums to zero.
\<close>

theorem deposit_exactly_once:
  assumes "payment_step\<^sup>*\<^sup>* d d'" and "payment_inv d" and "p \<in> set (payments d)"
  shows "\<exists>p' \<in> set (payments d').
    pay_ID p' = pay_ID p \<and> pay_PayerID p' = pay_PayerID p \<and> pay_ContractID p' = pay_ContractID p \<and>
    pay_AmountCents p' = pay_AmountCents p \<and>
    (pay_Status p = ''succeeded'' \<longrightarrow> p' = p) \<and>
    deposited (transactions d') (pay_ID p) = (if pay_Status p' = ''succeeded'' then pay_AmountCents p else 0) \<and>
    balanced (transactions d')"
proof -
  note inv = payment_system.steps_inv [OF assms(1,2)]
  from payment_steps_persist [OF assms(1,3)] obtain p' where p': "p' \<in> set (payments d')"
    "p' = p \<or> pay_Status p = ''processing'' \<and> (\<exists>now ch. p' = succeeded now ch p)" by blast
  with payment_invD(2) [OF inv p'(1)] payment_invD(3) [OF inv] show ?thesis
    by (intro bexI [of _ p']) (auto simp: payment_ok_def)
qed

theorem deposit_exactly_once_witness:
  "\<exists>p' \<in> set (payments demo_paid). pay_AmountCents p' = 2500 \<and> pay_Status p' = ''succeeded'' \<and>
     deposited (transactions demo_paid) ''aiiii'' = 2500"
proof -
  have "length (payments demo_paying) = 1" "pay_ID (payments demo_paying ! 0) = ''aiiii''"
    "pay_AmountCents (payments demo_paying ! 0) = 2500" by code_simp+
  then obtain p where p: "payments demo_paying = [p]" "pay_ID p = ''aiiii''" "pay_AmountCents p = 2500"
    by (auto simp: length_Suc_conv)
  have inv: "payment_inv demo_paying"
    using payment_system.step_inv [OF demo_intent_step payment_inv_demo] by (simp add: demo_paying_def)
  from deposit_exactly_once [OF demo_paid_steps inv, of p] p
  obtain p' where "p' \<in> set (payments demo_paid)" "pay_AmountCents p' = 2500" "pay_ID p' = ''aiiii''"
    "deposited (transactions demo_paid) ''aiiii'' = (if pay_Status p' = ''succeeded'' then 2500 else 0)"
    by auto
  moreover have "\<forall>p' \<in> set (payments demo_paid). pay_Status p' = ''succeeded''" by code_simp
  ultimately show ?thesis by auto
qed

text \<open>
  A webhook event takes effect at most once. After \<open>HandleWebhook\<close> accepted an event,
  whatever other calls happen in between, another delivery that carries the same event id changes
  nothing, whether it is answered with success or an error.
\<close>

theorem webhook_once:
  assumes "HandleWebhook hm parse secret payload sig s = (Inr (), t)" and "parse payload = Some ev"
    and "payment_step\<^sup>*\<^sup>* (committed t) (committed s')"
    and "parse payload' = Some ev'" and "sev_ID ev' = sev_ID ev"
  shows "committed (snd (HandleWebhook hm parse secret payload' sig' s')) = committed s'"
proof -
  have rec: "sev_ID ev \<in> se_id ` set (stripe_events (committed t))"
    using assms(2) by (rule_tac HandleWebhook_effect [OF assms(1)])
      (auto simp: record_event_def image_update_where)
  with stripe_events_persist [OF assms(3)] assms(5)
  have seen: "sev_ID ev' \<in> se_id ` set (stripe_events (committed s'))" by auto
  obtain r u where run: "HandleWebhook hm parse secret payload' sig' s' = (r, u)" by fastforce
  show ?thesis
  proof (cases r)
    case (Inl e)
    with atomicD [OF atomic_payment_ops(3)] run show ?thesis by simp
  next
    case (Inr x)
    with run have ok: "HandleWebhook hm parse secret payload' sig' s' = (Inr x, u)" by simp
    show ?thesis using assms(4) seen by (rule_tac HandleWebhook_effect [OF ok]) (auto simp: run)
  qed
qed

definition demo_parse :: "string \<Rightarrow> stripeEvent option" where
  "demo_parse payload = Some \<lparr>sev_ID = ''evt1'', sev_Type = ''payment_intent.succeeded'',
     sev_ObjectID = ''pi_ai''\<rparr>"

definition demo_webhook :: "string \<Rightarrow> db \<Rightarrow> (err + unit) \<times> db conn" where
  "demo_webhook tag d = HandleWebhook (\<lambda>k m. []) demo_parse '''' ''body'' '''' (quiet tag d)"

theorem webhook_once_witness:
  "let d = committed (snd (demo_webhook ''w'' demo_paying)) in
     deposited (transactions d) ''aiiii'' = 2500 \<and> committed (snd (demo_webhook ''x'' d)) = d"
proof -
  let ?d = "committed (snd (demo_webhook ''w'' demo_paying))"
  have "fst (demo_webhook ''w'' demo_paying) = Inr ()" by code_simp
  then have run: "HandleWebhook (\<lambda>k m. []) demo_parse '''' ''body'' '''' (quiet ''w'' demo_paying)
      = (Inr (), snd (demo_webhook ''w'' demo_paying))"
    by (simp add: demo_webhook_def prod_eq_iff)
  have "deposited (transactions ?d) ''aiiii'' = 2500" by code_simp
  with webhook_once [OF run, of _ "quiet ''x'' ?d" "''body''" _ "''''"] show ?thesis
    by (simp add: demo_parse_def demo_webhook_def Let_def)
qed

text \<open>
  C15: \<open>CreatePaymentIntent\<close> is idempotent on a non-empty key. After it succeeded, whatever happens
  in between, a call with the same key (and any positive amount, payer or contract) in which no
  statement fails returns the same payment id and changes nothing.
\<close>

theorem intent_idempotent:
  assumes "CreatePaymentIntent (select_stripe (\<lambda>n cur k. liftE (live n cur k)) sk) u c n cur k s = (Inr r, t)"
    and "k \<noteq> ''''" and "payment_inv (committed s)"
    and "payment_step\<^sup>*\<^sup>* (committed t) (committed s')" and "reliable s'" and "0 < n'"
  shows "\<exists>r' t'. CreatePaymentIntent stripe u' c' n' cur' k s' = (Inr r', t') \<and>
    cir_PaymentID r' = cir_PaymentID r \<and> committed t' = committed s'"
proof -
  let ?key = "\<lambda>p. pay_IdempotencyKey p = Some k"
  from CreatePaymentIntent_effect [where stripe = "select_stripe (\<lambda>n cur k. liftE (live n cur k)) sk",
      OF assms(1) keeps_select_stripe] assms(2)
  obtain p where p: "p \<in> set (payments (committed t))" "?key p" "pay_ID p = cir_PaymentID r"
    by (auto dest: create_effect_row)
  from payment_steps_persist [OF assms(4) p(1)] p obtain p' where
    p': "p' \<in> set (payments (committed s'))" "?key p'" "pay_ID p' = cir_PaymentID r" by auto
  then obtain q where q: "select_one ?key (payments (committed s')) = Some q"
    by (cases "select_one ?key (payments (committed s'))") (auto simp: select_one_None_iff)
  have inv: "payment_inv (committed s')"
    using payment_system.steps_inv [OF assms(4)]
      payment_system.step_inv [OF payment_step.step_create [OF assms(1)] assms(3)] by simp
  have "q = p'"
    using inv p' select_one_SomeD [OF q]
    by (intro distinct_key_unique [of pay_IdempotencyKey "filter (\<lambda>p. pay_IdempotencyKey p \<noteq> None)
          (payments (committed s'))"]) (auto simp: payment_inv_def)
  with q p' assms(2,5,6) show ?thesis
    by (simp add: CreatePaymentIntent_def Let_def io_run GetPaymentByIdempotencyKey_def resultFromPayment_def)
qed

theorem intent_idempotent_witness:
  "\<exists>r t. CreatePaymentIntent stubStripe ''mallory'' None 1 '''' ''key'' (quiet ''z'' demo_paid) = (Inr r, t) \<and>
     cir_PaymentID r = ''aiiii'' \<and> committed t = demo_paid"
proof -
  have "case fst (demo_intent ''a'' demo_payer) of Inr r \<Rightarrow> cir_PaymentID r = ''aiiii'' | Inl e \<Rightarrow> False"
    by code_simp
  then obtain r where r: "fst (demo_intent ''a'' demo_payer) = Inr r" "cir_PaymentID r = ''aiiii''"
    by (auto split: sum.splits)
  then have run: "CreatePaymentIntent (select_stripe (\<lambda>n cur k. liftE (Inl DBError)) '''') ''client'' (Some ''c1'')
      2500 ''USD'' ''key'' (quiet ''a'' demo_payer) = (Inr r, snd (demo_intent ''a'' demo_payer))"
    by (simp add: demo_intent_def demo_live_def prod_eq_iff)
  from intent_idempotent [OF run, of "quiet ''z'' demo_paid" 1 stubStripe "''mallory''" None "''''"]
    r(2) payment_inv_demo demo_paid_steps
  show ?thesis by (simp add: demo_paying_def [symmetric])
qed

lemma skew_accepted:
  "(if (if is_int64 d then d else if d < 0 then - (2 ^ 63) else 2 ^ 63 - 1) < 0
    then int64 (- (if is_int64 d then d else if d < 0 then - (2 ^ 63) else 2 ^ 63 - 1))
    else (if is_int64 d then d else if d < 0 then - (2 ^ 63) else 2 ^ 63 - 1)) \<le> 300 * 10 ^ 9
   \<longleftrightarrow> \<bar>d\<bar> \<le> 300 * 10 ^ 9 \<or> d \<le> - (2 ^ 63)"
proof -
  have min: "int64 (2 ^ 63) = - (2 ^ 63)" by code_simp
  consider "d \<le> - (2 ^ 63)" | "- (2 ^ 63) < d" "d < 2 ^ 63" | "2 ^ 63 \<le> d" by linarith
  then show ?thesis
  proof cases
    case 2
    then have "int64 (- d) = - d" by (intro int64_id) (simp add: is_int64_def)
    with 2 show ?thesis by (auto simp: is_int64_def)
  qed (use min in \<open>auto simp: is_int64_def\<close>)
qed


end
