(* ===== verification/Payment_API.thy ===== *)
theory Payment_API
  imports Payment_Props
begin

text \<open>
  \<open>services/payment/internal/httpapi\<close>: the payment endpoints. Only \<open>createIntent\<close> looks at the
  caller's identity; \<open>confirm\<close>, \<open>getPayment\<close> and \<open>listForContract\<close> take no identity at all.
\<close>

definition mapError :: "err \<Rightarrow> response" where
  "mapError e =
     (if e = ErrNotFound then Problem 404 ''NOT_FOUND''
      else if e = ErrInvalidSignature then Problem 400 ''INVALID_SIGNATURE''
      else Problem 500 ''INTERNAL'')"

definition opt_str :: "string option \<Rightarrow> json" where
  "opt_str r = (case r of None \<Rightarrow> JNull | Some x \<Rightarrow> JStr x)"

definition paymentDTO :: "Payment \<Rightarrow> json" where
  "paymentDTO p = JObj [(''payment_id'', JStr (pay_ID p)), (''contract_id'', opt_str (pay_ContractID p)),
     (''payer_id'', JStr (pay_PayerID p)), (''amount_cents'', JInt (pay_AmountCents p)),
     (''currency'', JStr (pay_Currency p)), (''status'', JStr (pay_Status p)),
     (''stripe_payment_intent_id'', opt_str (pay_StripePaymentIntentID p)),
     (''stripe_charge_id'', opt_str (pay_StripeChargeID p)),
     (''failure_reason'', opt_str (pay_FailureReason p)),
     (''created_at'', JInt (pay_CreatedAt p)), (''updated_at'', JInt (pay_UpdatedAt p))]"

definition intentJSON :: "CreateIntentResult \<Rightarrow> json" where
  "intentJSON r = JObj [(''payment_id'', JStr (cir_PaymentID r)),
     (''stripe_payment_intent_id'', JStr (cir_StripePaymentIntentID r)),
     (''client_secret'', JStr (cir_ClientSecret r)), (''status'', JStr (cir_Status r))]"

record createIntentReq =
  cirq_ContractID :: string
  cirq_AmountCents :: int
  cirq_Currency :: string
  cirq_IdempotencyKey :: string

definition createIntent ::
  "stripe_client \<Rightarrow> string \<Rightarrow> string \<Rightarrow> createIntentReq option \<Rightarrow> (db, response) io" where
  "createIntent stripe payerID idemHeader body =
     guarded (ret (decode body)) (\<lambda>req.
     if payerID = '''' then ret (Problem 401 ''UNAUTHENTICATED'') else
     let idemKey = (if idemHeader = '''' then cirq_IdempotencyKey req else idemHeader);
         contractID = (if cirq_ContractID req \<noteq> '''' then Some (cirq_ContractID req) else None)
     in handle mapError
          (CreatePaymentIntent stripe payerID contractID (cirq_AmountCents req) (cirq_Currency req) idemKey)
          (\<lambda>res. Reply 201 (intentJSON res)))"

definition confirm :: "string \<Rightarrow> (db, response) io" where
  "confirm i = handle mapError (ConfirmPayment i) (\<lambda>p. Reply 200 (paymentDTO p))"

definition getPayment :: "string \<Rightarrow> (db, response) io" where
  "getPayment i = handle mapError (GetPayment i) (\<lambda>p. Reply 200 (paymentDTO p))"

definition listForContract :: "string \<Rightarrow> (db, response) io" where
  "listForContract contractID =
     (if contractID = '''' then ret (Problem 400 ''MISSING_PARAM'') else
      handle mapError (ListPaymentsForContract contractID)
        (\<lambda>ps. Reply 200 (JObj [(''payments'', JArr (map paymentDTO ps))])))"

text \<open>\<open>None\<close> is a body that cannot be read within the limit of 1 MiB.\<close>

definition webhook ::
  "(string \<Rightarrow> string \<Rightarrow> string) \<Rightarrow> (string \<Rightarrow> stripeEvent option) \<Rightarrow> string \<Rightarrow> string option \<Rightarrow> string \<Rightarrow>
   (db, response) io" where
  "webhook hmac_hex parse secret body sig =
     (case body of
        None \<Rightarrow> ret (Problem 400 ''INVALID_BODY'')
      | Some payload \<Rightarrow> handle mapError (HandleWebhook hmac_hex parse secret payload sig)
          (\<lambda>_. Reply 200 (JObj [(''received'', JBool True)])))"

section \<open>Confirming\<close>

lemma insert_pay_legs_run [io_run]:
  assumes "reliable s" "\<not> aborted s"
    and "\<forall>l \<in> set ls. is_int64 (pl_AmountCents l) \<and>
      (\<forall>i. pl_PaymentID l = Some i \<longrightarrow> i \<in> pay_ID ` set (payments (work s)))"
  shows "\<exists>t. insert_pay_legs g ls s = (Inr (), t) \<and> reliable t \<and> \<not> aborted t \<and> clock t = clock s \<and>
    committed t = committed s \<and>
    work t = (work s)\<lparr>transactions := transactions (work s) @ map (pay_leg_txn g) ls\<rparr>"
  using assms
proof (induction ls arbitrary: s)
  case Nil
  then show ?case by (simp add: io_run)
next
  case (Cons l ls)
  let ?s = "(tick s)\<lparr>work := (work s)\<lparr>transactions := transactions (work s) @ [pay_leg_txn g l]\<rparr>\<rparr>"
  from Cons.prems have "insert_pay_legs g (l # ls) s = insert_pay_legs g ls ?s"
    by (auto simp: io_run split: option.splits)
  moreover from Cons.prems have "reliable ?s" "\<not> aborted ?s" by (simp_all add: reliable_def)
  ultimately show ?case using Cons.IH [of ?s] Cons.prems by auto
qed

lemma writeDepositLedger_run:
  assumes s: "reliable s" "\<not> aborted s" and p: "pay_ID p \<in> pay_ID ` set (payments (work s))"
    "0 < pay_AmountCents p" "is_int64 (pay_AmountCents p)"
  shows "\<exists>t g. writeDepositLedger p s = (Inr (), t) \<and> reliable t \<and> \<not> aborted t \<and>
    committed t = committed s \<and>
    work t = post_event (captured_event p)
      ((work s)\<lparr>transactions := transactions (work s) @ map (pay_leg_txn g) (deposit_legs p)\<rparr>)"
proof -
  let ?s = "s\<lparr>ids := (\<lambda>n. ids s (Suc n))\<rparr>" and ?g = "ids s 0"
  have "sum_int64 0 (map pl_AmountCents (deposit_legs p)) = 0"
    using p(2,3) by (simp add: sum_int64_0 deposit_legs_def int64_neg_amount)
  then have w: "WriteLegs ?g (deposit_legs p) ?s = insert_pay_legs ?g (deposit_legs p) ?s"
    by (simp add: WriteLegs_def)
  have "\<forall>l \<in> set (deposit_legs p). is_int64 (pl_AmountCents l) \<and>
      (\<forall>i. pl_PaymentID l = Some i \<longrightarrow> i \<in> pay_ID ` set (payments (work ?s)))"
    using p by (auto simp: deposit_legs_def)
  from insert_pay_legs_run [OF _ _ this, of ?g] s obtain u where
    u: "insert_pay_legs ?g (deposit_legs p) ?s = (Inr (), u)" "reliable u" "\<not> aborted u" "committed u = committed s"
      "work u = (work s)\<lparr>transactions := transactions (work s) @ map (pay_leg_txn ?g) (deposit_legs p)\<rparr>"
    by (auto simp: reliable_updates)
  then show ?thesis
    by (intro exI [of _ "(tick u)\<lparr>work := post_event (captured_event p) (work u)\<rparr>"] exI [of _ ?g])
      (simp add: writeDepositLedger_def io_run w Enqueue_def)
qed

lemma ConfirmPayment_run:
  assumes s: "reliable s" and p: "select_one (is_processing i) (payments (committed s)) = Some p"
    and ok: "0 < pay_AmountCents p" "is_int64 (pay_AmountCents p)"
  shows "\<exists>t ch g. ConfirmPayment i s = (Inr (succeeded (clock s) ch p), t) \<and>
    committed t = confirm_effect (clock s) ch g p (committed s)"
proof -
  let ?ch = "''ch_'' @ ids s (Suc 0)" and ?d = "committed s"
  let ?d1 = "?d\<lparr>payments := update_where (is_processing i) (succeeded (clock s) ?ch) (payments ?d)\<rparr>"
  define s2 where "s2 = (tick ((tick s)\<lparr>work := ?d, aborted := False, ids := (\<lambda>n. ids s (Suc (Suc n)))\<rparr>))\<lparr>work := ?d1\<rparr>"
  have i: "pay_ID p = i" and mem: "p \<in> set (payments ?d)"
    using select_one_SomeD [OF p] by (auto simp: is_processing_def)
  have run: "ConfirmPayment i s = (bindE (writeDepositLedger (succeeded (clock s) ?ch p)) (\<lambda>_.
      bindE commit_tx (\<lambda>_. ret (succeeded (clock s) ?ch p)))) s2"
    using s p unfolding ConfirmPayment_def MarkSucceeded_def
    by (simp add: io_run s2_def is_processing_def [abs_def] Let_def)
  have "reliable s2" "\<not> aborted s2" "work s2 = ?d1" using s by (simp_all add: s2_def reliable_def)
  with writeDepositLedger_run [of s2 "succeeded (clock s) ?ch p"] mem ok i
  obtain u g where "writeDepositLedger (succeeded (clock s) ?ch p) s2 = (Inr (), u)" "reliable u" "\<not> aborted u"
    "work u = confirm_effect (clock s) ?ch g p ?d"
    by (auto simp: image_update_where confirm_effect_def)
  then show ?thesis unfolding run by (auto simp: io_run)
qed

lemma ConfirmPayment_missing:
  assumes "reliable s" "select_one (is_processing i) (payments (committed s)) = None"
  shows "\<exists>t. ConfirmPayment i s = (Inl ErrNotFound, t) \<and> committed t = committed s"
  using assms unfolding ConfirmPayment_def MarkSucceeded_def
  by (simp add: io_run is_processing_def [abs_def] Let_def)

text \<open>
  What \<open>POST /v1/payments/{id}/confirm\<close> does when no statement fails. For a payment that is
  still processing it answers 200 and credits the deposit, for anyone who sends the request: the
  handler takes no caller identity and no proof from Stripe. In every other case (unknown id,
  already succeeded) it answers 404 and changes nothing.
\<close>

theorem confirm_outcome:
  assumes "reliable s" and "payment_inv (committed s)"
  shows "\<exists>r t. confirm i s = (Inr r, t) \<and>
    (case select_one (\<lambda>p. pay_ID p = i \<and> pay_Status p = ''processing'') (payments (committed s)) of
       None \<Rightarrow> r = Problem 404 ''NOT_FOUND'' \<and> committed t = committed s
     | Some p \<Rightarrow> status_of r = 200 \<and>
         deposited (transactions (committed t)) i = pay_AmountCents p \<and>
         deposited (transactions (committed s)) i = 0)"
proof -
  have P: "(\<lambda>p. pay_ID p = i \<and> pay_Status p = ''processing'') = is_processing i"
    by (simp add: is_processing_def [abs_def])
  show ?thesis
  proof (cases "select_one (is_processing i) (payments (committed s))")
    case None
    with ConfirmPayment_missing [OF assms(1) None] show ?thesis
      by (auto simp: P confirm_def handle_run mapError_def)
  next
    case (Some p)
    then have p: "p \<in> set (payments (committed s))" "pay_ID p = i" "pay_Status p = ''processing''"
      by (auto dest!: select_one_SomeD simp: is_processing_def)
    with payment_invD(2) [OF assms(2)] have ok: "payment_ok (transactions (committed s)) p" by blast
    with ConfirmPayment_run [OF assms(1) Some] p Some show ?thesis
      by (auto simp: P confirm_def handle_run payment_ok_def deposited_legs)
  qed
qed

theorem confirm_outcome_witness:
  "\<exists>r t. confirm ''aiiii'' (quiet ''n'' demo_paying) = (Inr r, t) \<and> status_of r = 200 \<and>
     deposited (transactions (committed t)) ''aiiii'' = 2500"
proof -
  have "payment_inv demo_paying"
    using payment_system.step_inv [OF demo_intent_step payment_inv_demo] by (simp add: demo_paying_def)
  moreover have "case select_one (\<lambda>p. pay_ID p = ''aiiii'' \<and> pay_Status p = ''processing'') (payments demo_paying) of
      None \<Rightarrow> False | Some p \<Rightarrow> pay_AmountCents p = 2500" by code_simp
  ultimately show ?thesis
    using confirm_outcome [of "quiet ''n'' demo_paying" "''aiiii''"] by (auto split: option.splits)
qed

end
