(* ===== verification/Relay.thy ===== *)
theory Relay
  imports Outbox Go_Text
begin

text \<open>
  The relay of \<open>services/pkg/outbox\<close>: \<open>drain\<close> reads the oldest unpublished rows that no other
  replica has locked, publishes each and marks it, all in one transaction. The broker is a
  parameter: its answer to every \<open>Publish\<close> call. What it has accepted is a buslog beside the
  database, because a rollback does not take a published message back.
\<close>

section \<open>Publishing\<close>

record bus_message =
  bm_Topic :: string
  bm_Key :: string
  bm_Payload :: json
  bm_Headers :: "(string \<times> string) list"

text \<open>A failed call may or may not have reached the broker.\<close>

datatype publish_answer = Acked | Lost | Delivered_unacked

definition eventID :: "string \<Rightarrow> int \<Rightarrow> string" where
  "eventID source i = (if source \<noteq> '''' then source @ '':'' @ show_int i else show_int i)"

text \<open>Assignment to a Go map.\<close>

fun set_header :: "string \<Rightarrow> string \<Rightarrow> (string \<times> string) list \<Rightarrow> (string \<times> string) list" where
  "set_header k v [] = [(k, v)]"
| "set_header k v ((k', v') # hs) = (if k = k' then (k, v) # hs else (k', v') # set_header k v hs)"

definition relay_message :: "string \<Rightarrow> outbox_row \<Rightarrow> bus_message" where
  "relay_message source r =
     \<lparr>bm_Topic = ev_Topic (ob_event r), bm_Key = ev_PartitionKey (ob_event r),
      bm_Payload = ev_Payload (ob_event r),
      bm_Headers = set_header ''event-type'' (ev_EventType (ob_event r))
        (set_header ''event-id'' (eventID source (ob_id r)) (ev_Headers (ob_event r)))\<rparr>"

definition mark_published :: "int \<Rightarrow> ('a outbox_db_scheme, unit) io" where
  "mark_published i = tx_stmt (\<lambda>now uid d. Inr ((), d\<lparr>outbox :=
     update_where (\<lambda>r. ob_id r = i) (\<lambda>r. r\<lparr>ob_published_at := Some now\<rparr>) (outbox d)\<rparr>))"

text \<open>The publishing loop. \<open>ans n\<close> is the broker's answer to call number \<open>n\<close>.\<close>

fun publish_rows ::
  "(nat \<Rightarrow> publish_answer) \<Rightarrow> string \<Rightarrow> outbox_row list \<Rightarrow> bus_message list \<Rightarrow> 'a outbox_db_scheme conn \<Rightarrow>
   (err + unit) \<times> 'a outbox_db_scheme conn \<times> bus_message list" where
  "publish_rows ans source [] buslog s = (Inr (), s, buslog)"
| "publish_rows ans source (r # rs) buslog s =
     (case ans 0 of
        Lost \<Rightarrow> (Inl (Errorf ''publish''), s, buslog)
      | Delivered_unacked \<Rightarrow> (Inl (Errorf ''publish''), s, buslog @ [relay_message source r])
      | Acked \<Rightarrow>
          (case mark_published (ob_id r) s of
             (Inl e, s') \<Rightarrow> (Inl e, s', buslog @ [relay_message source r])
           | (Inr _, s') \<Rightarrow>
               publish_rows (\<lambda>n. ans (Suc n)) source rs (buslog @ [relay_message source r]) s'))"

text \<open>
  \<open>WHERE published_at IS NULL ORDER BY id FOR UPDATE SKIP LOCKED LIMIT batch\<close>. Rows are kept in
  identity order (identities only grow).
\<close>

definition pending :: "(int \<Rightarrow> bool) \<Rightarrow> outbox_row list \<Rightarrow> outbox_row list" where
  "pending locked rs = filter (\<lambda>r. ob_published_at r = None \<and> \<not> locked (ob_id r)) rs"

definition drain ::
  "(nat \<Rightarrow> publish_answer) \<Rightarrow> string \<Rightarrow> nat \<Rightarrow> (int \<Rightarrow> bool) \<Rightarrow> bus_message list \<Rightarrow> 'a outbox_db_scheme conn \<Rightarrow>
   (err + unit) \<times> 'a outbox_db_scheme conn \<times> bus_message list" where
  "drain ans source batch locked buslog s =
     (case begin_tx s of
        (Inl e, s1) \<Rightarrow> (Inl e, s1, buslog)
      | (Inr _, s1) \<Rightarrow>
          (case tx_stmt (\<lambda>now uid d. Inr (take batch (pending locked (outbox d)), d)) s1 of
             (Inl e, s2) \<Rightarrow> (Inl e, s2, buslog)
           | (Inr rows, s2) \<Rightarrow>
               (case publish_rows ans source rows buslog s2 of
                  (Inl e, s3, buslog') \<Rightarrow> (Inl e, s3, buslog')
                | (Inr _, s3, buslog') \<Rightarrow>
                    (case commit_tx s3 of
                       (Inl e, s4) \<Rightarrow> (Inl e, s4, buslog')
                     | (Inr _, s4) \<Rightarrow> (Inr (), s4, buslog')))))"

section \<open>What a drain does\<close>

definition published_as :: "string \<Rightarrow> bus_message list \<Rightarrow> outbox_row \<Rightarrow> bool" where
  "published_as source buslog r \<longleftrightarrow> relay_message source r \<in> set buslog"

definition mark_rows :: "int \<Rightarrow> outbox_row list \<Rightarrow> outbox_row list \<Rightarrow> outbox_row list" where
  "mark_rows now rs all = update_where (\<lambda>r. ob_id r \<in> ob_id ` set rs) (\<lambda>r. r\<lparr>ob_published_at := Some now\<rparr>) all"

lemma mark_rows_Nil [simp]: "mark_rows now [] all = all"
  by (simp add: mark_rows_def update_where_def)

lemma mark_rows_Cons:
  "mark_rows now rs (update_where (\<lambda>r'. ob_id r' = ob_id r) (\<lambda>r. r\<lparr>ob_published_at := Some now\<rparr>) all)
   = mark_rows now (r # rs) all"
  by (induction all) (auto simp: mark_rows_def)

lemma mark_published_ok:
  "mark_published i s = (Inr u, t) \<longleftrightarrow> \<not> aborted s \<and> \<not> faults s 0 \<and>
     t = (tick s)\<lparr>work := (work s)\<lparr>outbox :=
       update_where (\<lambda>r. ob_id r = i) (\<lambda>r. r\<lparr>ob_published_at := Some (clock s)\<rparr>) (outbox (work s))\<rparr>\<rparr>"
  by (auto simp: mark_published_def io_ok)

lemma keeps_mark_published [io_keeps]: "keeps (mark_published i)"
  unfolding mark_published_def by (intro io_keeps)

lemma publish_rows_log:
  assumes "publish_rows ans source rs buslog s = (r, t, buslog')"
  shows "committed t = committed s \<and> (\<exists>ms. buslog' = buslog @ ms \<and> set ms \<subseteq> relay_message source ` set rs)"
  using assms
proof (induction ans source rs buslog s rule: publish_rows.induct)
  case (2 ans source x rs buslog s)
  show ?case
  proof (cases "ans 0")
    case Acked
    obtain m s' where m: "mark_published (ob_id x) s = (m, s')" by fastforce
    then have "committed s' = committed s" by (rule keepsD [OF keeps_mark_published])
    with 2 Acked m show ?thesis by (cases m) fastforce+
  qed (use "2.prems" in auto)
qed simp

lemma publish_rows_ok:
  assumes "publish_rows ans source rs buslog s = (Inr u, t, buslog')"
  shows "buslog' = buslog @ map (relay_message source) rs \<and>
    work t = (work s)\<lparr>outbox := mark_rows (clock s) rs (outbox (work s))\<rparr> \<and> clock t = clock s"
  using assms
proof (induction ans source rs buslog s rule: publish_rows.induct)
  case (2 ans source x rs buslog s)
  from "2.prems" obtain s' where a: "ans 0 = Acked" and m: "mark_published (ob_id x) s = (Inr (), s')"
    and rest: "publish_rows (\<lambda>n. ans (Suc n)) source rs (buslog @ [relay_message source x]) s' = (Inr u, t, buslog')"
    by (auto split: publish_answer.splits prod.splits sum.splits)
  from "2.IH" [OF a m [symmetric] refl rest] m show ?case
    by (simp add: mark_published_ok mark_rows_Cons)
qed simp

lemma publish_rows_run:
  assumes "\<And>n. ans n = Acked" "reliable s" "\<not> aborted s"
  shows "\<exists>t buslog'. publish_rows ans source rs buslog s = (Inr (), t, buslog') \<and> reliable t \<and> \<not> aborted t"
  using assms
proof (induction ans source rs buslog s rule: publish_rows.induct)
  case (2 ans source x rs buslog s)
  let ?t = "(tick s)\<lparr>work := (work s)\<lparr>outbox := update_where (\<lambda>r. ob_id r = ob_id x)
      (\<lambda>r. r\<lparr>ob_published_at := Some (clock s)\<rparr>) (outbox (work s))\<rparr>\<rparr>"
  from "2.prems" have m: "mark_published (ob_id x) s = (Inr (), ?t)"
    by (simp add: mark_published_ok reliable_def)
  from "2.prems" have "reliable ?t" "\<not> aborted ?t" by (simp_all add: reliable_def)
  with "2.IH" [OF "2.prems"(1) m [symmetric] refl] "2.prems"(1) m show ?case by simp
qed simp

text \<open>The outcome of a drain: published and marked, or an error with the database untouched.\<close>

lemma drain_effect:
  assumes "drain ans source batch locked buslog s = (r, t, buslog')"
  defines "rows \<equiv> take batch (pending locked (outbox (committed s)))"
  shows "case r of
      Inr _ \<Rightarrow> buslog' = buslog @ map (relay_message source) rows \<and>
        committed t = (committed s)\<lparr>outbox := mark_rows (clock s) rows (outbox (committed s))\<rparr>
    | Inl _ \<Rightarrow> committed t = committed s \<and> (\<exists>ms. buslog' = buslog @ ms \<and> set ms \<subseteq> relay_message source ` set rows)"
proof (cases "faults s 0")
  case True
  with assms(1) show ?thesis by (auto simp: drain_def begin_tx_def)
next
  case b: False
  define s1 where "s1 = (tick s)\<lparr>work := committed s, aborted := False\<rparr>"
  have s1: "begin_tx s = (Inr (), s1)" using b by (simp add: begin_tx_def s1_def)
  show ?thesis
  proof (cases "faults s1 0")
    case True
    with assms(1) show ?thesis by (auto simp: drain_def s1 tx_stmt_def) (auto simp: s1_def)
  next
    case False
    define s2 where "s2 = (tick s1)\<lparr>work := committed s\<rparr>"
    have s2: "tx_stmt (\<lambda>now uid d. Inr (take batch (pending locked (outbox d)), d)) s1 = (Inr rows, s2)"
      using False by (simp add: tx_stmt_def s1_def s2_def rows_def)
    obtain p s3 log3 where p: "publish_rows ans source rows buslog s2 = (p, s3, log3)" by (metis prod_cases3)
    from publish_rows_log [OF p] have l: "committed s3 = committed s"
      "\<exists>ms. log3 = buslog @ ms \<and> set ms \<subseteq> relay_message source ` set rows" by (auto simp: s2_def s1_def)
    show ?thesis
    proof (cases p)
      case (Inl e)
      with assms(1) p l show ?thesis by (auto simp: drain_def s1 s2)
    next
      case (Inr u)
      with publish_rows_ok p have ok: "log3 = buslog @ map (relay_message source) rows"
        "work s3 = (committed s)\<lparr>outbox := mark_rows (clock s) rows (outbox (committed s))\<rparr>"
        by (force simp: s2_def s1_def)+
      from assms(1) Inr p ok l show ?thesis
        by (auto simp: drain_def s1 s2 commit_tx_def split: if_splits)
    qed
  qed
qed

lemma drain_run:
  assumes "\<And>n. ans n = Acked" "reliable s"
  shows "\<exists>t buslog'. drain ans source batch locked buslog s = (Inr (), t, buslog') \<and> reliable t"
proof -
  define s2 where "s2 = (tick ((tick s)\<lparr>work := committed s, aborted := False\<rparr>))\<lparr>work := committed s\<rparr>"
  let ?rows = "take batch (pending locked (outbox (committed s)))"
  have "reliable s2" "\<not> aborted s2" using assms(2) by (simp_all add: s2_def reliable_def)
  from publish_rows_run [where ans = ans, OF assms(1) this] obtain t buslog' where
    p: "publish_rows ans source ?rows buslog s2 = (Inr (), t, buslog')" "reliable t" "\<not> aborted t" by blast
  have "drain ans source batch locked buslog s = (Inr (), (tick t)\<lparr>committed := work t\<rparr>, buslog')"
    using assms(2) p by (simp add: drain_def begin_tx_def tx_stmt_def commit_tx_def s2_def reliable_def)
  with p(2) show ?thesis by (simp add: reliable_def)
qed

section \<open>The relay loop\<close>

text \<open>
  \<open>Run\<close> for a number of ticks: an error of a drain is logged and the next tick tries again.
  \<open>ans k\<close> and \<open>locked k\<close> are what the broker and the other replicas do during tick \<open>k\<close>.
\<close>

fun Run ::
  "(nat \<Rightarrow> nat \<Rightarrow> publish_answer) \<Rightarrow> string \<Rightarrow> nat \<Rightarrow> (nat \<Rightarrow> int \<Rightarrow> bool) \<Rightarrow> nat \<Rightarrow> bus_message list \<Rightarrow>
   'a outbox_db_scheme conn \<Rightarrow> 'a outbox_db_scheme conn \<times> bus_message list" where
  "Run ans source batch locked 0 buslog s = (s, buslog)"
| "Run ans source batch locked (Suc n) buslog s =
     (case drain (ans 0) source batch (locked 0) buslog s of
        (r, t, buslog') \<Rightarrow> Run (\<lambda>k. ans (Suc k)) source batch (\<lambda>k. locked (Suc k)) n buslog' t)"

abbreviation unpublished :: "'a outbox_db_scheme \<Rightarrow> outbox_row list" where
  "unpublished d \<equiv> pending (\<lambda>_. False) (outbox d)"

definition outbox_ok :: "'a outbox_db_scheme \<Rightarrow> bool" where
  "outbox_ok d \<longleftrightarrow> (let is = map ob_id (outbox d) in sorted_wrt (<) is \<and> (\<forall>i \<in> set is. i < outbox_seq d))"

lemma outbox_ok_distinct: "outbox_ok d \<Longrightarrow> distinct (map ob_id (outbox d))"
  unfolding outbox_ok_def Let_def by (meson strict_sorted_iff)

lemma outbox_ok_post: "outbox_ok d \<Longrightarrow> outbox_ok (post_event e d)"
  by (fastforce simp: outbox_ok_def Let_def sorted_wrt_append)

lemma map_ob_id_mark_rows [simp]: "map ob_id (mark_rows now rs all) = map ob_id all"
  by (simp add: mark_rows_def map_update_where_same)

lemma outbox_ok_mark: "outbox_ok d \<Longrightarrow> outbox_ok (d\<lparr>outbox := mark_rows now rs (outbox d)\<rparr>)"
  by (simp add: outbox_ok_def Let_def del: set_map)

lemma filter_take_keys:
  "distinct (map k xs) \<Longrightarrow> filter (\<lambda>x. k x \<notin> k ` set (take n xs)) xs = drop n xs"
proof (induction xs arbitrary: n)
  case (Cons x xs)
  show ?case
  proof (cases n)
    case 0
    then show ?thesis by simp
  next
    case (Suc m)
    have "filter (\<lambda>y. k y \<noteq> k x \<and> k y \<notin> k ` set (take m xs)) xs = filter (\<lambda>y. k y \<notin> k ` set (take m xs)) xs"
      using Cons.prems by (intro filter_cong) (auto, metis image_eqI)
    with Suc Cons show ?thesis by simp
  qed
qed simp

lemma pending_mark_rows:
  assumes "distinct (map ob_id all)"
  shows "pending (\<lambda>_. False) (mark_rows now (take b (pending (\<lambda>_. False) all)) all) = drop b (pending (\<lambda>_. False) all)"
proof -
  have *: "pending (\<lambda>_. False) (mark_rows now rs all) = filter (\<lambda>r. ob_id r \<notin> ob_id ` set rs) (pending (\<lambda>_. False) all)"
    for rs by (induction all) (auto simp: pending_def mark_rows_def)
  have "distinct (map ob_id (pending (\<lambda>_. False) all))"
    using assms by (simp add: pending_def distinct_map_filter)
  then show ?thesis by (simp add: * filter_take_keys)
qed

section \<open>Reachable states\<close>

text \<open>
  A step is a committed \<open>Enqueue\<close> of some service transaction, or a drain by a relay, whatever
  its outcome. The state is the database and the broker's buslog.
\<close>

inductive relay_step ::
  "string \<Rightarrow> 'a outbox_db_scheme \<times> bus_message list \<Rightarrow> 'a outbox_db_scheme \<times> bus_message list \<Rightarrow> bool"
  for source where
  step_enqueue: "relay_step source (d, buslog) (post_event e d, buslog)"
| step_drain: "drain ans source batch locked buslog s = (r, t, buslog') \<Longrightarrow>
     relay_step source (committed s, buslog) (committed t, buslog')"

definition relay_inv :: "string \<Rightarrow> 'a outbox_db_scheme \<times> bus_message list \<Rightarrow> bool" where
  "relay_inv source st \<longleftrightarrow> outbox_ok (fst st) \<and>
     (\<forall>r \<in> set (outbox (fst st)). ob_published_at r \<noteq> None \<longrightarrow> relay_message source r \<in> set (snd st)) \<and>
     set (snd st) \<subseteq> relay_message source ` set (outbox (fst st))"

lemma relay_message_mark [simp]: "relay_message source (r\<lparr>ob_published_at := p\<rparr>) = relay_message source r"
  by (simp add: relay_message_def)

lemma image_mark_rows [simp]:
  "relay_message source ` set (mark_rows now rs all) = relay_message source ` set all"
  by (induction all) (auto simp: mark_rows_def)

lemma relay_inv_drain:
  assumes "drain ans source batch locked buslog s = (r, t, buslog')" and inv: "relay_inv source (committed s, buslog)"
  shows "relay_inv source (committed t, buslog')"
proof -
  let ?d = "committed s" and ?rows = "take batch (pending locked (outbox (committed s)))"
  have sub: "set ?rows \<subseteq> set (outbox ?d)" by (auto simp: pending_def dest!: in_set_takeD)
  show ?thesis
  proof (cases r)
    case (Inl e)
    with drain_effect [OF assms(1)] obtain ms where "committed t = ?d" "buslog' = buslog @ ms"
      "set ms \<subseteq> relay_message source ` set ?rows" by auto
    moreover have "relay_message source ` set ?rows \<subseteq> relay_message source ` set (outbox ?d)"
      using sub by (rule image_mono)
    ultimately show ?thesis using inv by (simp add: relay_inv_def)
  next
    case (Inr u)
    with drain_effect [OF assms(1)] have
      buslog': "buslog' = buslog @ map (relay_message source) ?rows" and
      d': "committed t = ?d\<lparr>outbox := mark_rows (clock s) ?rows (outbox ?d)\<rparr>" by auto
    have ok: "outbox_ok ?d" using inv by (simp add: relay_inv_def)
    have "relay_message source x \<in> set buslog'"
      if "x \<in> set (mark_rows (clock s) ?rows (outbox ?d))" "ob_published_at x \<noteq> None" for x
    proof -
      from that(1) consider "x \<in> set (outbox ?d)"
        | y where "y \<in> set (outbox ?d)" "ob_id y \<in> ob_id ` set ?rows" "x = y\<lparr>ob_published_at := Some (clock s)\<rparr>"
        by (auto simp: mark_rows_def set_update_where)
      then show ?thesis
      proof cases
        case 1
        with inv that(2) show ?thesis by (simp add: relay_inv_def buslog')
      next
        case 2
        then obtain z where "z \<in> set ?rows" "ob_id z = ob_id y" by auto
        with sub 2 distinct_key_unique [OF outbox_ok_distinct [OF ok]] have "z = y" by blast
        with \<open>z \<in> set ?rows\<close> 2 show ?thesis by (auto simp: buslog')
      qed
    qed
    moreover have "relay_message source ` set ?rows \<subseteq> relay_message source ` set (outbox ?d)"
      using sub by (rule image_mono)
    ultimately show ?thesis using inv outbox_ok_mark [OF ok]
      by (simp add: relay_inv_def d' buslog')
  qed
qed

interpretation relay_system: invariant_system "relay_step source" "relay_inv source" for source
proof
  fix st st' :: "'a outbox_db_scheme \<times> bus_message list"
  assume "relay_step source st st'" "relay_inv source st"
  then show "relay_inv source st'"
    by (cases rule: relay_step.cases) (auto simp: relay_inv_drain, auto simp: relay_inv_def outbox_ok_post)
qed

section \<open>Properties\<close>

definition demo_event :: "string \<Rightarrow> Event" where
  "demo_event k = \<lparr>ev_AggregateType = ''escrow'', ev_AggregateID = k, ev_EventType = ''escrow.funded'',
     ev_Topic = ''escrow.events'', ev_PartitionKey = k, ev_Payload = JNull, ev_Headers = []\<rparr>"

definition demo_outbox :: db where
  "demo_outbox = post_event (demo_event ''c'') (post_event (demo_event ''b'') (post_event (demo_event ''a'') empty_db))"

lemma demo_outbox_ok: "outbox_ok demo_outbox"
  by (simp add: demo_outbox_def outbox_ok_def empty_db_def)

text \<open>
  C12: No event is lost and none is invented. Whatever the services enqueue and however the drains
  of any number of relays fail, in every reachable state each outbox row marked as published is in
  the broker's log, and every message of the log is the message of an outbox row.
\<close>

theorem relay_no_loss:
  assumes "(relay_step source)\<^sup>*\<^sup>* (d, []) (d', buslog)" and "outbox_ok d" and "unpublished d = outbox d"
  shows "(\<forall>r \<in> set (outbox d'). ob_published_at r \<noteq> None \<longrightarrow> relay_message source r \<in> set buslog) \<and>
    set buslog \<subseteq> relay_message source ` set (outbox d')"
proof -
  have "ob_published_at r = None" if "r \<in> set (outbox d)" for r
  proof -
    from that assms(3) have "r \<in> set (unpublished d)" by simp
    then show ?thesis by (simp add: pending_def)
  qed
  then have "relay_inv source (d, [])" using assms(2) by (auto simp: relay_inv_def)
  from relay_system.steps_inv [OF assms(1) this] show ?thesis by (simp add: relay_inv_def)
qed

definition demo_drain :: "(err + unit) \<times> db conn \<times> bus_message list" where
  "demo_drain = drain (\<lambda>n. if n < 2 then Acked else Delivered_unacked) ''escrow'' 10 (\<lambda>_. False) []
     (quiet ''r'' demo_outbox)"

theorem relay_no_loss_witness:
  "set (snd (snd demo_drain)) \<subseteq> relay_message ''escrow'' ` set (outbox demo_outbox) \<and>
   length (snd (snd demo_drain)) = 3 \<and> committed (fst (snd demo_drain)) = demo_outbox"
proof -
  have run: "drain (\<lambda>n. if n < 2 then Acked else Delivered_unacked) ''escrow'' 10 (\<lambda>_. False) [] (quiet ''r'' demo_outbox)
      = (fst demo_drain, fst (snd demo_drain), snd (snd demo_drain))" by (simp add: demo_drain_def)
  have err: "case fst demo_drain of Inl e \<Rightarrow> True | Inr u \<Rightarrow> False" "length (snd (snd demo_drain)) = 3"
    "unpublished demo_outbox = outbox demo_outbox" by code_simp+
  from err(1) drain_effect [OF run] have same: "committed (fst (snd demo_drain)) = demo_outbox"
    by (auto split: sum.splits)
  have "(relay_step ''escrow'')\<^sup>*\<^sup>* (demo_outbox, []) (demo_outbox, snd (snd demo_drain))"
    using step_drain [OF run] same by auto
  from relay_no_loss [OF this demo_outbox_ok err(3)] err(2) same show ?thesis by blast
qed

text \<open>
  C13: The outbox drains. When no statement fails, the broker acknowledges every message and no
  other replica interferes, \<open>n\<close> ticks of a relay with batch size \<open>b\<close> publish up to \<open>b * n\<close> events,
  each exactly once and in identity order, and leave none of them unpublished.
\<close>

theorem relay_drains:
  assumes "\<And>k m. ans k m = Acked" and "\<And>k i. \<not> locked k i" and "reliable s"
    and "outbox_ok (committed s)" and "length (unpublished (committed s)) \<le> b * n"
  shows "unpublished (committed (fst (Run ans source b locked n buslog s))) = [] \<and>
    snd (Run ans source b locked n buslog s) = buslog @ map (relay_message source) (unpublished (committed s))"
  using assms
proof (induction n arbitrary: ans locked buslog s)
  case (Suc n)
  from Suc.prems(2) have free: "locked 0 = (\<lambda>_. False)" by auto
  from drain_run [where ans = "ans 0", OF Suc.prems(1,3)] obtain t buslog' where
    d: "drain (ans 0) source b (locked 0) buslog s = (Inr (), t, buslog')" and t: "reliable t" by blast
  let ?P = "unpublished (committed s)"
  from drain_effect [OF d] have buslog': "buslog' = buslog @ map (relay_message source) (take b ?P)"
    and ct: "committed t = (committed s)\<lparr>outbox := mark_rows (clock s) (take b ?P) (outbox (committed s))\<rparr>"
    by (simp_all add: free)
  from pending_mark_rows [OF outbox_ok_distinct [OF Suc.prems(4)]]
  have rest: "unpublished (committed t) = drop b ?P" by (simp add: ct)
  have "outbox_ok (committed t)" using outbox_ok_mark [OF Suc.prems(4)] by (simp add: ct)
  moreover have "length (unpublished (committed t)) \<le> b * n" using Suc.prems(5) by (simp add: rest)
  ultimately have "unpublished (committed (fst (Run (\<lambda>k. ans (Suc k)) source b (\<lambda>k. locked (Suc k)) n buslog' t))) = [] \<and>
      snd (Run (\<lambda>k. ans (Suc k)) source b (\<lambda>k. locked (Suc k)) n buslog' t)
        = buslog' @ map (relay_message source) (drop b ?P)"
    using Suc.IH [where ans = "\<lambda>k. ans (Suc k)" and locked = "\<lambda>k. locked (Suc k)" and buslog = buslog',
        OF Suc.prems(1,2) t] by (simp only: rest)
  moreover have "map (relay_message source) (take b ?P) @ map (relay_message source) (drop b ?P)
      = map (relay_message source) ?P"
    by (simp only: map_append [symmetric] append_take_drop_id)
  ultimately show ?case by (simp add: d buslog')
qed simp

theorem relay_drains_witness:
  "unpublished (committed (fst (Run (\<lambda>_ _. Acked) ''escrow'' 2 (\<lambda>_ _. False) 2 [] (quiet ''r'' demo_outbox)))) = [] \<and>
   map bm_Key (snd (Run (\<lambda>_ _. Acked) ''escrow'' 2 (\<lambda>_ _. False) 2 [] (quiet ''r'' demo_outbox))) = [''a'', ''b'', ''c'']"
proof -
  have "length (unpublished demo_outbox) \<le> 2 * 2" "map (bm_Key \<circ> relay_message ''escrow'') (unpublished demo_outbox) = [''a'', ''b'', ''c'']"
    by code_simp+
  with relay_drains [of "\<lambda>_ _. Acked" "\<lambda>_ _. False" "quiet ''r'' demo_outbox" 2 2 "''escrow''" "[]"] demo_outbox_ok
  show ?thesis by simp
qed

text \<open>
  The de-duplication key of an event identifies it across databases: two events have the same
  \<open>event-id\<close> only if they come from the same source and have the same row identity.
\<close>

theorem eventID_unique:
  assumes "is_int64 i" and "is_int64 j"
  shows "eventID src i = eventID src' j \<longleftrightarrow> src = src' \<and> i = j"
proof -
  have colon: "CHR '':'' \<in> set (eventID a k) \<longleftrightarrow> a \<noteq> ''''" for a k
    by (auto simp: eventID_def show_int_no_colon)
  have parts: "a = a' \<and> x = x'" if "a @ CHR '':'' # x = a' @ CHR '':'' # x'" "CHR '':'' \<notin> set x" "CHR '':'' \<notin> set x'"
    for a a' x x' :: string
  proof -
    have tw: "takeWhile (\<lambda>c. c \<noteq> CHR '':'') (rev y @ CHR '':'' # rev b) = rev y" if "CHR '':'' \<notin> set y" for y b :: string
      using that by (subst takeWhile_append2) auto
    have "rev (a @ CHR '':'' # x) = rev (a' @ CHR '':'' # x')" using that(1) by (rule arg_cong)
    then have "rev x @ CHR '':'' # rev a = rev x' @ CHR '':'' # rev a'" by (simp only: rev_append rev.simps append_assoc append_Cons append_Nil)
    with tw [OF that(2), of a] tw [OF that(3), of a'] that(1) show ?thesis by auto
  qed
  show ?thesis
  proof (cases "src = '''' \<or> src' = ''''")
    case True
    with colon [of src i] colon [of src' j] have "eventID src i = eventID src' j \<Longrightarrow> src = '''' \<and> src' = ''''"
      by metis
    moreover have "eventID '''' i = eventID '''' j \<longleftrightarrow> i = j"
      by (simp add: eventID_def show_int_eq_iff [OF assms])
    ultimately show ?thesis using True by blast
  next
    case False
    then have e: "eventID src i = src @ CHR '':'' # show_int i" "eventID src' j = src' @ CHR '':'' # show_int j"
      by (simp_all add: eventID_def)
    show ?thesis
      using parts [OF _ show_int_no_colon show_int_no_colon] assms show_int_eq_iff unfolding e by blast
  qed
qed

theorem eventID_unique_witness: "eventID ''payment'' 42 \<noteq> eventID ''contract'' 42 \<and> eventID ''payment'' 4 = ''payment:4''"
proof -
  have "is_int64 42" "eventID ''payment'' 4 = ''payment:4''" by code_simp+
  with eventID_unique [of 42 42 "''payment''" "''contract''"] show ?thesis by simp
qed

end
