(* ===== verification/Consumer.thy ===== *)
theory Consumer
  imports Relay
begin

text \<open>
  \<open>services/pkg/kafka\<close>: the consumer's \<open>process\<close> step (de-duplication, bounded retry, dead-letter
  queue, marking) and the \<open>Deduper\<close> behind it. The handler is a computation over the consuming
  service's database; the DLQ producer and the cancellation of the context are parameters.
\<close>

section \<open>Messages\<close>

record Message =
  msg_Topic :: string
  msg_Key :: string
  msg_Value :: json
  msg_Headers :: "(string \<times> string) list"
  msg_EventID :: string
  msg_EventType :: string

text \<open>A missing key of a Go map reads as the empty string; the last header of a name wins.\<close>

definition header_value :: "(string \<times> string) list \<Rightarrow> string \<Rightarrow> string" where
  "header_value hs k = (case map_of hs k of None \<Rightarrow> '''' | Some v \<Rightarrow> v)"

fun headers_map :: "(string \<times> string) list \<Rightarrow> (string \<times> string) list \<Rightarrow> (string \<times> string) list" where
  "headers_map [] acc = acc"
| "headers_map ((k, v) # hs) acc = headers_map hs (set_header k v acc)"

definition decode_message :: "bus_message \<Rightarrow> Message" where
  "decode_message km =
     (let headers = headers_map (bm_Headers km) [] in
      \<lparr>msg_Topic = bm_Topic km, msg_Key = bm_Key km, msg_Value = bm_Payload km, msg_Headers = headers,
       msg_EventID = header_value headers ''event-id'', msg_EventType = header_value headers ''event-type''\<rparr>)"

section \<open>De-duplication\<close>

definition AlreadyProcessed :: "string \<Rightarrow> string \<Rightarrow> ('a outbox_db_scheme, bool) io" where
  "AlreadyProcessed consumer eid = pool_query (\<lambda>d. (consumer, eid) \<in> set (processed_events d))"

definition MarkProcessed :: "string \<Rightarrow> string \<Rightarrow> ('a outbox_db_scheme, unit) io" where
  "MarkProcessed consumer eid = pool_exec (\<lambda>now uid d.
     Inr ((), if (consumer, eid) \<in> set (processed_events d) then d
              else d\<lparr>processed_events := processed_events d @ [(consumer, eid)]\<rparr>))"

text \<open>\<open>toDLQ\<close>: the diagnostic headers, then the original ones that do not clash.\<close>

fun merge_headers :: "(string \<times> string) list \<Rightarrow> (string \<times> string) list \<Rightarrow> (string \<times> string) list" where
  "merge_headers hs [] = hs"
| "merge_headers hs ((k, v) # rest) =
     merge_headers (if map_of hs k = None then hs @ [(k, v)] else hs) rest"

definition dlq_message :: "string \<Rightarrow> Message \<Rightarrow> string \<Rightarrow> bus_message" where
  "dlq_message grp m cause =
     \<lparr>bm_Topic = ''dlq.'' @ msg_Topic m, bm_Key = msg_Key m, bm_Payload = msg_Value m,
      bm_Headers = merge_headers
        [(''event-id'', msg_EventID m), (''event-type'', msg_EventType m),
         (''original-topic'', msg_Topic m), (''consumer-group'', grp), (''error'', cause)]
        (msg_Headers m)\<rparr>"

section \<open>The process step\<close>

text \<open>The \<open>Deduplicator\<close> interface, and \<open>Deduper\<close> as one.\<close>

record 'd Deduplicator =
  dd_AlreadyProcessed :: "string \<Rightarrow> string \<Rightarrow> ('d, bool) io"
  dd_MarkProcessed :: "string \<Rightarrow> string \<Rightarrow> ('d, unit) io"

definition Deduper :: "'a outbox_db_scheme Deduplicator" where
  "Deduper = \<lparr>dd_AlreadyProcessed = AlreadyProcessed, dd_MarkProcessed = MarkProcessed\<rparr>"

record 'd Consumer =
  cns_group :: string
  cns_dedupe :: "'d Deduplicator option"
  cns_dlq :: "(bus_message \<Rightarrow> ('d, unit) io) option"
  cns_maxRetries :: nat

text \<open>
  The retry loop from attempt \<open>k\<close> on, with \<open>n\<close> attempts left: \<open>Some herr\<close> is the last handler
  error, if any, \<open>None\<close> that the context was cancelled during a backoff (\<open>cancelled k\<close>).
\<close>

fun retry_loop ::
  "(nat \<Rightarrow> bool) \<Rightarrow> nat \<Rightarrow> nat \<Rightarrow> err option \<Rightarrow> ('d, unit) io \<Rightarrow> ('d, err option option) io" where
  "retry_loop cancelled k 0 herr handler = ret (Some herr)"
| "retry_loop cancelled k (Suc n) herr handler =
     bindE (attempt handler) (\<lambda>r. case r of
        Inr _ \<Rightarrow> ret (Some None)
      | Inl e \<Rightarrow>
          if 0 < n \<and> cancelled k then ret None
          else retry_loop cancelled (Suc k) n (Some e) handler)"

definition toDLQ :: "(err \<Rightarrow> string) \<Rightarrow> 'd Consumer \<Rightarrow> Message \<Rightarrow> err \<Rightarrow> ('d, bool) io" where
  "toDLQ err_text c m cause = (case cns_dlq c of
     None \<Rightarrow> ret False
   | Some publish \<Rightarrow>
       bindE (attempt (publish (dlq_message (cns_group c) m (err_text cause)))) (\<lambda>r.
       ret (case r of Inl _ \<Rightarrow> False | Inr _ \<Rightarrow> True)))"

definition process ::
  "(err \<Rightarrow> string) \<Rightarrow> (nat \<Rightarrow> bool) \<Rightarrow> 'd Consumer \<Rightarrow> (Message \<Rightarrow> ('d, unit) io) \<Rightarrow> Message \<Rightarrow> ('d, bool) io" where
  "process err_text cancelled c handler m =
     (let dedupe = (if msg_EventID m \<noteq> '''' then cns_dedupe c else None) in
      bindE (case dedupe of
               None \<Rightarrow> ret (Inr False)
             | Some dd \<Rightarrow> attempt (dd_AlreadyProcessed dd (cns_group c) (msg_EventID m))) (\<lambda>handled.
      if handled = Inr True then ret True else
      bindE (retry_loop cancelled 1 (cns_maxRetries c) None (handler m)) (\<lambda>r. case r of
        None \<Rightarrow> ret False
      | Some herr \<Rightarrow>
          bindE (case herr of None \<Rightarrow> ret True | Some e \<Rightarrow> toDLQ err_text c m e) (\<lambda>parked.
          if \<not> parked then ret False else
          bindE (case dedupe of
                   None \<Rightarrow> ret ()
                 | Some dd \<Rightarrow> ignoreE (dd_MarkProcessed dd (cns_group c) (msg_EventID m))) (\<lambda>_.
          ret True)))))"

text \<open>A computation after which the infrastructure is as reliable as before.\<close>

definition calm :: "('d, 'a) io \<Rightarrow> bool" where
  "calm m \<longleftrightarrow> (\<forall>u. reliable u \<longrightarrow> reliable (snd (m u)))"

lemma calmD: "calm m \<Longrightarrow> reliable u \<Longrightarrow> m u = (r, v) \<Longrightarrow> reliable v"
  by (metis calm_def snd_conv)

section \<open>The interface\<close>

text \<open>
  What the consumer relies on: \<open>AlreadyProcessed\<close> reports a set of marks kept in the database and
  changes nothing; \<open>MarkProcessed\<close> adds its mark and drops none.
\<close>

locale deduplicator =
  fixes dd :: "'d Deduplicator" and seen :: "'d \<Rightarrow> string \<Rightarrow> string \<Rightarrow> bool"
  assumes check_keeps: "keeps (dd_AlreadyProcessed dd g i)"
    and check_run: "reliable s \<Longrightarrow>
      \<exists>t. dd_AlreadyProcessed dd g i s = (Inr (seen (committed s) g i), t) \<and> reliable t"
    and mark_run: "reliable s \<Longrightarrow> \<exists>t. dd_MarkProcessed dd g i s = (Inr (), t) \<and> seen (committed t) g i"
begin

lemma process_skips:
  assumes "cns_dedupe c = Some dd" "msg_EventID m \<noteq> ''''" "seen (committed s) (cns_group c) (msg_EventID m)" "reliable s"
  shows "\<exists>t. process err_text cancelled c handler m s = (Inr True, t) \<and> committed t = committed s"
proof -
  obtain t where t: "dd_AlreadyProcessed dd (cns_group c) (msg_EventID m) s = (Inr True, t)"
    using check_run [OF assms(4), of "cns_group c" "msg_EventID m"] assms(3) by auto
  with keepsD [OF check_keeps t] assms show ?thesis
    by (auto simp: process_def Let_def io_run)
qed

lemma process_marks:
  assumes run: "process err_text cancelled c handler m s = (Inr True, t)"
    and c: "cns_dedupe c = Some dd" "msg_EventID m \<noteq> ''''" and s: "reliable s"
    and env: "calm (handler m)" "\<forall>publish b. cns_dlq c = Some publish \<longrightarrow> calm (publish b)"
  shows "seen (committed t) (cns_group c) (msg_EventID m)"
proof -
  let ?g = "cns_group c" and ?i = "msg_EventID m"
  obtain s1 where s1: "dd_AlreadyProcessed dd ?g ?i s = (Inr (seen (committed s) ?g ?i), s1)" "reliable s1"
    using check_run [OF s] by blast
  have loop: "reliable v" if "retry_loop cancelled k n h (handler m) u = (r, v)" "reliable u" for k n h u r v
    using that
  proof (induction cancelled k n h "handler m" arbitrary: u rule: retry_loop.induct)
    case (2 cancelled k n h u)
    obtain x w where x: "handler m u = (x, w)" by fastforce
    with calmD [OF env(1)] 2 show ?case by (cases x) (auto simp: io_run split: if_splits)
  qed (simp add: io_run)
  have dlq: "reliable v" if "toDLQ err_text c m e u = (r, v)" "reliable u" for e u r v
    using that env(2) by (cases "cns_dlq c") (auto simp: toDLQ_def io_run split: prod.splits, metis calmD)
  show ?thesis
  proof (cases "seen (committed s) ?g ?i")
    case True
    with run c s1 keepsD [OF check_keeps s1(1)] show ?thesis by (auto simp: process_def Let_def io_run)
  next
    case False
    let ?park = "\<lambda>herr. case herr of None \<Rightarrow> ret True | Some e \<Rightarrow> toDLQ err_text c m e"
    let ?done = "\<lambda>herr. bindE (?park herr) (\<lambda>parked. if \<not> parked then ret False else
      bindE (ignoreE (dd_MarkProcessed dd ?g ?i)) (\<lambda>_. ret True))"
    from run c s1 False obtain r s2 where
      l: "retry_loop cancelled 1 (cns_maxRetries c) None (handler m) s1 = (Inr r, s2)" and
      rest: "(case r of None \<Rightarrow> ret False | Some herr \<Rightarrow> ?done herr) s2 = (Inr True, t)"
      by (auto simp: process_def Let_def bindE_ok attempt_ok cong: option.case_cong if_cong)
    from loop [OF l s1(2)] have s2: "reliable s2" .
    from rest obtain herr where "?done herr s2 = (Inr True, t)" by (cases r) (auto simp: ret_ok)
    then obtain parked s3 where p: "?park herr s2 = (Inr parked, s3)" and
      m: "(if \<not> parked then ret False else bindE (ignoreE (dd_MarkProcessed dd ?g ?i)) (\<lambda>_. ret True)) s3 = (Inr True, t)"
      by (auto simp: bindE_ok)
    from p s2 dlq have "reliable s3" by (cases herr) (auto simp: ret_ok)
    with mark_run [of s3 ?g ?i] m show ?thesis by (auto simp: ignoreE_ok bindE_ok ret_ok split: if_splits)
  qed
qed

end

lemma Deduper_run:
  "reliable s \<Longrightarrow> AlreadyProcessed g i s = (Inr ((g, i) \<in> set (processed_events (committed s))), tick s)"
  "reliable s \<Longrightarrow> (g, i) \<in> set (processed_events (committed (snd (MarkProcessed g i s))))"
  by (auto simp: AlreadyProcessed_def MarkProcessed_def io_run)

lemma keeps_AlreadyProcessed [io_keeps]: "keeps (AlreadyProcessed g i)"
  unfolding AlreadyProcessed_def by (intro io_keeps)

interpretation deduper: deduplicator Deduper "\<lambda>d g i. (g, i) \<in> set (processed_events d)"
proof
  fix s :: "'a outbox_db_scheme conn" and g i
  assume s: "reliable s"
  show "\<exists>t. dd_AlreadyProcessed Deduper g i s = (Inr ((g, i) \<in> set (processed_events (committed s))), t) \<and> reliable t"
    using Deduper_run(1) [OF s] s by (auto simp: Deduper_def reliable_def)
  show "\<exists>t. dd_MarkProcessed Deduper g i s = (Inr (), t) \<and> (g, i) \<in> set (processed_events (committed t))"
    using s by (auto simp: Deduper_def MarkProcessed_def io_run)
qed (simp add: Deduper_def io_keeps)

section \<open>Properties\<close>

lemma map_of_set_header [simp]: "map_of (set_header k v hs) = (map_of hs)(k \<mapsto> v)"
  by (induction k v hs rule: set_header.induct) auto

lemma keys_set_header: "fst ` set (set_header k v hs) = insert k (fst ` set hs)"
  by (induction k v hs rule: set_header.induct) auto

lemma distinct_set_header: "distinct (map fst hs) \<Longrightarrow> distinct (map fst (set_header k v hs))"
  by (induction k v hs rule: set_header.induct) (auto simp: keys_set_header)

lemma map_of_headers_map:
  "distinct (map fst hs) \<Longrightarrow> map_of (headers_map hs acc) k = (case map_of hs k of None \<Rightarrow> map_of acc k | Some v \<Rightarrow> Some v)"
proof (induction hs acc rule: headers_map.induct)
  case (2 k' v hs acc)
  then have "map_of hs k' = None" by (auto simp: map_of_eq_None_iff)
  with 2 show ?case by (auto split: option.splits)
qed simp

text \<open>
  What the relay publishes, the consumer decodes: topic, key and payload pass unchanged, and
  the message carries the row's de-duplication key and event type, whatever headers the event had
  (as a map, each key once).
\<close>

theorem relay_consumer_roundtrip:
  assumes "distinct (map fst (ev_Headers (ob_event r)))"
  shows "let m = decode_message (relay_message source r) in
    msg_Topic m = ev_Topic (ob_event r) \<and> msg_Key m = ev_PartitionKey (ob_event r) \<and>
    msg_Value m = ev_Payload (ob_event r) \<and> msg_EventID m = eventID source (ob_id r) \<and>
    msg_EventType m = ev_EventType (ob_event r)"
  using assms by (simp add: Let_def decode_message_def relay_message_def header_value_def map_of_headers_map
      distinct_set_header)

theorem relay_consumer_roundtrip_witness:
  "msg_EventID (decode_message (relay_message ''escrow''
     \<lparr>ob_id = 7, ob_event = (demo_event ''c1'')\<lparr>ev_Headers := [(''event-id'', ''forged'')]\<rparr>, ob_published_at = None\<rparr>)) = ''escrow:7''"
proof -
  have "eventID ''escrow'' 7 = ''escrow:7''" by code_simp
  with relay_consumer_roundtrip [of "\<lparr>ob_id = 7, ob_event = (demo_event ''c1'')\<lparr>ev_Headers := [(''event-id'', ''forged'')]\<rparr>,
      ob_published_at = None\<rparr>" "''escrow''"] show ?thesis by (simp add: Let_def)
qed

definition demo_consumer :: "db Consumer" where
  "demo_consumer = \<lparr>cns_group = ''billing'', cns_dedupe = Some Deduper, cns_dlq = None, cns_maxRetries = 3\<rparr>"

definition demo_handler :: "Message \<Rightarrow> (db, unit) io" where
  "demo_handler m = pool_exec (\<lambda>now uid d. Inr ((), d\<lparr>hourly_contracts := hourly_contracts d @ [msg_Key m]\<rparr>))"

definition demo_message :: Message where
  "demo_message = \<lparr>msg_Topic = ''escrow.events'', msg_Key = ''c1'', msg_Value = JNull, msg_Headers = [],
     msg_EventID = ''escrow:7'', msg_EventType = ''escrow.funded''\<rparr>"

definition demo_process :: "string \<Rightarrow> db \<Rightarrow> (err + bool) \<times> db conn" where
  "demo_process tag d = process (\<lambda>e. '''') (\<lambda>k. False) demo_consumer demo_handler demo_message (quiet tag d)"

text \<open>
  A redelivered event has no second effect. When a consumer with the de-duplication table has
  committed an event (and neither the statements nor the environment of handler and dead-letter
  producer fail), a later delivery of the same event is acknowledged and leaves the database as it
  is, whatever the handler would have done.
\<close>

theorem process_once:
  assumes "cns_dedupe c = Some Deduper" and "msg_EventID m \<noteq> ''''"
    and "process err_text cancelled c handler m s = (Inr True, t)" and "reliable s"
    and "calm (handler m)" and "\<forall>publish b. cns_dlq c = Some publish \<longrightarrow> calm (publish b)"
    and "reliable s'" and "set (processed_events (committed t)) \<subseteq> set (processed_events (committed s'))"
  shows "\<exists>t'. process err_text cancelled' c handler' m s' = (Inr True, t') \<and> committed t' = committed s'"
proof (rule deduper.process_skips [OF assms(1,2) _ assms(7)])
  show "(cns_group c, msg_EventID m) \<in> set (processed_events (committed s'))"
    using deduper.process_marks [OF assms(3,1,2,4,5,6)] assms(8) by blast
qed

theorem process_once_witness:
  "let d = committed (snd (demo_process ''a'' empty_db)) in
     hourly_contracts d = [''c1''] \<and> committed (snd (demo_process ''b'' d)) = d"
proof -
  let ?d = "committed (snd (demo_process ''a'' empty_db))"
  have ok: "fst (demo_process ''a'' empty_db) = Inr True" "hourly_contracts ?d = [''c1'']" by code_simp+
  have run: "process (\<lambda>e. '''') (\<lambda>k. False) demo_consumer demo_handler demo_message (quiet ''a'' empty_db)
      = (Inr True, snd (demo_process ''a'' empty_db))"
    using ok(1) by (simp add: demo_process_def prod_eq_iff)
  have h: "calm (demo_handler demo_message)"
    by (auto simp: calm_def demo_handler_def io_run reliable_def)
  from process_once [OF _ _ run _ h, of "quiet ''b'' ?d" "\<lambda>k. False" demo_handler] ok(2)
  show ?thesis by (auto simp: demo_consumer_def demo_message_def demo_process_def Let_def)
qed

text \<open>
  A failing event is not dropped. If the handler fails every time, there is no dead-letter
  queue and the event is not marked yet, the consumer reports that the offset must not be
  committed, and, as far as the handler itself leaves the database alone, nothing is recorded, so
  that a redelivery starts afresh. The retry loop ends after at most \<open>maxRetries\<close> calls.
\<close>

theorem process_never_drops:
  assumes "\<And>u. committed u = committed s \<Longrightarrow> \<exists>e v. handler m u = (Inl e, v) \<and> committed v = committed u"
    and "cns_dlq c = None" and "0 < cns_maxRetries c" and "cns_dedupe c \<in> {None, Some Deduper}"
    and "(cns_group c, msg_EventID m) \<notin> set (processed_events (committed s))"
  shows "\<exists>t. process err_text cancelled c handler m s = (Inr False, t) \<and> committed t = committed s"
proof -
  have loop: "committed u = committed s \<Longrightarrow> \<exists>r v. retry_loop cancelled k n h (handler m) u = (Inr r, v) \<and> committed v = committed u \<and>
      (0 < n \<or> h \<noteq> None \<longrightarrow> r \<noteq> Some None)" for k n h u
  proof (induction n arbitrary: k h u)
    case (Suc n)
    from assms(1) [OF Suc.prems] obtain e v where hv: "handler m u = (Inl e, v)" "committed v = committed u" by blast
    with Suc.IH [of v "Suc k" "Some e"] Suc.prems show ?case by (auto simp: io_run)
  qed (simp add: io_run)
  have cont: "\<exists>r v. retry_loop cancelled 1 (cns_maxRetries c) None (handler m) u = (Inr r, v) \<and>
      committed v = committed u \<and> r \<noteq> Some None" if "committed u = committed s" for u
    using loop [OF that, of 1 "cns_maxRetries c" None] assms(3) by blast
  define dedupe where "dedupe = (if msg_EventID m \<noteq> '''' then cns_dedupe c else None)"
  have "dedupe = None \<or> dedupe = Some Deduper" using assms(4) by (auto simp: dedupe_def)
  then have "\<exists>h u. (case dedupe of None \<Rightarrow> ret (Inr False)
      | Some dd \<Rightarrow> attempt (dd_AlreadyProcessed dd (cns_group c) (msg_EventID m))) s = (Inr h, u) \<and>
    h \<noteq> Inr True \<and> committed u = committed s"
    using assms(5) by (elim disjE) (auto simp: Deduper_def AlreadyProcessed_def pool_query_def io_run)
  then obtain h u where h: "(case dedupe of None \<Rightarrow> ret (Inr False)
      | Some dd \<Rightarrow> attempt (dd_AlreadyProcessed dd (cns_group c) (msg_EventID m))) s = (Inr h, u)"
    "h \<noteq> Inr True" "committed u = committed s"
    by blast
  from cont [OF h(3)] obtain r v where r: "retry_loop cancelled 1 (cns_maxRetries c) None (handler m) u = (Inr r, v)"
    "committed v = committed u" "r \<noteq> Some None" by blast
  have "process err_text cancelled c handler m s = (Inr False, v)"
    using h r assms(2)
    by (cases r) (auto simp: process_def Let_def dedupe_def [symmetric] bindE_def toDLQ_def ret_def)
  with r(2) h(3) show ?thesis by auto
qed

theorem process_never_drops_witness:
  "\<exists>t. process (\<lambda>e. '''') (\<lambda>k. False) demo_consumer (\<lambda>m. throw DBError) demo_message (quiet ''a'' empty_db)
     = (Inr False, t) \<and> committed t = empty_db"
  using process_never_drops [of "quiet ''a'' empty_db" "\<lambda>m. throw DBError" demo_message demo_consumer]
  by (simp add: throw_def demo_consumer_def empty_db_def)

section \<open>The consumer loop\<close>

text \<open>
  A fetched message with its place in the log. \<open>Consumer.Run\<close> on the messages the reader delivers
  until its context is cancelled; the result is the list of messages handed to \<open>CommitMessages\<close>.
  \<open>commit_fails\<close> tells for which message that call fails, which ends the loop with the error.
\<close>

record Fetched =
  ft_partition :: nat
  ft_offset :: nat
  ft_msg :: bus_message

fun consumer_Run ::
  "(err \<Rightarrow> string) \<Rightarrow> (Fetched \<Rightarrow> nat \<Rightarrow> bool) \<Rightarrow> (Fetched \<Rightarrow> bool) \<Rightarrow> 'd Consumer \<Rightarrow>
   (Message \<Rightarrow> ('d, unit) io) \<Rightarrow> Fetched list \<Rightarrow> ('d, Fetched list) io" where
  "consumer_Run err_text cancelled commit_fails c handler [] = ret []"
| "consumer_Run err_text cancelled commit_fails c handler (km # kms) =
     bindE (process err_text (cancelled km) c handler (decode_message (ft_msg km))) (\<lambda>commit.
     if commit then
       (if commit_fails km then ret []
        else bindE (consumer_Run err_text cancelled commit_fails c handler kms) (\<lambda>cs. ret (km # cs)))
     else consumer_Run err_text cancelled commit_fails c handler kms)"

text \<open>
  A consumer group keeps one offset per partition: after a restart the group is sent the messages
  behind the last committed one. \<open>redelivered cs km\<close>: \<open>km\<close> comes again after commits \<open>cs\<close>.
\<close>

definition redelivered :: "Fetched list \<Rightarrow> Fetched \<Rightarrow> bool" where
  "redelivered cs km \<longleftrightarrow> (\<forall>c \<in> set cs. ft_partition c = ft_partition km \<longrightarrow> ft_offset c < ft_offset km)"

text \<open>The step itself always answers: its errors end in the decision not to commit.\<close>

lemma retry_loop_total: "\<exists>x t. retry_loop cancelled k n herr m s = (Inr x, t)"
proof (induction n arbitrary: k herr s)
  case (Suc n)
  obtain r u where "m s = (r, u)" by fastforce
  with Suc show ?case by (cases r) (auto simp: io_run)
qed (simp add: io_run)

lemma process_total: "\<exists>b t. process err_text cancelled c handler m s = (Inr b, t)"
proof -
  let ?dd = "if msg_EventID m \<noteq> '''' then cns_dedupe c else None"
  let ?check = "case ?dd of None \<Rightarrow> ret (Inr False)
    | Some dd \<Rightarrow> attempt (dd_AlreadyProcessed dd (cns_group c) (msg_EventID m))"
  let ?mark = "case ?dd of None \<Rightarrow> ret ()
    | Some dd \<Rightarrow> ignoreE (dd_MarkProcessed dd (cns_group c) (msg_EventID m))"
  have "\<exists>h u. attempt p s = (Inr h, u)" for p :: "('a, bool) io" by (cases "p s") (simp add: io_run)
  then obtain h u where h: "?check s = (Inr h, u)"
    by (cases ?dd) (auto simp: run_basic(1), meson)
  obtain r v where r: "retry_loop cancelled 1 (cns_maxRetries c) None (handler m) u = (Inr r, v)"
    using retry_loop_total by blast
  have q: "\<exists>p w. (case herr of None \<Rightarrow> ret True | Some e \<Rightarrow> toDLQ err_text c m e) v = (Inr p, w)" for herr
    by (auto simp: io_run toDLQ_def split: option.splits prod.splits)
  have mk: "\<exists>w'. ?mark w = (Inr (), w')" for w by (cases ?dd) (auto simp: io_run)
  show ?thesis
  proof (cases r)
    case None
    then show ?thesis using h r by (simp add: process_def Let_def io_run) blast
  next
    case (Some herr)
    obtain p w where p: "(case herr of None \<Rightarrow> ret True | Some e \<Rightarrow> toDLQ err_text c m e) v = (Inr p, w)"
      using q by blast
    obtain w' where "?mark w = (Inr (), w')" using mk by blast
    then show ?thesis using h r p by (simp add: process_def Let_def io_run Some) blast
  qed
qed

lemma consumer_Run_total: "\<exists>cs t. consumer_Run err_text cancelled commit_fails c handler kms s = (Inr cs, t)"
proof (induction kms arbitrary: s)
  case (Cons km kms)
  obtain b u where "process err_text (cancelled km) c handler (decode_message (ft_msg km)) s = (Inr b, u)"
    using process_total by blast
  moreover obtain cs t where "consumer_Run err_text cancelled commit_fails c handler kms u = (Inr cs, t)"
    using Cons by blast
  ultimately show ?case by (simp add: io_run)
qed (simp add: io_run)

text \<open>
  The loop can pass over a message for good. When \<open>process\<close> decides not to commit a message
  (its handler failed and there is no dead-letter queue, or parking it failed) and the next message
  of the same partition is processed and committed, the group's offset moves past the first one: it
  is not among the commits, and it is not delivered again after a restart.
\<close>

theorem uncommitted_message_skipped:
  assumes "process err_text (cancelled a) c handler (decode_message (ft_msg a)) s = (Inr False, t)"
    and "process err_text (cancelled b) c handler (decode_message (ft_msg b)) t = (Inr True, u)"
    and "ft_partition a = ft_partition b" "ft_offset a < ft_offset b" "\<not> commit_fails b"
  shows "consumer_Run err_text cancelled commit_fails c handler [a, b] s = (Inr [b], u) \<and> \<not> redelivered [b] a"
  using assms by (simp add: io_run redelivered_def)

definition demo_fetched :: "nat \<Rightarrow> string \<Rightarrow> Fetched" where
  "demo_fetched off k = \<lparr>ft_partition = 0, ft_offset = off,
     ft_msg = \<lparr>bm_Topic = ''escrow.events'', bm_Key = k, bm_Payload = JNull, bm_Headers = []\<rparr>\<rparr>"

definition demo_failing :: "Message \<Rightarrow> (db, unit) io" where
  "demo_failing m = (if msg_Key m = ''bad'' then throw DBError else demo_handler m)"

theorem uncommitted_message_skipped_witness:
  "fst (consumer_Run (\<lambda>e. '''') (\<lambda>km k. False) (\<lambda>km. False) demo_consumer demo_failing
     [demo_fetched 1 ''bad'', demo_fetched 2 ''c1''] (quiet ''a'' empty_db)) = Inr [demo_fetched 2 ''c1''] \<and>
   \<not> redelivered [demo_fetched 2 ''c1''] (demo_fetched 1 ''bad'')"
proof -
  let ?p = "\<lambda>km. process (\<lambda>e. '''') (\<lambda>k. False) demo_consumer demo_failing (decode_message (ft_msg km))"
  let ?a = "demo_fetched 1 ''bad''" and ?b = "demo_fetched 2 ''c1''"
  let ?t = "snd (?p ?a (quiet ''a'' empty_db))"
  have "fst (?p ?a (quiet ''a'' empty_db)) = Inr False" "fst (?p ?b ?t) = Inr True" by code_simp+
  then have r: "?p ?a (quiet ''a'' empty_db) = (Inr False, ?t)" "?p ?b ?t = (Inr True, snd (?p ?b ?t))"
    by (simp_all add: prod_eq_iff)
  show ?thesis
    using uncommitted_message_skipped [of "\<lambda>e. ''''" "\<lambda>km k. False" ?a demo_consumer demo_failing "quiet ''a'' empty_db" ?t ?b
        "snd (?p ?b ?t)" "\<lambda>km. False"] r
    by (simp add: demo_fetched_def)
qed

end
