(* ===== verification/Auth_Store.thy ===== *)
theory Auth_Store
  imports Outbox Go_Text
begin

text \<open>
  \<open>services/auth/internal/store\<close>: the statements on users, roles, sessions and refresh tokens, with
  the constraints of migration 000002 (unique active email as \<open>CITEXT\<close>, unique token hash, foreign
  keys, the \<open>account_type\<close> enum, \<open>CHAR(2)\<close> residency, \<open>INET\<close> addresses). The clock counts
  nanoseconds; roles are identified by their unique names.
\<close>

section \<open>Users\<close>

text \<open>\<open>CITEXT\<close> compares case-insensitively.\<close>

definition lower :: "string \<Rightarrow> string" where
  "lower = map (\<lambda>c. if 65 \<le> (of_char c :: nat) \<and> (of_char c :: nat) \<le> 90
                    then char_of ((of_char c :: nat) + 32) else c)"

definition has_email :: "string \<Rightarrow> User \<Rightarrow> bool" where
  "has_email email u \<longleftrightarrow> lower (usr_Email u) = lower email \<and> usr_deleted_at u = None"

definition CreateUser ::
  "string \<Rightarrow> string \<Rightarrow> string \<Rightarrow> string \<Rightarrow> string \<Rightarrow> (auth_db, string) io" where
  "CreateUser email hash accountType residency locale = tx_stmt (\<lambda>now uid d.
     if accountType \<notin> {''client'', ''freelancer'', ''admin'', ''support''} \<or> length residency > 2
     then Inl CheckViolation
     else if uid \<in> usr_ID ` set (users d) \<or> (\<exists>u \<in> set (users d). has_email email u)
     then Inl UniqueViolation
     else Inr (uid, d\<lparr>users := users d @
       [\<lparr>usr_ID = uid, usr_Email = email, usr_PasswordHash = hash, usr_Status = ''pending'',
         usr_PrimaryType = accountType, usr_EmailVerified = False, usr_MFAEnabled = False,
         usr_Residency = residency @ replicate (2 - length residency) (CHR '' ''), usr_Locale = locale,
         usr_FailedLogins = 0, usr_LockedUntil = None, usr_LastLoginAt = None, usr_deleted_at = None\<rparr>]\<rparr>))"

definition GetUserByEmail :: "string \<Rightarrow> (auth_db, User) io" where
  "GetUserByEmail email = scan_row (pool_query (\<lambda>d. select_one (has_email email) (users d)))"

definition GetUserByID :: "string \<Rightarrow> (auth_db, User) io" where
  "GetUserByID i = scan_row (pool_query (\<lambda>d. select_one (\<lambda>u. usr_ID u = i \<and> usr_deleted_at u = None) (users d)))"

definition login_ok :: "int \<Rightarrow> User \<Rightarrow> User" where
  "login_ok now u = u\<lparr>usr_LastLoginAt := Some now, usr_FailedLogins := 0, usr_LockedUntil := None\<rparr>"

definition RecordLoginSuccess :: "string \<Rightarrow> (auth_db, unit) io" where
  "RecordLoginSuccess userID = pool_exec (\<lambda>now uid d.
     Inr ((), d\<lparr>users := update_where (\<lambda>u. usr_ID u = userID) (login_ok now) (users d)\<rparr>))"

text \<open>\<open>failed_login_count\<close> is an \<open>INT\<close>; the update fails when it would overflow.\<close>

definition login_failed :: "int \<Rightarrow> int \<Rightarrow> int \<Rightarrow> User \<Rightarrow> User" where
  "login_failed threshold lockFor now u =
     u\<lparr>usr_FailedLogins := usr_FailedLogins u + 1,
       usr_LockedUntil := (if usr_FailedLogins u + 1 \<ge> threshold then Some (now + lockFor) else usr_LockedUntil u)\<rparr>"

definition RecordLoginFailure :: "string \<Rightarrow> int \<Rightarrow> int \<Rightarrow> (auth_db, unit) io" where
  "RecordLoginFailure userID threshold lockFor = pool_exec (\<lambda>now uid d.
     if \<exists>u \<in> set (users d). usr_ID u = userID \<and> usr_FailedLogins u + 1 \<ge> 2 ^ 31 then Inl NumericOutOfRange
     else Inr ((), d\<lparr>users :=
       update_where (\<lambda>u. usr_ID u = userID) (login_failed threshold lockFor now) (users d)\<rparr>))"

section \<open>Roles\<close>

text \<open>Two reads through the pool: role names, then the distinct permission codes of those roles.\<close>

definition RolesAndPermissions :: "string \<Rightarrow> (auth_db, string list \<times> string list) io" where
  "RolesAndPermissions userID =
     bindE (pool_query (\<lambda>d. map snd (filter (\<lambda>ur. fst ur = userID \<and> snd ur \<in> set (roles d)) (user_roles d)))) (\<lambda>rs.
     bindE (pool_query (\<lambda>d. remdups (map snd (filter
        (\<lambda>rp. (userID, fst rp) \<in> set (user_roles d)) (role_permissions d))))) (\<lambda>ps.
     ret (rs, ps)))"

definition AssignRole :: "string \<Rightarrow> string \<Rightarrow> (auth_db, unit) io" where
  "AssignRole userID roleName = tx_stmt (\<lambda>now uid d.
     if roleName \<notin> set (roles d) \<or> (userID, roleName) \<in> set (user_roles d) then Inr ((), d)
     else if userID \<notin> usr_ID ` set (users d) then Inl ForeignKeyViolation
     else Inr ((), d\<lparr>user_roles := user_roles d @ [(userID, roleName)]\<rparr>))"

section \<open>Sessions and refresh tokens\<close>

text \<open>
  The statement of \<open>CreateSession\<close> draws two UUIDs, the id and the family; the family is an
  argument here, which the service draws from the same supply. \<open>inet_ok\<close> is PostgreSQL's parser
  for \<open>INET\<close>. \<open>last_active_at\<close>, by which \<open>ListSessions\<close> orders, is never changed, so the order
  is that of creation; the device columns are never set.
\<close>

definition CreateSession ::
  "(string \<Rightarrow> bool) \<Rightarrow> string \<Rightarrow> string \<Rightarrow> string \<Rightarrow> string \<Rightarrow> int \<Rightarrow> (auth_db, string) io" where
  "CreateSession inet_ok familyID userID ip ua ttl = tx_stmt (\<lambda>now uid d.
     if \<not> inet_ok ip then Inl CheckViolation
     else if uid \<in> ses_id ` set (sessions d) then Inl UniqueViolation
     else if userID \<notin> usr_ID ` set (users d) then Inl ForeignKeyViolation
     else Inr (uid, d\<lparr>sessions := sessions d @
       [\<lparr>ses_id = uid, ses_user_id = userID, ses_ip = ip, ses_user_agent = ua, ses_family_id = familyID,
         ses_created_at = now, ses_expires_at = now + ttl, ses_revoked_at = None, ses_revoked_reason = None\<rparr>]\<rparr>))"

definition InsertRefreshToken :: "string \<Rightarrow> string \<Rightarrow> string \<Rightarrow> int \<Rightarrow> (auth_db, string) io" where
  "InsertRefreshToken sessionID userID tokenHash ttl = tx_stmt (\<lambda>now uid d.
     if uid \<in> rtk_id ` set (refresh_tokens d) \<or> tokenHash \<in> rtk_token_hash ` set (refresh_tokens d)
     then Inl UniqueViolation
     else if sessionID \<notin> ses_id ` set (sessions d) \<or> userID \<notin> usr_ID ` set (users d)
     then Inl ForeignKeyViolation
     else Inr (uid, d\<lparr>refresh_tokens := refresh_tokens d @
       [\<lparr>rtk_id = uid, rtk_session_id = sessionID, rtk_user_id = userID, rtk_token_hash = tokenHash,
         rtk_replaced_by = None, rtk_expires_at = now + ttl, rtk_used_at = None, rtk_revoked_at = None\<rparr>]\<rparr>))"

text \<open>\<open>store.RefreshToken\<close>: the token with the family of its session.\<close>

record RefreshToken =
  rt_ID :: string
  rt_SessionID :: string
  rt_UserID :: string
  rt_FamilyID :: string
  rt_UsedAt :: "int option"
  rt_RevokedAt :: "int option"
  rt_ExpiresAt :: int

definition find_session :: "string \<Rightarrow> auth_db \<Rightarrow> session_row option" where
  "find_session i d = select_one (\<lambda>s. ses_id s = i) (sessions d)"

definition find_token :: "string \<Rightarrow> auth_db \<Rightarrow> refresh_token_row option" where
  "find_token h d = select_one (\<lambda>t. rtk_token_hash t = h) (refresh_tokens d)"

definition join_token :: "refresh_token_row \<Rightarrow> session_row \<Rightarrow> RefreshToken" where
  "join_token t s = \<lparr>rt_ID = rtk_id t, rt_SessionID = rtk_session_id t, rt_UserID = rtk_user_id t,
     rt_FamilyID = ses_family_id s, rt_UsedAt = rtk_used_at t, rt_RevokedAt = rtk_revoked_at t,
     rt_ExpiresAt = rtk_expires_at t\<rparr>"

definition LookupRefreshToken :: "string \<Rightarrow> (auth_db, RefreshToken) io" where
  "LookupRefreshToken tokenHash = scan_row (tx_stmt (\<lambda>now uid d. Inr (
     (case find_token tokenHash d of
        None \<Rightarrow> None
      | Some t \<Rightarrow> map_option (join_token t) (find_session (rtk_session_id t) d)), d)))"

definition use_token :: "int \<Rightarrow> string \<Rightarrow> refresh_token_row \<Rightarrow> refresh_token_row" where
  "use_token now replacedBy t = t\<lparr>rtk_used_at := Some now, rtk_replaced_by := Some replacedBy\<rparr>"

definition MarkTokenUsed :: "string \<Rightarrow> string \<Rightarrow> (auth_db, unit) io" where
  "MarkTokenUsed i replacedBy = tx_stmt (\<lambda>now uid d.
     if replacedBy \<notin> rtk_id ` set (refresh_tokens d) then Inl ForeignKeyViolation
     else Inr ((), d\<lparr>refresh_tokens :=
       update_where (\<lambda>t. rtk_id t = i) (use_token now replacedBy) (refresh_tokens d)\<rparr>))"

definition revoke_session_row :: "int \<Rightarrow> string \<Rightarrow> session_row \<Rightarrow> session_row" where
  "revoke_session_row now reason s = s\<lparr>ses_revoked_at := Some now, ses_revoked_reason := Some reason\<rparr>"

definition revoke_token_row :: "int \<Rightarrow> refresh_token_row \<Rightarrow> refresh_token_row" where
  "revoke_token_row now t = t\<lparr>rtk_revoked_at := Some now\<rparr>"

definition RevokeFamily :: "string \<Rightarrow> string \<Rightarrow> (auth_db, unit) io" where
  "RevokeFamily familyID reason =
     bindE (tx_stmt (\<lambda>now uid d. Inr ((), d\<lparr>sessions :=
        update_where (\<lambda>s. ses_family_id s = familyID \<and> ses_revoked_at s = None)
          (revoke_session_row now reason) (sessions d)\<rparr>))) (\<lambda>_.
     tx_stmt (\<lambda>now uid d. Inr ((), d\<lparr>refresh_tokens :=
        update_where (\<lambda>t. rtk_revoked_at t = None \<and>
            rtk_session_id t \<in> ses_id ` set (filter (\<lambda>s. ses_family_id s = familyID) (sessions d)))
          (revoke_token_row now) (refresh_tokens d)\<rparr>)))"

definition RevokeSessionByID :: "string \<Rightarrow> string \<Rightarrow> (auth_db, unit) io" where
  "RevokeSessionByID sessionID reason =
     bindE (tx_stmt (\<lambda>now uid d. Inr ((), d\<lparr>sessions :=
        update_where (\<lambda>s. ses_id s = sessionID \<and> ses_revoked_at s = None)
          (revoke_session_row now reason) (sessions d)\<rparr>))) (\<lambda>_.
     tx_stmt (\<lambda>now uid d. Inr ((), d\<lparr>refresh_tokens :=
        update_where (\<lambda>t. rtk_session_id t = sessionID \<and> rtk_revoked_at t = None)
          (revoke_token_row now) (refresh_tokens d)\<rparr>)))"

text \<open>No session row counts as revoked.\<close>

definition SessionRevokedForUpdate :: "string \<Rightarrow> (auth_db, bool) io" where
  "SessionRevokedForUpdate sessionID = tx_stmt (\<lambda>now uid d. Inr (
     (case find_session sessionID d of None \<Rightarrow> True | Some s \<Rightarrow> ses_revoked_at s \<noteq> None), d))"

definition RevokeSession :: "string \<Rightarrow> string \<Rightarrow> string \<Rightarrow> (auth_db, unit) io" where
  "RevokeSession userID sessionID reason =
     (let P = (\<lambda>s. ses_id s = sessionID \<and> ses_user_id s = userID \<and> ses_revoked_at s = None) in
      bindE (pool_exec (\<lambda>now uid d. Inr (length (filter P (sessions d)),
        d\<lparr>sessions := update_where P (revoke_session_row now reason) (sessions d)\<rparr>))) (\<lambda>n.
      if n = 0 then throw ErrNotFound else ret ()))"

definition ListSessions :: "string \<Rightarrow> (auth_db, session_row list) io" where
  "ListSessions userID =
     pool_query (\<lambda>d. rev (filter (\<lambda>s. ses_user_id s = userID \<and> ses_revoked_at s = None) (sessions d)))"

section \<open>Framing\<close>

lemma keeps_auth_store [io_keeps]:
  "keeps (CreateUser e h a r l)" "keeps (GetUserByEmail e)" "keeps (GetUserByID i)"
  "keeps (RolesAndPermissions i)" "keeps (AssignRole i n)" "keeps (CreateSession ok f i ip ua ttl)"
  "keeps (InsertRefreshToken si i th ttl)" "keeps (LookupRefreshToken th)" "keeps (MarkTokenUsed i j)"
  "keeps (RevokeFamily f why)" "keeps (RevokeSessionByID i why)" "keeps (SessionRevokedForUpdate i)"
  "keeps (ListSessions i)"
  unfolding CreateUser_def GetUserByEmail_def GetUserByID_def RolesAndPermissions_def AssignRole_def
    CreateSession_def InsertRefreshToken_def LookupRefreshToken_def MarkTokenUsed_def RevokeFamily_def
    RevokeSessionByID_def SessionRevokedForUpdate_def ListSessions_def
  by (intro io_keeps)+

lemma row_updates [simp]:
  "rtk_id (use_token now r t) = rtk_id t" "rtk_session_id (use_token now r t) = rtk_session_id t"
  "rtk_token_hash (use_token now r t) = rtk_token_hash t" "rtk_user_id (use_token now r t) = rtk_user_id t"
  "rtk_used_at (use_token now r t) = Some now" "rtk_revoked_at (use_token now r t) = rtk_revoked_at t"
  "rtk_expires_at (use_token now r t) = rtk_expires_at t"
  "rtk_id (revoke_token_row now t) = rtk_id t" "rtk_session_id (revoke_token_row now t) = rtk_session_id t"
  "rtk_token_hash (revoke_token_row now t) = rtk_token_hash t" "rtk_user_id (revoke_token_row now t) = rtk_user_id t"
  "rtk_used_at (revoke_token_row now t) = rtk_used_at t" "rtk_revoked_at (revoke_token_row now t) = Some now"
  "rtk_expires_at (revoke_token_row now t) = rtk_expires_at t"
  "ses_id (revoke_session_row now why s) = ses_id s" "ses_user_id (revoke_session_row now why s) = ses_user_id s"
  "ses_family_id (revoke_session_row now why s) = ses_family_id s"
  "ses_revoked_at (revoke_session_row now why s) = Some now"
  by (simp_all add: use_token_def revoke_token_row_def revoke_session_row_def)

end
