(* ===== verification/Auth.thy ===== *)
theory Auth
  imports Auth_Store
begin

text \<open>
  \<open>services/auth/internal/service\<close>: registration, login with lockout, refresh-token rotation with
  reuse detection, logout and session management, statement by statement. Password hashing, SHA-256,
  token signing and the \<open>INET\<close> syntax are fields of \<open>auth_env\<close>; the random generator is the
  connection's supply of identifiers.
\<close>

section \<open>Access tokens\<close>

text \<open>\<open>token.Claims\<close> with the registered claims \<open>Issue\<close> fills in.\<close>

record Claims =
  cl_UserID :: string
  cl_SessionID :: string
  cl_Roles :: "string list"
  cl_Permissions :: "string list"
  cl_ResidencyCountry :: string
  cl_AccountType :: string

record RegisteredClaims =
  rc_Issuer :: string
  rc_Audience :: string
  rc_Subject :: string
  rc_IssuedAt :: int
  rc_NotBefore :: int
  rc_ExpiresAt :: int
  rc_ID :: string

record Issuer =
  iss_kid :: string
  iss_issuer :: string
  iss_audience :: string
  iss_accessTTL :: int

type_synonym signer = "string \<Rightarrow> RegisteredClaims \<Rightarrow> Claims \<Rightarrow> err + string"

definition Issue :: "signer \<Rightarrow> Issuer \<Rightarrow> Claims \<Rightarrow> ('d, string) io" where
  "Issue sign i c =
     bindE get_now (\<lambda>now.
     bindE new_id (\<lambda>jti.
     liftE (sign (iss_kid i)
       \<lparr>rc_Issuer = iss_issuer i, rc_Audience = iss_audience i, rc_Subject = cl_UserID c,
        rc_IssuedAt = now, rc_NotBefore = now, rc_ExpiresAt = now + iss_accessTTL i, rc_ID = jti\<rparr> c)))"

section \<open>The service\<close>

record auth_env =
  ae_HashPassword :: "string \<Rightarrow> string \<Rightarrow> err + string"
  ae_VerifyPassword :: "string \<Rightarrow> string \<Rightarrow> err + bool"
  ae_sha256 :: "string \<Rightarrow> string"
  ae_sign :: signer
  ae_issuer :: Issuer
  ae_inet_ok :: "string \<Rightarrow> bool"
  ae_AccessTTL :: int
  ae_RefreshTTL :: int

record Tokens =
  tk_AccessToken :: string
  tk_RefreshToken :: string
  tk_AccessExpiresIn :: int
  tk_UserID :: string

definition lockoutThreshold :: int where
  "lockoutThreshold = 5"

definition lockoutDuration :: int where
  "lockoutDuration = 15 * 60 * 10 ^ 9"

text \<open>\<open>newOpaqueToken\<close>: the raw token and its hash.\<close>

definition newOpaqueToken :: "auth_env \<Rightarrow> ('d, string \<times> string) io" where
  "newOpaqueToken env = bindE new_id (\<lambda>raw. ret (raw, ae_sha256 env raw))"

definition access_seconds :: "auth_env \<Rightarrow> int" where
  "access_seconds env = ae_AccessTTL env div 10 ^ 9"

definition issueSession ::
  "auth_env \<Rightarrow> string \<Rightarrow> string \<Rightarrow> string \<Rightarrow> string \<Rightarrow> string \<Rightarrow> (auth_db, Tokens) io" where
  "issueSession env userID accountType residency ip ua =
     bindE new_id (\<lambda>familyID.
     bindE (CreateSession (ae_inet_ok env) familyID userID ip ua (ae_RefreshTTL env)) (\<lambda>sessionID.
     bindE (newOpaqueToken env) (\<lambda>(rawRefresh, refreshHash).
     bindE (InsertRefreshToken sessionID userID refreshHash (ae_RefreshTTL env)) (\<lambda>_.
     bindE (RolesAndPermissions userID) (\<lambda>(rs, ps).
     bindE (Issue (ae_sign env) (ae_issuer env)
       \<lparr>cl_UserID = userID, cl_SessionID = sessionID, cl_Roles = rs, cl_Permissions = ps,
        cl_ResidencyCountry = residency, cl_AccountType = accountType\<rparr>) (\<lambda>access.
     ret \<lparr>tk_AccessToken = access, tk_RefreshToken = rawRefresh,
          tk_AccessExpiresIn = access_seconds env, tk_UserID = userID\<rparr>))))))"

definition registered_event :: "string \<Rightarrow> string \<Rightarrow> string \<Rightarrow> Event" where
  "registered_event userID accountType residency =
     \<lparr>ev_AggregateType = ''user'', ev_AggregateID = userID, ev_EventType = ''user.registered'',
      ev_Topic = ''user.events'', ev_PartitionKey = userID,
      ev_Payload = JObj [(''user_id'', JStr userID), (''account_type'', JStr accountType),
        (''residency_country'', JStr residency)], ev_Headers = []\<rparr>"

definition Register ::
  "auth_env \<Rightarrow> string \<Rightarrow> string \<Rightarrow> string \<Rightarrow> string \<Rightarrow> string \<Rightarrow> string \<Rightarrow> string \<Rightarrow> (auth_db, Tokens) io" where
  "Register env email password accountType residency locale ip ua =
     bindE new_id (\<lambda>salt.
     bindE (liftE (ae_HashPassword env salt password)) (\<lambda>hash.
     bindE begin_tx (\<lambda>_.
     bindE (map_error (\<lambda>e. if e = UniqueViolation then ErrEmailTaken else e)
       (CreateUser email hash accountType residency locale)) (\<lambda>userID.
     bindE (AssignRole userID accountType) (\<lambda>_.
     bindE (issueSession env userID accountType residency ip ua) (\<lambda>toks.
     bindE (Enqueue (registered_event userID accountType residency)) (\<lambda>_.
     bindE commit_tx (\<lambda>_. ret toks))))))))"

definition session_event :: "string \<Rightarrow> string \<Rightarrow> Event" where
  "session_event userID ip =
     \<lparr>ev_AggregateType = ''session'', ev_AggregateID = userID, ev_EventType = ''session.created'',
      ev_Topic = ''user.events'', ev_PartitionKey = userID,
      ev_Payload = JObj [(''user_id'', JStr userID), (''ip'', JStr ip)], ev_Headers = []\<rparr>"

text \<open>\<open>Login\<close> up to the decision whether to open a session, and the whole of it.\<close>

definition authenticate :: "auth_env \<Rightarrow> string \<Rightarrow> string \<Rightarrow> (auth_db, User) io" where
  "authenticate env email password =
     bindE (map_error (\<lambda>e. if e = ErrNotFound then ErrInvalidCredentials else e) (GetUserByEmail email)) (\<lambda>u.
     bindE get_now (\<lambda>now.
     if \<exists>t \<in> set_option (usr_LockedUntil u). now < t then throw ErrAccountLocked else
     if ae_VerifyPassword env password (usr_PasswordHash u) \<noteq> Inr True then
       bindE (ignoreE (RecordLoginFailure (usr_ID u) lockoutThreshold lockoutDuration)) (\<lambda>_.
       throw ErrInvalidCredentials)
     else
       bindE (ignoreE (RecordLoginSuccess (usr_ID u))) (\<lambda>_. ret u)))"

definition Login :: "auth_env \<Rightarrow> string \<Rightarrow> string \<Rightarrow> string \<Rightarrow> string \<Rightarrow> (auth_db, Tokens) io" where
  "Login env email password ip ua =
     bindE (authenticate env email password) (\<lambda>u.
     bindE begin_tx (\<lambda>_.
     bindE (issueSession env (usr_ID u) (usr_PrimaryType u) (usr_Residency u) ip ua) (\<lambda>toks.
     bindE (ignoreE (Enqueue (session_event (tk_UserID toks) ip))) (\<lambda>_.
     bindE commit_tx (\<lambda>_. ret toks)))))"

text \<open>The rotation of a token that may be used, and \<open>Refresh\<close>.\<close>

definition rotate_token :: "auth_env \<Rightarrow> RefreshToken \<Rightarrow> (auth_db, Tokens) io" where
  "rotate_token env rt =
     bindE (SessionRevokedForUpdate (rt_SessionID rt)) (\<lambda>revoked.
     if revoked then throw ErrTokenExpired else
     bindE (RolesAndPermissions (rt_UserID rt)) (\<lambda>(rs, ps).
     bindE (newOpaqueToken env) (\<lambda>(newRaw, newHash).
     bindE (InsertRefreshToken (rt_SessionID rt) (rt_UserID rt) newHash (ae_RefreshTTL env)) (\<lambda>newID.
     bindE (MarkTokenUsed (rt_ID rt) newID) (\<lambda>_.
     bindE (Issue (ae_sign env) (ae_issuer env)
       \<lparr>cl_UserID = rt_UserID rt, cl_SessionID = rt_SessionID rt, cl_Roles = rs, cl_Permissions = ps,
        cl_ResidencyCountry = '''', cl_AccountType = ''''\<rparr>) (\<lambda>access.
     bindE commit_tx (\<lambda>_.
     ret \<lparr>tk_AccessToken = access, tk_RefreshToken = newRaw,
          tk_AccessExpiresIn = access_seconds env, tk_UserID = rt_UserID rt\<rparr>)))))))"

definition Refresh :: "auth_env \<Rightarrow> string \<Rightarrow> (auth_db, Tokens) io" where
  "Refresh env rawRefresh =
     bindE begin_tx (\<lambda>_.
     bindE (map_error (\<lambda>e. if e = ErrNotFound then ErrTokenExpired else e)
       (LookupRefreshToken (ae_sha256 env rawRefresh))) (\<lambda>rt.
     bindE get_now (\<lambda>now.
     if rt_RevokedAt rt \<noteq> None \<or> rt_ExpiresAt rt < now then throw ErrTokenExpired else
     if rt_UsedAt rt \<noteq> None then
       bindE (ignoreE (RevokeFamily (rt_FamilyID rt) ''refresh_token_reuse'')) (\<lambda>_.
       bindE (ignoreE commit_tx) (\<lambda>_.
       throw ErrTokenReuse))
     else rotate_token env rt)))"

definition Logout :: "auth_env \<Rightarrow> string \<Rightarrow> bool \<Rightarrow> (auth_db, unit) io" where
  "Logout env rawRefresh allSessions =
     (if rawRefresh = '''' then ret () else
      bindE begin_tx (\<lambda>_.
      bindE (attempt (LookupRefreshToken (ae_sha256 env rawRefresh))) (\<lambda>r. case r of
        Inl e \<Rightarrow> if e = ErrNotFound then ret () else throw e
      | Inr rt \<Rightarrow>
          bindE (if allSessions then RevokeFamily (rt_FamilyID rt) ''user_logout_all''
                 else RevokeSessionByID (rt_SessionID rt) ''user_logout'') (\<lambda>_.
          commit_tx))))"

record Identity =
  idn_UserID :: string
  idn_Email :: string
  idn_AccountType :: string
  idn_Roles :: "string list"
  idn_EmailVerified :: bool
  idn_MFAEnabled :: bool

definition Me :: "string \<Rightarrow> (auth_db, Identity) io" where
  "Me userID =
     bindE (GetUserByID userID) (\<lambda>u.
     bindE (RolesAndPermissions userID) (\<lambda>(rs, ps).
     ret \<lparr>idn_UserID = usr_ID u, idn_Email = usr_Email u, idn_AccountType = usr_PrimaryType u,
          idn_Roles = rs, idn_EmailVerified = usr_EmailVerified u, idn_MFAEnabled = usr_MFAEnabled u\<rparr>))"

definition svc_RevokeSession :: "string \<Rightarrow> string \<Rightarrow> (auth_db, unit) io" where
  "svc_RevokeSession userID sessionID = RevokeSession userID sessionID ''user_revoked''"

lemma keeps_Issue [io_keeps]: "keeps (Issue sign i c)"
  unfolding Issue_def by (intro io_keeps)

lemma keeps_issueSession [io_keeps]: "keeps (newOpaqueToken env)" "keeps (issueSession env u a r ip ua)"
  unfolding issueSession_def newOpaqueToken_def by (intro io_keeps)+

end
