(* ===== verification/Auth_Inv.thy ===== *)
theory Auth_Inv
  imports Auth
begin

text \<open>
  What the auth operations do to sessions and refresh tokens, as moves of a small machine: issue a
  session with its first token, rotate a usable token, revoke. Every operation is such a move or
  leaves both tables alone; the invariant and the facts that only grow are proved on the machine.
\<close>

section \<open>The session machine\<close>

type_synonym token_tables = "session_row list \<times> refresh_token_row list"

definition new_session :: "string \<Rightarrow> string \<Rightarrow> string \<Rightarrow> string \<Rightarrow> string \<Rightarrow> int \<Rightarrow> int \<Rightarrow> session_row" where
  "new_session i fam u ip ua now ttl =
     \<lparr>ses_id = i, ses_user_id = u, ses_ip = ip, ses_user_agent = ua, ses_family_id = fam,
      ses_created_at = now, ses_expires_at = now + ttl, ses_revoked_at = None, ses_revoked_reason = None\<rparr>"

definition new_token :: "string \<Rightarrow> string \<Rightarrow> string \<Rightarrow> string \<Rightarrow> int \<Rightarrow> int \<Rightarrow> refresh_token_row" where
  "new_token i sid u h now ttl =
     \<lparr>rtk_id = i, rtk_session_id = sid, rtk_user_id = u, rtk_token_hash = h, rtk_replaced_by = None,
      rtk_expires_at = now + ttl, rtk_used_at = None, rtk_revoked_at = None\<rparr>"

inductive token_move :: "token_tables \<Rightarrow> token_tables \<Rightarrow> bool" where
  tm_issue: "sid \<notin> ses_id ` set ss \<Longrightarrow> tid \<notin> rtk_id ` set ts \<Longrightarrow> h \<notin> rtk_token_hash ` set ts \<Longrightarrow>
     token_move (ss, ts) (ss @ [new_session sid fam u ip ua now ttl], ts @ [new_token tid sid u h now ttl])"
| tm_rotate: "t \<in> set ts \<Longrightarrow> rtk_used_at t = None \<Longrightarrow> rtk_session_id t \<in> ses_id ` set ss \<Longrightarrow>
     tid \<notin> rtk_id ` set ts \<Longrightarrow> h \<notin> rtk_token_hash ` set ts \<Longrightarrow>
     token_move (ss, ts) (ss, update_where (\<lambda>t'. rtk_id t' = rtk_id t) (use_token now tid)
       (ts @ [new_token tid (rtk_session_id t) u h now ttl]))"
| tm_revoke: "token_move (ss, ts) (update_where P (revoke_session_row now why) ss,
     update_where Q (revoke_token_row now) ts)"

definition tokens_inv :: "token_tables \<Rightarrow> bool" where
  "tokens_inv st \<longleftrightarrow> (case st of (ss, ts) \<Rightarrow>
     distinct (map ses_id ss) \<and> distinct (map rtk_id ts) \<and> distinct (map rtk_token_hash ts) \<and>
     (\<forall>t \<in> set ts. rtk_session_id t \<in> ses_id ` set ss) \<and>
     (\<forall>t \<in> set ts. \<forall>t' \<in> set ts. rtk_session_id t = rtk_session_id t' \<and>
        rtk_used_at t = None \<and> rtk_used_at t' = None \<longrightarrow> t = t'))"

text \<open>
  \<open>token_older\<close> and \<open>session_older\<close>: what can happen to one row over time. Its identity stays, and
  once used or revoked it remains so.
\<close>

definition token_older :: "refresh_token_row \<Rightarrow> refresh_token_row \<Rightarrow> bool" where
  "token_older t t' \<longleftrightarrow> rtk_id t' = rtk_id t \<and> rtk_session_id t' = rtk_session_id t \<and>
     rtk_token_hash t' = rtk_token_hash t \<and> rtk_user_id t' = rtk_user_id t \<and>
     rtk_expires_at t' = rtk_expires_at t \<and>
     (rtk_used_at t \<noteq> None \<longrightarrow> rtk_used_at t' \<noteq> None) \<and> (rtk_revoked_at t \<noteq> None \<longrightarrow> rtk_revoked_at t' \<noteq> None)"

definition session_older :: "session_row \<Rightarrow> session_row \<Rightarrow> bool" where
  "session_older s s' \<longleftrightarrow> ses_id s' = ses_id s \<and> ses_user_id s' = ses_user_id s \<and>
     ses_family_id s' = ses_family_id s \<and> (ses_revoked_at s \<noteq> None \<longrightarrow> ses_revoked_at s' \<noteq> None)"

definition tables_older :: "token_tables \<Rightarrow> token_tables \<Rightarrow> bool" where
  "tables_older st st' \<longleftrightarrow>
     (\<forall>s \<in> set (fst st). \<exists>s' \<in> set (fst st'). session_older s s') \<and>
     (\<forall>t \<in> set (snd st). \<exists>t' \<in> set (snd st'). token_older t t')"

lemma older_refl [simp]: "token_older t t" "session_older s s" "tables_older st st"
  by (auto simp: token_older_def session_older_def tables_older_def)

lemma tables_older_trans: "tables_older a b \<Longrightarrow> tables_older b c \<Longrightarrow> tables_older a c"
  unfolding tables_older_def token_older_def session_older_def by metis

lemma update_where_older:
  assumes "\<And>r. older r r" "\<And>r. older r (f r)" "r \<in> set rs"
  shows "\<exists>r' \<in> set (update_where P f rs). older r r'"
  using assms by (cases "P r") (auto simp: set_update_where)

lemma token_move_older: "token_move st st' \<Longrightarrow> tables_older st st'"
proof (induction rule: token_move.induct)
  case (tm_rotate t ts ss tid h now u ttl)
  have "\<exists>r' \<in> set (update_where (\<lambda>t'. rtk_id t' = rtk_id t) (use_token now tid)
      (ts @ [new_token tid (rtk_session_id t) u h now ttl])). token_older r r'" if "r \<in> set ts" for r
    using that by (intro update_where_older) (auto simp: token_older_def)
  then show ?case by (auto simp: tables_older_def intro: older_refl(2))
next
  case (tm_revoke ss ts P now why Q)
  then show ?case unfolding tables_older_def
    by (auto intro!: update_where_older simp: session_older_def token_older_def)
qed (auto simp: tables_older_def intro: older_refl)

lemma tokens_inv_issue:
  assumes "tokens_inv (ss, ts)" "sid \<notin> ses_id ` set ss" "tid \<notin> rtk_id ` set ts" "h \<notin> rtk_token_hash ` set ts"
  shows "tokens_inv (ss @ [new_session sid fam u ip ua now ttl], ts @ [new_token tid sid u h now ttl])"
proof -
  have "rtk_session_id t \<noteq> sid" if "t \<in> set ts" for t
    using assms(1,2) that by (auto simp: tokens_inv_def)
  with assms show ?thesis
    by (auto simp: tokens_inv_def new_session_def new_token_def)
qed

lemma tokens_inv_rotate:
  assumes inv: "tokens_inv (ss, ts)" and t: "t \<in> set ts" "rtk_used_at t = None"
    and new: "tid \<notin> rtk_id ` set ts" "h \<notin> rtk_token_hash ` set ts"
  shows "tokens_inv (ss, update_where (\<lambda>t'. rtk_id t' = rtk_id t) (use_token now tid)
    (ts @ [new_token tid (rtk_session_id t) u h now ttl]))"
proof -
  let ?n = "new_token tid (rtk_session_id t) u h now ttl"
  let ?ts = "update_where (\<lambda>t'. rtk_id t' = rtk_id t) (use_token now tid) (ts @ [?n])"
  have n: "rtk_id ?n = tid" "rtk_session_id ?n = rtk_session_id t" "rtk_token_hash ?n = h" "rtk_used_at ?n = None"
    by (simp_all add: new_token_def)
  have id: "x = t" if "x \<in> set ts" "rtk_id x = rtk_id t" for x
    using inv that t(1) distinct_key_unique [of rtk_id ts x t] by (simp add: tokens_inv_def)
  have tid: "tid \<noteq> rtk_id t" using new(1) t(1) by auto
  have rows: "set ?ts = insert ?n (insert (use_token now tid t) {x \<in> set ts. rtk_id x \<noteq> rtk_id t})"
    using t(1) id tid n(1) by (auto simp: set_update_where)
  have live: "rtk_session_id x \<noteq> rtk_session_id t" if "x \<in> set ts" "rtk_id x \<noteq> rtk_id t" "rtk_used_at x = None" for x
    using inv t that by (auto simp: tokens_inv_def)
  have keys: "map rtk_id ?ts = map rtk_id (ts @ [?n])" "map rtk_token_hash ?ts = map rtk_token_hash (ts @ [?n])"
    by (simp_all add: map_update_where_same)
  have "distinct (map rtk_id ?ts)" "distinct (map rtk_token_hash ?ts)"
    unfolding keys using inv new n by (simp_all add: tokens_inv_def)
  moreover have "rtk_session_id x \<in> ses_id ` set ss" if "x \<in> set ?ts" for x
    using that inv t(1) n(2) unfolding rows by (auto simp: tokens_inv_def)
  moreover have "x = y" if "x \<in> set ?ts" "y \<in> set ?ts" "rtk_session_id x = rtk_session_id y"
      "rtk_used_at x = None" "rtk_used_at y = None" for x y
  proof -
    have cases: "z = ?n \<or> z \<in> set ts \<and> rtk_id z \<noteq> rtk_id t" if "z \<in> set ?ts" "rtk_used_at z = None" for z
      using that unfolding rows by auto
    have two: "a = b" if "a \<in> set ts" "b \<in> set ts" "rtk_session_id a = rtk_session_id b"
        "rtk_used_at a = None" "rtk_used_at b = None" for a b
      using inv that unfolding tokens_inv_def by blast
    from cases [OF that(1,4)] cases [OF that(2,5)] that n(2) live two show ?thesis by metis
  qed
  ultimately show ?thesis using inv by (auto simp: tokens_inv_def)
qed

lemma update_where_pred:
  assumes "\<And>r. l (f r) = l r" "\<And>r. u (f r) = u r"
    and "\<forall>x \<in> set rs. \<forall>y \<in> set rs. l x = l y \<and> u x = None \<and> u y = None \<longrightarrow> x = y"
  shows "\<forall>x \<in> set (update_where Q f rs). \<forall>y \<in> set (update_where Q f rs).
    l x = l y \<and> u x = None \<and> u y = None \<longrightarrow> x = y"
proof -
  let ?g = "\<lambda>r. if Q r then f r else r"
  have "l (?g r) = l r" "u (?g r) = u r" for r using assms(1,2) by simp_all
  with assms(3) show ?thesis unfolding update_where_def by (simp only: set_map ball_simps) metis
qed

lemma token_move_inv:
  assumes "token_move st st'" "tokens_inv st"
  shows "tokens_inv st'"
  using assms
proof (induction rule: token_move.induct)
  case (tm_revoke ss ts P now why Q)
  let ?ss = "update_where P (revoke_session_row now why) ss" and ?ts = "update_where Q (revoke_token_row now) ts"
  have keys: "map ses_id ?ss = map ses_id ss" "map rtk_id ?ts = map rtk_id ts"
    "map rtk_token_hash ?ts = map rtk_token_hash ts" "map rtk_session_id ?ts = map rtk_session_id ts"
    by (simp_all add: map_update_where_same)
  from arg_cong [OF keys(1), of set] arg_cong [OF keys(4), of set]
  have sets: "ses_id ` set ?ss = ses_id ` set ss" "rtk_session_id ` set ?ts = rtk_session_id ` set ts" by simp_all
  have "\<forall>x \<in> set ?ts. \<forall>y \<in> set ?ts. rtk_session_id x = rtk_session_id y \<and> rtk_used_at x = None \<and>
      rtk_used_at y = None \<longrightarrow> x = y"
    by (rule update_where_pred) (use tm_revoke in \<open>simp_all add: tokens_inv_def\<close>)
  moreover have "\<forall>t \<in> set ?ts. rtk_session_id t \<in> ses_id ` set ?ss"
  proof
    fix t assume "t \<in> set ?ts"
    then have "rtk_session_id t \<in> rtk_session_id ` set ts" unfolding sets(2) [symmetric] by (rule imageI)
    then show "rtk_session_id t \<in> ses_id ` set ?ss" using tm_revoke unfolding sets(1) tokens_inv_def by auto
  qed
  ultimately show ?case using tm_revoke keys by (simp add: tokens_inv_def)
qed (auto intro: tokens_inv_issue tokens_inv_rotate)

section \<open>The operations are moves\<close>

definition tabs :: "auth_db \<Rightarrow> token_tables" where
  "tabs d = (sessions d, refresh_tokens d)"

lemma tabs_updates [simp]:
  "tabs (d\<lparr>users := us\<rparr>) = tabs d" "tabs (d\<lparr>user_roles := rs\<rparr>) = tabs d" "tabs (post_event e d) = tabs d"
  by (simp_all add: tabs_def)

lemma reads_quiet:
  "RolesAndPermissions u s = (r, t) \<Longrightarrow> work t = work s \<and> committed t = committed s \<and> clock t = clock s"
  "Issue sign i c s = (r', t) \<Longrightarrow> work t = work s \<and> committed t = committed s \<and> clock t = clock s"
  by (auto simp: RolesAndPermissions_def Issue_def run_basic pool_query_def split: if_splits)

lemma CreateSession_ok:
  assumes "CreateSession ok fam u ip ua ttl s = (Inr sid, t)"
  shows "sid \<notin> ses_id ` set (sessions (work s)) \<and> committed t = committed s \<and> clock t = clock s \<and>
    work t = (work s)\<lparr>sessions := sessions (work s) @ [new_session sid fam u ip ua (clock s) ttl]\<rparr>"
  using assms by (auto simp: CreateSession_def tx_stmt_ok new_session_def split: if_splits)

lemma InsertRefreshToken_ok:
  assumes "InsertRefreshToken sid u h ttl s = (Inr tid, t)"
  shows "tid \<notin> rtk_id ` set (refresh_tokens (work s)) \<and> h \<notin> rtk_token_hash ` set (refresh_tokens (work s)) \<and>
    sid \<in> ses_id ` set (sessions (work s)) \<and> committed t = committed s \<and> clock t = clock s \<and>
    work t = (work s)\<lparr>refresh_tokens := refresh_tokens (work s) @ [new_token tid sid u h (clock s) ttl]\<rparr>"
  using assms by (auto simp: InsertRefreshToken_def tx_stmt_ok new_token_def split: if_splits)

lemma issueSession_ok:
  assumes "issueSession env u a r ip ua s = (Inr toks, t)"
  shows "\<exists>sid fam tid h. sid \<notin> ses_id ` set (sessions (work s)) \<and>
    tid \<notin> rtk_id ` set (refresh_tokens (work s)) \<and> h \<notin> rtk_token_hash ` set (refresh_tokens (work s)) \<and>
    h = ae_sha256 env (tk_RefreshToken toks) \<and>
    work t = (work s)\<lparr>sessions := sessions (work s) @ [new_session sid fam u ip ua (clock s) (ae_RefreshTTL env)],
      refresh_tokens := refresh_tokens (work s) @ [new_token tid sid u h (clock s) (ae_RefreshTTL env)]\<rparr>"
proof -
  let ?s0 = "s\<lparr>ids := (\<lambda>n. ids s (Suc n))\<rparr>"
  from assms obtain sid s1 where s1: "CreateSession (ae_inet_ok env) (ids s 0) u ip ua (ae_RefreshTTL env) ?s0 = (Inr sid, s1)"
    and rest: "bindE (newOpaqueToken env) (\<lambda>(rawRefresh, refreshHash).
     bindE (InsertRefreshToken sid u refreshHash (ae_RefreshTTL env)) (\<lambda>_.
     bindE (RolesAndPermissions u) (\<lambda>(rs, ps).
     bindE (Issue (ae_sign env) (ae_issuer env)
       \<lparr>cl_UserID = u, cl_SessionID = sid, cl_Roles = rs, cl_Permissions = ps,
        cl_ResidencyCountry = r, cl_AccountType = a\<rparr>) (\<lambda>access.
     ret \<lparr>tk_AccessToken = access, tk_RefreshToken = rawRefresh,
          tk_AccessExpiresIn = access_seconds env, tk_UserID = u\<rparr>)))) s1 = (Inr toks, t)"
    by (auto simp: issueSession_def bindE_ok new_id_ok)
  let ?raw = "ids s1 0" and ?s2 = "s1\<lparr>ids := (\<lambda>n. ids s1 (Suc n))\<rparr>"
  from rest obtain tid s3 rs ps s4 access where
    s3: "InsertRefreshToken sid u (ae_sha256 env ?raw) (ae_RefreshTTL env) ?s2 = (Inr tid, s3)"
    and s4: "RolesAndPermissions u s3 = (Inr (rs, ps), s4)"
    and s5: "Issue (ae_sign env) (ae_issuer env) \<lparr>cl_UserID = u, cl_SessionID = sid, cl_Roles = rs, cl_Permissions = ps,
        cl_ResidencyCountry = r, cl_AccountType = a\<rparr> s4 = (Inr access, t)"
    and toks: "tk_RefreshToken toks = ?raw"
    by (auto simp: bindE_ok newOpaqueToken_def new_id_ok ret_ok)
  from reads_quiet(1) [OF s4] reads_quiet(2) [OF s5] have t: "work t = work s3" by simp
  from CreateSession_ok [OF s1] have c: "sid \<notin> ses_id ` set (sessions (work s))" "clock s1 = clock s"
    "work s1 = (work s)\<lparr>sessions := sessions (work s) @ [new_session sid (ids s 0) u ip ua (clock s) (ae_RefreshTTL env)]\<rparr>"
    by simp_all
  from InsertRefreshToken_ok [OF s3] have i: "tid \<notin> rtk_id ` set (refresh_tokens (work s))"
    "ae_sha256 env ?raw \<notin> rtk_token_hash ` set (refresh_tokens (work s))"
    "work s3 = (work s1)\<lparr>refresh_tokens := refresh_tokens (work s) @
       [new_token tid sid u (ae_sha256 env ?raw) (clock s) (ae_RefreshTTL env)]\<rparr>"
    by (simp_all add: c)
  show ?thesis
    by (rule exI [of _ sid], rule exI [of _ "ids s 0"], rule exI [of _ tid], rule exI [of _ "ae_sha256 env ?raw"])
      (simp add: t c i toks)
qed

lemma issue_move:
  assumes "issueSession env u a r ip ua s = (Inr toks, t)"
  shows "token_move (tabs (work s)) (tabs (work t))"
  using issueSession_ok [OF assms] tm_issue [of _ "sessions (work s)" _ "refresh_tokens (work s)"]
  by (auto simp: tabs_def)

lemma CreateUser_tabs:
  "CreateUser e h a r l s = (Inr u, t) \<Longrightarrow> tabs (work t) = tabs (work s)"
  "AssignRole u' n s = (Inr x, t) \<Longrightarrow> tabs (work t) = tabs (work s)"
  by (auto simp: CreateUser_def AssignRole_def tx_stmt_ok split: if_splits)

lemma Register_tabs:
  assumes "Register env e p a r l ip ua s = (res, t)"
  shows "token_move\<^sup>=\<^sup>= (tabs (committed s)) (tabs (committed t))"
proof (cases res)
  case (Inl er)
  have "atomic (Register env e p a r l ip ua)"
    unfolding Register_def by (intro io_atomic io_keeps)
  with assms Inl show ?thesis by (auto dest: atomicD)
next
  case (Inr toks)
  let ?s1 = "(tick (s\<lparr>ids := (\<lambda>n. ids s (Suc n))\<rparr>))\<lparr>work := committed s, aborted := False\<rparr>"
  from assms Inr obtain h u s2 s3 x s4 where
    u: "CreateUser e h a r l ?s1 = (Inr u, s2)" and ro: "AssignRole u a s2 = (Inr x, s3)"
    and i: "issueSession env u a r ip ua s3 = (Inr toks, s4)"
    and t: "committed t = post_event (registered_event u a r) (work s4)"
    by (auto simp: Register_def bindE_ok new_id_ok liftE_ok begin_tx_ok map_error_ok Enqueue_ok commit_tx_ok ret_ok)
  from issue_move [OF i] CreateUser_tabs(1) [OF u] CreateUser_tabs(2) [OF ro] t show ?thesis by simp
qed

lemma authenticate_tabs:
  assumes "authenticate env e p s = (res, t)"
  shows "tabs (committed t) = tabs (committed s)"
  using assms
  by (auto simp: authenticate_def run_basic GetUserByEmail_def pool_query_def RecordLoginFailure_def
      RecordLoginSuccess_def pool_exec_def split: if_splits option.splits)

lemma Login_tabs:
  assumes "Login env e p ip ua s = (res, t)"
  shows "token_move\<^sup>=\<^sup>= (tabs (committed s)) (tabs (committed t))"
proof -
  obtain r s1 where a: "authenticate env e p s = (r, s1)" by fastforce
  note same = authenticate_tabs [OF a]
  show ?thesis
  proof (cases r)
    case (Inl er)
    with assms a same show ?thesis by (auto simp: Login_def bindE_def)
  next
    case (Inr u)
    let ?rest = "bindE begin_tx (\<lambda>_.
     bindE (issueSession env (usr_ID u) (usr_PrimaryType u) (usr_Residency u) ip ua) (\<lambda>toks.
     bindE (ignoreE (Enqueue (session_event (tk_UserID toks) ip))) (\<lambda>_.
     bindE commit_tx (\<lambda>_. ret toks))))"
    have rest: "?rest s1 = (res, t)" using assms a Inr by (simp add: Login_def bindE_def)
    have at: "atomic ?rest" by (intro io_atomic io_keeps)
    show ?thesis
    proof (cases res)
      case (Inl er)
      with rest at same show ?thesis by (auto dest: atomicD)
    next
      case (Inr toks)
      let ?s2 = "(tick s1)\<lparr>work := committed s1, aborted := False\<rparr>"
      from rest Inr obtain s3 where
        i: "issueSession env (usr_ID u) (usr_PrimaryType u) (usr_Residency u) ip ua ?s2 = (Inr toks, s3)"
        and t: "committed t = work (snd (Enqueue (session_event (tk_UserID toks) ip) s3))"
        by (auto simp: bindE_ok begin_tx_ok ignoreE_ok commit_tx_ok ret_ok)
      from t have "tabs (committed t) = tabs (work s3)" by (simp add: Enqueue_def tx_stmt_def)
      with issue_move [OF i] same show ?thesis by simp
    qed
  qed
qed

lemma RevokeFamily_ok:
  assumes "RevokeFamily f why s = (r, t)"
  shows "committed t = committed s \<and> clock t = clock s \<and> (\<not> aborted t \<longrightarrow>
    work t = (work s)\<lparr>sessions := update_where (\<lambda>x. ses_family_id x = f \<and> ses_revoked_at x = None)
        (revoke_session_row (clock s) why) (sessions (work s)),
      refresh_tokens := update_where (\<lambda>x. rtk_revoked_at x = None \<and>
        rtk_session_id x \<in> ses_id ` set (filter (\<lambda>y. ses_family_id y = f) (sessions (work s))))
        (revoke_token_row (clock s)) (refresh_tokens (work s))\<rparr>)"
proof -
  have fam: "ses_id ` set (filter (\<lambda>y. ses_family_id y = f) (update_where (\<lambda>x. ses_family_id x = f \<and> ses_revoked_at x = None)
      (revoke_session_row now why) ss)) = ses_id ` set (filter (\<lambda>y. ses_family_id y = f) ss)" for now ss
    by (induction ss) auto
  from assms show ?thesis
    by (auto simp: RevokeFamily_def run_basic tx_stmt_def fam simp del: set_filter split: if_splits)
qed

lemma RevokeSessionByID_ok:
  assumes "RevokeSessionByID i why s = (Inr u, t)"
  shows "work t = (work s)\<lparr>sessions := update_where (\<lambda>x. ses_id x = i \<and> ses_revoked_at x = None)
        (revoke_session_row (clock s) why) (sessions (work s)),
      refresh_tokens := update_where (\<lambda>x. rtk_session_id x = i \<and> rtk_revoked_at x = None)
        (revoke_token_row (clock s)) (refresh_tokens (work s))\<rparr>"
  using assms by (auto simp: RevokeSessionByID_def bindE_ok tx_stmt_ok)

lemma LookupRefreshToken_ok:
  "LookupRefreshToken h s = (Inr rt, t) \<longleftrightarrow> \<not> aborted s \<and> \<not> faults s 0 \<and> t = (tick s)\<lparr>work := work s\<rparr> \<and>
     (\<exists>x y. find_token h (work s) = Some x \<and> find_session (rtk_session_id x) (work s) = Some y \<and> rt = join_token x y)"
  by (auto simp: LookupRefreshToken_def scan_row_ok tx_stmt_ok split: option.splits)

lemma rotate_token_ok:
  assumes "rotate_token env rt s = (Inr toks, t)"
  shows "\<exists>tid h now ttl y. find_session (rt_SessionID rt) (work s) = Some y \<and> ses_revoked_at y = None \<and>
    tid \<notin> rtk_id ` set (refresh_tokens (work s)) \<and> h \<notin> rtk_token_hash ` set (refresh_tokens (work s)) \<and>
    committed t = (work s)\<lparr>refresh_tokens := update_where (\<lambda>x. rtk_id x = rt_ID rt) (use_token now tid)
      (refresh_tokens (work s) @ [new_token tid (rt_SessionID rt) (rt_UserID rt) h now ttl])\<rparr>"
proof -
  let ?s1 = "(tick s)\<lparr>work := work s\<rparr>"
  from assms obtain y rs ps s2 where y: "find_session (rt_SessionID rt) (work s) = Some y" "ses_revoked_at y = None"
    and s2: "RolesAndPermissions (rt_UserID rt) ?s1 = (Inr (rs, ps), s2)"
    and rest: "bindE (newOpaqueToken env) (\<lambda>(newRaw, newHash).
     bindE (InsertRefreshToken (rt_SessionID rt) (rt_UserID rt) newHash (ae_RefreshTTL env)) (\<lambda>newID.
     bindE (MarkTokenUsed (rt_ID rt) newID) (\<lambda>_.
     bindE (Issue (ae_sign env) (ae_issuer env)
       \<lparr>cl_UserID = rt_UserID rt, cl_SessionID = rt_SessionID rt, cl_Roles = rs, cl_Permissions = ps,
        cl_ResidencyCountry = '''', cl_AccountType = ''''\<rparr>) (\<lambda>access.
     bindE commit_tx (\<lambda>_.
     ret \<lparr>tk_AccessToken = access, tk_RefreshToken = newRaw,
          tk_AccessExpiresIn = access_seconds env, tk_UserID = rt_UserID rt\<rparr>))))) s2 = (Inr toks, t)"
    by (auto simp: rotate_token_def bindE_ok SessionRevokedForUpdate_def tx_stmt_ok throw_ok split: option.splits if_splits)
  from reads_quiet(1) [OF s2] have w2: "work s2 = work s" "clock s2 = clock s" by simp_all
  let ?s3 = "s2\<lparr>ids := (\<lambda>n. ids s2 (Suc n))\<rparr>"
  from rest obtain tid s4 s5 s6 access c where
    s4: "InsertRefreshToken (rt_SessionID rt) (rt_UserID rt) (ae_sha256 env (ids s2 0)) (ae_RefreshTTL env) ?s3 = (Inr tid, s4)"
    and s5: "MarkTokenUsed (rt_ID rt) tid s4 = (Inr (), s5)" and s6: "Issue (ae_sign env) (ae_issuer env) c s5 = (Inr access, s6)"
    and t: "committed t = work s6"
    by (auto simp: bindE_ok newOpaqueToken_def new_id_ok ret_ok commit_tx_ok)
  from InsertRefreshToken_ok [OF s4] have i: "tid \<notin> rtk_id ` set (refresh_tokens (work s))"
    "ae_sha256 env (ids s2 0) \<notin> rtk_token_hash ` set (refresh_tokens (work s))" "clock s4 = clock s"
    "work s4 = (work s)\<lparr>refresh_tokens := refresh_tokens (work s) @
       [new_token tid (rt_SessionID rt) (rt_UserID rt) (ae_sha256 env (ids s2 0)) (clock s) (ae_RefreshTTL env)]\<rparr>"
    by (simp_all add: w2)
  from s5 have "work s5 = (work s4)\<lparr>refresh_tokens := update_where (\<lambda>x. rtk_id x = rt_ID rt) (use_token (clock s) tid)
      (refresh_tokens (work s4))\<rparr>"
    by (auto simp: MarkTokenUsed_def tx_stmt_ok i(3) split: if_splits)
  with reads_quiet(2) [OF s6] t have "committed t = (work s4)\<lparr>refresh_tokens :=
      update_where (\<lambda>x. rtk_id x = rt_ID rt) (use_token (clock s) tid) (refresh_tokens (work s4))\<rparr>" by simp
  then show ?thesis
    by (intro exI [of _ tid] exI [of _ "ae_sha256 env (ids s2 0)"] exI [of _ "clock s"] exI [of _ "ae_RefreshTTL env"] exI [of _ y])
      (simp add: y i)
qed

lemma atomic_rotate: "atomic (rotate_token env rt)"
  unfolding rotate_token_def by (intro io_atomic io_keeps)

text \<open>The three ways \<open>Refresh\<close> can end.\<close>

lemma Refresh_cases [case_names error reuse rotated]:
  assumes "Refresh env raw s = (r, t)"
  obtains e where "r = Inl e" "committed t = committed s"
  | x y where "r = Inl ErrTokenReuse" "find_token (ae_sha256 env raw) (committed s) = Some x" "rtk_used_at x \<noteq> None"
    "find_session (rtk_session_id x) (committed s) = Some y"
    "committed t = (committed s)\<lparr>sessions := update_where (\<lambda>z. ses_family_id z = ses_family_id y \<and> ses_revoked_at z = None)
        (revoke_session_row (clock s) ''refresh_token_reuse'') (sessions (committed s)),
      refresh_tokens := update_where (\<lambda>z. rtk_revoked_at z = None \<and>
        rtk_session_id z \<in> ses_id ` set (filter (\<lambda>w. ses_family_id w = ses_family_id y) (sessions (committed s))))
        (revoke_token_row (clock s)) (refresh_tokens (committed s))\<rparr>"
  | toks x y tid h now u ttl where "r = Inr toks" "find_token (ae_sha256 env raw) (committed s) = Some x"
    "rtk_used_at x = None" "rtk_revoked_at x = None" "\<not> rtk_expires_at x < clock s"
    "find_session (rtk_session_id x) (committed s) = Some y" "ses_revoked_at y = None"
    "tid \<notin> rtk_id ` set (refresh_tokens (committed s))" "h \<notin> rtk_token_hash ` set (refresh_tokens (committed s))"
    "committed t = (committed s)\<lparr>refresh_tokens := update_where (\<lambda>z. rtk_id z = rtk_id x) (use_token now tid)
      (refresh_tokens (committed s) @ [new_token tid (rtk_session_id x) u h now ttl])\<rparr>"
proof -
  define s1 where "s1 = (tick s)\<lparr>work := committed s, aborted := False\<rparr>"
  define s2 where "s2 = (tick s1)\<lparr>work := work s1\<rparr>"
  have w: "work s2 = committed s" "clock s2 = clock s" "committed s2 = committed s" by (simp_all add: s2_def s1_def)
  let ?h = "ae_sha256 env raw"
  have unfold: "Refresh env raw s = (if faults s 0 then (Inl DBError, tick s) else
    (case LookupRefreshToken ?h s1 of
       (Inl e, u) \<Rightarrow> (Inl (if e = ErrNotFound then ErrTokenExpired else e), u)
     | (Inr rt, u) \<Rightarrow>
         if rt_RevokedAt rt \<noteq> None \<or> rt_ExpiresAt rt < clock u then (Inl ErrTokenExpired, u)
         else if rt_UsedAt rt \<noteq> None then
           (Inl ErrTokenReuse, snd (commit_tx (snd (RevokeFamily (rt_FamilyID rt) ''refresh_token_reuse'' u))))
         else rotate_token env rt u))"
    by (auto simp: Refresh_def run_basic begin_tx_def s1_def split: prod.splits sum.splits)
  show thesis
  proof (cases "faults s 0 \<or> (\<exists>e u. LookupRefreshToken ?h s1 = (Inl e, u))")
    case True
    have l: "committed u = committed s" if "LookupRefreshToken ?h s1 = (x, u)" for x u
      using keepsD [OF keeps_auth_store(8) that] by (simp add: s1_def)
    have "\<exists>e. r = Inl e \<and> committed t = committed s"
    proof (cases "faults s 0")
      case True
      with assms show ?thesis unfolding unfold by auto
    next
      case False
      with True obtain e u where "LookupRefreshToken ?h s1 = (Inl e, u)" by blast
      with l False assms show ?thesis unfolding unfold by auto
    qed
    with that(1) show ?thesis by blast
  next
    case False
    then obtain rt u where l: "LookupRefreshToken ?h s1 = (Inr rt, u)"
      by (cases "LookupRefreshToken ?h s1") (metis sum.exhaust)
    then obtain x y where x: "find_token ?h (committed s) = Some x" "find_session (rtk_session_id x) (committed s) = Some y"
      "rt = join_token x y" and u: "u = s2"
      by (auto simp: LookupRefreshToken_ok s2_def s1_def)
    have run: "(if rtk_revoked_at x \<noteq> None \<or> rtk_expires_at x < clock s then (Inl ErrTokenExpired, s2)
         else if rtk_used_at x \<noteq> None then
           (Inl ErrTokenReuse, snd (commit_tx (snd (RevokeFamily (ses_family_id y) ''refresh_token_reuse'' s2))))
         else rotate_token env rt s2) = (r, t)"
      using assms False unfolding unfold by (simp add: l u x(3) join_token_def w cong: if_cong)
    consider "rtk_revoked_at x \<noteq> None \<or> rtk_expires_at x < clock s"
      | "rtk_revoked_at x = None" "\<not> rtk_expires_at x < clock s" "rtk_used_at x \<noteq> None"
      | "rtk_revoked_at x = None" "\<not> rtk_expires_at x < clock s" "rtk_used_at x = None" by blast
    then show ?thesis
    proof cases
      case 1
      with run w that(1) show ?thesis by auto
    next
      case 2
      obtain q v where v: "RevokeFamily (ses_family_id y) ''refresh_token_reuse'' s2 = (q, v)" by fastforce
      from run 2 v have rt: "r = Inl ErrTokenReuse" "t = snd (commit_tx v)" by auto
      show ?thesis
      proof (cases "aborted v \<or> faults v 0")
        case True
        with RevokeFamily_ok [OF v] rt(2) w have "committed t = committed s" by (auto simp: commit_tx_def)
        from that(1) [OF rt(1) this] show ?thesis .
      next
        case False
        then have "committed t = work v" by (simp add: rt(2) commit_tx_def)
        with RevokeFamily_ok [OF v] False have ct: "committed t = (committed s)\<lparr>
            sessions := update_where (\<lambda>z. ses_family_id z = ses_family_id y \<and> ses_revoked_at z = None)
              (revoke_session_row (clock s) ''refresh_token_reuse'') (sessions (committed s)),
            refresh_tokens := update_where (\<lambda>z. rtk_revoked_at z = None \<and>
              rtk_session_id z \<in> ses_id ` set (filter (\<lambda>w. ses_family_id w = ses_family_id y) (sessions (committed s))))
              (revoke_token_row (clock s)) (refresh_tokens (committed s))\<rparr>"
          unfolding w by simp
        from that(2) [OF rt(1) x(1) 2(3) x(2) ct] show ?thesis .
      qed
    next
      case 3
      with run have ro: "rotate_token env rt s2 = (r, t)" by simp
      show ?thesis
      proof (cases r)
        case (Inl e)
        with ro atomicD [OF atomic_rotate] w that(1) show ?thesis by simp
      next
        case (Inr toks)
        from rotate_token_ok [OF ro [unfolded Inr]] that(3) [OF Inr x(1) 3(3,1,2) x(2)] x show ?thesis
          by (auto simp: w join_token_def)
      qed
    qed
  qed
qed

lemma find_token_mem: "find_token h d = Some x \<Longrightarrow> x \<in> set (refresh_tokens d) \<and> rtk_token_hash x = h"
  by (auto simp: find_token_def dest!: select_one_SomeD)

lemma find_session_mem: "find_session i d = Some y \<Longrightarrow> y \<in> set (sessions d) \<and> ses_id y = i"
  by (auto simp: find_session_def dest!: select_one_SomeD)

lemma Refresh_tabs:
  assumes "Refresh env raw s = (r, t)"
  shows "token_move\<^sup>=\<^sup>= (tabs (committed s)) (tabs (committed t))"
  using assms
proof (cases rule: Refresh_cases)
  case (reuse x y)
  then show ?thesis by (simp add: tabs_def tm_revoke)
next
  case (rotated toks x y tid h now u ttl)
  have "x \<in> set (refresh_tokens (committed s))" using find_token_mem [OF rotated(2)] by simp
  moreover have "rtk_session_id x \<in> ses_id ` set (sessions (committed s))"
    using find_session_mem [OF rotated(6)] by (auto intro: rev_image_eqI)
  ultimately have "token_move (tabs (committed s)) (tabs (committed t))"
    using tm_rotate [of x "refresh_tokens (committed s)" "sessions (committed s)" tid h now u ttl] rotated(3,8,9)
    by (simp add: tabs_def rotated(10))
  then show ?thesis by simp
qed simp

lemma Logout_tabs:
  assumes "Logout env raw b s = (r, t)"
  shows "token_move\<^sup>=\<^sup>= (tabs (committed s)) (tabs (committed t))"
proof (cases r)
  case (Inl e)
  have "atomic (Logout env raw b)" unfolding Logout_def by (intro io_atomic io_keeps)
  with assms Inl show ?thesis by (auto dest: atomicD)
next
  case (Inr u)
  show ?thesis
  proof (cases "raw = ''''")
    case True
    with assms Inr show ?thesis by (simp add: Logout_def ret_ok)
  next
    case False
    let ?s1 = "(tick s)\<lparr>work := committed s, aborted := False\<rparr>"
    from assms Inr False obtain q s2 where l: "LookupRefreshToken (ae_sha256 env raw) ?s1 = (q, s2)" and
      rest: "(case q of Inl e \<Rightarrow> if e = ErrNotFound then ret () else throw e
        | Inr rt \<Rightarrow> bindE (if b then RevokeFamily (rt_FamilyID rt) ''user_logout_all''
                 else RevokeSessionByID (rt_SessionID rt) ''user_logout'') (\<lambda>_. commit_tx)) s2 = (Inr u, t)"
      by (auto simp: Logout_def bindE_ok begin_tx_ok attempt_ok)
    have c: "committed s2 = committed s" using keepsD [OF keeps_auth_store(8) l] by simp
    show ?thesis
    proof (cases q)
      case (Inl e)
      with rest c show ?thesis by (auto simp: ret_ok throw_ok split: if_splits)
    next
      case (Inr rt)
      with l have w: "work s2 = committed s" by (auto simp: LookupRefreshToken_ok)
      from rest Inr obtain x v where
        v: "(if b then RevokeFamily (rt_FamilyID rt) ''user_logout_all''
             else RevokeSessionByID (rt_SessionID rt) ''user_logout'') s2 = (Inr x, v)"
        and t: "committed t = work v" "\<not> aborted v"
        by (auto simp: bindE_ok commit_tx_ok)
      show ?thesis
        using v RevokeFamily_ok [of "rt_FamilyID rt" "''user_logout_all''" s2 "Inr x" v]
          RevokeSessionByID_ok [of "rt_SessionID rt" "''user_logout''" s2 x v] t
        by (cases b) (simp_all add: w tabs_def tm_revoke)
    qed
  qed
qed

lemma RevokeSession_tabs:
  assumes "RevokeSession u i why s = (r, t)"
  shows "token_move\<^sup>=\<^sup>= (tabs (committed s)) (tabs (committed t))"
proof -
  have "token_move (ss, ts) (update_where P (revoke_session_row now why) ss, ts)" for ss ts P now
    using tm_revoke [of ss ts P now why "\<lambda>_. False"] by (simp add: update_where_def)
  with assms show ?thesis
    by (auto simp: RevokeSession_def Let_def run_basic pool_exec_def tabs_def split: if_splits)
qed

section \<open>The service as a step relation\<close>

inductive auth_step :: "auth_db \<Rightarrow> auth_db \<Rightarrow> bool" where
  step_register: "Register env e p a r l ip ua s = (res, t) \<Longrightarrow> auth_step (committed s) (committed t)"
| step_login: "Login env e p ip ua s = (res, t) \<Longrightarrow> auth_step (committed s) (committed t)"
| step_refresh: "Refresh env raw s = (res, t) \<Longrightarrow> auth_step (committed s) (committed t)"
| step_logout: "Logout env raw b s = (res', t) \<Longrightarrow> auth_step (committed s) (committed t)"
| step_revoke: "svc_RevokeSession u i s = (res', t) \<Longrightarrow> auth_step (committed s) (committed t)"

lemma auth_step_move: "auth_step d d' \<Longrightarrow> token_move\<^sup>=\<^sup>= (tabs d) (tabs d')"
  by (induction rule: auth_step.induct)
    (auto dest: Register_tabs Login_tabs Refresh_tabs Logout_tabs RevokeSession_tabs simp: svc_RevokeSession_def)

definition auth_inv :: "auth_db \<Rightarrow> bool" where
  "auth_inv d \<longleftrightarrow> tokens_inv (tabs d)"

interpretation auth_system: invariant_system auth_step auth_inv
proof
  fix d d' assume "auth_step d d'" "auth_inv d"
  with auth_step_move [of d d'] token_move_inv [of "tabs d" "tabs d'"] show "auth_inv d'" by (auto simp: auth_inv_def)
qed

lemma auth_steps_older: "auth_step\<^sup>*\<^sup>* d d' \<Longrightarrow> tables_older (tabs d) (tabs d')"
proof (induction rule: rtranclp_induct)
  case (step d1 d2)
  from auth_step_move [OF step(2)] token_move_older [of "tabs d1" "tabs d2"]
  have "tables_older (tabs d1) (tabs d2)" by auto
  with step(3) tables_older_trans show ?case by blast
qed simp

text \<open>A token row found now is found, aged, in every later state.\<close>

lemma find_token_later:
  assumes "auth_step\<^sup>*\<^sup>* d d'" "auth_inv d" "find_token h d = Some x"
  shows "\<exists>x'. find_token h d' = Some x' \<and> token_older x x'"
proof -
  from find_token_mem [OF assms(3)] auth_steps_older [OF assms(1)] obtain x' where
    x': "x' \<in> set (refresh_tokens d')" "token_older x x'" "rtk_token_hash x = h"
    by (auto simp: tables_older_def tabs_def)
  have "distinct (map rtk_token_hash (refresh_tokens d'))"
    using auth_system.steps_inv [OF assms(1,2)] by (simp add: auth_inv_def tokens_inv_def tabs_def)
  from select_one_key [OF x'(1) this] x' show ?thesis by (auto simp: find_token_def token_older_def)
qed

lemma find_session_later:
  assumes "auth_step\<^sup>*\<^sup>* d d'" "auth_inv d" "find_session i d = Some y"
  shows "\<exists>y'. find_session i d' = Some y' \<and> session_older y y'"
proof -
  from find_session_mem [OF assms(3)] auth_steps_older [OF assms(1)] obtain y' where
    y': "y' \<in> set (sessions d')" "session_older y y'" "ses_id y = i"
    by (auto simp: tables_older_def tabs_def)
  have "distinct (map ses_id (sessions d'))"
    using auth_system.steps_inv [OF assms(1,2)] by (simp add: auth_inv_def tokens_inv_def tabs_def)
  from select_one_key [OF y'(1) this] y' show ?thesis by (auto simp: find_session_def session_older_def)
qed

text \<open>A token that is used or revoked, or whose session is revoked, cannot be refreshed.\<close>

lemma Refresh_dead:
  assumes "find_token (ae_sha256 env raw) (committed s) = Some x"
    and "rtk_used_at x \<noteq> None \<or> rtk_revoked_at x \<noteq> None \<or>
      (\<exists>y. find_session (rtk_session_id x) (committed s) = Some y \<and> ses_revoked_at y \<noteq> None)"
  shows "\<exists>e t. Refresh env raw s = (Inl e, t)"
proof -
  obtain r t where run: "Refresh env raw s = (r, t)" by fastforce
  then show ?thesis
    by (cases rule: Refresh_cases) (use assms in \<open>auto simp: run\<close>)
qed

end
