(* ===== verification/Auth_Props.thy ===== *)
theory Auth_Props
  imports Auth_Inv Rbac
begin

text \<open>
  The promises of the auth service: a refresh token works once, reuse of a spent token ends its
  whole family for good, a revoked session stays dead, guessing passwords is cut off, and what the
  first token after registration says.
\<close>

section \<open>Sample data\<close>

definition demo_env :: auth_env where
  "demo_env = \<lparr>ae_HashPassword = (\<lambda>salt p. Inr (salt @ p)), ae_VerifyPassword = (\<lambda>p h. Inr (p = h)),
     ae_sha256 = (\<lambda>x. ''#'' @ x), ae_sign = (\<lambda>kid rc c. Inr (''jwt-'' @ cl_UserID c)),
     ae_issuer = \<lparr>iss_kid = ''k'', iss_issuer = ''aizorix'', iss_audience = ''api'', iss_accessTTL = 900\<rparr>,
     ae_inet_ok = (\<lambda>_. True), ae_AccessTTL = 900 * 10 ^ 9, ae_RefreshTTL = 10 ^ 12\<rparr>"

definition demo_user :: User where
  "demo_user = \<lparr>usr_ID = ''u1'', usr_Email = ''a@b'', usr_PasswordHash = ''secret'', usr_Status = ''active'',
     usr_PrimaryType = ''client'', usr_EmailVerified = True, usr_MFAEnabled = False, usr_Residency = ''DE'',
     usr_Locale = ''en'', usr_FailedLogins = 0, usr_LockedUntil = None, usr_LastLoginAt = None, usr_deleted_at = None\<rparr>"

definition demo_auth_db :: auth_db where
  "demo_auth_db = \<lparr>outbox = [], outbox_seq = 1, processed_events = [], users = [demo_user],
     roles = [''client'', ''freelancer''], user_roles = [(''u1'', ''client'')], role_permissions = [],
     sessions = [new_session ''s1'' ''f1'' ''u1'' ''::1'' ''ua'' 0 (10 ^ 12)],
     refresh_tokens = [new_token ''t1'' ''s1'' ''u1'' ''#raw1'' 0 (10 ^ 12)]\<rparr>"

lemma auth_inv_demo: "auth_inv demo_auth_db"
  by (simp add: auth_inv_def tokens_inv_def tabs_def demo_auth_db_def new_session_def new_token_def)

section \<open>Refresh tokens\<close>

lemma RevokeFamily_run:
  assumes "reliable s" "\<not> aborted s"
  shows "\<exists>t. RevokeFamily f why s = (Inr (), t) \<and> reliable t \<and> \<not> aborted t"
proof -
  have f: "\<not> faults s n" for n using assms(1) by (simp add: reliable_def)
  then show ?thesis using assms(2)
    by (simp add: RevokeFamily_def run_basic tx_stmt_def reliable_def)
qed

lemma Refresh_reuse_run:
  assumes ok: "reliable s"
    and x: "find_token (ae_sha256 env raw) (committed s) = Some x" "rtk_used_at x \<noteq> None"
      "rtk_revoked_at x = None" "clock s \<le> rtk_expires_at x"
    and y: "find_session (rtk_session_id x) (committed s) = Some y"
  shows "\<exists>t. Refresh env raw s = (Inl ErrTokenReuse, t) \<and>
    committed t = (committed s)\<lparr>sessions := update_where (\<lambda>z. ses_family_id z = ses_family_id y \<and> ses_revoked_at z = None)
        (revoke_session_row (clock s) ''refresh_token_reuse'') (sessions (committed s)),
      refresh_tokens := update_where (\<lambda>z. rtk_revoked_at z = None \<and>
        rtk_session_id z \<in> ses_id ` set (filter (\<lambda>w. ses_family_id w = ses_family_id y) (sessions (committed s))))
        (revoke_token_row (clock s)) (refresh_tokens (committed s))\<rparr>"
proof -
  have f: "\<not> faults s n" for n using ok by (simp add: reliable_def)
  define s2 where "s2 = (tick ((tick s)\<lparr>work := committed s, aborted := False\<rparr>))\<lparr>work := committed s\<rparr>"
  have s2: "reliable s2" "\<not> aborted s2" "work s2 = committed s" "clock s2 = clock s"
    using f by (simp_all add: s2_def reliable_def)
  obtain t where t: "RevokeFamily (ses_family_id y) ''refresh_token_reuse'' s2 = (Inr (), t)" "reliable t" "\<not> aborted t"
    using RevokeFamily_run [OF s2(1,2)] by blast
  have "Refresh env raw s = (Inl ErrTokenReuse, snd (commit_tx (snd (RevokeFamily (ses_family_id y) ''refresh_token_reuse'' s2))))"
    using f x y by (simp add: Refresh_def run_basic begin_tx_def LookupRefreshToken_def tx_stmt_def join_token_def s2_def tick_def)
  moreover have "committed (snd (commit_tx t)) = work t"
    using t(2,3) by (simp add: commit_tx_def reliable_def)
  ultimately show ?thesis using RevokeFamily_ok [OF t(1)] t s2(3,4) by simp
qed

lemma find_token_row:
  "auth_inv d \<Longrightarrow> x \<in> set (refresh_tokens d) \<Longrightarrow> rtk_token_hash x = h \<Longrightarrow> find_token h d = Some x"
  using select_one_key [of x "refresh_tokens d" rtk_token_hash]
  by (auto simp: find_token_def auth_inv_def tokens_inv_def tabs_def)

lemma find_session_row:
  "auth_inv d \<Longrightarrow> y \<in> set (sessions d) \<Longrightarrow> ses_id y = i \<Longrightarrow> find_session i d = Some y"
  using select_one_key [of y "sessions d" ses_id]
  by (auto simp: find_session_def auth_inv_def tokens_inv_def tabs_def)

lemma dead_forever:
  assumes steps: "auth_step\<^sup>*\<^sup>* d (committed s')" and inv: "auth_inv d"
    and tok: "find_token (ae_sha256 env raw) d = Some x"
    and dead: "rtk_used_at x \<noteq> None \<or> rtk_revoked_at x \<noteq> None \<or>
      (\<exists>y. find_session (rtk_session_id x) d = Some y \<and> ses_revoked_at y \<noteq> None)"
  shows "\<exists>e t'. Refresh env raw s' = (Inl e, t')"
proof -
  obtain x' where x': "find_token (ae_sha256 env raw) (committed s') = Some x'" "token_older x x'"
    using find_token_later [OF steps inv tok] by blast
  have "rtk_used_at x' \<noteq> None \<or> rtk_revoked_at x' \<noteq> None \<or>
      (\<exists>y. find_session (rtk_session_id x') (committed s') = Some y \<and> ses_revoked_at y \<noteq> None)"
    using dead x'(2) find_session_later [OF steps inv] unfolding token_older_def session_older_def by metis
  with x'(1) show ?thesis by (rule Refresh_dead)
qed

text \<open>
  C14: a refresh token works at most once. When \<open>Refresh\<close> has answered with new tokens for a raw
  token, then in every state the service can reach afterwards, by any sequence of registrations,
  logins, refreshes, logouts and revocations, \<open>Refresh\<close> of that raw token is refused.
\<close>

theorem refresh_once:
  assumes "auth_inv (committed s)" "Refresh env raw s = (Inr toks, t)"
    and "auth_step\<^sup>*\<^sup>* (committed t) (committed s')"
  shows "\<exists>e t'. Refresh env raw s' = (Inl e, t')"
proof -
  have inv: "auth_inv (committed t)"
    using auth_system.step_inv [OF step_refresh [OF assms(2)] assms(1)] .
  from assms(2) show ?thesis
  proof (cases rule: Refresh_cases)
    case (rotated toks' x y tid h now u ttl)
    let ?x = "use_token now tid x"
    have "?x \<in> set (refresh_tokens (committed t))"
      using find_token_mem [OF rotated(2)] by (auto simp: rotated(10) set_update_where)
    then have "find_token (ae_sha256 env raw) (committed t) = Some ?x"
      using find_token_mem [OF rotated(2)] by (intro find_token_row [OF inv]) simp_all
    from dead_forever [OF assms(3) inv this] show ?thesis by simp
  qed simp_all
qed

theorem refresh_once_witness:
  "\<exists>e t'. Refresh demo_env ''raw1'' (quiet ''z'' (committed (snd (Refresh demo_env ''raw1'' (quiet ''y'' demo_auth_db))))) = (Inl e, t')"
proof -
  have "fst (Refresh demo_env ''raw1'' (quiet ''y'' demo_auth_db)) =
      Inr \<lparr>tk_AccessToken = ''jwt-u1'', tk_RefreshToken = ''yiiiii'', tk_AccessExpiresIn = 900, tk_UserID = ''u1''\<rparr>"
    by code_simp
  then have "Refresh demo_env ''raw1'' (quiet ''y'' demo_auth_db) =
      (Inr \<lparr>tk_AccessToken = ''jwt-u1'', tk_RefreshToken = ''yiiiii'', tk_AccessExpiresIn = 900, tk_UserID = ''u1''\<rparr>,
       snd (Refresh demo_env ''raw1'' (quiet ''y'' demo_auth_db)))"
    by (metis prod.collapse)
  from refresh_once [OF _ this] show ?thesis by (simp add: auth_inv_demo)
qed

text \<open>
  C15: reuse of a spent token burns its family. On a connection without failures, presenting a
  token that was already used (and has not expired or been revoked) is answered with
  \<open>ErrTokenReuse\<close>, and from then on no token of any session of the same family can be refreshed,
  whatever happens in between; in particular the token the thief or the owner still holds.
\<close>

theorem reuse_burns_family:
  assumes inv: "auth_inv (committed s)" and ok: "reliable s"
    and x: "find_token (ae_sha256 env raw) (committed s) = Some x" "rtk_used_at x \<noteq> None"
      "rtk_revoked_at x = None" "clock s \<le> rtk_expires_at x"
    and y: "find_session (rtk_session_id x) (committed s) = Some y"
  shows "\<exists>t. Refresh env raw s = (Inl ErrTokenReuse, t) \<and>
    (\<forall>raw' z w s'. find_token (ae_sha256 env raw') (committed s) = Some z \<and>
       find_session (rtk_session_id z) (committed s) = Some w \<and> ses_family_id w = ses_family_id y \<and>
       auth_step\<^sup>*\<^sup>* (committed t) (committed s') \<longrightarrow> (\<exists>e t'. Refresh env raw' s' = (Inl e, t')))"
proof -
  let ?fam = "\<lambda>w. ses_family_id w = ses_family_id y"
  let ?d = "(committed s)\<lparr>sessions := update_where (\<lambda>z. ?fam z \<and> ses_revoked_at z = None)
        (revoke_session_row (clock s) ''refresh_token_reuse'') (sessions (committed s)),
      refresh_tokens := update_where (\<lambda>z. rtk_revoked_at z = None \<and>
        rtk_session_id z \<in> ses_id ` set (filter ?fam (sessions (committed s))))
        (revoke_token_row (clock s)) (refresh_tokens (committed s))\<rparr>"
  obtain t where run: "Refresh env raw s = (Inl ErrTokenReuse, t)" and ct: "committed t = ?d"
    using Refresh_reuse_run [OF ok x y] by blast
  have inv': "auth_inv (committed t)" using auth_system.step_inv [OF step_refresh [OF run] inv] .
  have "\<exists>e t'. Refresh env raw' s' = (Inl e, t')"
    if z: "find_token (ae_sha256 env raw') (committed s) = Some z" and w: "find_session (rtk_session_id z) (committed s) = Some w"
      and fam: "?fam w" and steps: "auth_step\<^sup>*\<^sup>* (committed t) (committed s')" for raw' z w s'
  proof -
    let ?z = "if rtk_revoked_at z = None then revoke_token_row (clock s) z else z"
    have "rtk_session_id z \<in> ses_id ` set (filter ?fam (sessions (committed s)))"
      using find_session_mem [OF w] fam by (auto intro!: rev_image_eqI)
    then have mem: "?z \<in> set (refresh_tokens (committed t))"
      using find_token_mem [OF z] by (auto simp: ct set_update_where simp del: set_filter)
    have "find_token (ae_sha256 env raw') (committed t) = Some ?z"
      using find_token_mem [OF z] by (intro find_token_row [OF inv' mem]) simp
    from dead_forever [OF steps inv' this] show ?thesis by simp
  qed
  with run show ?thesis by blast
qed

text \<open>The state after the sample token was rotated: the first token is spent, the second is live.\<close>

definition demo_spent_db :: auth_db where
  "demo_spent_db = demo_auth_db\<lparr>refresh_tokens :=
     [use_token 500 ''t2'' (new_token ''t1'' ''s1'' ''u1'' ''#raw1'' 0 (10 ^ 12)),
      new_token ''t2'' ''s1'' ''u1'' ''#raw2'' 500 (10 ^ 12)]\<rparr>"

lemma auth_inv_demo_spent: "auth_inv demo_spent_db"
  by (simp add: auth_inv_def tokens_inv_def tabs_def demo_spent_db_def demo_auth_db_def new_session_def new_token_def)

theorem reuse_burns_family_witness:
  "\<exists>t. Refresh demo_env ''raw1'' (quiet ''y'' demo_spent_db) = (Inl ErrTokenReuse, t) \<and>
     (\<exists>e t'. Refresh demo_env ''raw2'' (quiet ''z'' (committed t)) = (Inl e, t'))"
proof -
  let ?x1 = "use_token 500 ''t2'' (new_token ''t1'' ''s1'' ''u1'' ''#raw1'' 0 (10 ^ 12))"
  let ?x2 = "new_token ''t2'' ''s1'' ''u1'' ''#raw2'' 500 (10 ^ 12)"
  let ?y = "new_session ''s1'' ''f1'' ''u1'' ''::1'' ''ua'' 0 (10 ^ 12)"
  have f: "find_token (ae_sha256 demo_env ''raw1'') demo_spent_db = Some ?x1"
    "find_token (ae_sha256 demo_env ''raw2'') demo_spent_db = Some ?x2"
    "find_session ''s1'' demo_spent_db = Some ?y" by code_simp+
  have "\<exists>t. Refresh demo_env ''raw1'' (quiet ''y'' demo_spent_db) = (Inl ErrTokenReuse, t) \<and>
    (\<forall>raw' z w s'. find_token (ae_sha256 demo_env raw') (committed (quiet ''y'' demo_spent_db)) = Some z \<and>
       find_session (rtk_session_id z) (committed (quiet ''y'' demo_spent_db)) = Some w \<and> ses_family_id w = ses_family_id ?y \<and>
       auth_step\<^sup>*\<^sup>* (committed t) (committed s') \<longrightarrow> (\<exists>e t'. Refresh demo_env raw' s' = (Inl e, t')))"
    by (rule reuse_burns_family [where x = ?x1]) (simp_all add: auth_inv_demo_spent f new_token_def use_token_def)
  then obtain t where t: "Refresh demo_env ''raw1'' (quiet ''y'' demo_spent_db) = (Inl ErrTokenReuse, t)"
    "\<And>raw' z w s'. find_token (ae_sha256 demo_env raw') demo_spent_db = Some z \<Longrightarrow>
       find_session (rtk_session_id z) demo_spent_db = Some w \<Longrightarrow> ses_family_id w = ses_family_id ?y \<Longrightarrow>
       auth_step\<^sup>*\<^sup>* (committed t) (committed s') \<Longrightarrow> \<exists>e t'. Refresh demo_env raw' s' = (Inl e, t')"
    by (auto simp del: split_paired_Ex)
  have "rtk_session_id ?x2 = ''s1''" by (simp add: new_token_def)
  with t(2) [OF f(2), of ?y "quiet ''z'' (committed t)"] f(3)
  have "\<exists>e t'. Refresh demo_env ''raw2'' (quiet ''z'' (committed t)) = (Inl e, t')" by simp
  with t(1) show ?thesis by blast
qed

text \<open>
  A revoked session stays dead. When a user has revoked one of his sessions, no refresh token
  of that session is accepted in any later state, although revocation leaves the token rows alone.
\<close>

theorem revoked_session_dead:
  assumes inv: "auth_inv (committed s)" and run: "svc_RevokeSession u i s = (Inr (), t)"
    and x: "find_token (ae_sha256 env raw) (committed s) = Some x" "rtk_session_id x = i"
    and steps: "auth_step\<^sup>*\<^sup>* (committed t) (committed s')"
  shows "\<exists>e t'. Refresh env raw s' = (Inl e, t')"
proof -
  let ?P = "\<lambda>s. ses_id s = i \<and> ses_user_id s = u \<and> ses_revoked_at s = None"
  let ?rev = "revoke_session_row (clock s) ''user_revoked''"
  have inv': "auth_inv (committed t)" using auth_system.step_inv [OF step_revoke [OF run] inv] .
  from run have ct: "committed t = (committed s)\<lparr>sessions := update_where ?P ?rev (sessions (committed s))\<rparr>"
    and "filter ?P (sessions (committed s)) \<noteq> []"
    by (auto simp: svc_RevokeSession_def RevokeSession_def Let_def bindE_ok pool_exec_ok throw_ok ret_ok split: if_splits)
  then obtain y where y: "y \<in> set (sessions (committed s))" "?P y" by (auto simp: filter_empty_conv)
  then have "?rev y \<in> set (sessions (committed t))" by (auto simp: ct set_update_where)
  then have "find_session i (committed t) = Some (?rev y)"
    using y(2) by (intro find_session_row [OF inv']) simp_all
  moreover have "find_token (ae_sha256 env raw) (committed t) = Some x"
    using x(1) by (simp add: ct find_token_def)
  ultimately show ?thesis using dead_forever [OF steps inv'] x(2) by auto
qed

theorem revoked_session_dead_witness:
  "\<exists>e t'. Refresh demo_env ''raw1''
     (quiet ''z'' (committed (snd (svc_RevokeSession ''u1'' ''s1'' (quiet ''y'' demo_auth_db))))) = (Inl e, t')"
proof -
  have "fst (svc_RevokeSession ''u1'' ''s1'' (quiet ''y'' demo_auth_db)) = Inr ()" by code_simp
  then have run: "svc_RevokeSession ''u1'' ''s1'' (quiet ''y'' demo_auth_db) =
      (Inr (), snd (svc_RevokeSession ''u1'' ''s1'' (quiet ''y'' demo_auth_db)))"
    by (metis prod.collapse)
  have x: "find_token (ae_sha256 demo_env ''raw1'') demo_auth_db = Some (new_token ''t1'' ''s1'' ''u1'' ''#raw1'' 0 (10 ^ 12))"
    by code_simp
  show ?thesis
    by (rule revoked_session_dead [OF _ run, where x = "new_token ''t1'' ''s1'' ''u1'' ''#raw1'' 0 (10 ^ 12)"])
      (simp_all add: auth_inv_demo x, simp add: new_token_def)
qed

section \<open>Lockout\<close>

text \<open>A sequence of login attempts, each with its time and password, from one client.\<close>

fun login_run :: "auth_env \<Rightarrow> string \<Rightarrow> string \<Rightarrow> string \<Rightarrow> (int \<times> string) list \<Rightarrow> auth_db conn \<Rightarrow> (err + Tokens) list" where
  "login_run env email ip ua [] s = []"
| "login_run env email ip ua ((now, p) # as) s =
     (let (r, t) = Login env email p ip ua (s\<lparr>clock := now\<rparr>) in r # login_run env email ip ua as t)"

lemma login_locked:
  assumes "reliable s" "select_one (has_email email) (users (committed s)) = Some u"
    and "usr_LockedUntil u = Some until" "clock s < until"
  shows "Login env email p ip ua s = (Inl ErrAccountLocked, tick s)"
  using assms by (simp add: Login_def authenticate_def run_basic GetUserByEmail_def pool_query_def reliable_def)

lemma login_wrong:
  assumes "reliable s" "select_one (has_email email) (users (committed s)) = Some u"
    and "usr_LockedUntil u = None \<or> (\<exists>until. usr_LockedUntil u = Some until \<and> until \<le> clock s)"
    and "ae_VerifyPassword env p (usr_PasswordHash u) \<noteq> Inr True"
    and "\<forall>v \<in> set (users (committed s)). usr_FailedLogins v + 1 < 2 ^ 31"
  shows "Login env email p ip ua s = (Inl ErrInvalidCredentials, (tick (tick s))\<lparr>committed := (committed s)\<lparr>users :=
    update_where (\<lambda>v. usr_ID v = usr_ID u) (login_failed lockoutThreshold lockoutDuration (clock s)) (users (committed s))\<rparr>\<rparr>)"
proof -
  have "\<not> (\<exists>v \<in> set (users (committed s)). usr_ID v = usr_ID u \<and> usr_FailedLogins v + 1 \<ge> 2 ^ 31)"
    using assms(5) by auto
  with assms(1-4) show ?thesis
    by (auto simp: Login_def authenticate_def run_basic GetUserByEmail_def pool_query_def reliable_def
        RecordLoginFailure_def pool_exec_def)
qed

lemma login_run_locked:
  assumes "reliable s" "select_one (has_email email) (users (committed s)) = Some u"
    and "usr_LockedUntil u = Some until" "\<forall>(now, p) \<in> set bs. now < until"
  shows "login_run env email ip ua bs s = replicate (length bs) (Inl ErrAccountLocked)"
  using assms
proof (induction bs arbitrary: s)
  case (Cons b bs)
  obtain now p where b: "b = (now, p)" by fastforce
  let ?s = "s\<lparr>clock := now\<rparr>"
  have s: "reliable ?s" "reliable (tick ?s)" using Cons.prems(1) by (simp_all add: reliable_def)
  have "Login env email p ip ua ?s = (Inl ErrAccountLocked, tick ?s)"
    by (rule login_locked [OF s(1)]) (use Cons.prems(2-4) b in auto)
  then show ?case using Cons.IH [OF s(2)] Cons.prems(2-4) by (simp add: b)
qed simp

lemma login_failed_simps [simp]:
  "has_email e (login_failed th l now u) = has_email e u" "usr_ID (login_failed th l now u) = usr_ID u"
  "usr_PasswordHash (login_failed th l now u) = usr_PasswordHash u"
  "usr_FailedLogins (login_failed th l now u) = usr_FailedLogins u + 1"
  "usr_LockedUntil (login_failed th l now u) =
     (if usr_FailedLogins u + 1 \<ge> th then Some (now + l) else usr_LockedUntil u)"
  by (simp_all add: login_failed_def has_email_def)

lemma select_user_failed:
  assumes "select_one (has_email email) us = Some u"
  shows "select_one (has_email email) (update_where (\<lambda>v. usr_ID v = usr_ID u) (login_failed th l now) us) =
    Some (login_failed th l now u)"
  using assms by (induction us) (auto split: if_splits)

text \<open>
  C16: guessing is cut off. From an account with \<open>k\<close> recorded failures and no lock, \<open>5 - k\<close> wrong
  passwords are each answered with \<open>ErrInvalidCredentials\<close>, and every attempt in the following
  fifteen minutes is answered with \<open>ErrAccountLocked\<close>, the right password included.
\<close>

theorem lockout_cuts_off_guessing:
  assumes "reliable s" "select_one (has_email email) (users (committed s)) = Some u"
    and "usr_LockedUntil u = None" "guesses \<noteq> []" "usr_FailedLogins u + int (length guesses) = lockoutThreshold"
    and "\<forall>(now, p) \<in> set guesses. ae_VerifyPassword env p (usr_PasswordHash u) \<noteq> Inr True"
    and "\<forall>v \<in> set (users (committed s)). usr_FailedLogins v + int (length guesses) < 2 ^ 31"
    and "\<forall>(now, p) \<in> set later. now < fst (last guesses) + lockoutDuration"
  shows "login_run env email ip ua (guesses @ later) s =
    replicate (length guesses) (Inl ErrInvalidCredentials) @ replicate (length later) (Inl ErrAccountLocked)"
  using assms
proof (induction guesses arbitrary: s u)
  case (Cons g gs)
  obtain now p where g: "g = (now, p)" by fastforce
  let ?s = "s\<lparr>clock := now\<rparr>" and ?fail = "login_failed lockoutThreshold lockoutDuration now"
  let ?t = "(tick (tick ?s))\<lparr>committed := (committed s)\<lparr>users :=
    update_where (\<lambda>v. usr_ID v = usr_ID u) ?fail (users (committed s))\<rparr>\<rparr>"
  have s: "reliable ?s" "reliable ?t" using Cons.prems(1) by (simp_all add: reliable_def)
  have run: "Login env email p ip ua ?s = (Inl ErrInvalidCredentials, ?t)"
    using login_wrong [OF s(1), of email u env p ip ua] Cons.prems(2,3,6,7) by (fastforce simp: g)
  have sel: "select_one (has_email email) (users (committed ?t)) = Some (?fail u)"
    using select_user_failed [OF Cons.prems(2)] by simp
  have "login_run env email ip ua (gs @ later) ?t =
    replicate (length gs) (Inl ErrInvalidCredentials) @ replicate (length later) (Inl ErrAccountLocked)"
  proof (cases "gs = []")
    case True
    with Cons.prems(5,8) g show ?thesis
      using login_run_locked [OF s(2) sel, of "now + lockoutDuration" later env ip ua] by simp
  next
    case False
    have lim: "usr_FailedLogins u + 1 < lockoutThreshold" using Cons.prems(5) False by (cases gs) simp_all
    show ?thesis
    proof (rule Cons.IH [OF s(2) sel])
      show "usr_LockedUntil (?fail u) = None" using Cons.prems(3) lim by simp
      show "\<forall>v \<in> set (users (committed ?t)). usr_FailedLogins v + int (length gs) < 2 ^ 31"
        using Cons.prems(7) by (fastforce simp: set_update_where)
    qed (use Cons.prems False in \<open>auto simp: g\<close>)
  qed
  then show ?case by (simp add: g run)
qed simp

theorem lockout_cuts_off_guessing_witness:
  "login_run demo_env ''a@b'' ''::1'' ''ua'' [(1, ''a''), (2, ''b''), (3, ''c''), (4, ''d''), (5, ''e''), (6, ''secret'')]
     (quiet ''y'' demo_auth_db) = replicate 5 (Inl ErrInvalidCredentials) @ [Inl ErrAccountLocked]"
proof -
  let ?guesses = "[(1 :: int, ''a''), (2, ''b''), (3, ''c''), (4, ''d''), (5, ''e'')]"
  have "login_run demo_env ''a@b'' ''::1'' ''ua'' (?guesses @ [(6, ''secret'')]) (quiet ''y'' demo_auth_db) =
      replicate (length ?guesses) (Inl ErrInvalidCredentials) @ replicate (length [(6 :: int, ''secret'')]) (Inl ErrAccountLocked)"
    by (rule lockout_cuts_off_guessing [where u = demo_user])
      (simp_all add: demo_auth_db_def demo_user_def demo_env_def has_email_def lockoutThreshold_def lockoutDuration_def)
  then show ?thesis by (simp del: login_run.simps add: numeral_eq_Suc)
qed

section \<open>Claims\<close>

text \<open>Foreign keys of \<open>user_roles\<close>.\<close>

definition roles_fk :: "auth_db \<Rightarrow> bool" where
  "roles_fk d \<longleftrightarrow> (\<forall>ur \<in> set (user_roles d). fst ur \<in> usr_ID ` set (users d))"

lemma RolesAndPermissions_unknown:
  assumes "RolesAndPermissions u s = (Inr (rs, ps), t)" "roles_fk (committed s)" "u \<notin> usr_ID ` set (users (committed s))"
  shows "rs = [] \<and> ps = []"
proof -
  have "(u, r) \<notin> set (user_roles (committed s))" for r
    using assms(2,3) unfolding roles_fk_def by force
  moreover from this have "ur \<in> set (user_roles (committed s)) \<Longrightarrow> fst ur \<noteq> u" for ur
    by (metis prod.collapse)
  ultimately show ?thesis using assms(1)
    by (auto simp: RolesAndPermissions_def bindE_ok pool_query_ok ret_ok filter_empty_conv)
qed

lemma issueSession_claims:
  assumes "issueSession env u a r ip ua s = (Inr toks, t)" "roles_fk (committed s)" "u \<notin> usr_ID ` set (users (committed s))"
  shows "\<exists>sid rc. ae_sign env (iss_kid (ae_issuer env)) rc \<lparr>cl_UserID = u, cl_SessionID = sid, cl_Roles = [],
      cl_Permissions = [], cl_ResidencyCountry = r, cl_AccountType = a\<rparr> = Inr (tk_AccessToken toks)"
proof -
  from assms(1) obtain fam s0 sid s1 h s2 tid s3 rs ps s4 access where
    s: "new_id s = (Inr fam, s0)" "CreateSession (ae_inet_ok env) fam u ip ua (ae_RefreshTTL env) s0 = (Inr sid, s1)"
    "newOpaqueToken env s1 = (Inr h, s2)" "InsertRefreshToken sid u (snd h) (ae_RefreshTTL env) s2 = (Inr tid, s3)"
    and r: "RolesAndPermissions u s3 = (Inr (rs, ps), s4)"
    and i: "Issue (ae_sign env) (ae_issuer env) \<lparr>cl_UserID = u, cl_SessionID = sid, cl_Roles = rs, cl_Permissions = ps,
        cl_ResidencyCountry = r, cl_AccountType = a\<rparr> s4 = (Inr access, t)"
    and toks: "tk_AccessToken toks = access"
    by (auto simp: issueSession_def bindE_ok ret_ok)
  have "committed s3 = committed s"
    using keepsD [OF keeps_auth_store(7) s(4)] keepsD [OF keeps_issueSession(1) s(3)] keepsD [OF keeps_auth_store(6) s(2)]
      s(1) by (auto simp: new_id_ok)
  with RolesAndPermissions_unknown [OF r] assms(2,3) have "rs = []" "ps = []" by simp_all
  with i toks show ?thesis by (auto simp: Issue_def bindE_ok liftE_ok get_now_ok new_id_ok)
qed

text \<open>
  What the first access token says. The token a successful \<open>Register\<close> returns is signed over
  claims with the account type and residency of the request and with no role and no permission:
  \<open>RolesAndPermissions\<close> reads through the pool, outside the transaction that has just assigned the
  role. The committed database does hold the role.
\<close>

theorem register_token_no_roles:
  assumes "Register env email pw acct res loc ip ua s = (Inr toks, t)" "roles_fk (committed s)"
    and "acct \<in> set (roles (committed s))"
  shows "(\<exists>sid rc. ae_sign env (iss_kid (ae_issuer env)) rc \<lparr>cl_UserID = tk_UserID toks, cl_SessionID = sid, cl_Roles = [],
      cl_Permissions = [], cl_ResidencyCountry = res, cl_AccountType = acct\<rparr> = Inr (tk_AccessToken toks)) \<and>
    (tk_UserID toks, acct) \<in> set (user_roles (committed t))"
proof -
  let ?s1 = "(tick (s\<lparr>ids := (\<lambda>n. ids s (Suc n))\<rparr>))\<lparr>work := committed s, aborted := False\<rparr>"
  from assms(1) obtain h u s2 s3 x s4 where
    u: "CreateUser email h acct res loc ?s1 = (Inr u, s2)" and ro: "AssignRole u acct s2 = (Inr x, s3)"
    and i: "issueSession env u acct res ip ua s3 = (Inr toks, s4)"
    and t: "committed t = post_event (registered_event u acct res) (work s4)"
    by (auto simp: Register_def bindE_ok new_id_ok liftE_ok begin_tx_ok map_error_ok Enqueue_ok commit_tx_ok ret_ok)
  have c: "committed s3 = committed s"
    using keepsD [OF keeps_auth_store(5) ro] keepsD [OF keeps_auth_store(1) u] by simp
  from u have new: "u \<notin> usr_ID ` set (users (committed s))" and w2: "roles (work s2) = roles (committed s)"
    by (auto simp: CreateUser_def tx_stmt_ok split: if_splits)
  have uid: "tk_UserID toks = u" using i by (auto simp: issueSession_def bindE_ok ret_ok)
  have "user_roles (work s4) = user_roles (work s3)" using issueSession_ok [OF i] by auto
  moreover have "(u, acct) \<in> set (user_roles (work s3))"
    using ro assms(3) w2 by (auto simp: AssignRole_def tx_stmt_ok split: if_splits)
  ultimately show ?thesis
    using issueSession_claims [OF i] c assms(2) new by (simp add: uid t)
qed

theorem register_token_no_roles_witness:
  "\<exists>toks t. Register demo_env ''c@d'' ''long password'' ''client'' ''FR'' ''fr'' ''::1'' ''ua'' (quiet ''y'' demo_auth_db) = (Inr toks, t) \<and>
     (tk_UserID toks, ''client'') \<in> set (user_roles (committed t))"
proof -
  let ?run = "Register demo_env ''c@d'' ''long password'' ''client'' ''FR'' ''fr'' ''::1'' ''ua'' (quiet ''y'' demo_auth_db)"
  have "\<not> isl (fst ?run)" by code_simp
  then obtain toks where "?run = (Inr toks, snd ?run)" by (metis prod.collapse sum.collapse(2))
  moreover have "roles_fk demo_auth_db" "''client'' \<in> set (roles demo_auth_db)" by code_simp+
  ultimately show ?thesis using register_token_no_roles [of demo_env] by (metis quiet_simps(1))
qed

end
