(* ===== verification/Auth_API.thy ===== *)
theory Auth_API
  imports Auth_Props
begin

text \<open>
  \<open>services/auth/internal/httpapi\<close>: the handlers of registration, login, refresh, logout and
  session management. A request is the parts a handler reads: the decoded body, the headers, the
  refresh cookie. The answer is the response with the cookie it sets. A body the handlers decode
  with the error dropped (\<open>refresh\<close>, \<open>logout\<close>) is what decoding left in the struct.
\<close>

section \<open>Requests and answers\<close>

record Request =
  rq_XFF :: string
  rq_RemoteAddr :: string
  rq_UserAgent :: string
  rq_UserId :: string
  rq_Cookie :: "string option"

definition clientIP :: "Request \<Rightarrow> string" where
  "clientIP r = (if rq_XFF r \<noteq> '''' then rq_XFF r else rq_RemoteAddr r)"

definition refreshFromRequest :: "Request \<Rightarrow> string \<Rightarrow> string" where
  "refreshFromRequest r bodyToken =
     (if bodyToken \<noteq> '''' then bodyToken
      else case rq_Cookie r of Some v \<Rightarrow> v | None \<Rightarrow> '''')"

record Cookie =
  ck_Name :: string
  ck_Value :: string
  ck_Path :: string
  ck_HttpOnly :: bool
  ck_Secure :: bool
  ck_SameSite :: string
  ck_MaxAge :: int

type_synonym auth_reply = "response \<times> Cookie option"

definition refreshCookieName :: string where
  "refreshCookieName = ''aizorix_refresh''"

definition tokenResponse :: "Tokens \<Rightarrow> json" where
  "tokenResponse t = JObj [(''access_token'', JStr (tk_AccessToken t)), (''refresh_token'', JStr (tk_RefreshToken t)),
     (''access_expires_in'', JInt (tk_AccessExpiresIn t)), (''token_type'', JStr ''Bearer''), (''user_id'', JStr (tk_UserID t))]"

definition writeTokens :: "bool \<Rightarrow> int \<Rightarrow> Tokens \<Rightarrow> auth_reply" where
  "writeTokens cookieSecure st t = (Reply st (tokenResponse t),
     Some \<lparr>ck_Name = refreshCookieName, ck_Value = tk_RefreshToken t, ck_Path = ''/'', ck_HttpOnly = True,
           ck_Secure = cookieSecure, ck_SameSite = ''Lax'', ck_MaxAge = 30 * 24 * 3600\<rparr>)"

definition clearRefreshCookie :: "bool \<Rightarrow> Cookie" where
  "clearRefreshCookie cookieSecure =
     \<lparr>ck_Name = refreshCookieName, ck_Value = '''', ck_Path = ''/'', ck_HttpOnly = True,
      ck_Secure = cookieSecure, ck_SameSite = ''Lax'', ck_MaxAge = -1\<rparr>"

definition mapError :: "err \<Rightarrow> response" where
  "mapError e =
     (if e = ErrInvalidCredentials then Problem 401 ''INVALID_CREDENTIALS''
      else if e = ErrAccountLocked then Problem 423 ''ACCOUNT_LOCKED''
      else if e = ErrEmailTaken then Problem 409 ''EMAIL_TAKEN''
      else if e = ErrTokenReuse \<or> e = ErrTokenExpired then Problem 401 ''INVALID_REFRESH''
      else Problem 500 ''INTERNAL'')"

section \<open>Handlers\<close>

text \<open>\<open>toks, err := m; if err != nil { mapError }; a.writeTokens(...)\<close>.\<close>

definition answer_tokens :: "bool \<Rightarrow> int \<Rightarrow> (auth_db, Tokens) io \<Rightarrow> (auth_db, auth_reply) io" where
  "answer_tokens cookieSecure st m =
     bindE (attempt m) (\<lambda>r. ret (case r of Inl e \<Rightarrow> (mapError e, None) | Inr t \<Rightarrow> writeTokens cookieSecure st t))"

record registerReq =
  rr_Email :: string
  rr_Password :: string
  rr_AccountType :: string
  rr_Residency :: string
  rr_Locale :: string
  rr_AcceptedTerms :: bool
  rr_AcceptedMonitor :: bool

definition register :: "auth_env \<Rightarrow> bool \<Rightarrow> Request \<Rightarrow> registerReq option \<Rightarrow> (auth_db, auth_reply) io" where
  "register env cookieSecure r body =
     (case decode body of Inl resp \<Rightarrow> ret (resp, None) | Inr req \<Rightarrow>
      if rr_AccountType req \<noteq> ''client'' \<and> rr_AccountType req \<noteq> ''freelancer''
      then ret (Problem 400 ''VALIDATION_FAILED'', None)
      else if length (rr_Password req) < 12 then ret (Problem 400 ''VALIDATION_FAILED'', None)
      else if \<not> rr_AcceptedTerms req then ret (Problem 400 ''TERMS_REQUIRED'', None)
      else answer_tokens cookieSecure 201
        (Register env (rr_Email req) (rr_Password req) (rr_AccountType req) (rr_Residency req) (rr_Locale req)
          (clientIP r) (rq_UserAgent r)))"

definition login :: "auth_env \<Rightarrow> bool \<Rightarrow> Request \<Rightarrow> (string \<times> string) option \<Rightarrow> (auth_db, auth_reply) io" where
  "login env cookieSecure r body =
     (case decode body of Inl resp \<Rightarrow> ret (resp, None) | Inr (email, password) \<Rightarrow>
      answer_tokens cookieSecure 200 (Login env email password (clientIP r) (rq_UserAgent r)))"

definition refresh :: "auth_env \<Rightarrow> bool \<Rightarrow> Request \<Rightarrow> string \<Rightarrow> (auth_db, auth_reply) io" where
  "refresh env cookieSecure r bodyToken =
     answer_tokens cookieSecure 200 (Refresh env (refreshFromRequest r bodyToken))"

definition logout :: "auth_env \<Rightarrow> bool \<Rightarrow> Request \<Rightarrow> string \<Rightarrow> bool \<Rightarrow> (auth_db, auth_reply) io" where
  "logout env cookieSecure r bodyToken allSessions =
     bindE (attempt (Logout env (refreshFromRequest r bodyToken) allSessions)) (\<lambda>x. ret (case x of
        Inl e \<Rightarrow> (mapError e, None)
      | Inr _ \<Rightarrow> (Reply 200 (JObj [(''success'', JBool True)]), Some (clearRefreshCookie cookieSecure))))"

definition me :: "Request \<Rightarrow> (auth_db, response) io" where
  "me r = (if rq_UserId r = '''' then ret (Problem 401 ''UNAUTHORIZED'') else
     handle mapError (Me (rq_UserId r)) (\<lambda>i. Reply 200 (JObj [(''user_id'', JStr (idn_UserID i)),
       (''email'', JStr (idn_Email i)), (''account_type'', JStr (idn_AccountType i)),
       (''roles'', JArr (map JStr (idn_Roles i))), (''email_verified'', JBool (idn_EmailVerified i)),
       (''mfa_enabled'', JBool (idn_MFAEnabled i))])))"

text \<open>No statement sets a session's device, so its name is empty, or changes \<open>last_active_at\<close>.\<close>

definition session_json :: "session_row \<Rightarrow> json" where
  "session_json s = JObj [(''id'', JStr (ses_id s)), (''device_name'', JStr ''''), (''ip'', JStr (ses_ip s)),
     (''created_at'', JInt (ses_created_at s)), (''last_active_at'', JInt (ses_created_at s))]"

definition listSessions :: "Request \<Rightarrow> (auth_db, response) io" where
  "listSessions r = (if rq_UserId r = '''' then ret (Problem 401 ''UNAUTHORIZED'') else
     handle mapError (ListSessions (rq_UserId r))
       (\<lambda>ss. Reply 200 (JObj [(''sessions'', JArr (map session_json ss))])))"

definition revokeSession :: "Request \<Rightarrow> string \<Rightarrow> (auth_db, response) io" where
  "revokeSession r i = (if rq_UserId r = '''' then ret (Problem 401 ''UNAUTHORIZED'') else
     handle mapError (svc_RevokeSession (rq_UserId r) i) (\<lambda>_. Reply 200 (JObj [(''success'', JBool True)])))"

section \<open>What the endpoints give away\<close>

lemma answer_tokens_run [io_run]:
  "answer_tokens b st m s = (case m s of (Inl e, t) \<Rightarrow> (Inr (mapError e, None), t) | (Inr x, t) \<Rightarrow> (Inr (writeTokens b st x), t))"
  by (auto simp: answer_tokens_def run_basic split: prod.splits sum.splits)

lemma issueSession_users: "issueSession env u a r ip ua s = (Inr toks, t) \<Longrightarrow> users (work t) = users (work s)"
  using issueSession_ok by fastforce

lemma Register_users:
  assumes "Register env email pw acct res loc ip ua s = (Inr toks, t)"
  shows "\<exists>v. users (committed t) = users (committed s) @ [v] \<and> usr_PrimaryType v = acct \<and> usr_Status v = ''pending''"
proof -
  let ?s1 = "(tick (s\<lparr>ids := (\<lambda>n. ids s (Suc n))\<rparr>))\<lparr>work := committed s, aborted := False\<rparr>"
  from assms obtain h u s2 s3 x s4 where
    u: "CreateUser email h acct res loc ?s1 = (Inr u, s2)" and ro: "AssignRole u acct s2 = (Inr x, s3)"
    and i: "issueSession env u acct res ip ua s3 = (Inr toks, s4)"
    and t: "committed t = post_event (registered_event u acct res) (work s4)"
    by (auto simp: Register_def bindE_ok new_id_ok liftE_ok begin_tx_ok map_error_ok Enqueue_ok commit_tx_ok ret_ok)
  from ro have "users (work s3) = users (work s2)" by (auto simp: AssignRole_def tx_stmt_ok split: if_splits)
  moreover from u have "\<exists>v. users (work s2) = users (committed s) @ [v] \<and> usr_PrimaryType v = acct \<and> usr_Status v = ''pending''"
    by (auto simp: CreateUser_def tx_stmt_ok split: if_splits)
  ultimately show ?thesis using issueSession_users [OF i] t by simp
qed

text \<open>The public registration endpoint never creates a privileged account.\<close>

lemma register_never_privileged:
  assumes "register env sec r body s = (Inr rep, t)" "v \<in> set (users (committed t))" "v \<notin> set (users (committed s))"
  shows "usr_PrimaryType v \<in> {''client'', ''freelancer''} \<and> usr_Status v = ''pending''"
proof -
  from assms obtain e p a res l q where a: "a \<in> {''client'', ''freelancer''}"
    and q: "Register env e p a res l (clientIP r) (rq_UserAgent r) s = (q, t)"
    by (auto simp: register_def decode_def run_basic answer_tokens_run split: option.splits if_splits prod.splits sum.splits)
  show ?thesis
  proof (cases q)
    case (Inl er)
    have "atomic (Register env e p a res l (clientIP r) (rq_UserAgent r))"
      unfolding Register_def by (intro io_atomic io_keeps)
    with q Inl assms(2,3) show ?thesis by (auto dest: atomicD)
  next
    case (Inr toks)
    from Register_users [OF q [unfolded Inr]] assms(2,3) a show ?thesis by auto
  qed
qed

text \<open>Login does not tell a wrong password from an unknown address.\<close>

lemma login_no_enumeration:
  assumes "reliable s" "select_one (has_email email) (users (committed s)) = None"
    and "select_one (has_email email') (users (committed s)) = Some u" "usr_LockedUntil u = None"
    and "ae_VerifyPassword env p (usr_PasswordHash u) \<noteq> Inr True"
  shows "fst (login env sec r (Some (email, p)) s) = fst (login env sec r (Some (email', p)) s)"
  using assms by (simp add: login_def decode_def answer_tokens_run Login_def authenticate_def run_basic
      GetUserByEmail_def pool_query_def reliable_def)

end
