(* ===== verification/Activity.thy ===== *)
theory Activity
  imports Complex_Main Prelude
begin

text \<open>
  \<open>services/timetracking/internal/activity\<close>: from raw input samples to billable seconds, an activity
  percentage and fraud signals. Times are integers in nanoseconds. A Go \<open>float64\<close> is a real number,
  an infinity or NaN: rounding of intermediate results is not modelled, the special values are,
  because the counts come from the client and may be negative.
\<close>

section \<open>Floating point\<close>

datatype f64 = Fin real | FInf bool \<comment> \<open>negative?\<close> | NaN

fun fadd :: "f64 \<Rightarrow> f64 \<Rightarrow> f64" where
  "fadd (Fin a) (Fin b) = Fin (a + b)"
| "fadd (FInf s) (FInf t) = (if s = t then FInf s else NaN)"
| "fadd (FInf s) (Fin b) = FInf s"
| "fadd (Fin a) (FInf t) = FInf t"
| "fadd _ _ = NaN"

fun fneg :: "f64 \<Rightarrow> f64" where
  "fneg (Fin a) = Fin (- a)"
| "fneg (FInf s) = FInf (\<not> s)"
| "fneg NaN = NaN"

definition fsub :: "f64 \<Rightarrow> f64 \<Rightarrow> f64" where
  "fsub a b = fadd a (fneg b)"

fun fmul :: "f64 \<Rightarrow> f64 \<Rightarrow> f64" where
  "fmul (Fin a) (Fin b) = Fin (a * b)"
| "fmul (FInf s) (FInf t) = FInf (s \<noteq> t)"
| "fmul (FInf s) (Fin b) = (if b = 0 then NaN else FInf (s \<noteq> (b < 0)))"
| "fmul (Fin a) (FInf t) = (if a = 0 then NaN else FInf ((a < 0) \<noteq> t))"
| "fmul _ _ = NaN"

fun fdiv :: "f64 \<Rightarrow> f64 \<Rightarrow> f64" where
  "fdiv (Fin a) (Fin b) = (if b \<noteq> 0 then Fin (a / b) else if a = 0 then NaN else FInf (a < 0))"
| "fdiv (FInf s) (Fin b) = FInf (s \<noteq> (b < 0))"
| "fdiv (Fin a) (FInf t) = Fin 0"
| "fdiv _ _ = NaN"

text \<open>\<open>a < b\<close>: false when either is NaN.\<close>

fun flt :: "f64 \<Rightarrow> f64 \<Rightarrow> bool" where
  "flt (Fin a) (Fin b) = (a < b)"
| "flt (FInf s) (FInf t) = (s \<and> \<not> t)"
| "flt (FInf s) (Fin b) = s"
| "flt (Fin a) (FInf t) = (\<not> t)"
| "flt _ _ = False"

text \<open>\<open>math.Min\<close>: an operand \<open>-FInf\<close> wins, then NaN.\<close>

definition fmin :: "f64 \<Rightarrow> f64 \<Rightarrow> f64" where
  "fmin a b = (if a = FInf True \<or> b = FInf True then FInf True
     else if a = NaN \<or> b = NaN then NaN else if flt a b then a else b)"

text \<open>\<open>math.Log1p\<close> and \<open>math.Sqrt\<close>.\<close>

fun flog1p :: "f64 \<Rightarrow> f64" where
  "flog1p (Fin x) = (if x > -1 then Fin (ln (1 + x)) else if x = -1 then FInf True else NaN)"
| "flog1p (FInf s) = (if s then NaN else FInf False)"
| "flog1p NaN = NaN"

fun fsqrt :: "f64 \<Rightarrow> f64" where
  "fsqrt (Fin x) = (if x < 0 then NaN else Fin (sqrt x))"
| "fsqrt (FInf s) = (if s then NaN else FInf False)"
| "fsqrt NaN = NaN"

definition fint :: "int \<Rightarrow> f64" where
  "fint i = Fin (of_int i)"

text \<open>
  \<open>int(math.Round(x))\<close>: half away from zero. The code only rounds finite values
  (\<open>walk_finite\<close> below); the conversion of the others is not defined by Go.
\<close>

definition round_away :: "real \<Rightarrow> int" where
  "round_away x = (if x < 0 then - \<lfloor>- x + 1/2\<rfloor> else \<lfloor>x + 1/2\<rfloor>)"

text \<open>\<open>int(x)\<close>: towards zero.\<close>

definition trunc :: "real \<Rightarrow> int" where
  "trunc x = (if x < 0 then - \<lfloor>- x\<rfloor> else \<lfloor>x\<rfloor>)"

fun fround :: "f64 \<Rightarrow> int" where
  "fround (Fin x) = round_away x"
| "fround _ = 0"

section \<open>Parameters and samples\<close>

record Params =
  pa_SliceSeconds :: int
  pa_SampleSeconds :: int
  pa_IdleThreshold :: int
  pa_WeightKeyboard :: real
  pa_WeightMouse :: real
  pa_WeightDistance :: real
  pa_SaturateKB :: real
  pa_SaturateMouse :: real
  pa_SaturateDist :: real
  pa_ActiveFloor :: real
  pa_FullActiveAt :: real
  pa_ExcusedIdleCap :: real

definition DefaultParams :: Params where
  "DefaultParams = \<lparr>pa_SliceSeconds = 600, pa_SampleSeconds = 60, pa_IdleThreshold = 300,
     pa_WeightKeyboard = 1/2, pa_WeightMouse = 3/10, pa_WeightDistance = 1/5,
     pa_SaturateKB = 120, pa_SaturateMouse = 90, pa_SaturateDist = 8000,
     pa_ActiveFloor = 8/100, pa_FullActiveAt = 1/2, pa_ExcusedIdleCap = 1/4\<rparr>"

record Sample =
  sm_At :: int
  sm_KeyboardCount :: int
  sm_MouseCount :: int
  sm_MouseDistance :: int

record SliceResult =
  sr_ActivityPct :: int
  sr_ActiveSeconds :: int
  sr_IdleSeconds :: int
  sr_Suspicious :: bool
  sr_SuspectReasons :: "string list"

definition billableFraction :: "Params \<Rightarrow> f64 \<Rightarrow> f64" where
  "billableFraction p intensity =
     (if flt intensity (Fin (pa_ActiveFloor p)) then Fin 0
      else let span = pa_FullActiveAt p - pa_ActiveFloor p in
        if span \<le> 0 then Fin 1
        else fmin (Fin 1) (fdiv (fsub intensity (Fin (pa_ActiveFloor p))) (Fin span)))"

text \<open>The closure \<open>f\<close> of \<open>Intensity\<close>, and \<open>Intensity\<close>.\<close>

definition saturation :: "f64 \<Rightarrow> real \<Rightarrow> f64" where
  "saturation x sat = (if sat \<le> 0 then Fin 0 else fmin (Fin 1) (fdiv (flog1p x) (flog1p (Fin sat))))"

definition Intensity :: "Params \<Rightarrow> Sample \<Rightarrow> f64" where
  "Intensity p s = fmin (Fin 1)
     (fadd (fadd (fmul (Fin (pa_WeightKeyboard p)) (saturation (fint (sm_KeyboardCount s)) (pa_SaturateKB p)))
                 (fmul (Fin (pa_WeightMouse p)) (saturation (fint (sm_MouseCount s)) (pa_SaturateMouse p))))
           (fmul (Fin (pa_WeightDistance p)) (saturation (fint (sm_MouseDistance s)) (pa_SaturateDist p))))"

section \<open>Buckets\<close>

text \<open>Go's integer division truncates towards zero; \<open>int\<close> addition wraps.\<close>

definition quot :: "int \<Rightarrow> int \<Rightarrow> int" where
  "quot a b = sgn a * sgn b * (\<bar>a\<bar> div \<bar>b\<bar>)"

definition score :: "Sample \<Rightarrow> int" where
  "score s = int64 (int64 (sm_KeyboardCount s + sm_MouseCount s) + quot (sm_MouseDistance s) 100)"

text \<open>
  \<open>int(t.Sub(u).Seconds())\<close>: the difference of two times is capped to the range of
  \<open>time.Duration\<close>, then truncated to seconds.
\<close>

definition sub_seconds :: "int \<Rightarrow> int \<Rightarrow> int" where
  "sub_seconds t u = quot (max (- (2 ^ 63)) (min (2 ^ 63 - 1) (t - u))) (10 ^ 9)"

fun bucketSamples :: "Sample list \<Rightarrow> int \<Rightarrow> int \<Rightarrow> (int \<Rightarrow> Sample option) \<Rightarrow> int \<Rightarrow> Sample option" where
  "bucketSamples [] start step m = m"
| "bucketSamples (s # ss) start step m =
     (let idx = quot (sub_seconds (sm_At s) start) step in
      bucketSamples ss start step
        (if idx < 0 then m
         else case m idx of
           None \<Rightarrow> m(idx \<mapsto> s)
         | Some existing \<Rightarrow> if score s > score existing then m(idx \<mapsto> s) else m))"

section \<open>Fraud signals\<close>

fun sum_f64 :: "f64 \<Rightarrow> f64 list \<Rightarrow> f64" where
  "sum_f64 acc [] = acc"
| "sum_f64 acc (x # xs) = sum_f64 (fadd acc x) xs"

definition isTooUniform :: "f64 list \<Rightarrow> bool" where
  "isTooUniform xs =
     (if length xs < 5 then False
      else let nonzero = length (filter (flt (Fin (1/100))) xs); n = fint (int (length xs)) in
      if nonzero < length xs div 2 then False
      else let mean = fdiv (sum_f64 (Fin 0) xs) n in
      if flt mean (Fin (5/100)) then False
      else let variance = fdiv (sum_f64 (Fin 0) (map (\<lambda>x. fmul (fsub x mean) (fsub x mean)) xs)) n in
      flt (fdiv (fsqrt variance) mean) (Fin (1/100)))"

definition mouseOnly :: "Sample list \<Rightarrow> bool" where
  "mouseOnly samples =
     (if length samples < 5 then False
      else sum_int64 0 (map sm_KeyboardCount samples) = 0 \<and>
           sum_int64 0 (map (\<lambda>s. int64 (sm_MouseCount s + sm_MouseDistance s)) samples) > 0)"

section \<open>Compute\<close>

record walk_state =
  wk_active :: f64
  wk_idle :: int
  wk_consecutive :: int
  wk_intensities :: "f64 list"

text \<open>One pass of the loop body.\<close>

definition walk_step :: "Params \<Rightarrow> (int \<Rightarrow> Sample option) \<Rightarrow> int \<Rightarrow> int \<Rightarrow> walk_state \<Rightarrow> walk_state" where
  "walk_step p byBucket secs offset st =
     (let seg = min (pa_SampleSeconds p) (secs - offset);
          intensity = (case byBucket (quot offset (pa_SampleSeconds p)) of None \<Rightarrow> Fin 0 | Some s \<Rightarrow> Intensity p s);
          st = st\<lparr>wk_intensities := wk_intensities st @ [intensity]\<rparr>;
          frac = billableFraction p intensity in
      if flt (Fin 0) frac
      then st\<lparr>wk_active := fadd (wk_active st) (fmul (fint seg) frac), wk_consecutive := 0\<rparr>
      else let prev = wk_consecutive st; cons = prev + seg in
        st\<lparr>wk_consecutive := cons,
           wk_idle := (if cons \<ge> pa_IdleThreshold p
                       then (if prev < pa_IdleThreshold p then wk_idle st + cons else wk_idle st + seg)
                       else wk_idle st)\<rparr>)"

function walk :: "Params \<Rightarrow> (int \<Rightarrow> Sample option) \<Rightarrow> int \<Rightarrow> int \<Rightarrow> walk_state \<Rightarrow> walk_state" where
  "walk p byBucket secs offset st =
     (if 0 < pa_SampleSeconds p \<and> offset < secs
      then walk p byBucket secs (offset + pa_SampleSeconds p) (walk_step p byBucket secs offset st)
      else st)"
  by pat_completeness auto

termination by (relation "measure (\<lambda>(p, b, secs, offset, st). nat (secs - offset))") auto

declare walk.simps [simp del]

text \<open>
  The result of a slice. With a sample length of zero or less \<open>Compute\<close> divides by zero or does not
  end (\<open>None\<close>); the service only uses \<open>DefaultParams\<close>.
\<close>

definition Compute :: "Params \<Rightarrow> Sample list \<Rightarrow> int \<Rightarrow> int \<Rightarrow> SliceResult option" where
  "Compute p samples sliceStart sliceEnd =
     (let secs = sub_seconds sliceEnd sliceStart in
      if secs \<le> 0 then Some \<lparr>sr_ActivityPct = 0, sr_ActiveSeconds = 0, sr_IdleSeconds = 0,
                            sr_Suspicious = False, sr_SuspectReasons = []\<rparr>
      else if pa_SampleSeconds p \<le> 0 then None
      else
      let st = walk p (bucketSamples samples sliceStart (pa_SampleSeconds p) Map.empty) secs 0
                 \<lparr>wk_active = Fin 0, wk_idle = 0, wk_consecutive = 0, wk_intensities = []\<rparr>;
          activeSeconds = fround (wk_active st);
          idleSeconds = wk_idle st;
          excused = trunc (of_int secs * pa_ExcusedIdleCap p);
          penalizedIdle = max 0 (idleSeconds - excused);
          denom = max 1 (secs - (idleSeconds - penalizedIdle));
          pct = max 0 (min 100 (round_away (100 * of_int activeSeconds / of_int denom)));
          reasons = (if isTooUniform (wk_intensities st) then [''uniform_input_pattern''] else []) @
            (if pct \<ge> 99 \<and> idleSeconds = 0 \<and> secs \<ge> 600 then [''implausible_full_activity''] else []) @
            (if mouseOnly samples then [''mouse_only_no_keys''] else [])
      in Some \<lparr>sr_ActivityPct = pct, sr_ActiveSeconds = activeSeconds, sr_IdleSeconds = idleSeconds,
               sr_Suspicious = (reasons \<noteq> []), sr_SuspectReasons = reasons\<rparr>)"

section \<open>What can be billed\<close>

lemma flt_fin: "flt (Fin a) x \<longleftrightarrow> (\<exists>b. x = Fin b \<and> a < b) \<or> x = FInf False"
  by (cases x) auto

text \<open>A positive fraction is a real number of at most one.\<close>

lemma billableFraction_pos:
  assumes "flt (Fin 0) (billableFraction p i)"
  shows "\<exists>f. billableFraction p i = Fin f \<and> 0 < f \<and> f \<le> 1"
proof -
  have m: "\<exists>f. fmin (Fin 1) x = Fin f \<and> 0 < f \<and> f \<le> 1" if "flt (Fin 0) (fmin (Fin 1) x)" for x
    using that by (cases x) (auto simp: fmin_def split: if_splits)
  from assms show ?thesis
    by (auto simp: billableFraction_def Let_def split: if_splits intro: m)
qed

text \<open>
  The loop invariant: the billed seconds are a real number, and together with the idle seconds
  and the current gap they never exceed the seconds walked.
\<close>

definition walk_inv :: "Params \<Rightarrow> int \<Rightarrow> walk_state \<Rightarrow> bool" where
  "walk_inv p done st \<longleftrightarrow> (\<exists>a. wk_active st = Fin a \<and> 0 \<le> a \<and> 0 \<le> wk_idle st \<and> 0 \<le> wk_consecutive st \<and>
     a + of_int (wk_idle st) + (if wk_consecutive st < pa_IdleThreshold p then of_int (wk_consecutive st) else 0) \<le> of_int done)"

lemma walk_step_inv:
  assumes "walk_inv p offset st" "0 < pa_SampleSeconds p" "0 \<le> offset" "offset < secs"
  shows "walk_inv p (min secs (offset + pa_SampleSeconds p)) (walk_step p b secs offset st)"
proof -
  define seg where "seg = min (pa_SampleSeconds p) (secs - offset)"
  have seg: "0 < seg" "min secs (offset + pa_SampleSeconds p) = offset + seg" using assms(2,4) by (auto simp: seg_def)
  define i where "i = (case b (quot offset (pa_SampleSeconds p)) of None \<Rightarrow> Fin 0 | Some s \<Rightarrow> Intensity p s)"
  from assms(1) obtain a where a: "wk_active st = Fin a" "0 \<le> a" "0 \<le> wk_idle st" "0 \<le> wk_consecutive st"
    "a + of_int (wk_idle st) + (if wk_consecutive st < pa_IdleThreshold p then of_int (wk_consecutive st) else 0) \<le> of_int offset"
    unfolding walk_inv_def by auto
  show ?thesis
  proof (cases "flt (Fin 0) (billableFraction p i)")
    case True
    then obtain f where f: "billableFraction p i = Fin f" "0 < f" "f \<le> 1" using billableFraction_pos by blast
    have "of_int seg * f \<le> of_int seg" "0 \<le> of_int seg * f"
      using f(2,3) seg(1) by (simp_all add: mult_left_le)
    moreover from this(1) have "a + of_int seg * f + of_int (wk_idle st) \<le> of_int offset + of_int seg"
      using a(4,5) by (simp split: if_splits)
    ultimately show ?thesis using a f seg
      by (auto simp: walk_inv_def walk_step_def Let_def seg_def [symmetric] i_def [symmetric] fint_def split: if_splits)
  next
    case False
    with a seg show ?thesis
      by (auto simp: walk_inv_def walk_step_def Let_def seg_def [symmetric] i_def [symmetric])
  qed
qed

lemma walk_inv_end:
  assumes "0 < pa_SampleSeconds p" "walk_inv p (min secs offset) st" "0 \<le> offset" "0 \<le> secs"
  shows "walk_inv p secs (walk p b secs offset st)"
  using assms
proof (induction p b secs offset st rule: walk.induct)
  case (1 p b secs offset st)
  show ?case
  proof (cases "offset < secs")
    case True
    with 1 walk_step_inv [of p offset st secs b] show ?thesis
      by (subst walk.simps) (simp add: min_def)
  next
    case False
    with 1 show ?thesis by (subst walk.simps) (simp add: min_def)
  qed
qed

lemma walk_finite:
  assumes "0 < pa_SampleSeconds p" "0 \<le> secs"
  shows "\<exists>a. wk_active (walk p b secs 0 \<lparr>wk_active = Fin 0, wk_idle = 0, wk_consecutive = 0, wk_intensities = []\<rparr>) = Fin a \<and>
    0 \<le> a \<and> 0 \<le> wk_idle (walk p b secs 0 \<lparr>wk_active = Fin 0, wk_idle = 0, wk_consecutive = 0, wk_intensities = []\<rparr>) \<and>
    a + of_int (wk_idle (walk p b secs 0 \<lparr>wk_active = Fin 0, wk_idle = 0, wk_consecutive = 0, wk_intensities = []\<rparr>)) \<le> of_int secs"
proof -
  let ?st0 = "\<lparr>wk_active = Fin 0, wk_idle = 0, wk_consecutive = 0, wk_intensities = []\<rparr> :: walk_state"
  have "walk_inv p (min secs 0) ?st0" using assms(2) by (simp add: walk_inv_def min_def)
  from walk_inv_end [OF assms(1) this _ assms(2)]
  have "walk_inv p secs (walk p b secs 0 ?st0)" by simp
  then show ?thesis by (auto simp: walk_inv_def split: if_splits)
qed

lemma round_away_bounds: "0 \<le> x \<Longrightarrow> x \<le> of_int n \<Longrightarrow> 0 \<le> round_away x \<and> round_away x \<le> n"
  unfolding round_away_def by (auto simp: floor_le_iff le_floor_iff)

lemma Compute_returns: "\<exists>r. Compute DefaultParams samples t u = Some r"
  by (simp add: Compute_def Let_def DefaultParams_def)

lemma Compute_bounds_all:
  "\<exists>r. Compute DefaultParams samples sliceStart sliceEnd = Some r \<and>
     0 \<le> sr_ActivityPct r \<and> sr_ActivityPct r \<le> 100 \<and> 0 \<le> sr_ActiveSeconds r \<and> 0 \<le> sr_IdleSeconds r \<and>
     sr_ActiveSeconds r + sr_IdleSeconds r \<le> max 0 (sub_seconds sliceEnd sliceStart)"
proof (cases "sub_seconds sliceEnd sliceStart \<le> 0")
  case True
  then show ?thesis by (simp add: Compute_def)
next
  case False
  let ?n = "sub_seconds sliceEnd sliceStart"
  let ?st = "walk DefaultParams (bucketSamples samples sliceStart (pa_SampleSeconds DefaultParams) Map.empty) ?n 0
    \<lparr>wk_active = Fin 0, wk_idle = 0, wk_consecutive = 0, wk_intensities = []\<rparr>"
  have step: "0 < pa_SampleSeconds DefaultParams" by (simp add: DefaultParams_def)
  obtain a where a: "wk_active ?st = Fin a" "0 \<le> a" "0 \<le> wk_idle ?st" "a + of_int (wk_idle ?st) \<le> of_int ?n"
    using walk_finite [OF step] False by (meson le_cases)
  then have "0 \<le> round_away a \<and> round_away a \<le> ?n - wk_idle ?st"
    using round_away_bounds [of a "?n - wk_idle ?st"] by simp
  with a False step show ?thesis by (simp add: Compute_def Let_def)
qed

text \<open>
  No input can bill more than the slice. Whatever samples the client sends (any counts and
  times, also negative ones), \<open>Compute\<close> with the service's parameters returns a result whose
  percentage is between 0 and 100 and whose active and idle seconds are not negative and together
  at most the length of the slice.
\<close>

theorem Compute_bounds:
  "\<exists>r. Compute DefaultParams samples sliceStart sliceEnd = Some r \<and>
     0 \<le> sr_ActivityPct r \<and> sr_ActivityPct r \<le> 100 \<and> 0 \<le> sr_ActiveSeconds r \<and> 0 \<le> sr_IdleSeconds r \<and>
     sr_ActiveSeconds r + sr_IdleSeconds r \<le> max 0 (sub_seconds sliceEnd sliceStart)"
  by (rule Compute_bounds_all)

section \<open>Fraud signals and hostile counts\<close>

lemma sum_f64_NaN: "sum_f64 NaN xs = NaN"
  by (induction xs) auto

lemma sum_f64_special:
  assumes "x \<in> set xs" "x \<in> {NaN, FInf True}" "\<forall>y \<in> set xs. y \<noteq> FInf False" "acc \<noteq> FInf False"
  shows "sum_f64 acc xs \<in> {NaN, FInf True}"
  using assms
proof (induction xs arbitrary: acc)
  case (Cons y ys)
  have low: "sum_f64 (FInf True) zs \<in> {NaN, FInf True}" if "\<forall>z \<in> set zs. z \<noteq> FInf False" for zs
    using that
  proof (induction zs)
    case (Cons z zs)
    then show ?case by (cases z) (auto simp: sum_f64_NaN)
  qed simp
  have y: "y \<noteq> FInf False" "\<forall>z \<in> set ys. z \<noteq> FInf False" using Cons.prems(3) by auto
  show ?case
  proof (cases "y \<in> {NaN, FInf True}")
    case True
    then have "fadd acc y \<in> {NaN, FInf True}" using Cons.prems(4) by (cases acc) auto
    with low [OF y(2)] show ?thesis by (auto simp: sum_f64_NaN)
  next
    case False
    then obtain r where "y = Fin r" using y(1) by (cases y) auto
    then have "fadd acc y \<noteq> FInf False" using Cons.prems(4) by (cases acc) auto
    with Cons False y(2) show ?thesis by auto
  qed
qed simp

text \<open>
  One bucket whose intensity is not a number, or minus infinity, switches the uniformity test off,
  however uniform the rest of the slice is.
\<close>

lemma isTooUniform_special:
  assumes "x \<in> set xs" "x \<in> {NaN, FInf True}" "\<forall>y \<in> set xs. y \<noteq> FInf False"
  shows "\<not> isTooUniform xs"
proof -
  have sum: "sum_f64 (Fin 0) xs \<in> {NaN, FInf True}" using sum_f64_special [OF assms] by simp
  have "0 < length xs" using assms(1) by (cases xs) auto
  then have "fdiv (sum_f64 (Fin 0) xs) (fint (int (length xs))) \<in> {NaN, FInf True}"
    using sum by (auto simp: fint_def)
  moreover have "\<not> flt (fdiv y NaN) z" for y z by (cases y) auto
  ultimately show ?thesis by (auto simp: isTooUniform_def Let_def)
qed

lemma saturation_le: "saturation x c \<noteq> FInf False"
  by (auto simp: saturation_def fmin_def)

lemma Intensity_not_inf: "Intensity p s \<noteq> FInf False"
  by (auto simp: Intensity_def fmin_def)

text \<open>What the walk records of the buckets.\<close>

definition bucket_intensity :: "Params \<Rightarrow> (int \<Rightarrow> Sample option) \<Rightarrow> int \<Rightarrow> f64" where
  "bucket_intensity p b i = (case b i of None \<Rightarrow> Fin 0 | Some s \<Rightarrow> Intensity p s)"

lemma walk_step_intensities:
  "wk_intensities (walk_step p b secs offset st) = wk_intensities st @ [bucket_intensity p b (quot offset (pa_SampleSeconds p))]"
  by (simp add: walk_step_def Let_def bucket_intensity_def)

lemma walk_records:
  assumes "0 < pa_SampleSeconds p" "offset + int k * pa_SampleSeconds p < secs"
  shows "set (wk_intensities st) \<subseteq> set (wk_intensities (walk p b secs offset st)) \<and>
    bucket_intensity p b (quot (offset + int k * pa_SampleSeconds p) (pa_SampleSeconds p)) \<in> set (wk_intensities (walk p b secs offset st))"
  using assms
proof (induction p b secs offset st arbitrary: k rule: walk.induct)
  case (1 p b secs offset st)
  let ?p = "pa_SampleSeconds p" and ?st = "walk_step p b secs offset st"
  have "0 \<le> int k * ?p" using 1(2) by simp
  with 1(3) have less: "offset < secs" by linarith
  have w: "walk p b secs offset st = walk p b secs (offset + ?p) ?st"
    using 1(2) less by (subst walk.simps) simp
  have sub: "set (wk_intensities ?st) \<subseteq> set (wk_intensities (walk p b secs (offset + ?p) ?st))"
  proof (cases "offset + ?p < secs")
    case True
    with 1(1) [of 0] 1(2) less show ?thesis by simp
  next
    case False
    then show ?thesis by (subst walk.simps) simp
  qed
  show ?case
  proof (cases k)
    case 0
    with sub show ?thesis unfolding w by (auto simp: walk_step_intensities)
  next
    case (Suc j)
    have "offset + ?p + int j * ?p = offset + int k * ?p" using Suc by (simp add: algebra_simps)
    with 1(1) [of j] 1(2,3) less sub show ?thesis unfolding w by (auto simp: walk_step_intensities)
  qed
qed

lemma walk_not_inf:
  assumes "\<forall>x \<in> set (wk_intensities st). x \<noteq> FInf False"
  shows "\<forall>x \<in> set (wk_intensities (walk p b secs offset st)). x \<noteq> FInf False"
  using assms
proof (induction p b secs offset st rule: walk.induct)
  case (1 p b secs offset st)
  have "bucket_intensity p b i \<noteq> FInf False" for i
    by (auto simp: bucket_intensity_def Intensity_not_inf split: option.splits)
  with 1 show ?case by (subst walk.simps) (auto simp: walk_step_intensities)
qed

lemma Intensity_negative:
  assumes "sm_KeyboardCount s < -1"
  shows "Intensity DefaultParams s = NaN"
proof -
  have "saturation (fint (sm_KeyboardCount s)) (pa_SaturateKB DefaultParams) = NaN"
    using assms by (auto simp: saturation_def fint_def DefaultParams_def fmin_def)
  then show ?thesis by (simp add: Intensity_def fmin_def)
qed

text \<open>
  A negative count hides a macro. When the sample kept for some minute of the slice has a
  keyboard count below \<open>-1\<close>, its intensity is NaN, and the slice is never reported as
  \<open>uniform_input_pattern\<close>, even when all its other samples are identical. Nothing rejects negative
  counts before this point.
\<close>

theorem negative_count_evades_uniformity:
  assumes "bucketSamples samples sliceStart 60 Map.empty (int k) = Some s" "sm_KeyboardCount s < -1"
    and "int k * 60 < sub_seconds sliceEnd sliceStart"
    and "Compute DefaultParams samples sliceStart sliceEnd = Some r"
  shows "''uniform_input_pattern'' \<notin> set (sr_SuspectReasons r)"
proof -
  let ?n = "sub_seconds sliceEnd sliceStart" and ?b = "bucketSamples samples sliceStart 60 Map.empty"
  let ?st = "walk DefaultParams ?b ?n 0 \<lparr>wk_active = Fin 0, wk_idle = 0, wk_consecutive = 0, wk_intensities = []\<rparr>"
  have step: "pa_SampleSeconds DefaultParams = 60" by (simp add: DefaultParams_def)
  have "quot (int k * 60) 60 = int k" by (cases "k = 0") (simp_all add: quot_def sgn_if abs_mult)
  then have "bucket_intensity DefaultParams ?b (int k) \<in> set (wk_intensities ?st)"
    using walk_records [of DefaultParams 0 k ?n _ ?b] assms(3) by (simp add: step)
  moreover have "bucket_intensity DefaultParams ?b (int k) = NaN"
    using assms(1,2) by (simp add: bucket_intensity_def Intensity_negative)
  ultimately have u: "\<not> isTooUniform (wk_intensities ?st)"
    using isTooUniform_special [of NaN "wk_intensities ?st"] 
      walk_not_inf [of "\<lparr>wk_active = Fin 0, wk_idle = 0, wk_consecutive = 0, wk_intensities = []\<rparr>" DefaultParams ?b ?n 0] by simp
  have "0 < ?n" using assms(3) by (smt (verit) of_nat_0_le_iff mult_nonneg_nonneg)
  with assms(4) u show ?thesis by (auto simp: Compute_def Let_def step split: if_splits)
qed

definition macro_samples :: "Sample list" where
  "macro_samples = map (\<lambda>i. \<lparr>sm_At = i * 60 * 10 ^ 9, sm_KeyboardCount = (if i = 9 then -2 else 100), sm_MouseCount = 5,
     sm_MouseDistance = 300\<rparr>) [0..9]"

theorem negative_count_evades_uniformity_witness:
  "\<exists>r. Compute DefaultParams macro_samples 0 (600 * 10 ^ 9) = Some r \<and> ''uniform_input_pattern'' \<notin> set (sr_SuspectReasons r)"
proof -
  obtain r where r: "Compute DefaultParams macro_samples 0 (600 * 10 ^ 9) = Some r" using Compute_returns by blast
  have b: "bucketSamples macro_samples 0 60 Map.empty (int 9) =
      Some \<lparr>sm_At = 540 * 10 ^ 9, sm_KeyboardCount = -2, sm_MouseCount = 5, sm_MouseDistance = 300\<rparr>"
    by code_simp
  have n: "int 9 * 60 < sub_seconds (600 * 10 ^ 9) 0" by code_simp
  from negative_count_evades_uniformity [OF b _ n r] r show ?thesis by simp
qed

section \<open>A keystroke a minute\<close>

lemma Intensity_trickle:
  assumes "sm_KeyboardCount s \<in> {0, 1}" "sm_MouseCount s = 0" "sm_MouseDistance s = 0"
  shows "\<exists>v. Intensity DefaultParams s = Fin v \<and> v < 8/100"
proof -
  have "25 * ln (2 :: real) < 4 * ln 121"
  proof -
    have "ln ((2 :: real) ^ 25) < ln (121 ^ 4)" by simp
    then show ?thesis by (simp only: ln_realpow zero_less_numeral of_nat_numeral)
  qed
  then have q: "ln (2 :: real) / ln 121 < 16/100" "ln (2 :: real) < ln 121" by (simp_all add: divide_less_eq)
  then have k: "saturation (Fin 1) 120 = Fin (ln 2 / ln 121)" by (simp add: saturation_def fmin_def)
  have z: "saturation (Fin 0) c = Fin 0" if "0 < c" for c using that by (simp add: saturation_def fmin_def)
  have "Intensity DefaultParams s \<in> {Fin 0, Fin (1/2 * (ln 2 / ln 121))}"
  proof -
    have "ln (2 :: real) \<le> ln 121" "0 \<le> ln (121 :: real)" by simp_all
    then have "\<not> 2 * ln (121 :: real) < ln 2" by linarith
    then show ?thesis using assms k z by (auto simp: Intensity_def fint_def DefaultParams_def fmin_def)
  qed
  moreover have "1/2 * (ln 2 / ln 121) < (8/100 :: real)" using q(1) by linarith
  moreover have "(0 :: real) < 8/100" by simp
  ultimately show ?thesis by blast
qed

lemma bucketSamples_mem:
  "bucketSamples ss start step m i = Some s \<Longrightarrow> s \<in> set ss \<or> m i = Some s"
  by (induction ss start step m rule: bucketSamples.induct) (auto simp: Let_def split: if_splits option.splits)

lemma walk_inactive:
  assumes "\<And>i. \<not> flt (Fin 0) (billableFraction p (bucket_intensity p b i))" "wk_active st = Fin 0"
  shows "wk_active (walk p b secs offset st) = Fin 0"
  using assms
proof (induction p b secs offset st rule: walk.induct)
  case (1 p b secs offset st)
  have "wk_active (walk_step p b secs offset st) = Fin 0"
    using 1(2,3) by (simp add: walk_step_def Let_def bucket_intensity_def)
  with 1 show ?case by (subst walk.simps) simp
qed

text \<open>
  One keystroke per sample and no mouse bills nothing: the weight of the logarithmic score of a
  single key stays below the active floor.
\<close>

lemma trickle_bills_nothing:
  assumes "\<forall>s \<in> set samples. sm_KeyboardCount s \<in> {0, 1} \<and> sm_MouseCount s = 0 \<and> sm_MouseDistance s = 0"
    and "Compute DefaultParams samples sliceStart sliceEnd = Some r"
  shows "sr_ActiveSeconds r = 0 \<and> sr_ActivityPct r = 0"
proof -
  let ?b = "bucketSamples samples sliceStart (pa_SampleSeconds DefaultParams) Map.empty"
  have low: "\<exists>v. bucket_intensity DefaultParams ?b i = Fin v \<and> v < 8/100" for i
  proof (cases "?b i")
    case (Some s)
    then have "s \<in> set samples" using bucketSamples_mem [of samples sliceStart _ Map.empty] by fastforce
    with Some assms(1) Intensity_trickle [of s] show ?thesis by (simp add: bucket_intensity_def)
  qed (simp add: bucket_intensity_def)
  have "\<not> flt (Fin 0) (billableFraction DefaultParams (bucket_intensity DefaultParams ?b i))" for i
    using low [of i] by (auto simp: billableFraction_def DefaultParams_def)
  from walk_inactive [OF this] assms(2) show ?thesis
    by (auto simp: Compute_def Let_def round_away_def split: if_splits)
qed

end
