(* ===== verification/Iso_Week.thy ===== *)
theory Iso_Week
  imports Go_Text
begin

text \<open>
  \<open>isoWeek\<close> of the time-tracking service, with \<open>time.ISOWeek\<close> and the calendar computation behind
  it. Times are nanoseconds since 1970; the zone is the offset of the server's location.
\<close>

section \<open>The calendar\<close>

text \<open>Year and day of the year (from 0) of a day counted from 1 January of year 1.\<close>

definition absDate :: "int \<Rightarrow> int \<times> int" where
  "absDate d =
     (let n400 = d div 146097; d = d - 146097 * n400;
          n100 = d div 36524; n100 = n100 - n100 div 4; d = d - 36524 * n100;
          n4 = d div 1461; d = d - 1461 * n4;
          n1 = d div 365; n1 = n1 - n1 div 4; d = d - 365 * n1
      in (400 * n400 + 100 * n100 + 4 * n4 + n1 + 1, d))"

definition day_of :: "int \<Rightarrow> int \<Rightarrow> int" where
  "day_of zone t = (t + zone) div (86400 * 10 ^ 9)"

text \<open>Days from Monday (0) to Sunday (6); 1 January 1970 was a Thursday.\<close>

definition weekday :: "int \<Rightarrow> int" where
  "weekday day = (day + 3) mod 7"

text \<open>\<open>ISOWeek\<close>: the year of the week's Thursday, and its week in that year.\<close>

definition ISOWeek :: "int \<Rightarrow> int \<Rightarrow> int \<times> int" where
  "ISOWeek zone t =
     (let day = day_of zone t; thursday = day + (3 - weekday day); (year, yday) = absDate (thursday + 719162)
      in (year, yday div 7 + 1))"

definition two_digits :: "int \<Rightarrow> string" where
  "two_digits w = (if 0 \<le> w \<and> w < 10 then ''0'' @ show_int w else show_int w)"

definition isoWeek :: "int \<Rightarrow> int \<Rightarrow> string" where
  "isoWeek zone t = (let (y, w) = ISOWeek zone t in show_int y @ ''-W'' @ two_digits w)"

section \<open>Billing weeks are calendar weeks\<close>

lemma absDate_parts:
  "\<exists>a b c e yd. absDate d = (400 * a + 100 * b + 4 * c + e + 1, yd) \<and> d = 146097 * a + 36524 * b + 1461 * c + 365 * e + yd \<and>
     0 \<le> b \<and> b \<le> 3 \<and> 0 \<le> c \<and> c \<le> 24 \<and> 0 \<le> e \<and> e \<le> 3 \<and> 0 \<le> yd \<and> yd \<le> 365"
proof -
  define a r where "a = d div 146097" and "r = d - 146097 * a"
  define b0 where "b0 = r div 36524"
  define b s where "b = b0 - b0 div 4" and "s = r - 36524 * b"
  define c q where "c = s div 1461" and "q = s - 1461 * c"
  define e0 where "e0 = q div 365"
  define e yd where "e = e0 - e0 div 4" and "yd = q - 365 * e"
  have r: "0 \<le> r" "r < 146097" by (simp_all add: r_def a_def minus_mult_div_eq_mod)
  have "0 \<le> b0" "b0 \<le> 4" using r by (auto simp: b0_def)
  then have b: "0 \<le> b" "b \<le> 3" "b = 3 \<or> b = b0" by (auto simp: b_def)
  have s: "0 \<le> s" "s \<le> 36524" using r b b0_def by (auto simp: s_def b_def)
  have c: "0 \<le> c" "c \<le> 24" "0 \<le> q" "q < 1461" using s by (auto simp: c_def q_def minus_mult_div_eq_mod)
  have "0 \<le> e0" "e0 \<le> 4" using c by (auto simp: e0_def)
  then have e: "0 \<le> e" "e \<le> 3" by (auto simp: e_def)
  have "365 * e0 \<le> q" "q < 365 * e0 + 365" unfolding e0_def by presburger+
  moreover have "e = e0 \<or> e0 = 4 \<and> e = 3" using \<open>0 \<le> e0\<close> \<open>e0 \<le> 4\<close> by (auto simp: e_def)
  ultimately have yd: "0 \<le> yd" "yd \<le> 365" using c(4) by (auto simp: yd_def)
  have "absDate d = (400 * a + 100 * b + 4 * c + e + 1, yd)"
    by (simp add: absDate_def Let_def a_def r_def b0_def b_def s_def c_def q_def e0_def e_def yd_def)
  moreover have "d = 146097 * a + 36524 * b + 1461 * c + 365 * e + yd" by (simp add: r_def s_def q_def yd_def)
  ultimately show ?thesis using b(1,2) c(1,2) e yd by blast
qed

lemma absDate_same_year:
  assumes "absDate d = (y, yd)" "absDate d' = (y, yd')"
  shows "d - d' = yd - yd'"
proof -
  obtain a b c e where 1: "y = 400 * a + 100 * b + 4 * c + e + 1" "d = 146097 * a + 36524 * b + 1461 * c + 365 * e + yd"
    "0 \<le> b" "b \<le> 3" "0 \<le> c" "c \<le> 24" "0 \<le> e" "e \<le> 3" using absDate_parts [of d] assms(1) by auto
  obtain a' b' c' e' where 2: "y = 400 * a' + 100 * b' + 4 * c' + e' + 1" "d' = 146097 * a' + 36524 * b' + 1461 * c' + 365 * e' + yd'"
    "0 \<le> b'" "b' \<le> 3" "0 \<le> c'" "c' \<le> 24" "0 \<le> e'" "e' \<le> 3" using absDate_parts [of d'] assms(2) by auto
  have "a = (y - 1) div 400" "a' = (y - 1) div 400" using 1 2 by (simp, linarith)+
  then have a: "a = a'" by simp
  with 1 2 have "100 * b + 4 * c + e = 100 * b' + 4 * c' + e'" by simp
  with 1 2 have b: "b = b'" by linarith
  with 1 2 a have "c = c'" by simp
  with 1 2 a b show ?thesis by simp
qed

lemma absDate_day: "absDate d = (y, yd) \<Longrightarrow> 0 \<le> yd \<and> yd \<le> 365"
  using absDate_parts [of d] by auto

text \<open>The number of the Monday-to-Sunday week a time lies in.\<close>

definition monday_week :: "int \<Rightarrow> int \<Rightarrow> int" where
  "monday_week zone t = (day_of zone t + 3) div 7"

lemma ISOWeek_monday: "ISOWeek zone t =
  (let (y, yd) = absDate (7 * monday_week zone t + 719162) in (y, yd div 7 + 1))"
proof -
  have "day + (3 - weekday day) = 7 * ((day + 3) div 7)" for day
    unfolding weekday_def by presburger
  then show ?thesis by (simp add: ISOWeek_def monday_week_def Let_def)
qed

lemma ISOWeek_eq_iff: "ISOWeek zone t = ISOWeek zone u \<longleftrightarrow> monday_week zone t = monday_week zone u"
proof
  assume eq: "ISOWeek zone t = ISOWeek zone u"
  obtain y yd y' yd' where d: "absDate (7 * monday_week zone t + 719162) = (y, yd)"
    "absDate (7 * monday_week zone u + 719162) = (y', yd')" by fastforce
  with eq have "y = y'" and w: "yd div 7 = yd' div 7" by (simp_all add: ISOWeek_monday)
  with absDate_same_year d have "7 * (monday_week zone t - monday_week zone u) = yd - yd'" by fastforce
  with w show "monday_week zone t = monday_week zone u" by presburger
qed (simp add: ISOWeek_monday)

lemma ISOWeek_range: "ISOWeek zone t = (y, w) \<Longrightarrow> 1 \<le> w \<and> w \<le> 53"
  using absDate_day [of "7 * monday_week zone t + 719162"] by (auto simp: ISOWeek_monday split: prod.splits)

section \<open>Labels\<close>

lemma show_nat_inj: "show_nat m = show_nat n \<Longrightarrow> m = n"
  by (metis digits_value_show_nat of_nat_eq_iff)

lemma show_int_inj: "show_int i = show_int j \<Longrightarrow> i = j"
proof -
  assume eq: "show_int i = show_int j"
  have h: "show_nat n \<noteq> CHR ''-'' # xs" for n xs
    using show_nat_digits [of n] by (auto simp: is_digit_def)
  from eq show ?thesis
    using show_nat_inj [of "nat i" "nat j"] show_nat_inj [of "nat (- i)" "nat (- j)"] h h [symmetric]
    by (auto simp: show_int_def split: if_splits)
qed

lemma two_digits_inj:
  assumes "two_digits v = two_digits w" "1 \<le> v" "1 \<le> w"
  shows "v = w"
proof -
  have nz: "digits_value (show_int x) = x" "digits_value (CHR ''0'' # show_int x) = x" if "1 \<le> x" for x
    using that digits_value_show_nat [of "nat x"] by (simp_all add: show_int_def digits_value_def)
  have "digits_value (two_digits x) = x" if "1 \<le> x" for x
    using nz [OF that] by (simp add: two_digits_def)
  with assms show ?thesis by metis
qed

lemma no_W: "CHR ''W'' \<notin> set (show_int i)"
  using show_nat_digits [of "nat i"] show_nat_digits [of "nat (- i)"]
  by (auto simp: show_int_def list_all_iff is_digit_def)

lemma split_at_first:
  assumes "xs @ c # as = ys @ c # bs" "c \<notin> set xs" "c \<notin> set ys"
  shows "xs = ys \<and> as = bs"
  using assms
proof (induction xs arbitrary: ys)
  case Nil
  then show ?case by (cases ys) auto
next
  case (Cons x xs)
  then show ?case by (cases ys) auto
qed


end
