(* ===== verification/Tracking.thy ===== *)
theory Tracking
  imports Outbox Rbac Activity Iso_Week
begin

text \<open>
  \<open>services/timetracking\<close>: the store's statements with the constraints of migration 000006, and the
  service: opening a work session on an active contract, ingesting slices that the server scores
  itself, closing a session and accruing the weekly timesheet. Times are nanoseconds; PostgreSQL
  keeps microseconds.
\<close>

section \<open>Column types\<close>

definition is_int2 :: "int \<Rightarrow> bool" where
  "is_int2 x \<longleftrightarrow> - (2 ^ 15) \<le> x \<and> x < 2 ^ 15"

definition pg_time :: "int \<Rightarrow> int" where
  "pg_time t = t div 1000 * 1000"

section \<open>Store\<close>

definition find_work_session :: "string \<Rightarrow> track_db \<Rightarrow> work_session_row option" where
  "find_work_session i d = select_one (\<lambda>w. ws_id w = i) (work_sessions d)"

definition SessionFreelancer :: "string \<Rightarrow> (track_db, string) io" where
  "SessionFreelancer sessionID =
     scan_row (pool_query (\<lambda>d. map_option ws_freelancer_id (find_work_session sessionID d)))"

definition OpenSession ::
  "string \<Rightarrow> string \<Rightarrow> string \<Rightarrow> string \<Rightarrow> string \<Rightarrow> int \<Rightarrow> (track_db, string) io" where
  "OpenSession contractID freelancerID deviceID tz billingWeek startedAt = tx_stmt (\<lambda>now uid d.
     if uid \<in> ws_id ` set (work_sessions d) then Inl UniqueViolation
     else if contractID \<notin> con_ID ` set (trk_contracts d) \<or> (''users'', freelancerID) \<notin> set (trk_other_keys d) \<or>
       deviceID \<noteq> '''' \<and> (''devices'', deviceID) \<notin> set (trk_other_keys d) then Inl ForeignKeyViolation
     else Inr (uid, d\<lparr>work_sessions := work_sessions d @
       [\<lparr>ws_id = uid, ws_contract_id = contractID, ws_freelancer_id = freelancerID,
         ws_device_id = (if deviceID = '''' then None else Some deviceID), ws_status = ''open'',
         ws_started_at = pg_time startedAt, ws_ended_at = None, ws_active_seconds = 0, ws_idle_seconds = 0,
         ws_billed_seconds = 0, ws_avg_activity_pct = None, ws_memo = None, ws_timezone = tz,
         ws_billing_week = billingWeek\<rparr>]\<rparr>))"

text \<open>The columns an existing slice takes over; its end and contract stay.\<close>

definition same_slice :: "Slice \<Rightarrow> Slice \<Rightarrow> bool" where
  "same_slice a b \<longleftrightarrow> sl_SessionID a = sl_SessionID b \<and> sl_Start a = sl_Start b"

definition merge_slice :: "Slice \<Rightarrow> Slice \<Rightarrow> Slice" where
  "merge_slice new old = new\<lparr>sl_End := sl_End old, sl_ContractID := sl_ContractID old\<rparr>"

definition slice_fits :: "Slice \<Rightarrow> bool" where
  "slice_fits sl \<longleftrightarrow> is_int32 (sl_KeyboardEvents sl) \<and> is_int32 (sl_MouseEvents sl) \<and>
     is_int32 (sl_ActiveSeconds sl) \<and> is_int2 (sl_ActivityPct sl)"

definition UpsertSlice :: "Slice \<Rightarrow> (track_db, unit) io" where
  "UpsertSlice sl' = tx_stmt (\<lambda>now uid d.
     let sl = sl'\<lparr>sl_Start := pg_time (sl_Start sl'), sl_End := pg_time (sl_End sl')\<rparr> in
     if \<not> slice_fits sl then Inl NumericOutOfRange
     else if \<exists>x \<in> set (time_slices d). same_slice sl x
     then Inr ((), d\<lparr>time_slices := update_where (same_slice sl) (merge_slice sl) (time_slices d)\<rparr>)
     else if sl_SessionID sl \<notin> ws_id ` set (work_sessions d) then Inl ForeignKeyViolation
     else Inr ((), d\<lparr>time_slices := time_slices d @ [sl]\<rparr>))"

text \<open>The aggregates of \<open>CloseSession\<close>.\<close>

definition session_slices :: "string \<Rightarrow> track_db \<Rightarrow> Slice list" where
  "session_slices i d = filter (\<lambda>sl. sl_SessionID sl = i) (time_slices d)"

definition sum_active :: "string \<Rightarrow> track_db \<Rightarrow> int" where
  "sum_active i d = sum_list (map sl_ActiveSeconds (session_slices i d))"

definition slice_seconds :: "Slice \<Rightarrow> int" where
  "slice_seconds sl = round_div (sl_End sl - sl_Start sl) (10 ^ 9)"

definition sum_idle :: "string \<Rightarrow> track_db \<Rightarrow> int" where
  "sum_idle i d = sum_list (map (\<lambda>sl. max 0 (slice_seconds sl - sl_ActiveSeconds sl)) (session_slices i d))"

definition avg_pct :: "string \<Rightarrow> track_db \<Rightarrow> int" where
  "avg_pct i d = (let sls = session_slices i d in
     if sls = [] then 0 else round_div (sum_list (map sl_ActivityPct sls)) (int (length sls)))"

definition close_row :: "int \<Rightarrow> string \<Rightarrow> int \<Rightarrow> int \<Rightarrow> int \<Rightarrow> work_session_row \<Rightarrow> work_session_row" where
  "close_row endedAt memo active idle avg w = w\<lparr>ws_status := ''closed'', ws_ended_at := Some (pg_time endedAt),
     ws_memo := Some memo, ws_active_seconds := active, ws_idle_seconds := idle, ws_billed_seconds := active,
     ws_avg_activity_pct := Some avg\<rparr>"

text \<open>The \<open>UPDATE\<close> does not look at the status. A missing row is a bare \<open>pgx.ErrNoRows\<close>.\<close>

definition CloseSession :: "string \<Rightarrow> int \<Rightarrow> string \<Rightarrow> (track_db, int \<times> int \<times> int \<times> string \<times> string) io" where
  "CloseSession sessionID endedAt memo =
     bindE (tx_stmt (\<lambda>now uid d.
       if \<exists>sl \<in> set (session_slices sessionID d). \<not> is_int32 (slice_seconds sl) then Inl NumericOutOfRange
       else Inr ((sum_active sessionID d, sum_idle sessionID d, avg_pct sessionID d), d))) (\<lambda>(active, idle, avg).
     bindE (tx_stmt (\<lambda>now uid d.
       if \<not> (is_int32 active \<and> is_int32 idle \<and> is_int2 avg) then Inl NumericOutOfRange
       else Inr (map_option (\<lambda>w. (ws_contract_id w, ws_billing_week w)) (find_work_session sessionID d),
         d\<lparr>work_sessions := update_where (\<lambda>w. ws_id w = sessionID) (close_row endedAt memo active idle avg) (work_sessions d)\<rparr>))) (\<lambda>r.
     case r of None \<Rightarrow> throw (Errorf ''no rows in result set'')
     | Some (contractID, week) \<Rightarrow> ret (active, idle, avg, contractID, week)))"

definition accrued_amount :: "int \<Rightarrow> int \<Rightarrow> int" where
  "accrued_amount rateCents billableSeconds = quot (int64 (rateCents * billableSeconds)) 3600"

definition find_timesheet :: "string \<Rightarrow> string \<Rightarrow> track_db \<Rightarrow> timesheet_row option" where
  "find_timesheet c week d = select_one (\<lambda>t. tsh_contract_id t = c \<and> tsh_billing_week t = week) (timesheets d)"

definition accrue_row :: "int \<Rightarrow> int \<Rightarrow> int \<Rightarrow> timesheet_row \<Rightarrow> timesheet_row" where
  "accrue_row billable amount avg t = t\<lparr>tsh_total_seconds := tsh_total_seconds t + billable,
     tsh_billable_seconds := tsh_billable_seconds t + billable, tsh_amount_cents := tsh_amount_cents t + amount,
     tsh_avg_activity_pct := avg\<rparr>"

definition timesheet_fits :: "timesheet_row \<Rightarrow> bool" where
  "timesheet_fits t \<longleftrightarrow> is_int32 (tsh_total_seconds t) \<and> is_int32 (tsh_billable_seconds t) \<and>
     is_int64 (tsh_amount_cents t) \<and> is_int2 (tsh_avg_activity_pct t)"

definition AccrueTimesheet :: "string \<Rightarrow> string \<Rightarrow> int \<Rightarrow> int \<Rightarrow> int \<Rightarrow> (track_db, unit) io" where
  "AccrueTimesheet contractID week billableSeconds avgPct rateCents = tx_stmt (\<lambda>now uid d.
     let amount = accrued_amount rateCents billableSeconds;
         fresh = \<lparr>tsh_contract_id = contractID, tsh_billing_week = week, tsh_total_seconds = billableSeconds,
           tsh_billable_seconds = billableSeconds, tsh_amount_cents = amount, tsh_avg_activity_pct = avgPct,
           tsh_status = ''accumulating''\<rparr> in
     if \<not> timesheet_fits fresh then Inl NumericOutOfRange
     else case find_timesheet contractID week d of
       Some t \<Rightarrow>
         if \<not> timesheet_fits (accrue_row billableSeconds amount avgPct t) then Inl NumericOutOfRange
         else Inr ((), d\<lparr>timesheets := update_where (\<lambda>t. tsh_contract_id t = contractID \<and> tsh_billing_week t = week)
           (accrue_row billableSeconds amount avgPct) (timesheets d)\<rparr>)
     | None \<Rightarrow>
         if contractID \<notin> con_ID ` set (trk_contracts d) then Inl ForeignKeyViolation
         else Inr ((), d\<lparr>timesheets := timesheets d @ [fresh]\<rparr>))"

record ContractTerms =
  ct_HourlyRateCents :: int
  ct_WeeklyHourLimit :: int

definition store_ContractTerms :: "string \<Rightarrow> (track_db, ContractTerms) io" where
  "store_ContractTerms contractID = scan_row (pool_query (\<lambda>d. map_option
     (\<lambda>c. \<lparr>ct_HourlyRateCents = (case con_HourlyRateCents c of None \<Rightarrow> 0 | Some r \<Rightarrow> r),
           ct_WeeklyHourLimit = (case con_WeeklyHourLimit c of None \<Rightarrow> 0 | Some l \<Rightarrow> l)\<rparr>)
     (select_one (\<lambda>c. con_ID c = contractID) (trk_contracts d))))"

definition store_GetTimesheet :: "string \<Rightarrow> string \<Rightarrow> (track_db, timesheet_row) io" where
  "store_GetTimesheet contractID week = scan_row (pool_query (find_timesheet contractID week))"

section \<open>Service\<close>

record StartResult =
  str_SessionID :: string
  str_BillingWeek :: string
  str_CaptureInterval :: int

definition StartSession ::
  "(string \<Rightarrow> Parties http_answer) \<Rightarrow> int \<Rightarrow> string \<Rightarrow> string \<Rightarrow> string \<Rightarrow> string \<Rightarrow> int \<Rightarrow> (track_db, StartResult) io" where
  "StartSession parties zone contractID freelancerID deviceID tz startedAt =
     (if contractID = '''' then throw ErrForbidden else
      case lookup_get (parties contractID) of
        Inl e \<Rightarrow> throw ErrForbidden
      | Inr p \<Rightarrow>
          if freelancerID = '''' \<or> freelancerID \<noteq> par_FreelancerID p \<or> par_Status p \<noteq> ''active'' then throw ErrForbidden else
          let week = isoWeek zone startedAt in
          bindE begin_tx (\<lambda>_.
          bindE (OpenSession contractID freelancerID deviceID tz week startedAt) (\<lambda>i.
          bindE commit_tx (\<lambda>_.
          ret \<lparr>str_SessionID = i, str_BillingWeek = week, str_CaptureInterval = 900\<rparr>))))"

record IncomingSlice =
  in_SessionID :: string
  in_ContractID :: string
  in_Start :: int
  in_End :: int
  in_Samples :: "Sample list"
  in_ActiveApp :: string
  in_ActiveAppTitle :: string
  in_BrowserHost :: string
  in_ScreenshotID :: string
  in_IsManual :: bool

definition requireSessionOwner :: "string \<Rightarrow> string \<Rightarrow> (track_db, unit) io" where
  "requireSessionOwner sessionID caller =
     bindE (SessionFreelancer sessionID) (\<lambda>freelancerID. check (RequireOneOf caller [freelancerID]))"

fun joinReasons :: "string list \<Rightarrow> string" where
  "joinReasons [] = ''''"
| "joinReasons [r] = r"
| "joinReasons (r # rs) = r @ '','' @ joinReasons rs"

definition slice_row :: "IncomingSlice \<Rightarrow> SliceResult \<Rightarrow> Slice" where
  "slice_row i res =
     \<lparr>sl_SessionID = in_SessionID i, sl_ContractID = in_ContractID i, sl_Start = in_Start i, sl_End = in_End i,
      sl_KeyboardEvents = sum_int64 0 (map sm_KeyboardCount (in_Samples i)),
      sl_MouseEvents = sum_int64 0 (map sm_MouseCount (in_Samples i)),
      sl_ActiveSeconds = sr_ActiveSeconds res, sl_ActivityPct = sr_ActivityPct res,
      sl_ActiveApp = in_ActiveApp i, sl_ActiveAppTitle = in_ActiveAppTitle i, sl_BrowserHost = in_BrowserHost i,
      sl_ScreenshotID = in_ScreenshotID i, sl_IsIdle = (sr_ActiveSeconds res = 0), sl_IsManual = in_IsManual i,
      sl_Flagged = sr_Suspicious res, sl_FlagReason = joinReasons (sr_SuspectReasons res)\<rparr>"

definition suspicious_event :: "IncomingSlice \<Rightarrow> SliceResult \<Rightarrow> Event" where
  "suspicious_event i res =
     \<lparr>ev_AggregateType = ''contract'', ev_AggregateID = in_ContractID i, ev_EventType = ''activity.suspicious'',
      ev_Topic = ''worksession.events'', ev_PartitionKey = in_ContractID i,
      ev_Payload = JObj [(''contract_id'', JStr (in_ContractID i)), (''session_id'', JStr (in_SessionID i)),
        (''slice_start'', JInt (in_Start i)), (''reasons'', JArr (map JStr (sr_SuspectReasons res))),
        (''activity_pct'', JInt (sr_ActivityPct res))], ev_Headers = []\<rparr>"

text \<open>The loop of \<open>IngestSlices\<close>; \<open>Compute\<close> returns for the service's parameters.\<close>

fun ingest_loop :: "IncomingSlice list \<Rightarrow> nat \<Rightarrow> (track_db, nat) io" where
  "ingest_loop [] accepted = ret accepted"
| "ingest_loop (i # rest) accepted =
     (case Compute DefaultParams (in_Samples i) (in_Start i) (in_End i) of
        None \<Rightarrow> throw (Errorf ''panic'')
      | Some res \<Rightarrow>
          bindE (UpsertSlice (slice_row i res)) (\<lambda>_.
          bindE (if sr_Suspicious res then ignoreE (Enqueue (suspicious_event i res)) else ret ()) (\<lambda>_.
          ingest_loop rest (Suc accepted))))"

definition IngestSlices :: "string \<Rightarrow> string \<Rightarrow> string \<Rightarrow> IncomingSlice list \<Rightarrow> (track_db, nat) io" where
  "IngestSlices sessionID contractID caller slices =
     bindE (requireSessionOwner sessionID caller) (\<lambda>_.
     bindE begin_tx (\<lambda>_.
     bindE (ingest_loop slices 0) (\<lambda>accepted.
     bindE commit_tx (\<lambda>_. ret accepted))))"

definition closed_event :: "string \<Rightarrow> string \<Rightarrow> string \<Rightarrow> int \<Rightarrow> int \<Rightarrow> Event" where
  "closed_event sessionID contractID week active avg =
     \<lparr>ev_AggregateType = ''contract'', ev_AggregateID = contractID, ev_EventType = ''worksession.closed'',
      ev_Topic = ''worksession.events'', ev_PartitionKey = contractID,
      ev_Payload = JObj [(''session_id'', JStr sessionID), (''contract_id'', JStr contractID), (''billing_week'', JStr week),
        (''billable_seconds'', JInt active), (''avg_activity_pct'', JInt avg)], ev_Headers = []\<rparr>"

record CloseResult =
  cr_ActiveSeconds :: int
  cr_IdleSeconds :: int
  cr_AvgActivityPct :: int

definition StopSession :: "string \<Rightarrow> string \<Rightarrow> string \<Rightarrow> int \<Rightarrow> (track_db, CloseResult) io" where
  "StopSession sessionID caller memo endedAt =
     bindE (requireSessionOwner sessionID caller) (\<lambda>_.
     bindE begin_tx (\<lambda>_.
     bindE (CloseSession sessionID endedAt memo) (\<lambda>(active, idle, avg, contractID, week).
     bindE (store_ContractTerms contractID) (\<lambda>terms.
     bindE (AccrueTimesheet contractID week active avg (ct_HourlyRateCents terms)) (\<lambda>_.
     bindE (Enqueue (closed_event sessionID contractID week active avg)) (\<lambda>_.
     bindE commit_tx (\<lambda>_.
     ret \<lparr>cr_ActiveSeconds = active, cr_IdleSeconds = idle, cr_AvgActivityPct = avg\<rparr>)))))))"

definition GetTimesheet :: "int \<Rightarrow> string \<Rightarrow> string \<Rightarrow> (track_db, timesheet_row) io" where
  "GetTimesheet zone contractID week =
     bindE get_now (\<lambda>now. store_GetTimesheet contractID (if week = '''' then isoWeek zone now else week))"

section \<open>Framing\<close>

lemma keeps_tracking_store [io_keeps]:
  "keeps (SessionFreelancer i)" "keeps (OpenSession c f dv tz w t)" "keeps (UpsertSlice sl)"
  "keeps (CloseSession i t memo)" "keeps (AccrueTimesheet c w b a r)" "keeps (store_ContractTerms c)"
  "keeps (store_GetTimesheet c w)" "keeps (requireSessionOwner i u)"
  unfolding SessionFreelancer_def OpenSession_def UpsertSlice_def CloseSession_def AccrueTimesheet_def
    store_ContractTerms_def store_GetTimesheet_def requireSessionOwner_def SessionFreelancer_def
  by (intro io_keeps | simp add: io_keeps split: prod.split option.split)+

lemma keeps_ingest_loop [io_keeps]: "keeps (ingest_loop slices n)"
  by (induction slices n rule: ingest_loop.induct) (auto intro!: io_keeps split: option.split)

lemma atomic_tracking:
  "atomic (StartSession parties zone c f dv tz t)" "atomic (IngestSlices i c u slices)" "atomic (StopSession i u memo t)"
  unfolding StartSession_def IngestSlices_def StopSession_def
  by (auto intro!: io_atomic io_keeps split: sum.split simp: Let_def)

end
