(* ===== verification/Tracking_Props.thy ===== *)
theory Tracking_Props
  imports Tracking
begin

text \<open>
  What the time-tracking service keeps and promises: the invariant of sessions, slices and
  timesheets, who may change them, and what stopping a session accrues.
\<close>

section \<open>Effects of the operations\<close>

lemma SessionFreelancer_ok:
  "SessionFreelancer i s = (Inr f, t) \<longleftrightarrow>
     \<not> faults s 0 \<and> t = tick s \<and> (\<exists>w. find_work_session i (committed s) = Some w \<and> f = ws_freelancer_id w)"
  by (auto simp: SessionFreelancer_def scan_row_ok pool_query_ok)

lemma requireSessionOwner_ok:
  "requireSessionOwner i u s = (Inr x, t) \<longleftrightarrow>
     \<not> faults s 0 \<and> t = tick s \<and> (\<exists>w. find_work_session i (committed s) = Some w \<and> u = ws_freelancer_id w)"
  by (auto simp: requireSessionOwner_def bindE_ok SessionFreelancer_ok check_ok RequireOneOf_iff)

text \<open>A successful stop, as one change of the database.\<close>

definition stopped :: "string \<Rightarrow> string \<Rightarrow> int \<Rightarrow> work_session_row \<Rightarrow> int \<Rightarrow> track_db \<Rightarrow> track_db" where
  "stopped i memo endedAt w rate d =
     (let active = sum_active i d; avg = avg_pct i d; c = ws_contract_id w; week = ws_billing_week w;
          amount = accrued_amount rate active in
      post_event (closed_event i c week active avg)
        (d\<lparr>work_sessions := update_where (\<lambda>w. ws_id w = i) (close_row endedAt memo active (sum_idle i d) avg) (work_sessions d),
           timesheets := (case find_timesheet c week d of
             Some t \<Rightarrow> update_where (\<lambda>t. tsh_contract_id t = c \<and> tsh_billing_week t = week) (accrue_row active amount avg) (timesheets d)
           | None \<Rightarrow> timesheets d @ [\<lparr>tsh_contract_id = c, tsh_billing_week = week, tsh_total_seconds = active,
               tsh_billable_seconds = active, tsh_amount_cents = amount, tsh_avg_activity_pct = avg,
               tsh_status = ''accumulating''\<rparr>])\<rparr>))"

lemma CloseSession_ok:
  assumes "CloseSession i t memo s = (Inr (active, idle, avg, c, week), u)"
  shows "active = sum_active i (work s) \<and> idle = sum_idle i (work s) \<and> avg = avg_pct i (work s) \<and>
    (\<exists>w. find_work_session i (work s) = Some w \<and> c = ws_contract_id w \<and> week = ws_billing_week w) \<and>
    committed u = committed s \<and> clock u = clock s \<and>
    work u = (work s)\<lparr>work_sessions := update_where (\<lambda>w. ws_id w = i) (close_row t memo active idle avg) (work_sessions (work s))\<rparr>"
  using assms
  by (auto simp: CloseSession_def bindE_ok tx_stmt_ok ret_ok throw_ok split: if_splits option.splits)

lemma AccrueTimesheet_ok:
  assumes "AccrueTimesheet c week b a rate s = (Inr x, t)"
  shows "committed t = committed s \<and> work t = (work s)\<lparr>timesheets := (case find_timesheet c week (work s) of
             Some ts \<Rightarrow> update_where (\<lambda>t. tsh_contract_id t = c \<and> tsh_billing_week t = week) (accrue_row b (accrued_amount rate b) a) (timesheets (work s))
           | None \<Rightarrow> timesheets (work s) @ [\<lparr>tsh_contract_id = c, tsh_billing_week = week, tsh_total_seconds = b,
               tsh_billable_seconds = b, tsh_amount_cents = accrued_amount rate b, tsh_avg_activity_pct = a,
               tsh_status = ''accumulating''\<rparr>])\<rparr>"
  using assms by (auto simp: AccrueTimesheet_def tx_stmt_ok Let_def split: if_splits option.splits)

lemma StopSession_ok:
  assumes "StopSession i u memo t s = (Inr r, s')"
  shows "\<exists>w rate. find_work_session i (committed s) = Some w \<and> u = ws_freelancer_id w \<and>
    cr_ActiveSeconds r = sum_active i (committed s) \<and>
    (\<exists>c. select_one (\<lambda>c. con_ID c = ws_contract_id w) (trk_contracts (committed s)) = Some c \<and>
       rate = (case con_HourlyRateCents c of None \<Rightarrow> 0 | Some r \<Rightarrow> r)) \<and>
    committed s' = stopped i memo t w rate (committed s)"
proof -
  let ?s1 = "(tick (tick s))\<lparr>work := committed s, aborted := False\<rparr>"
  from assms obtain active idle avg c week s2 terms s3 x s4 where
    own: "\<exists>w. find_work_session i (committed s) = Some w \<and> u = ws_freelancer_id w"
    and cl: "CloseSession i t memo ?s1 = (Inr (active, idle, avg, c, week), s2)"
    and te: "store_ContractTerms c s2 = (Inr terms, s3)"
    and ac: "AccrueTimesheet c week active avg (ct_HourlyRateCents terms) s3 = (Inr x, s4)"
    and t: "committed s' = post_event (closed_event i c week active avg) (work s4)"
    and r: "cr_ActiveSeconds r = active"
    by (auto simp: StopSession_def bindE_ok requireSessionOwner_ok begin_tx_ok Enqueue_ok commit_tx_ok ret_ok)
  from CloseSession_ok [OF cl] obtain w where w: "find_work_session i (committed s) = Some w" "c = ws_contract_id w"
    "week = ws_billing_week w" and vals: "active = sum_active i (committed s)" "idle = sum_idle i (committed s)"
    "avg = avg_pct i (committed s)" and w2: "committed s2 = committed s"
    "work s2 = (committed s)\<lparr>work_sessions := update_where (\<lambda>w. ws_id w = i) (close_row t memo active idle avg) (work_sessions (committed s))\<rparr>"
    by auto
  from te w2(1) obtain con where con: "select_one (\<lambda>x. con_ID x = c) (trk_contracts (committed s)) = Some con"
    "ct_HourlyRateCents terms = (case con_HourlyRateCents con of None \<Rightarrow> 0 | Some r \<Rightarrow> r)" "work s3 = work s2"
    by (auto simp: store_ContractTerms_def scan_row_ok pool_query_ok)
  have f: "find_timesheet c week (work s3) = find_timesheet c week (committed s)"
    by (simp add: find_timesheet_def con(3) w2(2))
  have "work s4 = (committed s)\<lparr>work_sessions := update_where (\<lambda>w. ws_id w = i) (close_row t memo active idle avg) (work_sessions (committed s)),
      timesheets := (case find_timesheet c week (committed s) of
             Some ts \<Rightarrow> update_where (\<lambda>t. tsh_contract_id t = c \<and> tsh_billing_week t = week)
               (accrue_row active (accrued_amount (ct_HourlyRateCents terms) active) avg) (timesheets (committed s))
           | None \<Rightarrow> timesheets (committed s) @ [\<lparr>tsh_contract_id = c, tsh_billing_week = week, tsh_total_seconds = active,
               tsh_billable_seconds = active, tsh_amount_cents = accrued_amount (ct_HourlyRateCents terms) active,
               tsh_avg_activity_pct = avg, tsh_status = ''accumulating''\<rparr>])\<rparr>"
    using AccrueTimesheet_ok [OF ac] unfolding f by (simp add: con(3) w2(2) cong: option.case_cong)
  then have "committed s' = stopped i memo t w (ct_HourlyRateCents terms) (committed s)"
    unfolding t by (simp add: stopped_def Let_def w(2,3) vals cong: option.case_cong)
  with own w con(1,2) vals(1) r show ?thesis by auto
qed

section \<open>What a stop accrues\<close>

definition billable :: "string \<Rightarrow> string \<Rightarrow> track_db \<Rightarrow> int" where
  "billable c week d = (case find_timesheet c week d of None \<Rightarrow> 0 | Some t \<Rightarrow> tsh_billable_seconds t)"

definition amount_due :: "string \<Rightarrow> string \<Rightarrow> track_db \<Rightarrow> int" where
  "amount_due c week d = (case find_timesheet c week d of None \<Rightarrow> 0 | Some t \<Rightarrow> tsh_amount_cents t)"

lemma accrue_row_simps [simp]:
  "tsh_contract_id (accrue_row b m a t) = tsh_contract_id t" "tsh_billing_week (accrue_row b m a t) = tsh_billing_week t"
  "tsh_billable_seconds (accrue_row b m a t) = tsh_billable_seconds t + b"
  "tsh_total_seconds (accrue_row b m a t) = tsh_total_seconds t + b"
  "tsh_amount_cents (accrue_row b m a t) = tsh_amount_cents t + m"
  by (simp_all add: accrue_row_def)

lemma close_row_simps [simp]:
  "ws_id (close_row t memo a i p w) = ws_id w" "ws_contract_id (close_row t memo a i p w) = ws_contract_id w"
  "ws_billing_week (close_row t memo a i p w) = ws_billing_week w"
  "ws_freelancer_id (close_row t memo a i p w) = ws_freelancer_id w"
  by (simp_all add: close_row_def)

lemma select_one_accrue:
  assumes "select_one (\<lambda>t. tsh_contract_id t = c \<and> tsh_billing_week t = week) ts = Some t"
  shows "select_one (\<lambda>t. tsh_contract_id t = c \<and> tsh_billing_week t = week)
    (update_where (\<lambda>t. tsh_contract_id t = c \<and> tsh_billing_week t = week) (accrue_row b m a) ts) = Some (accrue_row b m a t)"
  using assms by (induction ts) (auto split: if_splits)

lemma stopped_slices [simp]: "time_slices (stopped i memo t w rate d) = time_slices d" "trk_contracts (stopped i memo t w rate d) = trk_contracts d"
  by (simp_all add: stopped_def Let_def)

lemma stopped_sums [simp]: "sum_active j (stopped i memo t w rate d) = sum_active j d"
  by (simp add: sum_active_def session_slices_def)

lemma stopped_session:
  assumes "find_work_session i d = Some w"
  shows "\<exists>w'. find_work_session i (stopped i memo t w rate d) = Some w' \<and> ws_contract_id w' = ws_contract_id w \<and>
    ws_billing_week w' = ws_billing_week w \<and> ws_freelancer_id w' = ws_freelancer_id w"
  using assms by (simp add: find_work_session_def stopped_def Let_def select_one_update_where)

lemma stopped_accrues:
  shows "billable (ws_contract_id w) (ws_billing_week w) (stopped i memo t w rate d) =
      billable (ws_contract_id w) (ws_billing_week w) d + sum_active i d"
    and "amount_due (ws_contract_id w) (ws_billing_week w) (stopped i memo t w rate d) =
      amount_due (ws_contract_id w) (ws_billing_week w) d + accrued_amount rate (sum_active i d)"
proof -
  let ?c = "ws_contract_id w" and ?k = "ws_billing_week w" and ?a = "sum_active i d"
  have "find_timesheet ?c ?k (stopped i memo t w rate d) = Some (case find_timesheet ?c ?k d of
      Some ts \<Rightarrow> accrue_row ?a (accrued_amount rate ?a) (avg_pct i d) ts
    | None \<Rightarrow> \<lparr>tsh_contract_id = ?c, tsh_billing_week = ?k, tsh_total_seconds = ?a, tsh_billable_seconds = ?a,
        tsh_amount_cents = accrued_amount rate ?a, tsh_avg_activity_pct = avg_pct i d, tsh_status = ''accumulating''\<rparr>)"
  proof (cases "find_timesheet ?c ?k d")
    case None
    then show ?thesis by (simp add: stopped_def Let_def find_timesheet_def select_one_append)
  next
    case (Some ts)
    then have "select_one (\<lambda>t. tsh_contract_id t = ?c \<and> tsh_billing_week t = ?k) (timesheets d) = Some ts"
      by (simp add: find_timesheet_def)
    from select_one_accrue [OF this] Some show ?thesis by (simp add: stopped_def Let_def find_timesheet_def)
  qed
  then show "billable ?c ?k (stopped i memo t w rate d) = billable ?c ?k d + ?a"
    "amount_due ?c ?k (stopped i memo t w rate d) = amount_due ?c ?k d + accrued_amount rate ?a"
    by (simp_all add: billable_def amount_due_def split: option.splits)
qed

text \<open>
  A stop accrues the session's active seconds, and so does the next one. Every successful
  \<open>StopSession\<close> adds the active seconds of the session's slices to the timesheet of its contract and
  week, and the amount at the contract's rate; whether the session is still open is not looked at,
  so stopping it a second time bills the same work again.
\<close>

theorem stop_bills_every_time:
  assumes "StopSession i u memo t s = (Inr r, s1)" "StopSession i u memo' t' s2 = (Inr r', s3)" "committed s2 = committed s1"
    and "find_work_session i (committed s) = Some w"
    and "select_one (\<lambda>c. con_ID c = ws_contract_id w) (trk_contracts (committed s)) = Some con" "con_HourlyRateCents con = Some rate"
  shows "let c = ws_contract_id w; week = ws_billing_week w; active = sum_active i (committed s); due = accrued_amount rate active in
    billable c week (committed s1) = billable c week (committed s) + active \<and>
    amount_due c week (committed s1) = amount_due c week (committed s) + due \<and>
    billable c week (committed s3) = billable c week (committed s) + 2 * active \<and>
    amount_due c week (committed s3) = amount_due c week (committed s) + 2 * due"
proof -
  from StopSession_ok [OF assms(1)] assms(4-6) have 1: "committed s1 = stopped i memo t w rate (committed s)" by auto
  from stopped_session [OF assms(4)] obtain w' where w': "find_work_session i (committed s1) = Some w'"
    "ws_contract_id w' = ws_contract_id w" "ws_billing_week w' = ws_billing_week w" unfolding 1 by blast
  from StopSession_ok [OF assms(2)] assms(5,6) have 2: "committed s3 = stopped i memo' t' w' rate (committed s1)"
    unfolding assms(3) w'(1) by (auto simp: w'(2) 1)
  show ?thesis
    using stopped_accrues [where w = w and i = i and memo = memo and t = t and rate = rate and d = "committed s"]
      stopped_accrues [where w = w' and i = i and memo = memo' and t = t' and rate = rate and d = "committed s1"]
    by (auto simp: Let_def w'(2,3) 2 1)
qed

section \<open>Sample data\<close>

definition demo_slice :: Slice where
  "demo_slice = \<lparr>sl_SessionID = ''w1'', sl_ContractID = ''c1'', sl_Start = 0, sl_End = 600 * 10 ^ 9, sl_KeyboardEvents = 900,
     sl_MouseEvents = 50, sl_ActiveSeconds = 540, sl_ActivityPct = 90, sl_ActiveApp = '''', sl_ActiveAppTitle = '''',
     sl_BrowserHost = '''', sl_ScreenshotID = '''', sl_IsIdle = False, sl_IsManual = False, sl_Flagged = False, sl_FlagReason = ''''\<rparr>"

definition demo_track_db :: track_db where
  "demo_track_db = \<lparr>outbox = [], outbox_seq = 1, processed_events = [],
     work_sessions = [\<lparr>ws_id = ''w1'', ws_contract_id = ''c1'', ws_freelancer_id = ''freelancer'', ws_device_id = None,
       ws_status = ''open'', ws_started_at = 0, ws_ended_at = None, ws_active_seconds = 0, ws_idle_seconds = 0,
       ws_billed_seconds = 0, ws_avg_activity_pct = None, ws_memo = None, ws_timezone = ''UTC'', ws_billing_week = ''2026-W25''\<rparr>],
     time_slices = [demo_slice], timesheets = [],
     trk_contracts = [demo_contract\<lparr>con_HourlyRateCents := Some 6000\<rparr>], trk_other_keys = [(''users'', ''freelancer'')]\<rparr>"

theorem stop_bills_every_time_witness:
  "let d1 = committed (snd (StopSession ''w1'' ''freelancer'' ''m'' 0 (quiet ''a'' demo_track_db)));
       d2 = committed (snd (StopSession ''w1'' ''freelancer'' ''m'' 0 (quiet ''b'' d1))) in
     amount_due ''c1'' ''2026-W25'' d1 = 900 \<and> amount_due ''c1'' ''2026-W25'' d2 = 1800"
proof -
  let ?r1 = "StopSession ''w1'' ''freelancer'' ''m'' 0 (quiet ''a'' demo_track_db)"
  let ?r2 = "StopSession ''w1'' ''freelancer'' ''m'' 0 (quiet ''b'' (committed (snd ?r1)))"
  have ok: "\<not> isl (fst ?r1)" "\<not> isl (fst ?r2)" by code_simp+
  then obtain x y where r: "?r1 = (Inr x, snd ?r1)" "?r2 = (Inr y, snd ?r2)"
    by (metis prod.collapse sum.collapse(2))
  let ?w = "hd (work_sessions demo_track_db)" and ?c = "hd (trk_contracts demo_track_db)"
  have d: "find_work_session ''w1'' demo_track_db = Some ?w"
    "ws_contract_id ?w = ''c1''" "ws_billing_week ?w = ''2026-W25''"
    "select_one (\<lambda>c. con_ID c = ''c1'') (trk_contracts demo_track_db) = Some ?c"
    "con_HourlyRateCents ?c = Some 6000"
    "accrued_amount 6000 (sum_active ''w1'' demo_track_db) = 900" "amount_due ''c1'' ''2026-W25'' demo_track_db = 0"
    by code_simp+
  show ?thesis
    using stop_bills_every_time [OF r(1,2), of ?w ?c 6000] by (simp add: d Let_def)
qed

section \<open>The invariant\<close>

definition slice_key :: "Slice \<Rightarrow> string \<times> int" where
  "slice_key sl = (sl_SessionID sl, sl_Start sl)"

definition slice_ok :: "track_db \<Rightarrow> Slice \<Rightarrow> bool" where
  "slice_ok d sl \<longleftrightarrow> sl_SessionID sl \<in> ws_id ` set (work_sessions d) \<and> 0 \<le> sl_ActiveSeconds sl \<and>
     0 \<le> sl_ActivityPct sl \<and> sl_ActivityPct sl \<le> 100"

definition timesheet_ok :: "timesheet_row \<Rightarrow> bool" where
  "timesheet_ok t \<longleftrightarrow> 0 \<le> tsh_billable_seconds t \<and> tsh_total_seconds t = tsh_billable_seconds t"

definition tracking_inv :: "track_db \<Rightarrow> bool" where
  "tracking_inv d \<longleftrightarrow> distinct (map ws_id (work_sessions d)) \<and> distinct (map slice_key (time_slices d)) \<and>
     distinct (map (\<lambda>t. (tsh_contract_id t, tsh_billing_week t)) (timesheets d)) \<and>
     (\<forall>sl \<in> set (time_slices d). slice_ok d sl) \<and> (\<forall>t \<in> set (timesheets d). timesheet_ok t)"

lemma tracking_inv_post [simp]: "tracking_inv (post_event e d) = tracking_inv d"
  by (simp add: tracking_inv_def slice_ok_def)

lemma sum_active_nonneg: "tracking_inv d \<Longrightarrow> 0 \<le> sum_active i d"
  unfolding sum_active_def session_slices_def
  by (intro sum_list_nonneg) (auto simp: tracking_inv_def slice_ok_def)


lemma stopped_inv:
  assumes "tracking_inv d"
  shows "tracking_inv (stopped i memo t w rate d)"
proof -
  let ?c = "ws_contract_id w" and ?k = "ws_billing_week w" and ?key = "\<lambda>t. (tsh_contract_id t, tsh_billing_week t)"
  let ?ts = "timesheets (stopped i memo t w rate d)"
  note nn = sum_active_nonneg [OF assms, of i]
  have inv: "distinct (map ?key (timesheets d))" "\<forall>t \<in> set (timesheets d). timesheet_ok t"
    using assms by (simp_all add: tracking_inv_def)
  have "distinct (map ?key ?ts) \<and> (\<forall>t \<in> set ?ts. timesheet_ok t)"
  proof (cases "find_timesheet ?c ?k d")
    case None
    then have "(?c, ?k) \<notin> set (map ?key (timesheets d))"
      by (auto simp: find_timesheet_def select_one_None_iff)
    with None inv nn show ?thesis by (auto simp: stopped_def Let_def timesheet_ok_def)
  next
    case (Some ts)
    with inv nn show ?thesis
      by (auto simp: stopped_def Let_def timesheet_ok_def set_update_where map_update_where_same)
  qed
  moreover have "map ws_id (work_sessions (stopped i memo t w rate d)) = map ws_id (work_sessions d)"
    by (simp add: stopped_def Let_def map_update_where_same)
  moreover from this have "ws_id ` set (work_sessions (stopped i memo t w rate d)) = ws_id ` set (work_sessions d)"
    by (metis set_map)
  ultimately show ?thesis using assms by (simp add: tracking_inv_def slice_ok_def)
qed

lemma UpsertSlice_inv:
  assumes "UpsertSlice sl s = (Inr x, t)" "tracking_inv (work s)"
    and "0 \<le> sl_ActiveSeconds sl" "0 \<le> sl_ActivityPct sl" "sl_ActivityPct sl \<le> 100"
  shows "tracking_inv (work t) \<and> work_sessions (work t) = work_sessions (work s)"
proof -
  let ?sl = "sl\<lparr>sl_Start := pg_time (sl_Start sl), sl_End := pg_time (sl_End sl)\<rparr>"
  let ?d = "work s"
  have merge: "slice_key (merge_slice ?sl y) = slice_key y" if "same_slice ?sl y" for y
    using that by (simp add: slice_key_def merge_slice_def same_slice_def)
  have ok: "slice_ok ?d (merge_slice ?sl y)" if "same_slice ?sl y" "slice_ok ?d y" for y
    using that assms(3-5) by (auto simp: slice_ok_def merge_slice_def same_slice_def)
  have new: "slice_key ?sl \<notin> slice_key ` set (time_slices ?d)" if "\<not> (\<exists>x \<in> set (time_slices ?d). same_slice ?sl x)"
    using that by (auto simp: slice_key_def same_slice_def)
  from assms(1) consider
    "\<exists>x \<in> set (time_slices ?d). same_slice ?sl x" "work t = ?d\<lparr>time_slices := update_where (same_slice ?sl) (merge_slice ?sl) (time_slices ?d)\<rparr>"
  | "\<not> (\<exists>x \<in> set (time_slices ?d). same_slice ?sl x)" "sl_SessionID ?sl \<in> ws_id ` set (work_sessions ?d)"
    "work t = ?d\<lparr>time_slices := time_slices ?d @ [?sl]\<rparr>"
    by (auto simp: UpsertSlice_def tx_stmt_ok Let_def split: if_splits)
  then show ?thesis
  proof cases
    case 1
    have keys: "map slice_key (update_where (same_slice ?sl) (merge_slice ?sl) (time_slices ?d)) = map slice_key (time_slices ?d)"
      by (rule map_update_where_same) (rule merge)
    show ?thesis unfolding 1(2) using assms(2) ok
      by (auto simp: tracking_inv_def keys slice_ok_def set_update_where)
  next
    case 2
    show ?thesis unfolding 2(3) using assms(2-5) 2(2) new [OF 2(1)]
      by (auto simp: tracking_inv_def slice_ok_def slice_key_def)
  qed
qed

lemma ingest_loop_inv:
  "ingest_loop slices n s = (Inr m, t) \<Longrightarrow> tracking_inv (work s) \<Longrightarrow>
     tracking_inv (work t) \<and> work_sessions (work t) = work_sessions (work s)"
proof (induction slices arbitrary: n s)
  case (Cons i rest)
  obtain res where res: "Compute DefaultParams (in_Samples i) (in_Start i) (in_End i) = Some res"
    "0 \<le> sr_ActiveSeconds res" "0 \<le> sr_ActivityPct res" "sr_ActivityPct res \<le> 100"
    using Compute_bounds_all [of "in_Samples i" "in_Start i" "in_End i"] by blast
  from Cons.prems(1) res obtain s1 s2 where
    u: "UpsertSlice (slice_row i res) s = (Inr (), s1)"
    and e: "(if sr_Suspicious res then ignoreE (Enqueue (suspicious_event i res)) else ret ()) s1 = (Inr (), s2)"
    and l: "ingest_loop rest (Suc n) s2 = (Inr m, t)"
    by (auto simp: bindE_ok)
  have "tracking_inv (work s1) \<and> work_sessions (work s1) = work_sessions (work s)"
    by (rule UpsertSlice_inv [OF u Cons.prems(2)]) (use res in \<open>simp_all add: slice_row_def\<close>)
  moreover have "work s2 = work s1 \<or> work s2 = post_event (suspicious_event i res) (work s1)"
    using e by (auto simp: ignoreE_ok ret_ok Enqueue_def tx_stmt_def split: if_splits)
  ultimately have "tracking_inv (work s2)" "work_sessions (work s2) = work_sessions (work s)" by auto
  with Cons.IH [OF l] show ?case by simp
qed (simp add: ret_ok)

lemma OpenSession_inv:
  assumes "OpenSession c f dv tz wk t0 s = (Inr i, t)" "tracking_inv (work s)"
  shows "tracking_inv (work t)"
  using assms by (auto simp: OpenSession_def tx_stmt_ok tracking_inv_def slice_ok_def split: if_splits)

inductive tracking_step :: "track_db \<Rightarrow> track_db \<Rightarrow> bool" where
  step_start: "StartSession parties zone c f dv tz t0 s = (r1, t) \<Longrightarrow> tracking_step (committed s) (committed t)"
| step_ingest: "IngestSlices i c u slices s = (r2, t) \<Longrightarrow> tracking_step (committed s) (committed t)"
| step_stop: "StopSession i u memo t0 s = (r3, t) \<Longrightarrow> tracking_step (committed s) (committed t)"

lemma StartSession_ok:
  assumes "StartSession parties zone c f dv tz t0 s = (Inr r, t)"
  shows "\<exists>p s1 s2. lookup_get (parties c) = Inr p \<and> f \<noteq> '''' \<and> f = par_FreelancerID p \<and> par_Status p = ''active'' \<and>
    OpenSession c f dv tz (isoWeek zone t0) t0 s1 = (Inr (str_SessionID r), s2) \<and> work s1 = committed s \<and>
    committed t = work s2 \<and> str_BillingWeek r = isoWeek zone t0"
proof -
  from assms obtain p where p: "lookup_get (parties c) = Inr p" "f \<noteq> ''''" "f = par_FreelancerID p" "par_Status p = ''active''"
    by (auto simp: StartSession_def throw_ok split: if_splits sum.splits)
  let ?s1 = "(tick s)\<lparr>work := committed s, aborted := False\<rparr>"
  from assms p obtain i s2 where "OpenSession c f dv tz (isoWeek zone t0) t0 ?s1 = (Inr i, s2)" "str_SessionID r = i"
    "committed t = work s2" "str_BillingWeek r = isoWeek zone t0"
    by (auto simp: StartSession_def Let_def throw_ok bindE_ok begin_tx_ok commit_tx_ok ret_ok split: if_splits)
  with p show ?thesis by (intro exI [of _ p] exI [of _ ?s1] exI [of _ s2]) simp
qed

lemma IngestSlices_ok:
  assumes "IngestSlices i c u slices s = (Inr n, t)"
  shows "(\<exists>w. find_work_session i (committed s) = Some w \<and> u = ws_freelancer_id w) \<and>
    (\<exists>s1 s2. ingest_loop slices 0 s1 = (Inr n, s2) \<and> work s1 = committed s \<and> committed t = work s2)"
proof -
  let ?s1 = "(tick (tick s))\<lparr>work := committed s, aborted := False\<rparr>"
  from assms obtain s2 where "\<exists>w. find_work_session i (committed s) = Some w \<and> u = ws_freelancer_id w"
    "ingest_loop slices 0 ?s1 = (Inr n, s2)" "committed t = work s2"
    by (auto simp: IngestSlices_def bindE_ok requireSessionOwner_ok begin_tx_ok commit_tx_ok ret_ok)
  then show ?thesis by (intro conjI exI [of _ ?s1] exI [of _ s2]) simp_all
qed

interpretation tracking_system: invariant_system tracking_step tracking_inv
proof
  fix d d' assume "tracking_step d d'" "tracking_inv d"
  then show "tracking_inv d'"
  proof cases
    case (step_start parties zone c f dv tz t0 s r t)
    with \<open>tracking_inv d\<close> StartSession_ok [of parties zone c f dv tz t0 s _ t] OpenSession_inv atomicD [OF atomic_tracking(1)]
    show ?thesis by (cases r) (fastforce, metis)
  next
    case (step_ingest i c u slices s r t)
    with \<open>tracking_inv d\<close> IngestSlices_ok [of i c u slices s _ t] ingest_loop_inv atomicD [OF atomic_tracking(2)]
    show ?thesis by (cases r) (fastforce, metis)
  next
    case (step_stop i u memo t0 s r t)
    with \<open>tracking_inv d\<close> StopSession_ok [of i u memo t0 s _ t] stopped_inv atomicD [OF atomic_tracking(3)]
    show ?thesis by (cases r) (fastforce, metis)
  qed
qed

text \<open>
  C21: the invariant of the tables. However sessions are started, slices sent and sessions stopped,
  a slice is stored at most once per session and start, belongs to an existing session, has active
  seconds of at least zero and a percentage between 0 and 100; there is one timesheet per contract
  and week, and its totals agree and are not negative.
\<close>

theorem tracking_invariant:
  assumes "tracking_step\<^sup>*\<^sup>* d d'" "tracking_inv d"
  shows "tracking_inv d'"
  by (rule tracking_system.steps_inv [OF assms])

lemma tracking_inv_demo: "tracking_inv demo_track_db"
  by code_simp

theorem tracking_invariant_witness:
  "tracking_inv (committed (snd (StopSession ''w1'' ''freelancer'' ''m'' 0 (quiet ''a'' demo_track_db))))"
proof -
  let ?r = "StopSession ''w1'' ''freelancer'' ''m'' 0 (quiet ''a'' demo_track_db)"
  have "tracking_step (committed (quiet ''a'' demo_track_db)) (committed (snd ?r))"
    by (rule step_stop [of _ _ _ _ _ "fst ?r"]) simp
  then show ?thesis by (intro tracking_invariant [OF _ tracking_inv_demo]) auto
qed

end
