(* ===== verification/Tracking_API.thy ===== *)
theory Tracking_API
  imports Tracking_Props
begin

text \<open>
  \<open>services/timetracking/internal/httpapi\<close>: the handlers, and who can change what through them.
  \<open>uid\<close> is the \<open>X-User-Id\<close> header. \<open>stopSession\<close> drops the result of \<open>decode\<close>, which has already
  written its own answer when the body does not parse: the first answer is the one a client sees.
\<close>

section \<open>Handlers\<close>

definition mapError :: "err \<Rightarrow> response" where
  "mapError e = (if e = ErrNotFound then Problem 404 ''NOT_FOUND''
     else if e = ErrForbidden then Problem 403 ''FORBIDDEN'' else Problem 500 ''INTERNAL'')"

definition startSession ::
  "(string \<Rightarrow> Parties http_answer) \<Rightarrow> int \<Rightarrow> string \<Rightarrow> (string \<times> string \<times> string) option \<Rightarrow> (track_db, response) io" where
  "startSession parties zone uid body =
     guarded (ret (decode body)) (\<lambda>(contractID, deviceID, tz).
     if uid = '''' then ret (Problem 401 ''UNAUTHORIZED'') else
     bindE get_now (\<lambda>now.
     handle mapError (StartSession parties zone contractID uid deviceID tz now)
       (\<lambda>r. Reply 201 (JObj [(''session_id'', JStr (str_SessionID r)), (''billing_week'', JStr (str_BillingWeek r)),
         (''capture_interval_seconds'', JInt (str_CaptureInterval r))]))))"

text \<open>\<open>sliceDTO\<close>, with its samples; the session comes from the path.\<close>

record sliceDTO =
  sd_ContractID :: string
  sd_SliceStart :: int
  sd_SliceEnd :: int
  sd_Samples :: "Sample list"
  sd_ActiveApp :: string
  sd_ActiveAppTitle :: string
  sd_BrowserHost :: string
  sd_ScreenshotID :: string
  sd_IsManual :: bool

definition incoming :: "string \<Rightarrow> sliceDTO \<Rightarrow> IncomingSlice" where
  "incoming sessionID s =
     \<lparr>in_SessionID = sessionID, in_ContractID = sd_ContractID s, in_Start = sd_SliceStart s, in_End = sd_SliceEnd s,
      in_Samples = sd_Samples s, in_ActiveApp = sd_ActiveApp s, in_ActiveAppTitle = sd_ActiveAppTitle s,
      in_BrowserHost = sd_BrowserHost s, in_ScreenshotID = sd_ScreenshotID s, in_IsManual = sd_IsManual s\<rparr>"

definition submitSlices :: "string \<Rightarrow> string \<Rightarrow> sliceDTO list option \<Rightarrow> (track_db, response) io" where
  "submitSlices uid sessionID body =
     (if uid = '''' then ret (Problem 401 ''UNAUTHORIZED'') else
      guarded (ret (decode body)) (\<lambda>slices.
      let ins = map (incoming sessionID) slices;
          contractID = (case ins of [] \<Rightarrow> '''' | i # _ \<Rightarrow> in_ContractID i) in
      handle mapError (IngestSlices sessionID contractID uid ins)
        (\<lambda>n. Reply 200 (JObj [(''accepted'', JInt (int n))]))))"

definition stopSession :: "string \<Rightarrow> string \<Rightarrow> string option \<Rightarrow> (track_db, response) io" where
  "stopSession uid sessionID body =
     (if uid = '''' then ret (Problem 401 ''UNAUTHORIZED'') else
      let memo = (case body of None \<Rightarrow> '''' | Some m \<Rightarrow> m) in
      bindE get_now (\<lambda>now.
      bindE (handle mapError (StopSession sessionID uid memo now)
        (\<lambda>r. Reply 200 (JObj [(''active_seconds'', JInt (cr_ActiveSeconds r)), (''idle_seconds'', JInt (cr_IdleSeconds r)),
          (''avg_activity_pct'', JInt (cr_AvgActivityPct r))]))) (\<lambda>resp.
      ret (case decode body of Inl first \<Rightarrow> first | Inr _ \<Rightarrow> resp))))"

definition getTimesheet :: "int \<Rightarrow> string \<Rightarrow> string \<Rightarrow> (track_db, response) io" where
  "getTimesheet zone contractID week =
     handle (\<lambda>e. Problem 404 ''NOT_FOUND'') (GetTimesheet zone contractID week)
       (\<lambda>v. Reply 200 (JObj [(''billing_week'', JStr (tsh_billing_week v)), (''total_billable_seconds'', JInt (tsh_billable_seconds v)),
         (''amount_cents'', JInt (tsh_amount_cents v)), (''status'', JStr (tsh_status v)),
         (''avg_activity_pct'', JInt (tsh_avg_activity_pct v))]))"

section \<open>Who can change what\<close>

lemma startSession_changed:
  assumes "startSession parties zone uid body s = (r, t)" "committed t \<noteq> committed s"
  shows "\<exists>c p. lookup_get (parties c) = Inr p \<and> par_FreelancerID p = uid \<and> uid \<noteq> '''' \<and> par_Status p = ''active'' \<and>
    (\<exists>w. work_sessions (committed t) = work_sessions (committed s) @ [w] \<and> ws_freelancer_id w = uid \<and> ws_contract_id w = c \<and>
       ws_status w = ''open'') \<and> time_slices (committed t) = time_slices (committed s) \<and> timesheets (committed t) = timesheets (committed s)"
proof -
  from assms obtain c dv tz where
    h: "handle mapError (StartSession parties zone c uid dv tz (clock s))
       (\<lambda>r. Reply 201 (JObj [(''session_id'', JStr (str_SessionID r)), (''billing_week'', JStr (str_BillingWeek r)),
         (''capture_interval_seconds'', JInt (str_CaptureInterval r))])) s = (r, t)"
    by (auto simp: startSession_def guarded_run decode_def run_basic split: option.splits if_splits)
  from handle_changed [OF h atomic_tracking(1) assms(2)] obtain x where "StartSession parties zone c uid dv tz (clock s) s = (Inr x, t)" by blast
  from StartSession_ok [OF this] obtain p s1 s2 where p: "lookup_get (parties c) = Inr p" "uid \<noteq> ''''" "uid = par_FreelancerID p"
    "par_Status p = ''active''" and o: "OpenSession c uid dv tz (isoWeek zone (clock s)) (clock s) s1 = (Inr (str_SessionID x), s2)"
    "work s1 = committed s" "committed t = work s2" by blast
  from o have "\<exists>w. work_sessions (committed t) = work_sessions (committed s) @ [w] \<and> ws_freelancer_id w = uid \<and> ws_contract_id w = c \<and>
       ws_status w = ''open''" "time_slices (committed t) = time_slices (committed s)" "timesheets (committed t) = timesheets (committed s)"
    by (auto simp: OpenSession_def tx_stmt_ok split: if_splits)
  with p show ?thesis by blast
qed

lemma submitSlices_changed:
  assumes "submitSlices uid i body s = (r, t)" "committed t \<noteq> committed s"
  shows "\<exists>w. find_work_session i (committed s) = Some w \<and> ws_freelancer_id w = uid"
proof -
  from assms obtain c ins an where h: "handle mapError (IngestSlices i c uid ins) an s = (r, t)"
    by (auto simp: submitSlices_def guarded_run decode_def run_basic Let_def split: option.splits if_splits)
  from handle_changed [OF h atomic_tracking(2) assms(2)] IngestSlices_ok [of i c uid ins s] show ?thesis by auto
qed

lemma stopSession_changed:
  assumes "stopSession uid i body s = (r, t)" "committed t \<noteq> committed s"
  shows "\<exists>w. find_work_session i (committed s) = Some w \<and> ws_freelancer_id w = uid"
proof -
  from assms obtain memo an q where h: "handle mapError (StopSession i uid memo (clock s)) an s = (q, t)"
    by (auto simp: stopSession_def run_basic Let_def split: if_splits prod.splits sum.splits)
  from handle_changed [OF h atomic_tracking(3) assms(2)] StopSession_ok [of i uid memo "clock s" s] show ?thesis by auto
qed

text \<open>
  C22: only the freelancer tracks time. A request changes the database only when its user is not
  empty and is the freelancer of the session it names; a session is opened only on a contract that
  the contract service reports as active with this user as the freelancer, and opening one touches
  no slice and no timesheet.
\<close>

theorem tracking_needs_freelancer:
  "(startSession parties zone uid body s = (r, t) \<and> committed t \<noteq> committed s \<longrightarrow>
     (\<exists>c p w. lookup_get (parties c) = Inr p \<and> par_FreelancerID p = uid \<and> uid \<noteq> '''' \<and> par_Status p = ''active'' \<and>
       work_sessions (committed t) = work_sessions (committed s) @ [w] \<and> ws_freelancer_id w = uid \<and> ws_contract_id w = c \<and>
       time_slices (committed t) = time_slices (committed s) \<and> timesheets (committed t) = timesheets (committed s))) \<and>
   (submitSlices uid i slices s = (r, t) \<and> committed t \<noteq> committed s \<longrightarrow>
     (\<exists>w. find_work_session i (committed s) = Some w \<and> ws_freelancer_id w = uid)) \<and>
   (stopSession uid i memo s = (r, t) \<and> committed t \<noteq> committed s \<longrightarrow>
     (\<exists>w. find_work_session i (committed s) = Some w \<and> ws_freelancer_id w = uid))"
  using startSession_changed [of parties zone uid body s r t] submitSlices_changed [of uid i slices s r t]
    stopSession_changed [of uid i memo s r t] by blast

theorem tracking_needs_freelancer_witness:
  "committed (snd (stopSession ''client'' ''w1'' None (quiet ''a'' demo_track_db))) = demo_track_db"
proof (rule ccontr)
  assume neq: "committed (snd (stopSession ''client'' ''w1'' None (quiet ''a'' demo_track_db))) \<noteq> demo_track_db"
  let ?run = "stopSession ''client'' ''w1'' None (quiet ''a'' demo_track_db)"
  have "\<exists>w. find_work_session ''w1'' demo_track_db = Some w \<and> ws_freelancer_id w = ''client''"
    using neq tracking_needs_freelancer [of "\<lambda>c. TransportError" 0 "''client''" None "quiet ''a'' demo_track_db" "fst ?run" "snd ?run"
      "''w1''" None None] by simp
  then obtain w where "find_work_session ''w1'' demo_track_db = Some w" "ws_freelancer_id w = ''client''" by blast
  moreover have "map_option ws_freelancer_id (find_work_session ''w1'' demo_track_db) = Some ''freelancer''" by code_simp
  ultimately show False by simp
qed

text \<open>
  A stop with a body that does not parse is carried out and answered as a bad request.
\<close>

lemma stop_unparsable_body:
  "status_of (projr (fst (stopSession ''freelancer'' ''w1'' None (quiet ''a'' demo_track_db)))) = 400 \<and>
   amount_due ''c1'' ''2026-W25'' (committed (snd (stopSession ''freelancer'' ''w1'' None (quiet ''a'' demo_track_db)))) = 900"
  by code_simp

end
