(* ===== verification/Gateway.thy ===== *)
theory Gateway
  imports Complex_Main Auth Rbac
begin

text \<open>
  \<open>services/gateway\<close>: the public entry point. Trusted identity headers are stripped from every
  request and set again from the claims of a verified token; a token bucket in Redis limits requests
  by client address and by user; the rest of the path decides the upstream service. Token
  verification is the parameter \<open>verify\<close>, the membership of a peer address in the configured proxy
  ranges a field of the limiter. Bucket arithmetic (Lua's doubles) is exact on rational numbers.
\<close>

section \<open>Requests\<close>

text \<open>
  Headers in order, names in the canonical form \<open>net/http\<close> gives them: \<open>Get\<close> reads the first value
  of a name, \<open>Del\<close> removes all, \<open>Set\<close> replaces all.
\<close>

type_synonym headers = "(string \<times> string) list"

definition hdr_get :: "headers \<Rightarrow> string \<Rightarrow> string" where
  "hdr_get hs k = (case map_of hs k of None \<Rightarrow> '''' | Some v \<Rightarrow> v)"

definition hdr_del :: "string \<Rightarrow> headers \<Rightarrow> headers" where
  "hdr_del k hs = filter (\<lambda>h. fst h \<noteq> k) hs"

definition hdr_set :: "string \<Rightarrow> string \<Rightarrow> headers \<Rightarrow> headers" where
  "hdr_set k v hs = hdr_del k hs @ [(k, v)]"

record GwReq =
  gq_Method :: string
  gq_Path :: string
  gq_Headers :: headers
  gq_RemoteAddr :: string

text \<open>\<open>textproto.CanonicalMIMEHeaderKey\<close> on the names of the wire.\<close>

definition is_lower :: "char \<Rightarrow> bool" where
  "is_lower c \<longleftrightarrow> 97 \<le> (of_char c :: nat) \<and> (of_char c :: nat) \<le> 122"

definition is_upper :: "char \<Rightarrow> bool" where
  "is_upper c \<longleftrightarrow> 65 \<le> (of_char c :: nat) \<and> (of_char c :: nat) \<le> 90"

definition to_upper :: "char \<Rightarrow> char" where
  "to_upper c = (if is_lower c then char_of ((of_char c :: nat) - 32) else c)"

definition to_lower :: "char \<Rightarrow> char" where
  "to_lower c = (if is_upper c then char_of ((of_char c :: nat) + 32) else c)"

text \<open>The bytes of a token; a name with any other byte is left alone.\<close>

definition is_token_char :: "char \<Rightarrow> bool" where
  "is_token_char c \<longleftrightarrow> is_lower c \<or> is_upper c \<or> is_digit c \<or> c \<in> set ''!#$%&*+-.^_`|~'' \<or> c = CHR 0x27"

fun canon_from :: "bool \<Rightarrow> string \<Rightarrow> string" where
  "canon_from up [] = []"
| "canon_from up (c # cs) = (if up then to_upper c else to_lower c) # canon_from (c = CHR ''-'') cs"

definition canonical :: "string \<Rightarrow> string" where
  "canonical k = (if list_all is_token_char k then canon_from True k else k)"

definition canonical_headers :: "headers \<Rightarrow> headers" where
  "canonical_headers = map (\<lambda>(k, v). (canonical k, v))"

section \<open>Identity\<close>

definition trustedHeaders :: "string list" where
  "trustedHeaders = [''X-User-Id'', ''X-Permissions'', ''X-Roles'', ''X-Residency'', ''X-User-Permissions'',
     ''X-User-Roles'', ''X-Account-Type'']"

definition StripTrustedHeaders :: "GwReq \<Rightarrow> GwReq" where
  "StripTrustedHeaders r = r\<lparr>gq_Headers := fold hdr_del trustedHeaders (gq_Headers r)\<rparr>"

fun join_comma :: "string list \<Rightarrow> string" where
  "join_comma [] = ''''"
| "join_comma [x] = x"
| "join_comma (x # xs) = x @ '','' @ join_comma xs"

definition identity_headers :: "Claims \<Rightarrow> headers" where
  "identity_headers c =
     [(''X-User-Id'', cl_UserID c), (''X-Permissions'', join_comma (cl_Permissions c)), (''X-Roles'', join_comma (cl_Roles c)),
      (''X-Residency'', cl_ResidencyCountry c), (''X-User-Permissions'', join_comma (cl_Permissions c)),
      (''X-User-Roles'', join_comma (cl_Roles c)), (''X-Account-Type'', cl_AccountType c)]"

definition injectIdentity :: "GwReq \<Rightarrow> Claims \<Rightarrow> GwReq" where
  "injectIdentity r c = r\<lparr>gq_Headers := fold (\<lambda>(k, v). hdr_set k v) (identity_headers c) (gq_Headers r)\<rparr>"

definition equal_fold :: "string \<Rightarrow> string \<Rightarrow> bool" where
  "equal_fold a b \<longleftrightarrow> map to_lower a = map to_lower b"

definition bearerToken :: "GwReq \<Rightarrow> string option" where
  "bearerToken r =
     (let h = hdr_get (gq_Headers r) ''Authorization''; prefix = ''Bearer '' in
      if length h \<le> length prefix \<or> \<not> equal_fold (take (length prefix) h) prefix then None
      else let tok = trim_space (drop (length prefix) h) in if tok = '''' then None else Some tok)"

section \<open>Rate limiting\<close>

record Bucket =
  bk_Capacity :: int
  bk_Window :: int \<comment> \<open>nanoseconds\<close>

definition ratePerSecond :: "Bucket \<Rightarrow> rat" where
  "ratePerSecond b = (if bk_Window b \<le> 0 then of_int (bk_Capacity b) else of_int (bk_Capacity b) / (of_int (bk_Window b) / 10 ^ 9))"

text \<open>One hash of Redis: tokens, time of the last refill, time of expiry.\<close>

record bucket_state =
  bs_tokens :: rat
  bs_ts :: rat
  bs_expires :: rat

type_synonym redis = "string \<Rightarrow> bucket_state option"

definition read_bucket :: "rat \<Rightarrow> bucket_state option \<Rightarrow> (rat \<times> rat) option" where
  "read_bucket now e = (case e of None \<Rightarrow> None
     | Some b \<Rightarrow> if bs_expires b \<le> now then None else Some (bs_tokens b, bs_ts b))"

text \<open>The Lua script \<open>tokenBucket\<close> on one key: whether the request passes, the retry hint, the new hash.\<close>

definition tokenBucket :: "rat \<Rightarrow> rat \<Rightarrow> rat \<Rightarrow> rat \<Rightarrow> bucket_state option \<Rightarrow> bool \<times> int \<times> bucket_state" where
  "tokenBucket capacity rate now cost e =
     (let (tokens, ts) = (case read_bucket now e of None \<Rightarrow> (capacity, now) | Some x \<Rightarrow> x);
          delta = max 0 (now - ts);
          tokens = min capacity (tokens + delta * rate);
          allowed = (tokens \<ge> cost);
          retry = (if allowed then 0 else if rate > 0 then \<lceil>(cost - tokens) / rate\<rceil> else 1);
          tokens = (if allowed then tokens - cost else tokens);
          ttl = \<lceil>capacity / max rate (1 / 10000)\<rceil> + 1
      in (allowed, retry, \<lparr>bs_tokens = tokens, bs_ts = now, bs_expires = now + of_int ttl\<rparr>))"

record Limiter =
  lm_enabled :: bool
  lm_general :: Bucket
  lm_auth :: Bucket
  lm_trusted :: "string \<Rightarrow> bool"

text \<open>\<open>net.SplitHostPort\<close>: \<open>None\<close> is an error.\<close>

definition last_colon :: "string \<Rightarrow> nat option" where
  "last_colon s = (if CHR '':'' \<in> set s then Some (length s - 1 - length (takeWhile (\<lambda>c. c \<noteq> CHR '':'') (rev s))) else None)"

definition SplitHostPort :: "string \<Rightarrow> (string \<times> string) option" where
  "SplitHostPort hp = (case last_colon hp of
     None \<Rightarrow> None
   | Some i \<Rightarrow>
       let port = drop (Suc i) hp in
       if hp \<noteq> [] \<and> hd hp = CHR ''['' then
         (case dropWhile (\<lambda>c. c \<noteq> CHR '']'') hp of
            [] \<Rightarrow> None
          | rest \<Rightarrow>
              let e = length hp - length rest; host = take (e - 1) (tl hp) in
              if Suc e \<noteq> i then None
              else if CHR ''['' \<in> set (tl hp) \<or> CHR '']'' \<in> set (drop (Suc e) hp) then None
              else Some (host, port))
       else
         let host = take i hp in
         if CHR '':'' \<in> set host then None
         else if CHR ''['' \<in> set hp \<or> CHR '']'' \<in> set hp then None
         else Some (host, port))"

definition remoteHost :: "string \<Rightarrow> string" where
  "remoteHost remoteAddr = (case SplitHostPort remoteAddr of Some (host, port) \<Rightarrow> host | None \<Rightarrow> remoteAddr)"

definition gw_clientIP :: "Limiter \<Rightarrow> GwReq \<Rightarrow> string" where
  "gw_clientIP l r =
     (let peer = remoteHost (gq_RemoteAddr r); xff = hdr_get (gq_Headers r) ''X-Forwarded-For'' in
      if lm_trusted l peer \<and> xff \<noteq> '''' then trim_space (takeWhile (\<lambda>c. c \<noteq> CHR '','') xff) else peer)"

definition classify :: "Limiter \<Rightarrow> string option \<Rightarrow> GwReq \<Rightarrow> Bucket \<times> string" where
  "classify l uid r =
     (let bucket = (if has_prefix (gq_Path r) ''/v1/auth'' then lm_auth l else lm_general l) in
      case uid of Some u \<Rightarrow> (bucket, ''rl:user:'' @ u) | None \<Rightarrow> (bucket, ''rl:ip:'' @ gw_clientIP l r))"

definition allow :: "rat \<Rightarrow> string \<Rightarrow> Bucket \<Rightarrow> redis \<Rightarrow> bool \<times> int \<times> redis" where
  "allow now key b store =
     (let (ok, retry, e) = tokenBucket (of_int (bk_Capacity b)) (ratePerSecond b) now 1 (store key)
      in (ok, retry, store(key \<mapsto> e)))"

datatype gw_answer =
    Gw_Status int string
  | Gw_Limited int \<comment> \<open>429 with \<open>Retry-After\<close>\<close>
  | Gw_Forward string GwReq

text \<open>\<open>Limiter.Middleware\<close>; \<open>down\<close>: Redis does not answer, and the request passes.\<close>

definition rate_Middleware ::
  "Limiter \<Rightarrow> bool \<Rightarrow> rat \<Rightarrow> string option \<Rightarrow> GwReq \<Rightarrow> (redis \<Rightarrow> gw_answer \<times> redis) \<Rightarrow> redis \<Rightarrow> gw_answer \<times> redis" where
  "rate_Middleware l down now uid r next store =
     (if \<not> lm_enabled l then next store else
      let (bucket, key) = classify l uid r in
      if down then next store else
      let (ok, retry, store) = allow now key bucket store in
      if ok then next store else (Gw_Limited (max 1 retry), store))"

section \<open>Routing\<close>

definition publicRoutes :: "(string \<times> string) list" where
  "publicRoutes = [(''POST'', ''/v1/auth/register''), (''POST'', ''/v1/auth/login''), (''POST'', ''/v1/auth/refresh''),
     (''POST'', ''/v1/auth/logout''), (''GET'', ''/.well-known/jwks.json''), (''POST'', ''/v1/payments/webhook/stripe''),
     (''GET'', ''/healthz'')]"

definition isPublic :: "GwReq \<Rightarrow> bool" where
  "isPublic r \<longleftrightarrow> (gq_Method r, gq_Path r) \<in> set publicRoutes"

definition routingTable :: "(string \<times> string) list" where
  "routingTable = [(''/v1/auth'', ''auth''), (''/v1/users'', ''user''), (''/v1/projects'', ''project''),
     (''/v1/proposals'', ''proposal''), (''/v1/contracts'', ''contract''), (''/v1/tracking'', ''timetracking''),
     (''/v1/screenshots'', ''screenshot''), (''/v1/sessions'', ''screenshot''), (''/v1/payments'', ''payment''),
     (''/v1/escrow'', ''escrow''), (''/v1/reviews'', ''review''), (''/v1/messages'', ''messaging''),
     (''/v1/conversations'', ''messaging''), (''/v1/notifications'', ''notification''), (''/v1/search'', ''search''),
     (''/v1/admin'', ''admin''), (''/v1/fraud'', ''fraud''), (''/v1/analytics'', ''analytics'')]"

text \<open>\<open>config.Load\<close> sorts stably, longest prefix first; \<open>NewRouter\<close> puts the JWKS path in front.\<close>

definition upstreams :: "(string \<times> string) list" where
  "upstreams = (''/.well-known/jwks.json'', ''auth'') # rev (sort_key (\<lambda>u. length (fst u)) (rev routingTable))"

definition matchPrefix :: "string \<Rightarrow> string \<Rightarrow> bool" where
  "matchPrefix path prefix \<longleftrightarrow> path = prefix \<or> has_prefix path (prefix @ ''/'')"

fun match_upstream :: "(string \<times> string) list \<Rightarrow> string \<Rightarrow> string option" where
  "match_upstream [] path = None"
| "match_upstream ((prefix, name) # us) path = (if matchPrefix path prefix then Some name else match_upstream us path)"

text \<open>
  What \<open>httputil.ReverseProxy\<close> sends on: without the hop-by-hop headers, those the client lists in
  \<open>Connection\<close> included, and with its own \<open>X-Forwarded-For\<close> (next to it the proxy sets
  \<open>X-Forwarded-Host\<close> and \<open>-Proto\<close>, and keeps an upgrade, which no service here reads).
\<close>

definition hop_headers :: "string list" where
  "hop_headers = [''Connection'', ''Proxy-Connection'', ''Keep-Alive'', ''Proxy-Authenticate'', ''Proxy-Authorization'',
     ''Te'', ''Trailer'', ''Transfer-Encoding'', ''Upgrade'', ''Forwarded'', ''X-Forwarded-For'', ''X-Forwarded-Host'', ''X-Forwarded-Proto'']"

definition connection_names :: "headers \<Rightarrow> string list" where
  "connection_names hs = concat (map (\<lambda>(k, v). if k = ''Connection'' then map (canonical \<circ> trim_space) (split_on (CHR '','') v) else []) hs)"

definition forwarded :: "GwReq \<Rightarrow> GwReq" where
  "forwarded r = r\<lparr>gq_Headers := filter (\<lambda>h. fst h \<notin> set (connection_names (gq_Headers r) @ hop_headers)) (gq_Headers r) @
     (case SplitHostPort (gq_RemoteAddr r) of Some (host, port) \<Rightarrow> [(''X-Forwarded-For'', host)] | None \<Rightarrow> [])\<rparr>"

definition serve_router :: "GwReq \<Rightarrow> gw_answer" where
  "serve_router r = (case match_upstream upstreams (gq_Path r) of
     None \<Rightarrow> Gw_Status 404 ''NOT_FOUND''
   | Some name \<Rightarrow> Gw_Forward name (forwarded r))"

section \<open>The pipeline\<close>

definition auth_Middleware ::
  "(string \<Rightarrow> err + Claims) \<Rightarrow> GwReq \<Rightarrow> (string option \<Rightarrow> GwReq \<Rightarrow> redis \<Rightarrow> gw_answer \<times> redis) \<Rightarrow> redis \<Rightarrow> gw_answer \<times> redis" where
  "auth_Middleware verify r next store =
     (case bearerToken r of
        None \<Rightarrow> (Gw_Status 401 ''UNAUTHORIZED'', store)
      | Some raw \<Rightarrow>
          (case verify raw of
             Inl e \<Rightarrow> (Gw_Status 401 ''UNAUTHORIZED'', store)
           | Inr c \<Rightarrow> next (if cl_UserID c = '''' then None else Some (cl_UserID c)) (injectIdentity r c) store))"

definition proxyPipeline ::
  "(string \<Rightarrow> err + Claims) \<Rightarrow> Limiter \<Rightarrow> bool \<Rightarrow> bool \<Rightarrow> rat \<Rightarrow> GwReq \<Rightarrow> redis \<Rightarrow> gw_answer \<times> redis" where
  "proxyPipeline verify l down1 down2 now r =
     (let r = StripTrustedHeaders r in
      rate_Middleware l down1 now None r (\<lambda>store.
        if isPublic r then (serve_router r, store)
        else auth_Middleware verify r (\<lambda>uid r.
          rate_Middleware l down2 now uid r (\<lambda>store. (serve_router r, store))) store))"

text \<open>
  \<open>Handler\<close>: the server canonicalises the names, \<open>RequestID\<close> sets its header, health and metrics
  are answered by the gateway itself. (The multiplexer's redirect of paths with dots or double
  slashes comes before and forwards nothing.)
\<close>

definition Handler ::
  "(string \<Rightarrow> err + Claims) \<Rightarrow> Limiter \<Rightarrow> bool \<Rightarrow> bool \<Rightarrow> rat \<Rightarrow> string \<Rightarrow> GwReq \<Rightarrow> redis \<Rightarrow> gw_answer \<times> redis" where
  "Handler verify l down1 down2 now fresh r store =
     (let hs = canonical_headers (gq_Headers r); rid = hdr_get hs ''X-Request-Id'';
          r = r\<lparr>gq_Headers := hdr_set ''X-Request-Id'' (if rid = '''' then fresh else rid) hs\<rparr> in
      if gq_Path r = ''/healthz'' \<or> gq_Path r = ''/metrics'' then (Gw_Status 200 ''ok'', store)
      else proxyPipeline verify l down1 down2 now r store)"

end
