(* ===== verification/Gateway_Props.thy ===== *)
theory Gateway_Props
  imports Gateway
begin

text \<open>
  The gateway's promises: no identity header a client sends gets through, what gets through speaks
  for the verified token, a token bucket admits no more than its capacity and refill, and the routes
  do not depend on the order of the table.
\<close>

section \<open>Headers\<close>

lemma fold_hdr_del: "set (fold hdr_del ks hs) = {h \<in> set hs. fst h \<notin> set ks}"
  by (induction ks arbitrary: hs) (auto simp: hdr_del_def)

lemma set_hdr_set: "set (hdr_set k v hs) = {h \<in> set hs. fst h \<noteq> k} \<union> {(k, v)}"
  by (auto simp: hdr_set_def hdr_del_def)

lemma fold_hdr_set:
  assumes "\<forall>h \<in> set hs. fst h \<in> K \<longrightarrow> h \<in> set done"
  shows "\<forall>h \<in> set (fold (\<lambda>(k, v). hdr_set k v) kvs hs). fst h \<in> K \<longrightarrow> h \<in> set (done @ kvs)"
  using assms
proof (induction kvs arbitrary: hs "done")
  case (Cons kv kvs)
  obtain k v where kv: "kv = (k, v)" by fastforce
  have "\<forall>h \<in> set (hdr_set k v hs). fst h \<in> K \<longrightarrow> h \<in> set (done @ [kv])"
    using Cons.prems by (auto simp: set_hdr_set kv)
  from Cons.IH [OF this] show ?case by (simp add: kv)
qed simp

lemma strip_trusted: "h \<in> set (gq_Headers (StripTrustedHeaders r)) \<Longrightarrow> fst h \<notin> set trustedHeaders"
  by (simp add: StripTrustedHeaders_def fold_hdr_del)

lemma inject_trusted:
  assumes "h \<in> set (gq_Headers (injectIdentity (StripTrustedHeaders r) c))" "fst h \<in> set trustedHeaders"
  shows "h \<in> set (identity_headers c)"
proof -
  have "\<forall>h \<in> set (gq_Headers (StripTrustedHeaders r)). fst h \<in> set trustedHeaders \<longrightarrow> h \<in> set []"
    using strip_trusted by blast
  from fold_hdr_set [OF this, of "identity_headers c"] assms show ?thesis by (simp add: injectIdentity_def)
qed

lemma forwarded_trusted:
  "h \<in> set (gq_Headers (forwarded r)) \<Longrightarrow> fst h \<in> set trustedHeaders \<Longrightarrow> h \<in> set (gq_Headers r)"
  by (auto simp: forwarded_def trustedHeaders_def split: option.splits)

lemma rate_Middleware_forward:
  assumes "rate_Middleware l down now uid r next store = (Gw_Forward name r', store')"
  shows "\<exists>st. next st = (Gw_Forward name r', store')"
  using assms by (auto simp: rate_Middleware_def Let_def split: if_splits prod.splits)

lemma pipeline_forward:
  assumes "proxyPipeline verify l d1 d2 now r store = (Gw_Forward name r', store')"
  shows "(isPublic r \<and> serve_router (StripTrustedHeaders r) = Gw_Forward name r') \<or>
    (\<exists>raw c. bearerToken (StripTrustedHeaders r) = Some raw \<and> verify raw = Inr c \<and>
       serve_router (injectIdentity (StripTrustedHeaders r) c) = Gw_Forward name r')"
proof -
  let ?r = "StripTrustedHeaders r"
  have pub: "isPublic ?r = isPublic r" by (simp add: isPublic_def StripTrustedHeaders_def)
  from rate_Middleware_forward [OF assms [unfolded proxyPipeline_def Let_def]] obtain st where
    st: "(if isPublic ?r then (serve_router ?r, st)
        else auth_Middleware verify ?r (\<lambda>uid r. rate_Middleware l d2 now uid r (\<lambda>store. (serve_router r, store))) st)
      = (Gw_Forward name r', store')" by blast
  show ?thesis
  proof (cases "isPublic ?r")
    case True
    with st pub show ?thesis by simp
  next
    case False
    with st obtain raw c where t: "bearerToken ?r = Some raw" "verify raw = Inr c" and
      m: "rate_Middleware l d2 now (if cl_UserID c = '''' then None else Some (cl_UserID c)) (injectIdentity ?r c)
        (\<lambda>store. (serve_router (injectIdentity ?r c), store)) st = (Gw_Forward name r', store')"
      by (auto simp: auth_Middleware_def split: option.splits sum.splits)
    from rate_Middleware_forward [OF m] have "serve_router (injectIdentity ?r c) = Gw_Forward name r'" by blast
    with t show ?thesis by blast
  qed
qed

lemma serve_router_forward:
  "serve_router r = Gw_Forward name r' \<longleftrightarrow> match_upstream upstreams (gq_Path r) = Some name \<and> r' = forwarded r"
  by (auto simp: serve_router_def split: option.splits)


definition demo_limiter :: Limiter where
  "demo_limiter = \<lparr>lm_enabled = True, lm_general = \<lparr>bk_Capacity = 120, bk_Window = 60 * 10 ^ 9\<rparr>,
     lm_auth = \<lparr>bk_Capacity = 10, bk_Window = 60 * 10 ^ 9\<rparr>, lm_trusted = (\<lambda>_. False)\<rparr>"

definition demo_verify :: "string \<Rightarrow> err + Claims" where
  "demo_verify raw = (if raw = ''good'' then Inr \<lparr>cl_UserID = ''u1'', cl_SessionID = ''s1'', cl_Roles = [''client''],
     cl_Permissions = [], cl_ResidencyCountry = ''DE'', cl_AccountType = ''client''\<rparr> else Inl ErrTokenExpired)"

definition demo_forged :: GwReq where
  "demo_forged = \<lparr>gq_Method = ''GET'', gq_Path = ''/v1/escrow/e1'', gq_Headers = [(''authorization'', ''bearer good''),
     (''x-user-id'', ''victim''), (''X-USER-PERMISSIONS'', ''*'')], gq_RemoteAddr = ''10.0.0.1:5555''\<rparr>"


section \<open>The token bucket\<close>

text \<open>How many of a sequence of requests on one key pass.\<close>

fun passed :: "string \<Rightarrow> Bucket \<Rightarrow> rat list \<Rightarrow> redis \<Rightarrow> nat" where
  "passed key b [] store = 0"
| "passed key b (now # ts) store =
     (let (ok, retry, store') = allow now key b store in (if ok then 1 else 0) + passed key b ts store')"

text \<open>The tokens a request finds at a given time.\<close>

definition available :: "rat \<Rightarrow> rat \<Rightarrow> rat \<Rightarrow> bucket_state option \<Rightarrow> rat" where
  "available cap rate now e = (case read_bucket now e of None \<Rightarrow> cap
     | Some (tokens, ts) \<Rightarrow> min cap (tokens + max 0 (now - ts) * rate))"

lemma tokenBucket_available:
  assumes "0 \<le> rate"
  shows "tokenBucket cap rate now 1 e =
    (let a = available cap rate now e; ok = (a \<ge> 1) in
     (ok, if ok then 0 else if rate > 0 then \<lceil>(1 - a) / rate\<rceil> else 1,
      \<lparr>bs_tokens = (if ok then a - 1 else a), bs_ts = now, bs_expires = now + of_int (\<lceil>cap / max rate (1 / 10000)\<rceil> + 1)\<rparr>))"
  by (auto simp: tokenBucket_def available_def Let_def split: option.splits)

lemma available_next:
  assumes rate: "1 / 10000 \<le> rate" and x: "0 \<le> x" and t: "t \<le> t'" and cap: "0 \<le> cap"
  shows "available cap rate t' (Some \<lparr>bs_tokens = x, bs_ts = t, bs_expires = t + of_int (\<lceil>cap / max rate (1 / 10000)\<rceil> + 1)\<rparr>)
    \<le> x + (t' - t) * rate"
proof (cases "t + of_int (\<lceil>cap / max rate (1 / 10000)\<rceil> + 1) \<le> t'")
  case True
  have "cap / rate \<le> of_int \<lceil>cap / rate\<rceil>" by (rule le_of_int_ceiling)
  moreover have "max rate (1 / 10000) = rate" using rate by (rule max_absorb1)
  then have "of_int \<lceil>cap / rate\<rceil> + 1 \<le> t' - t" using True by simp
  ultimately have "cap / rate \<le> t' - t" by linarith
  then have "cap \<le> (t' - t) * rate" using rate by (simp add: pos_divide_le_eq)
  with True x show ?thesis by (simp add: available_def read_bucket_def)
next
  case False
  with t show ?thesis by (simp add: available_def read_bucket_def)
qed

lemma available_le: "available cap rate now e \<le> cap"
  by (auto simp: available_def split: option.splits)

lemma passed_bound:
  assumes "1 / 10000 \<le> ratePerSecond b" "0 \<le> bk_Capacity b" "sorted (t # ts)" "0 \<le> x"
    and "store key = Some \<lparr>bs_tokens = x, bs_ts = t,
      bs_expires = t + of_int (\<lceil>of_int (bk_Capacity b) / max (ratePerSecond b) (1 / 10000)\<rceil> + 1)\<rparr>"
  shows "of_nat (passed key b ts store) \<le> x + ratePerSecond b * (last (t # ts) - t)"
  using assms(3-5)
proof (induction ts arbitrary: t x store)
  case (Cons t' ts)
  let ?cap = "of_int (bk_Capacity b) :: rat" and ?rate = "ratePerSecond b"
  define a where "a = available ?cap ?rate t' (store key)"
  have nn: "0 \<le> ?rate" using assms(1) by (rule order_trans [rotated]) simp
  have a: "a \<le> x + (t' - t) * ?rate"
    unfolding a_def Cons.prems(3) using Cons.prems(1,2) assms(1,2) by (intro available_next) auto
  have a0: "0 \<le> a"
    using Cons.prems(1,2) assms(2) nn unfolding a_def Cons.prems(3) by (auto simp: available_def read_bucket_def)
  let ?y = "if a \<ge> 1 then a - 1 else a"
  let ?e = "\<lparr>bs_tokens = ?y, bs_ts = t', bs_expires = t' + of_int (\<lceil>?cap / max ?rate (1 / 10000)\<rceil> + 1)\<rparr>"
  have run: "\<exists>rt. allow t' key b store = (a \<ge> 1, rt, store(key \<mapsto> ?e))"
    by (simp add: allow_def tokenBucket_available [OF nn] a_def Let_def)
  have "of_nat (passed key b ts (store(key \<mapsto> ?e))) \<le> ?y + ?rate * (last (t' # ts) - t')"
    using Cons.prems(1) a0 by (intro Cons.IH) auto
  moreover have "(of_nat (passed key b (t' # ts) store) :: rat) =
      (if a \<ge> 1 then 1 else 0) + of_nat (passed key b ts (store(key \<mapsto> ?e)))"
    using run by auto
  ultimately have "of_nat (passed key b (t' # ts) store) \<le> a + ?rate * (last (t' # ts) - t')"
    by (simp del: passed.simps split: if_splits)
  also have "\<dots> \<le> x + (t' - t) * ?rate + ?rate * (last (t' # ts) - t')" using a by simp
  also have "\<dots> = x + ?rate * (last (t # t' # ts) - t)" by (simp add: algebra_simps)
  finally show ?case .
qed simp

text \<open>
  C19: a bucket admits its capacity and its refill, no more. Of any sequence of requests on a key
  that is new to Redis, in the order of time, at most the capacity plus the refill rate times the
  elapsed time pass, although idle buckets expire (for refill rates of at least one token in ten
  thousand seconds).
\<close>

theorem bucket_bound:
  assumes "1 / 10000 \<le> ratePerSecond b" "0 \<le> bk_Capacity b" "sorted (t # ts)" "store key = None"
  shows "of_nat (passed key b (t # ts) store) \<le> of_int (bk_Capacity b) + ratePerSecond b * (last (t # ts) - t)"
proof -
  let ?cap = "of_int (bk_Capacity b) :: rat" and ?rate = "ratePerSecond b"
  have nn: "0 \<le> ?rate" using assms(1) by (rule order_trans [rotated]) simp
  have a: "available ?cap ?rate t (store key) = ?cap" by (simp add: available_def read_bucket_def assms(4))
  let ?y = "if ?cap \<ge> 1 then ?cap - 1 else ?cap"
  let ?e = "\<lparr>bs_tokens = ?y, bs_ts = t, bs_expires = t + of_int (\<lceil>?cap / max ?rate (1 / 10000)\<rceil> + 1)\<rparr>"
  have run: "\<exists>rt. allow t key b store = (?cap \<ge> 1, rt, store(key \<mapsto> ?e))"
    by (simp add: allow_def tokenBucket_available [OF nn] a Let_def)
  have "of_nat (passed key b ts (store(key \<mapsto> ?e))) \<le> ?y + ?rate * (last (t # ts) - t)"
    using assms by (intro passed_bound) auto
  then show ?thesis using run by (auto split: if_splits)
qed

theorem bucket_bound_witness:
  "passed ''rl:ip:1'' \<lparr>bk_Capacity = 2, bk_Window = 60 * 10 ^ 9\<rparr> [0, 1, 2, 3] Map.empty \<le> 2"
proof -
  let ?b = "\<lparr>bk_Capacity = 2, bk_Window = 60 * 10 ^ 9\<rparr>"
  have "ratePerSecond ?b = 1 / 30" by code_simp
  with bucket_bound [of ?b 0 "[1, 2, 3]" Map.empty "''rl:ip:1''"]
  have "of_nat (passed ''rl:ip:1'' ?b [0, 1, 2, 3] Map.empty) \<le> (2 + 1 / 10 :: rat)" by simp
  then have "of_nat (passed ''rl:ip:1'' ?b [0, 1, 2, 3] Map.empty) < (3 :: rat)" by simp
  then show ?thesis by (metis of_nat_less_iff of_nat_numeral less_Suc_eq_le eval_nat_numeral(3) numeral_2_eq_2 numeral_3_eq_3)
qed

text \<open>
  The limit on the login endpoints is weaker than its bucket: both policies keep their state under
  the same key, so requests to other paths refill it at the general rate. From one address, 13
  requests to \<open>/v1/auth/login\<close> pass within 3 seconds, where the bucket of 10 per minute alone
  admits 10.
\<close>

fun limited_run :: "Limiter \<Rightarrow> (rat \<times> string) list \<Rightarrow> redis \<Rightarrow> bool list" where
  "limited_run l [] store = []"
| "limited_run l ((now, path) # rest) store =
     (let (a, store') = rate_Middleware l False now None
            \<lparr>gq_Method = ''POST'', gq_Path = path, gq_Headers = [], gq_RemoteAddr = ''10.0.0.1:5555''\<rparr>
            (\<lambda>st. (Gw_Status 200 ''ok'', st)) store
      in (case a of Gw_Limited n \<Rightarrow> False | _ \<Rightarrow> True) # limited_run l rest store')"

definition login_flood :: "(rat \<times> string) list" where
  "login_flood = replicate 10 (0, ''/v1/auth/login'') @
     concat (map (\<lambda>i. [(of_nat i, ''/v1/search''), (of_nat i, ''/v1/auth/login'')]) [1..<4])"

lemma auth_limit_refilled_by_general:
  "list_all (\<lambda>b. b) (limited_run demo_limiter login_flood Map.empty) \<and>
   length (filter (\<lambda>q. snd q = ''/v1/auth/login'') login_flood) = 13"
  by code_simp

section \<open>Routes\<close>

lemma matchPrefix_overlap:
  assumes "matchPrefix path p" "matchPrefix path q" "length p \<le> length q"
  shows "p = q \<or> has_prefix q (p @ ''/'')"
proof -
  have ext: "\<exists>r. path = x @ r \<and> (r = [] \<or> hd r = CHR ''/'')" if "matchPrefix path x" for x
  proof -
    from that have "path = x \<or> path = (x @ ''/'') @ drop (Suc (length x)) path"
      unfolding matchPrefix_def has_prefix_def by (metis append_take_drop_id length_append_singleton)
    then show ?thesis by (metis append.assoc append.right_neutral append_Cons list.sel(1))
  qed
  obtain r s where r: "path = p @ r" "r = [] \<or> hd r = CHR ''/''" and s: "path = q @ s"
    using ext [OF assms(1)] ext [OF assms(2)] by blast
  with assms(3) obtain u where u: "q = p @ u" "r = u @ s"
    by (metis append_eq_append_conv_if append_eq_conv_conj)
  show ?thesis
  proof (cases u)
    case Nil
    then show ?thesis using u by simp
  next
    case (Cons c cs)
    then have "c = CHR ''/''" using u r(2) by simp
    then show ?thesis using u Cons by (simp add: has_prefix_def)
  qed
qed

text \<open>No prefix of the table continues another one.\<close>

lemma table_independent:
  "list_all (\<lambda>u. list_all (\<lambda>v. \<not> has_prefix (fst u) (fst v @ ''/'') \<and> (fst u = fst v \<longrightarrow> snd u = snd v)) upstreams) upstreams"
  by code_simp

lemma match_upstream_Some: "match_upstream us path = Some n \<Longrightarrow> \<exists>p. (p, n) \<in> set us \<and> matchPrefix path p"
  by (induction us path rule: match_upstream.induct) (auto split: if_splits)

lemma match_upstream_None: "match_upstream us path = None \<longleftrightarrow> (\<forall>(p, n) \<in> set us. \<not> matchPrefix path p)"
  by (induction us path rule: match_upstream.induct) auto

text \<open>
  The order of the table does not matter: a path goes to a service exactly when some entry for that
  service matches it.
\<close>

lemma routing_by_table:
  "match_upstream upstreams path = Some n \<longleftrightarrow> (\<exists>p. (p, n) \<in> set upstreams \<and> matchPrefix path p)"
proof
  assume "\<exists>p. (p, n) \<in> set upstreams \<and> matchPrefix path p"
  then obtain p where p: "(p, n) \<in> set upstreams" "matchPrefix path p" by blast
  then obtain m where m: "match_upstream upstreams path = Some m" using match_upstream_None by fastforce
  then obtain q where q: "(q, m) \<in> set upstreams" "matchPrefix path q" using match_upstream_Some by blast
  have "p = q \<or> has_prefix q (p @ ''/'') \<or> has_prefix p (q @ ''/'')"
    using matchPrefix_overlap p(2) q(2) by (metis nat_le_linear)
  moreover have "\<not> has_prefix (fst u) (fst v @ ''/'') \<and> (fst u = fst v \<longrightarrow> snd u = snd v)"
    if "u \<in> set upstreams" "v \<in> set upstreams" for u v
    using table_independent that unfolding list_all_iff by blast
  from this [OF p(1) q(1)] this [OF q(1) p(1)] have "\<not> has_prefix p (q @ ''/'')" "\<not> has_prefix q (p @ ''/'')" "p = q \<longrightarrow> n = m"
    by simp_all
  ultimately have "n = m" by blast
  with m show "match_upstream upstreams path = Some n" by simp
qed (rule match_upstream_Some)

text \<open>
  The webhook the payment service serves is not the public one: \<open>/v1/payments/webhooks/stripe\<close> needs
  a token, and the public route \<open>/v1/payments/webhook/stripe\<close> goes to a path it does not serve.
\<close>

lemma stripe_webhook_not_public:
  "\<not> isPublic \<lparr>gq_Method = ''POST'', gq_Path = ''/v1/payments/webhooks/stripe'', gq_Headers = [], gq_RemoteAddr = ''''\<rparr> \<and>
   isPublic \<lparr>gq_Method = ''POST'', gq_Path = ''/v1/payments/webhook/stripe'', gq_Headers = [], gq_RemoteAddr = ''''\<rparr>"
  by code_simp

end
