(* ===== verification/Project.thy ===== *)
theory Project
  imports Outbox Rbac Go_Text
begin

text \<open>
  \<open>services/project\<close>: the store's statements with the constraints of migration 000004, the service
  (budget rules, the draft, published, closed machine, attachments) and the HTTP handlers. The
  full-text match of PostgreSQL is an argument of the listing.
\<close>

section \<open>Rows and inputs\<close>

text \<open>The enum types \<open>project_status\<close>, \<open>budget_type\<close> and \<open>experience_level\<close>.\<close>

definition project_statuses :: "string list" where
  "project_statuses = [''draft'', ''published'', ''in_progress'', ''closed'', ''archived'', ''flagged'']"

definition validBudgetTypes :: "string \<Rightarrow> bool" where
  "validBudgetTypes b \<longleftrightarrow> b \<in> {''fixed'', ''hourly''}"

definition validExperience :: "string \<Rightarrow> bool" where
  "validExperience e \<longleftrightarrow> e \<in> {''entry'', ''intermediate'', ''expert''}"

record CreateProjectInput =
  cp_ClientID :: string
  cp_Title :: string
  cp_Description :: string
  cp_BudgetType :: string
  cp_BudgetMinCents :: "int option"
  cp_BudgetMaxCents :: "int option"
  cp_Currency :: string
  cp_WeeklyHourLimit :: "int option"
  cp_ExperienceRequired :: "string option"
  cp_EstimatedDurationDs :: "int option"
  cp_CategoryID :: "string option"
  cp_SkillIDs :: "string list"

section \<open>Store\<close>

definition find_project :: "string \<Rightarrow> market_db \<Rightarrow> Project option" where
  "find_project i d = select_one (\<lambda>p. prj_ID p = i) (projects d)"

definition live_project :: "string \<Rightarrow> market_db \<Rightarrow> Project option" where
  "live_project i d = select_one (\<lambda>p. prj_ID p = i \<and> prj_deleted_at p = None) (projects d)"

text \<open>The constraint \<open>budget_range\<close>.\<close>

definition budget_range :: "int option \<Rightarrow> int option \<Rightarrow> bool" where
  "budget_range lo hi = (case (lo, hi) of (Some l, Some h) \<Rightarrow> l \<le> h | _ \<Rightarrow> True)"

definition new_project :: "CreateProjectInput \<Rightarrow> string \<Rightarrow> int \<Rightarrow> string \<Rightarrow> Project" where
  "new_project i uid now cur =
     \<lparr>prj_ID = uid, prj_ClientID = cp_ClientID i, prj_CategoryID = cp_CategoryID i, prj_Title = cp_Title i,
      prj_Description = cp_Description i, prj_BudgetType = cp_BudgetType i,
      prj_BudgetMinCents = cp_BudgetMinCents i, prj_BudgetMaxCents = cp_BudgetMaxCents i, prj_Currency = cur,
      prj_WeeklyHourLimit = cp_WeeklyHourLimit i, prj_ExperienceRequired = cp_ExperienceRequired i,
      prj_EstimatedDurationDs = cp_EstimatedDurationDs i, prj_Status = ''draft'', prj_Visibility = ''public'',
      prj_ProposalsCount = 0, prj_HiredCount = 0, prj_PublishedAt = None, prj_ClosedAt = None,
      prj_CreatedAt = now, prj_UpdatedAt = now, prj_deleted_at = None\<rparr>"

definition insert_project :: "CreateProjectInput \<Rightarrow> (market_db, Project) io" where
  "insert_project i = tx_stmt (\<lambda>now uid d.
     if \<not> (opt_all is_int32 (cp_WeeklyHourLimit i) \<and> opt_all is_int32 (cp_EstimatedDurationDs i)) then Inl NumericOutOfRange
     else if \<not> (validBudgetTypes (cp_BudgetType i) \<and> opt_all validExperience (cp_ExperienceRequired i)) then Inl InvalidEnum
     else (case char3 (cp_Currency i) of None \<Rightarrow> Inl CheckViolation | Some cur \<Rightarrow>
       if \<not> budget_range (cp_BudgetMinCents i) (cp_BudgetMaxCents i) then Inl CheckViolation
       else if uid \<in> prj_ID ` set (projects d) then Inl UniqueViolation
       else if (''users'', cp_ClientID i) \<notin> set (mkt_other_keys d) \<or>
         \<not> opt_all (\<lambda>c. (''project_categories'', c) \<in> set (mkt_other_keys d)) (cp_CategoryID i) then Inl ForeignKeyViolation
       else Inr (new_project i uid now cur, d\<lparr>projects := projects d @ [new_project i uid now cur]\<rparr>)))"

definition insert_skill :: "string \<Rightarrow> string \<Rightarrow> (market_db, unit) io" where
  "insert_skill pid sid = tx_stmt (\<lambda>now uid d.
     if (pid, sid) \<in> set (project_skills d) then Inr ((), d)
     else if (''skills'', sid) \<notin> set (mkt_other_keys d) \<or> pid \<notin> prj_ID ` set (projects d) then Inl ForeignKeyViolation
     else Inr ((), d\<lparr>project_skills := project_skills d @ [(pid, sid)]\<rparr>))"

fun insert_skills :: "string \<Rightarrow> string list \<Rightarrow> (market_db, unit) io" where
  "insert_skills pid [] = ret ()"
| "insert_skills pid (sid # rest) = bindE (insert_skill pid sid) (\<lambda>_. insert_skills pid rest)"

definition store_CreateProject :: "CreateProjectInput \<Rightarrow> (market_db, Project) io" where
  "store_CreateProject i =
     bindE (insert_project i) (\<lambda>p. bindE (insert_skills (prj_ID p) (cp_SkillIDs i)) (\<lambda>_. ret p))"

definition store_GetProject :: "string \<Rightarrow> (market_db, Project) io" where
  "store_GetProject i = scan_row (pool_query (live_project i))"

definition GetProjectForUpdate :: "string \<Rightarrow> (market_db, Project) io" where
  "GetProjectForUpdate i = scan_row (tx_stmt (\<lambda>now uid d. Inr (live_project i d, d)))"

definition publish_row :: "int \<Rightarrow> Project \<Rightarrow> Project" where
  "publish_row now p = p\<lparr>prj_Status := ''published'', prj_PublishedAt := Some now, prj_UpdatedAt := now\<rparr>"

definition SetStatusPublished :: "string \<Rightarrow> (market_db, unit) io" where
  "SetStatusPublished i = tx_stmt (\<lambda>now uid d.
     Inr ((), d\<lparr>projects := update_where (\<lambda>p. prj_ID p = i) (publish_row now) (projects d)\<rparr>))"

definition close_project_row :: "int \<Rightarrow> Project \<Rightarrow> Project" where
  "close_project_row now p = p\<lparr>prj_Status := ''closed'', prj_ClosedAt := Some now, prj_UpdatedAt := now\<rparr>"

definition SetStatusClosed :: "string \<Rightarrow> (market_db, unit) io" where
  "SetStatusClosed i = tx_stmt (\<lambda>now uid d.
     Inr ((), d\<lparr>projects := update_where (\<lambda>p. prj_ID p = i) (close_project_row now) (projects d)\<rparr>))"

record ListFilter =
  lf_Status :: string
  lf_CategoryID :: string
  lf_Search :: string
  lf_Limit :: int
  lf_Offset :: int

definition list_limit :: "int \<Rightarrow> int" where
  "list_limit l = (if l \<le> 0 \<or> l > 100 then 20 else l)"

definition list_status :: "string \<Rightarrow> string" where
  "list_status st = (if st = '''' then ''published'' else st)"

text \<open>\<open>ORDER BY published_at DESC NULLS LAST\<close>; equal times keep their insertion order.\<close>

definition by_published :: "Project list \<Rightarrow> Project list" where
  "by_published ps = sort_key (\<lambda>p. - the (prj_PublishedAt p)) (filter (\<lambda>p. prj_PublishedAt p \<noteq> None) ps)
     @ filter (\<lambda>p. prj_PublishedAt p = None) ps"

text \<open>The \<open>WHERE\<close> clause built from the filter; \<open>matches\<close> is \<open>search_tsv @@ plainto_tsquery(...)\<close>.\<close>

definition list_where :: "(string \<Rightarrow> Project \<Rightarrow> bool) \<Rightarrow> ListFilter \<Rightarrow> Project \<Rightarrow> bool" where
  "list_where matches f p \<longleftrightarrow> prj_deleted_at p = None \<and> prj_Status p = list_status (lf_Status f) \<and>
     (lf_CategoryID f = '''' \<or> prj_CategoryID p = Some (lf_CategoryID f)) \<and>
     (lf_Search f = '''' \<or> matches (lf_Search f) p)"

definition store_ListProjects :: "(string \<Rightarrow> Project \<Rightarrow> bool) \<Rightarrow> ListFilter \<Rightarrow> (market_db, Project list) io" where
  "store_ListProjects matches f =
     (if list_status (lf_Status f) \<notin> set project_statuses then throw InvalidEnum
      else if lf_Offset f < 0 then throw InvalidRowCount
      else pool_query (\<lambda>d. take (nat (list_limit (lf_Limit f))) (drop (nat (lf_Offset f))
        (by_published (filter (list_where matches f) (projects d))))))"

definition store_AddAttachment ::
  "string \<Rightarrow> string \<Rightarrow> string \<Rightarrow> int \<Rightarrow> string \<Rightarrow> (market_db, Attachment) io" where
  "store_AddAttachment projectID s3Key filename sizeBytes contentType = pool_exec (\<lambda>now uid d.
     if uid \<in> att_ID ` set (project_attachments d) then Inl UniqueViolation
     else if projectID \<notin> prj_ID ` set (projects d) then Inl ForeignKeyViolation
     else let a = \<lparr>att_ID = uid, att_ProjectID = projectID, att_S3Key = s3Key, att_Filename = filename,
                   att_SizeBytes = sizeBytes, att_ContentType = contentType, att_CreatedAt = now\<rparr>
          in Inr (a, d\<lparr>project_attachments := project_attachments d @ [a]\<rparr>))"

text \<open>
  The positional-parameter formatter. The digits go into a buffer of twelve bytes from the right;
  \<open>None\<close> is the index panic of a longer number.
\<close>

fun itoa_loop :: "nat \<Rightarrow> nat \<Rightarrow> string \<Rightarrow> string option" where
  "itoa_loop i n b =
     (if n > 0 then (case i of 0 \<Rightarrow> None | Suc j \<Rightarrow> itoa_loop j (n div 10) (char_of (48 + n mod 10) # b))
      else Some b)"

definition itoa :: "nat \<Rightarrow> string option" where
  "itoa n = (if n = 0 then Some ''0'' else itoa_loop 12 n [])"

section \<open>Service\<close>

definition validateBudget :: "CreateProjectInput \<Rightarrow> err option" where
  "validateBudget i =
     (if cp_BudgetType i = ''fixed'' then
        if cp_BudgetMinCents i = None \<or> the (cp_BudgetMinCents i) \<le> 0 then Some ErrInvalidBudget
        else if cp_BudgetMaxCents i \<noteq> None \<and> the (cp_BudgetMaxCents i) < the (cp_BudgetMinCents i) then Some ErrInvalidBudget
        else None
      else if cp_BudgetType i = ''hourly'' then
        if cp_BudgetMinCents i = None \<or> the (cp_BudgetMinCents i) \<le> 0 then Some ErrInvalidBudget
        else if cp_BudgetMaxCents i \<noteq> None \<and> the (cp_BudgetMaxCents i) < the (cp_BudgetMinCents i) then Some ErrInvalidBudget
        else if cp_WeeklyHourLimit i = None \<or> the (cp_WeeklyHourLimit i) \<le> 0 then Some ErrInvalidBudget
        else None
      else Some ErrInvalidBudget)"

definition CreateProject :: "CreateProjectInput \<Rightarrow> (market_db, Project) io" where
  "CreateProject i =
     (if cp_ClientID i = '''' \<or> cp_Title i = '''' then throw ErrValidation
      else if \<not> validBudgetTypes (cp_BudgetType i) then throw ErrValidation
      else if cp_ExperienceRequired i \<noteq> None \<and> \<not> validExperience (the (cp_ExperienceRequired i)) then throw ErrValidation
      else
      bindE (check (validateBudget i)) (\<lambda>_.
      let i' = (if cp_Currency i = '''' then i\<lparr>cp_Currency := ''USD''\<rparr> else i) in
      bindE begin_tx (\<lambda>_.
      bindE (store_CreateProject i') (\<lambda>p.
      bindE commit_tx (\<lambda>_. ret p)))))"

definition GetProject :: "string \<Rightarrow> (market_db, Project) io" where
  "GetProject i = store_GetProject i"

definition ListProjects :: "(string \<Rightarrow> Project \<Rightarrow> bool) \<Rightarrow> ListFilter \<Rightarrow> (market_db, Project list) io" where
  "ListProjects matches f = store_ListProjects matches f"

definition published_event :: "string \<Rightarrow> string \<Rightarrow> Project \<Rightarrow> Event" where
  "published_event i clientID p =
     \<lparr>ev_AggregateType = ''project'', ev_AggregateID = i, ev_EventType = ''project.published'',
      ev_Topic = ''project.events'', ev_PartitionKey = i,
      ev_Payload = JObj [(''project_id'', JStr i), (''client_id'', JStr clientID),
        (''budget_type'', JStr (prj_BudgetType p)), (''title'', JStr (prj_Title p))], ev_Headers = []\<rparr>"

definition PublishProject :: "string \<Rightarrow> string \<Rightarrow> (market_db, Project) io" where
  "PublishProject i clientID =
     bindE begin_tx (\<lambda>_.
     bindE (GetProjectForUpdate i) (\<lambda>p.
     if prj_ClientID p \<noteq> clientID then throw ErrForbidden
     else if prj_Status p \<noteq> ''draft'' then throw ErrInvalidState else
     bindE (SetStatusPublished i) (\<lambda>_.
     bindE (Enqueue (published_event i clientID p)) (\<lambda>_.
     bindE commit_tx (\<lambda>_. ret (p\<lparr>prj_Status := ''published''\<rparr>))))))"

definition closed_event :: "string \<Rightarrow> string \<Rightarrow> Project \<Rightarrow> Event" where
  "closed_event i clientID p =
     \<lparr>ev_AggregateType = ''project'', ev_AggregateID = i, ev_EventType = ''project.closed'',
      ev_Topic = ''project.events'', ev_PartitionKey = i,
      ev_Payload = JObj [(''project_id'', JStr i), (''client_id'', JStr clientID), (''title'', JStr (prj_Title p))],
      ev_Headers = []\<rparr>"

definition CloseProject :: "string \<Rightarrow> string \<Rightarrow> (market_db, Project) io" where
  "CloseProject i clientID =
     bindE begin_tx (\<lambda>_.
     bindE (GetProjectForUpdate i) (\<lambda>p.
     if prj_ClientID p \<noteq> clientID then throw ErrForbidden
     else if prj_Status p = ''closed'' \<or> prj_Status p = ''archived'' then throw ErrInvalidState else
     bindE (SetStatusClosed i) (\<lambda>_.
     bindE (Enqueue (closed_event i clientID p)) (\<lambda>_.
     bindE commit_tx (\<lambda>_. ret (p\<lparr>prj_Status := ''closed''\<rparr>))))))"

definition AddAttachment ::
  "string \<Rightarrow> string \<Rightarrow> string \<Rightarrow> string \<Rightarrow> int \<Rightarrow> string \<Rightarrow> (market_db, Attachment) io" where
  "AddAttachment projectID clientID s3Key filename sizeBytes contentType =
     (if projectID = '''' \<or> s3Key = '''' then throw ErrValidation else
      bindE (store_GetProject projectID) (\<lambda>p.
      if prj_ClientID p \<noteq> clientID then throw ErrForbidden
      else store_AddAttachment projectID s3Key filename sizeBytes contentType))"

section \<open>Handlers\<close>

text \<open>\<open>principal(r)\<close> from the three identity headers.\<close>

definition principal :: "string \<Rightarrow> string \<Rightarrow> string \<Rightarrow> Principal" where
  "principal user_id raw_roles account_type =
     \<lparr>pr_UserID = user_id,
      pr_Roles = header_list raw_roles,
      pr_Permissions = [], pr_AccountType = account_type\<rparr>"

definition mapError :: "err \<Rightarrow> response" where
  "mapError e =
     (if e = ErrNotFound then Problem 404 ''NOT_FOUND''
      else if e = ErrInvalidBudget then Problem 400 ''INVALID_BUDGET''
      else if e = ErrValidation then Problem 400 ''VALIDATION_FAILED''
      else if e = ErrInvalidState then Problem 409 ''INVALID_STATE''
      else if e = ErrForbidden then Problem 403 ''FORBIDDEN''
      else Problem 500 ''INTERNAL'')"

definition projectJSON :: "Project \<Rightarrow> json" where
  "projectJSON p = JObj ([(''id'', JStr (prj_ID p)), (''client_id'', JStr (prj_ClientID p)),
     (''category_id'', opt_json JStr (prj_CategoryID p)), (''title'', JStr (prj_Title p)),
     (''description'', JStr (prj_Description p)), (''budget_type'', JStr (prj_BudgetType p)),
     (''budget_min_cents'', opt_json JInt (prj_BudgetMinCents p)),
     (''budget_max_cents'', opt_json JInt (prj_BudgetMaxCents p)), (''currency'', JStr (prj_Currency p)),
     (''weekly_hour_limit'', opt_json JInt (prj_WeeklyHourLimit p)),
     (''experience_required'', opt_json JStr (prj_ExperienceRequired p)),
     (''estimated_duration_days'', opt_json JInt (prj_EstimatedDurationDs p)),
     (''status'', JStr (prj_Status p)), (''visibility'', JStr (prj_Visibility p)),
     (''proposals_count'', JInt (prj_ProposalsCount p)), (''hired_count'', JInt (prj_HiredCount p)),
     (''created_at'', JInt (prj_CreatedAt p)), (''updated_at'', JInt (prj_UpdatedAt p))]
     @ (case prj_PublishedAt p of None \<Rightarrow> [] | Some t \<Rightarrow> [(''published_at'', JInt t)])
     @ (case prj_ClosedAt p of None \<Rightarrow> [] | Some t \<Rightarrow> [(''closed_at'', JInt t)]))"

text \<open>The body of a create request is a \<open>CreateProjectInput\<close> without its client.\<close>

definition createProject :: "Principal \<Rightarrow> CreateProjectInput option \<Rightarrow> (market_db, response) io" where
  "createProject p body =
     (if pr_UserID p = '''' then ret (Problem 401 ''UNAUTHORIZED'')
      else if pr_AccountType p \<noteq> ''client'' then ret (Problem 403 ''FORBIDDEN'')
      else guarded (ret (decode body)) (\<lambda>req.
        handle mapError (CreateProject (req\<lparr>cp_ClientID := pr_UserID p\<rparr>)) (\<lambda>proj. Reply 201 (projectJSON proj))))"

definition listProjects ::
  "(string \<Rightarrow> Project \<Rightarrow> bool) \<Rightarrow> string \<Rightarrow> string \<Rightarrow> string \<Rightarrow> string \<Rightarrow> string \<Rightarrow> (market_db, response) io" where
  "listProjects matches status category q limit offset =
     handle mapError
       (ListProjects matches \<lparr>lf_Status = status, lf_CategoryID = category, lf_Search = q,
          lf_Limit = Atoi_value limit, lf_Offset = Atoi_value offset\<rparr>)
       (\<lambda>ps. Reply 200 (JObj [(''projects'', JArr (map projectJSON ps))]))"

definition getProject :: "string \<Rightarrow> (market_db, response) io" where
  "getProject i = handle mapError (GetProject i) (\<lambda>p. Reply 200 (projectJSON p))"

definition publishProject :: "Principal \<Rightarrow> string \<Rightarrow> (market_db, response) io" where
  "publishProject p i =
     (if pr_UserID p = '''' then ret (Problem 401 ''UNAUTHORIZED'')
      else handle mapError (PublishProject i (pr_UserID p)) (\<lambda>proj. Reply 200 (projectJSON proj)))"

definition closeProject :: "Principal \<Rightarrow> string \<Rightarrow> (market_db, response) io" where
  "closeProject p i =
     (if pr_UserID p = '''' then ret (Problem 401 ''UNAUTHORIZED'')
      else handle mapError (CloseProject i (pr_UserID p)) (\<lambda>proj. Reply 200 (projectJSON proj)))"

record attachmentReq =
  ar_S3Key :: string
  ar_Filename :: string
  ar_SizeBytes :: int
  ar_ContentType :: string

definition attachmentJSON :: "Attachment \<Rightarrow> json" where
  "attachmentJSON a = JObj [(''id'', JStr (att_ID a)), (''project_id'', JStr (att_ProjectID a)), (''s3_key'', JStr (att_S3Key a)),
     (''filename'', JStr (att_Filename a)), (''size_bytes'', JInt (att_SizeBytes a)),
     (''content_type'', JStr (att_ContentType a)), (''created_at'', JInt (att_CreatedAt a))]"

definition addAttachment :: "Principal \<Rightarrow> string \<Rightarrow> attachmentReq option \<Rightarrow> (market_db, response) io" where
  "addAttachment p i body =
     (if pr_UserID p = '''' then ret (Problem 401 ''UNAUTHORIZED'')
      else guarded (ret (decode body)) (\<lambda>req.
        handle mapError
          (AddAttachment i (pr_UserID p) (ar_S3Key req) (ar_Filename req) (ar_SizeBytes req) (ar_ContentType req))
          (\<lambda>a. Reply 201 (attachmentJSON a))))"

section \<open>Framing\<close>

lemma keeps_insert_skills [io_keeps]: "keeps (insert_skill pid sid)" "keeps (insert_skills pid sids)"
proof -
  show k: "keeps (insert_skill pid sid)" for sid unfolding insert_skill_def by (intro io_keeps)
  show "keeps (insert_skills pid sids)" by (induction sids) (auto intro!: io_keeps k)
qed

lemma keeps_project_store [io_keeps]:
  "keeps (insert_project i)" "keeps (store_CreateProject i)" "keeps (store_GetProject j)" "keeps (GetProjectForUpdate j)"
  "keeps (SetStatusPublished j)" "keeps (SetStatusClosed j)" "keeps (store_ListProjects m f)"
  unfolding insert_project_def store_CreateProject_def store_GetProject_def GetProjectForUpdate_def
    SetStatusPublished_def SetStatusClosed_def store_ListProjects_def
  by (intro io_keeps)+

lemma atomic_project:
  "atomic (CreateProject i)" "atomic (PublishProject j c)" "atomic (CloseProject j c)"
  "atomic (AddAttachment j c k f n t)"
  unfolding CreateProject_def PublishProject_def CloseProject_def AddAttachment_def store_AddAttachment_def Let_def
  by (auto intro!: io_atomic io_keeps)

text \<open>The formatter agrees with \<open>strconv.Itoa\<close> for every number of at most twelve digits.\<close>

lemma itoa_loop_show:
  "0 < n \<Longrightarrow> n < 10 ^ i \<Longrightarrow> itoa_loop i n b = Some (show_nat n @ b)"
proof (induction i arbitrary: n b)
  case (Suc i)
  show ?case
  proof (cases "n < 10")
    case True
    with Suc.prems show ?thesis by (cases i) (auto simp: show_nat.simps [of n])
  next
    case False
    with Suc.prems have "0 < n div 10" "n div 10 < 10 ^ i" by auto
    from Suc.IH [OF this] False Suc.prems show ?thesis by (simp add: show_nat.simps [of n])
  qed
qed simp

lemma itoa_show: "n < 10 ^ 12 \<Longrightarrow> itoa n = Some (show_nat n)"
  by (auto simp: itoa_def itoa_loop_show show_nat.simps [of 0] char_of_def bit_simps simp del: itoa_loop.simps)

end
