(* ===== verification/Proposal.thy ===== *)
theory Proposal
  imports Project
begin

text \<open>
  \<open>services/proposal\<close>: the store's statements with the constraints of migration 000004, the service
  (submission with one proposal per freelancer and project, withdrawal, shortlisting, the guarded
  lists and the internal view the contract service builds a contract from) and the HTTP handlers.
\<close>

section \<open>Store\<close>

definition find_proposal :: "string \<Rightarrow> market_db \<Rightarrow> Proposal option" where
  "find_proposal i d = select_one (\<lambda>p. prp_ID p = i) (proposals d)"

definition proposal_key :: "Proposal \<Rightarrow> string \<times> string" where
  "proposal_key p = (prp_ProjectID p, prp_FreelancerID p)"

text \<open>The row an insert makes of its argument: the identifier, the padded currency and the defaults.\<close>

definition new_proposal :: "Proposal \<Rightarrow> string \<Rightarrow> int \<Rightarrow> string \<Rightarrow> Proposal" where
  "new_proposal p uid now cur = p\<lparr>prp_ID := uid, prp_Currency := cur, prp_Status := ''submitted'',
     prp_submitted_at := now, prp_withdrawn_at := None\<rparr>"

definition InsertProposal :: "Proposal \<Rightarrow> (market_db, string) io" where
  "InsertProposal p = tx_stmt (\<lambda>now uid d.
     if \<not> (opt_all is_int32 (prp_EstimatedDurationDays p) \<and> is_int32 (prp_ConnectsSpent p)) then Inl NumericOutOfRange
     else (case char3 (prp_Currency p) of None \<Rightarrow> Inl CheckViolation | Some cur \<Rightarrow>
       if uid \<in> prp_ID ` set (proposals d) \<or> proposal_key p \<in> proposal_key ` set (proposals d) then Inl UniqueViolation
       else if prp_ProjectID p \<notin> prj_ID ` set (projects d) \<or> (''users'', prp_FreelancerID p) \<notin> set (mkt_other_keys d)
       then Inl ForeignKeyViolation
       else Inr (uid, d\<lparr>proposals := proposals d @ [new_proposal p uid now cur]\<rparr>)))"

definition InsertMilestone :: "string \<Rightarrow> ProposalMilestone \<Rightarrow> (market_db, unit) io" where
  "InsertMilestone proposalID m = tx_stmt (\<lambda>now uid d.
     if \<not> (is_int32 (pm_Seq m) \<and> opt_all is_int32 (pm_DueDays m)) then Inl NumericOutOfRange
     else if uid \<in> pm_ID ` set (proposal_milestones d) \<or>
       (\<exists>x \<in> set (proposal_milestones d). pm_ProposalID x = proposalID \<and> pm_Seq x = pm_Seq m) then Inl UniqueViolation
     else if proposalID \<notin> prp_ID ` set (proposals d) then Inl ForeignKeyViolation
     else Inr ((), d\<lparr>proposal_milestones := proposal_milestones d @ [m\<lparr>pm_ID := uid, pm_ProposalID := proposalID\<rparr>]\<rparr>))"

definition InsertAnswer :: "string \<Rightarrow> ProposalAnswer \<Rightarrow> (market_db, unit) io" where
  "InsertAnswer proposalID a = tx_stmt (\<lambda>now uid d.
     if uid \<in> pa_ID ` set (proposal_answers d) then Inl UniqueViolation
     else if proposalID \<notin> prp_ID ` set (proposals d) then Inl ForeignKeyViolation
     else Inr ((), d\<lparr>proposal_answers := proposal_answers d @ [a\<lparr>pa_ID := uid, pa_ProposalID := proposalID\<rparr>]\<rparr>))"

definition can_withdraw :: "string \<Rightarrow> string \<Rightarrow> Proposal \<Rightarrow> bool" where
  "can_withdraw i freelancerID p \<longleftrightarrow> prp_ID p = i \<and> prp_FreelancerID p = freelancerID \<and>
     prp_Status p \<in> {''submitted'', ''shortlisted''}"

definition withdraw_row :: "int \<Rightarrow> Proposal \<Rightarrow> Proposal" where
  "withdraw_row now p = p\<lparr>prp_Status := ''withdrawn'', prp_withdrawn_at := Some now\<rparr>"

definition store_WithdrawProposal :: "string \<Rightarrow> string \<Rightarrow> (market_db, bool) io" where
  "store_WithdrawProposal i freelancerID = tx_stmt (\<lambda>now uid d.
     Inr (length (filter (can_withdraw i freelancerID) (proposals d)) = 1,
       d\<lparr>proposals := update_where (can_withdraw i freelancerID) (withdraw_row now) (proposals d)\<rparr>))"

definition can_shortlist :: "string \<Rightarrow> Proposal \<Rightarrow> bool" where
  "can_shortlist i p \<longleftrightarrow> prp_ID p = i \<and> prp_Status p = ''submitted''"

definition shortlist_row :: "Proposal \<Rightarrow> Proposal" where
  "shortlist_row p = p\<lparr>prp_Status := ''shortlisted''\<rparr>"

definition store_ShortlistProposal :: "string \<Rightarrow> (market_db, bool) io" where
  "store_ShortlistProposal i = tx_stmt (\<lambda>now uid d.
     Inr (length (filter (can_shortlist i) (proposals d)) = 1,
       d\<lparr>proposals := update_where (can_shortlist i) shortlist_row (proposals d)\<rparr>))"

text \<open>The join of a proposal with its project; a deleted project still counts.\<close>

definition project_client_of :: "string \<Rightarrow> market_db \<Rightarrow> string option" where
  "project_client_of i d = Option.bind (find_proposal i d)
     (\<lambda>p. map_option prj_ClientID (find_project (prp_ProjectID p) d))"

definition ProjectClientOfProposal :: "string \<Rightarrow> (market_db, string) io" where
  "ProjectClientOfProposal proposalID = scan_row (pool_query (project_client_of proposalID))"

definition ProjectClientOf :: "string \<Rightarrow> (market_db, string) io" where
  "ProjectClientOf projectID = scan_row (pool_query (\<lambda>d. map_option prj_ClientID (find_project projectID d)))"

definition store_GetProposal :: "string \<Rightarrow> (market_db, Proposal) io" where
  "store_GetProposal i = scan_row (pool_query (find_proposal i))"

definition ListMilestones :: "string \<Rightarrow> (market_db, ProposalMilestone list) io" where
  "ListMilestones proposalID =
     pool_query (\<lambda>d. sort_key pm_Seq (filter (\<lambda>m. pm_ProposalID m = proposalID) (proposal_milestones d)))"

text \<open>\<open>ORDER BY submitted_at DESC\<close>; the status filter is read as a comparison of texts.\<close>

definition newest_first :: "Proposal list \<Rightarrow> Proposal list" where
  "newest_first ps = sort_key (\<lambda>p. - prp_submitted_at p) ps"

definition ListForProject :: "string \<Rightarrow> string \<Rightarrow> (market_db, Proposal list) io" where
  "ListForProject projectID status = pool_query (\<lambda>d.
     newest_first (filter (\<lambda>p. prp_ProjectID p = projectID \<and> (status = [] \<or> prp_Status p = status)) (proposals d)))"

definition ListForFreelancer :: "string \<Rightarrow> (market_db, Proposal list) io" where
  "ListForFreelancer freelancerID = pool_query (\<lambda>d.
     newest_first (filter (\<lambda>p. prp_FreelancerID p = freelancerID) (proposals d)))"

section \<open>Service\<close>

record PMilestoneInput =
  pmi_Seq :: int
  pmi_Title :: string
  pmi_AmountCents :: int
  pmi_DueDays :: "int option"

record AnswerInput =
  ai_Question :: string
  ai_Answer :: string

record SubmitInput =
  si_ProjectID :: string
  si_FreelancerID :: string
  si_CoverLetter :: string
  si_BidAmountCents :: int
  si_Currency :: string
  si_EstimatedDurationDays :: "int option"
  si_ConnectsSpent :: int
  si_Milestones :: "PMilestoneInput list"
  si_Answers :: "AnswerInput list"

record ContractProposal =
  cpr_ProposalID :: string
  cpr_ProjectID :: string
  cpr_ProjectClientID :: string
  cpr_FreelancerID :: string
  cpr_Status :: string
  cpr_BidAmountCents :: int
  cpr_Currency :: string

definition ProposalForContract :: "string \<Rightarrow> (market_db, ContractProposal) io" where
  "ProposalForContract i =
     bindE (store_GetProposal i) (\<lambda>p.
     bindE (ProjectClientOfProposal i) (\<lambda>clientID.
     ret \<lparr>cpr_ProposalID = prp_ID p, cpr_ProjectID = prp_ProjectID p, cpr_ProjectClientID = clientID,
          cpr_FreelancerID = prp_FreelancerID p, cpr_Status = prp_Status p,
          cpr_BidAmountCents = prp_BidAmountCents p, cpr_Currency = prp_Currency p\<rparr>))"

text \<open>The end of an error's text: pgx prints the SQLSTATE of a server error there.\<close>

definition error_text :: "err \<Rightarrow> string" where
  "error_text e = (case e of
     UniqueViolation \<Rightarrow> ''(SQLSTATE 23505)'' | CheckViolation \<Rightarrow> ''(SQLSTATE 23514)''
   | ForeignKeyViolation \<Rightarrow> ''(SQLSTATE 23503)'' | NumericOutOfRange \<Rightarrow> ''(SQLSTATE 22003)''
   | TxAborted \<Rightarrow> ''(SQLSTATE 25P02)'' | Errorf m \<Rightarrow> m | _ \<Rightarrow> [])"

definition isUniqueViolation :: "err \<Rightarrow> bool" where
  "isUniqueViolation e \<longleftrightarrow>
     contains (error_text e) ''23505'' \<or> contains (error_text e) ''proposals_project_id_freelancer_id_key''"

definition submitted_row :: "SubmitInput \<Rightarrow> string \<Rightarrow> Proposal" where
  "submitted_row i pid =
     \<lparr>prp_ID = pid, prp_ProjectID = si_ProjectID i, prp_FreelancerID = si_FreelancerID i,
      prp_CoverLetter = si_CoverLetter i, prp_BidAmountCents = si_BidAmountCents i, prp_Currency = si_Currency i,
      prp_EstimatedDurationDays = si_EstimatedDurationDays i, prp_Status = ''submitted'',
      prp_ConnectsSpent = si_ConnectsSpent i, prp_submitted_at = 0, prp_withdrawn_at = None\<rparr>"

fun insert_pmilestones :: "string \<Rightarrow> PMilestoneInput list \<Rightarrow> (market_db, unit) io" where
  "insert_pmilestones pid [] = ret ()"
| "insert_pmilestones pid (m # ms) =
     bindE (InsertMilestone pid \<lparr>pm_ID = [], pm_ProposalID = pid, pm_Seq = pmi_Seq m, pm_Title = pmi_Title m,
       pm_AmountCents = pmi_AmountCents m, pm_DueDays = pmi_DueDays m\<rparr>) (\<lambda>_. insert_pmilestones pid ms)"

fun insert_answers :: "string \<Rightarrow> AnswerInput list \<Rightarrow> (market_db, unit) io" where
  "insert_answers pid [] = ret ()"
| "insert_answers pid (a # as) =
     bindE (InsertAnswer pid \<lparr>pa_ID = [], pa_ProposalID = pid, pa_Question = ai_Question a, pa_Answer = ai_Answer a\<rparr>)
     (\<lambda>_. insert_answers pid as)"

definition submitted_event :: "string \<Rightarrow> SubmitInput \<Rightarrow> Event" where
  "submitted_event pid i =
     \<lparr>ev_AggregateType = ''proposal'', ev_AggregateID = pid, ev_EventType = ''proposal.submitted'',
      ev_Topic = ''proposal.events'', ev_PartitionKey = si_ProjectID i,
      ev_Payload = JObj [(''proposal_id'', JStr pid), (''project_id'', JStr (si_ProjectID i)),
        (''freelancer_id'', JStr (si_FreelancerID i)), (''bid_amount_cents'', JInt (si_BidAmountCents i))],
      ev_Headers = []\<rparr>"

definition SubmitProposal :: "SubmitInput \<Rightarrow> (market_db, Proposal) io" where
  "SubmitProposal i0 =
     (if si_BidAmountCents i0 \<le> 0 then throw ErrInvalidBid else
      let i = (if si_Currency i0 = [] then i0\<lparr>si_Currency := ''USD''\<rparr> else i0) in
      bindE begin_tx (\<lambda>_.
      bindE (map_error (\<lambda>e. if isUniqueViolation e then ErrDuplicateProposal else e)
        (InsertProposal (submitted_row i []))) (\<lambda>pid.
      bindE (insert_pmilestones pid (si_Milestones i)) (\<lambda>_.
      bindE (insert_answers pid (si_Answers i)) (\<lambda>_.
      bindE (Enqueue (submitted_event pid i)) (\<lambda>_.
      bindE commit_tx (\<lambda>_.
      ret (submitted_row i pid))))))))"

definition withdrawn_event :: "string \<Rightarrow> string \<Rightarrow> Event" where
  "withdrawn_event i freelancerID =
     \<lparr>ev_AggregateType = ''proposal'', ev_AggregateID = i, ev_EventType = ''proposal.withdrawn'',
      ev_Topic = ''proposal.events'', ev_PartitionKey = i,
      ev_Payload = JObj [(''proposal_id'', JStr i), (''freelancer_id'', JStr freelancerID)], ev_Headers = []\<rparr>"

definition WithdrawProposal :: "string \<Rightarrow> string \<Rightarrow> (market_db, unit) io" where
  "WithdrawProposal i freelancerID =
     bindE begin_tx (\<lambda>_.
     bindE (store_WithdrawProposal i freelancerID) (\<lambda>ok.
     if \<not> ok then throw ErrInvalidState else
     bindE (Enqueue (withdrawn_event i freelancerID)) (\<lambda>_.
     commit_tx)))"

definition shortlisted_event :: "string \<Rightarrow> string \<Rightarrow> Event" where
  "shortlisted_event i clientID =
     \<lparr>ev_AggregateType = ''proposal'', ev_AggregateID = i, ev_EventType = ''proposal.shortlisted'',
      ev_Topic = ''proposal.events'', ev_PartitionKey = i,
      ev_Payload = JObj [(''proposal_id'', JStr i), (''client_id'', JStr clientID)], ev_Headers = []\<rparr>"

definition ShortlistProposal :: "string \<Rightarrow> string \<Rightarrow> (market_db, unit) io" where
  "ShortlistProposal i actorClientID =
     (if actorClientID = [] then throw ErrForbidden else
      bindE (ProjectClientOfProposal i) (\<lambda>ownerClientID.
      if ownerClientID \<noteq> actorClientID then throw ErrForbidden else
      bindE begin_tx (\<lambda>_.
      bindE (store_ShortlistProposal i) (\<lambda>ok.
      if \<not> ok then throw ErrInvalidState else
      bindE (Enqueue (shortlisted_event i actorClientID)) (\<lambda>_.
      commit_tx)))))"

definition GetProposal :: "string \<Rightarrow> (market_db, Proposal \<times> ProposalMilestone list) io" where
  "GetProposal i = bindE (store_GetProposal i) (\<lambda>p. bindE (ListMilestones i) (\<lambda>ms. ret (p, ms)))"

definition ListProposalsForProject :: "string \<Rightarrow> string \<Rightarrow> string \<Rightarrow> (market_db, Proposal list) io" where
  "ListProposalsForProject projectID status actorClientID =
     (if actorClientID = [] then throw ErrForbidden else
      bindE (ProjectClientOf projectID) (\<lambda>ownerClientID.
      if ownerClientID \<noteq> actorClientID then throw ErrForbidden
      else ListForProject projectID status))"

definition ListProposalsForFreelancer :: "string \<Rightarrow> (market_db, Proposal list) io" where
  "ListProposalsForFreelancer freelancerID = ListForFreelancer freelancerID"

section \<open>Handlers\<close>

definition mapError :: "err \<Rightarrow> response" where
  "mapError e =
     (if e = ErrInvalidBid then Problem 400 ''INVALID_BID''
      else if e = ErrDuplicateProposal then Problem 409 ''DUPLICATE_PROPOSAL''
      else if e = ErrInvalidState then Problem 409 ''INVALID_STATE''
      else if e = ErrNotFound then Problem 404 ''NOT_FOUND''
      else if e = ErrForbidden then Problem 403 ''FORBIDDEN''
      else Problem 500 ''INTERNAL'')"

definition proposal_fields :: "Proposal \<Rightarrow> (string \<times> json) list" where
  "proposal_fields p = [(''id'', JStr (prp_ID p)), (''project_id'', JStr (prp_ProjectID p)),
     (''freelancer_id'', JStr (prp_FreelancerID p)), (''cover_letter'', JStr (prp_CoverLetter p)),
     (''bid_amount_cents'', JInt (prp_BidAmountCents p)), (''currency'', JStr (prp_Currency p)),
     (''estimated_duration_days'', opt_json JInt (prp_EstimatedDurationDays p)),
     (''status'', JStr (prp_Status p)), (''connects_spent'', JInt (prp_ConnectsSpent p))]"

definition proposalJSON :: "Proposal \<Rightarrow> json" where
  "proposalJSON p = JObj (proposal_fields p)"

definition proposalsJSON :: "Proposal list \<Rightarrow> json" where
  "proposalsJSON ps = JObj [(''proposals'', JArr (map proposalJSON ps))]"

definition unauthorized :: "('d, response) io" where
  "unauthorized = ret (Problem 401 ''UNAUTHORIZED'')"

definition internalProposal :: "string \<Rightarrow> (market_db, response) io" where
  "internalProposal i = handle mapError (ProposalForContract i) (\<lambda>c. Reply 200 (JObj
     [(''proposal_id'', JStr (cpr_ProposalID c)), (''project_id'', JStr (cpr_ProjectID c)),
      (''project_client_id'', JStr (cpr_ProjectClientID c)), (''freelancer_id'', JStr (cpr_FreelancerID c)),
      (''status'', JStr (cpr_Status c)), (''bid_amount_cents'', JInt (cpr_BidAmountCents c)),
      (''currency'', JStr (cpr_Currency c))]))"

text \<open>The body of a submission is a \<open>SubmitInput\<close> whose freelancer the handler sets.\<close>

definition submit :: "string \<Rightarrow> SubmitInput option \<Rightarrow> (market_db, response) io" where
  "submit uid body =
     (if uid = [] then unauthorized else
      guarded (ret (decode body)) (\<lambda>req.
      if si_ProjectID req = [] then ret (Problem 400 ''VALIDATION_FAILED'')
      else handle mapError (SubmitProposal (req\<lparr>si_FreelancerID := uid\<rparr>)) (\<lambda>p. Reply 201 (proposalJSON p))))"

definition get :: "string \<Rightarrow> (market_db, response) io" where
  "get i = handle mapError (GetProposal i) (\<lambda>(p, ms). Reply 200 (JObj (proposal_fields p @
     [(''milestones'', JArr (map (\<lambda>m. JObj [(''id'', JStr (pm_ID m)), (''seq'', JInt (pm_Seq m)),
        (''title'', JStr (pm_Title m)), (''amount_cents'', JInt (pm_AmountCents m)),
        (''due_days'', opt_json JInt (pm_DueDays m))]) ms))])))"

definition withdraw :: "string \<Rightarrow> string \<Rightarrow> (market_db, response) io" where
  "withdraw uid i =
     (if uid = [] then unauthorized
      else handle mapError (WithdrawProposal i uid) (\<lambda>_. Reply 200 (JObj [(''success'', JBool True)])))"

definition shortlist :: "string \<Rightarrow> string \<Rightarrow> (market_db, response) io" where
  "shortlist uid i =
     (if uid = [] then unauthorized
      else handle mapError (ShortlistProposal i uid) (\<lambda>_. Reply 200 (JObj [(''success'', JBool True)])))"

definition listByProject :: "string \<Rightarrow> string \<Rightarrow> string \<Rightarrow> (market_db, response) io" where
  "listByProject uid projectID status =
     (if uid = [] then unauthorized
      else if projectID = [] then ret (Problem 400 ''VALIDATION_FAILED'')
      else handle mapError (ListProposalsForProject projectID status uid) (\<lambda>ps. Reply 200 (proposalsJSON ps)))"

definition listMine :: "string \<Rightarrow> (market_db, response) io" where
  "listMine uid =
     (if uid = [] then unauthorized
      else handle mapError (ListProposalsForFreelancer uid) (\<lambda>ps. Reply 200 (proposalsJSON ps)))"

section \<open>Framing\<close>

lemma keeps_insert_children [io_keeps]:
  "keeps (InsertMilestone pid m)" "keeps (InsertAnswer pid a)"
  "keeps (insert_pmilestones pid ms)" "keeps (insert_answers pid as)"
proof -
  show m: "keeps (InsertMilestone pid m)" for m unfolding InsertMilestone_def by (intro io_keeps)
  show a: "keeps (InsertAnswer pid a)" for a unfolding InsertAnswer_def by (intro io_keeps)
  show "keeps (insert_pmilestones pid ms)" by (induction ms) (auto intro!: io_keeps m)
  show "keeps (insert_answers pid as)" by (induction as) (auto intro!: io_keeps a)
qed

lemma keeps_proposal_store [io_keeps]:
  "keeps (InsertProposal p)" "keeps (store_WithdrawProposal i f)" "keeps (store_ShortlistProposal i)"
  "keeps (ProjectClientOfProposal i)" "keeps (ProjectClientOf i)" "keeps (store_GetProposal i)"
  "keeps (ListMilestones i)" "keeps (ListForProject i st)" "keeps (ListForFreelancer f)"
  unfolding InsertProposal_def store_WithdrawProposal_def store_ShortlistProposal_def
    ProjectClientOfProposal_def ProjectClientOf_def store_GetProposal_def ListMilestones_def
    ListForProject_def ListForFreelancer_def
  by (intro io_keeps)+

lemma atomic_proposal:
  "atomic (SubmitProposal i)" "atomic (WithdrawProposal j f)" "atomic (ShortlistProposal j c)"
  unfolding SubmitProposal_def WithdrawProposal_def ShortlistProposal_def Let_def
  by (auto intro!: io_atomic io_keeps)

lemma keeps_ProposalForContract: "keeps (ProposalForContract i)"
  unfolding ProposalForContract_def by (intro io_keeps)

lemma isUniqueViolation_sqlstate:
  "isUniqueViolation UniqueViolation" "\<not> isUniqueViolation DBError" "\<not> isUniqueViolation TxAborted"
  "\<not> isUniqueViolation CheckViolation" "\<not> isUniqueViolation ForeignKeyViolation" "\<not> isUniqueViolation NumericOutOfRange"
  by (simp_all add: isUniqueViolation_def error_text_def)

end
