(* ===== verification/Tx_Inv.thy ===== *)
theory Tx_Inv
  imports Outbox Rbac
begin

text \<open>
  Rules for invariants of transactions. \<open>tx_inv P m\<close>: inside a transaction \<open>m\<close> keeps \<open>P\<close> of the
  working copy and of the committed database. \<open>op_inv P m\<close>: \<open>m\<close>, a whole operation that opens its
  own transaction, keeps \<open>P\<close> of the committed database, whichever statement fails. One lemma per
  building block; a component's operations are then covered by \<open>intro\<close> and one obligation
  (\<open>stmt_inv\<close>) per SQL statement.
\<close>

section \<open>Definitions\<close>

definition stmt_inv :: "('d \<Rightarrow> bool) \<Rightarrow> ('d, 'a) sql \<Rightarrow> bool" where
  "stmt_inv P q \<longleftrightarrow> (\<forall>now uid d x d'. P d \<longrightarrow> q now uid d = Inr (x, d') \<longrightarrow> P d')"

definition tx_inv :: "('d \<Rightarrow> bool) \<Rightarrow> ('d, 'a) io \<Rightarrow> bool" where
  "tx_inv P m \<longleftrightarrow> (\<forall>s. P (committed s) \<longrightarrow> P (work s) \<longrightarrow>
     P (committed (snd (m s))) \<and> P (work (snd (m s))))"

definition op_inv :: "('d \<Rightarrow> bool) \<Rightarrow> ('d, 'a) io \<Rightarrow> bool" where
  "op_inv P m \<longleftrightarrow> (\<forall>s. P (committed s) \<longrightarrow> P (committed (snd (m s))))"

named_theorems tx_invs "building blocks that keep an invariant inside a transaction"
named_theorems op_invs "operations that keep an invariant of the committed database"

lemma stmt_invI:
  "(\<And>now uid d x d'. P d \<Longrightarrow> q now uid d = Inr (x, d') \<Longrightarrow> P d') \<Longrightarrow> stmt_inv P q"
  by (auto simp: stmt_inv_def)

lemma op_invD: "op_inv P m \<Longrightarrow> P (committed s) \<Longrightarrow> m s = (r, t) \<Longrightarrow> P (committed t)"
  unfolding op_inv_def by (metis snd_conv)

lemma op_inv_snd: "op_inv P m \<Longrightarrow> P (committed s) \<Longrightarrow> P (committed (snd (m s)))"
  by (simp add: op_inv_def)

lemma tx_invD: "tx_inv P m \<Longrightarrow> m s = (r, t) \<Longrightarrow> P (committed s) \<Longrightarrow> P (work s) \<Longrightarrow>
  P (committed t) \<and> P (work t)"
  unfolding tx_inv_def by (metis snd_conv)

section \<open>Inside a transaction\<close>

lemma tx_inv_stmt: "stmt_inv P q \<Longrightarrow> tx_inv P (tx_stmt q)"
  unfolding stmt_inv_def tx_inv_def tx_stmt_def by (auto split: sum.splits prod.splits)

lemma tx_inv_basic [tx_invs]:
  "tx_inv P (ret x)" "tx_inv P (throw e)" "tx_inv P (liftE r)" "tx_inv P get_now" "tx_inv P new_id"
  "tx_inv P (pool_query p)" "tx_inv P commit_tx" "tx_inv P rollback_tx" "tx_inv P (check c)"
  by (auto simp: tx_inv_def ret_def throw_def liftE_def get_now_def new_id_def pool_query_def
      commit_tx_def rollback_tx_def check_def split: option.splits)

lemma tx_inv_bindE [tx_invs]: "tx_inv P m \<Longrightarrow> (\<And>x. tx_inv P (f x)) \<Longrightarrow> tx_inv P (bindE m f)"
proof -
  assume m: "tx_inv P m" and f: "\<And>x. tx_inv P (f x)"
  have "P (committed (snd (bindE m f s))) \<and> P (work (snd (bindE m f s)))"
    if s: "P (committed s)" "P (work s)" for s
  proof (cases "m s")
    case (Pair r t)
    with tx_invD [OF m Pair s] f show ?thesis
      by (cases r) (auto simp: bindE_def tx_inv_def)
  qed
  then show ?thesis by (simp add: tx_inv_def)
qed

lemma tx_inv_attempt [tx_invs]: "tx_inv P m \<Longrightarrow> tx_inv P (attempt m)"
  unfolding tx_inv_def attempt_def by (auto split: prod.splits)

lemma tx_inv_ignoreE [tx_invs]: "tx_inv P m \<Longrightarrow> tx_inv P (ignoreE m)"
  unfolding ignoreE_def by (intro tx_invs)

lemma tx_inv_map_error [tx_invs]: "tx_inv P m \<Longrightarrow> tx_inv P (map_error g m)"
  unfolding tx_inv_def map_error_def by (auto split: prod.splits sum.splits)

lemma tx_inv_case [tx_invs]:
  "tx_inv P m \<Longrightarrow> (\<And>x. tx_inv P (f x)) \<Longrightarrow> tx_inv P (case r of None \<Rightarrow> m | Some x \<Rightarrow> f x)"
  "(\<And>e. tx_inv P (g e)) \<Longrightarrow> (\<And>x. tx_inv P (f x)) \<Longrightarrow> tx_inv P (case u of Inl e \<Rightarrow> g e | Inr x \<Rightarrow> f x)"
  "(\<And>x y. tx_inv P (h x y)) \<Longrightarrow> tx_inv P (case p of (x, y) \<Rightarrow> h x y)"
  by (auto split: option.split sum.split prod.split)

lemma tx_inv_if [tx_invs]: "(b \<Longrightarrow> tx_inv P m) \<Longrightarrow> (\<not> b \<Longrightarrow> tx_inv P n) \<Longrightarrow> tx_inv P (if b then m else n)"
  by auto

lemma tx_inv_scan_row [tx_invs]: "tx_inv P m \<Longrightarrow> tx_inv P (scan_row m)"
  unfolding scan_row_def by (intro tx_invs)

lemma tx_inv_read [tx_invs]: "tx_inv P (tx_stmt (\<lambda>now uid d. Inr (g d, d)))"
  by (rule tx_inv_stmt) (simp add: stmt_inv_def)

lemma tx_inv_Enqueue: "(\<And>d. P d \<Longrightarrow> P (post_event e d)) \<Longrightarrow> tx_inv P (Enqueue e)"
  unfolding Enqueue_def by (rule tx_inv_stmt) (simp add: stmt_inv_def)

section \<open>Whole operations\<close>

lemma op_inv_keeps: "keeps m \<Longrightarrow> op_inv P m"
  by (simp add: keeps_def op_inv_def)

lemma op_inv_atomic:
  "atomic m \<Longrightarrow> (\<And>s x t. P (committed s) \<Longrightarrow> m s = (Inr x, t) \<Longrightarrow> P (committed t)) \<Longrightarrow> op_inv P m"
  unfolding op_inv_def atomic_def by (metis (no_types, lifting) prod.collapse sum.exhaust)

lemma op_inv_begin [op_invs]: "(\<And>x. tx_inv P (f x)) \<Longrightarrow> op_inv P (bindE begin_tx f)"
  by (auto simp: op_inv_def tx_inv_def bindE_def begin_tx_def)

lemma op_inv_bindE [op_invs]: "keeps m \<Longrightarrow> (\<And>x. op_inv P (f x)) \<Longrightarrow> op_inv P (bindE m f)"
proof -
  assume m: "keeps m" and f: "\<And>x. op_inv P (f x)"
  have "P (committed (snd (bindE m f s)))" if s: "P (committed s)" for s
  proof (cases "m s")
    case (Pair r t)
    with keepsD [OF m Pair] s f show ?thesis by (cases r) (auto simp: bindE_def op_inv_def)
  qed
  then show ?thesis by (simp add: op_inv_def)
qed

text \<open>An operation followed by another one.\<close>

lemma op_inv_then: "op_inv P m \<Longrightarrow> (\<And>x. op_inv P (f x)) \<Longrightarrow> op_inv P (bindE m f)"
proof -
  assume m: "op_inv P m" and f: "\<And>x. op_inv P (f x)"
  have "P (committed (snd (bindE m f s)))" if s: "P (committed s)" for s
  proof (cases "m s")
    case (Pair r t)
    with op_invD [OF m s Pair] f show ?thesis by (cases r) (auto simp: bindE_def op_inv_def)
  qed
  then show ?thesis by (simp add: op_inv_def)
qed

lemma op_inv_basic [op_invs]:
  "op_inv P (ret x)" "op_inv P (throw e)" "op_inv P (liftE r)" "op_inv P (pool_query p)" "op_inv P get_now"
  by (simp_all add: op_inv_keeps io_keeps)

lemma op_inv_if [op_invs]: "(b \<Longrightarrow> op_inv P m) \<Longrightarrow> (\<not> b \<Longrightarrow> op_inv P n) \<Longrightarrow> op_inv P (if b then m else n)"
  by auto

lemma op_inv_check: "(c = None \<Longrightarrow> op_inv P (f ())) \<Longrightarrow> op_inv P (bindE (check c) f)"
  by (cases c) (auto simp: op_inv_def check_run run_basic)

lemma op_inv_case [op_invs]:
  "op_inv P m \<Longrightarrow> (\<And>x. op_inv P (f x)) \<Longrightarrow> op_inv P (case r of None \<Rightarrow> m | Some x \<Rightarrow> f x)"
  "(\<And>e. op_inv P (g e)) \<Longrightarrow> (\<And>x. op_inv P (f x)) \<Longrightarrow> op_inv P (case u of Inl e \<Rightarrow> g e | Inr x \<Rightarrow> f x)"
  "(\<And>x y. op_inv P (h x y)) \<Longrightarrow> op_inv P (case p of (x, y) \<Rightarrow> h x y)"
  by (auto split: option.split sum.split prod.split)

lemma op_inv_pool_exec: "stmt_inv P q \<Longrightarrow> op_inv P (pool_exec q)"
  unfolding stmt_inv_def op_inv_def pool_exec_def by (auto split: sum.splits prod.splits)

lemma op_inv_attempt [op_invs]: "op_inv P m \<Longrightarrow> op_inv P (attempt m)"
  unfolding op_inv_def attempt_def by (auto split: prod.splits)

lemma op_inv_ignoreE [op_invs]: "op_inv P m \<Longrightarrow> op_inv P (ignoreE m)"
  unfolding op_inv_def by (simp add: run_basic)

lemma op_inv_map_error [op_invs]: "op_inv P m \<Longrightarrow> op_inv P (map_error g m)"
  unfolding op_inv_def map_error_def by (auto split: prod.splits sum.splits)

lemma op_inv_scan_row [op_invs]: "op_inv P m \<Longrightarrow> op_inv P (scan_row m)"
  unfolding scan_row_def by (rule op_inv_then) (auto intro!: op_inv_case op_inv_basic)

lemma op_inv_handle [op_invs]: "op_inv P m \<Longrightarrow> op_inv P (handle me m an)"
  unfolding op_inv_def by (auto simp: handle_run split: prod.splits sum.splits)

lemma op_inv_guarded [op_invs]: "(\<And>x. op_inv P (f x)) \<Longrightarrow> op_inv P (guarded (ret r) f)"
  unfolding op_inv_def by (auto simp: guarded_ret split: sum.splits)

section \<open>References and updates\<close>

text \<open>A foreign key: every row of one table refers to a row of another.\<close>

definition refers :: "('r \<Rightarrow> 'k) \<Rightarrow> 'r list \<Rightarrow> ('q \<Rightarrow> 'k) \<Rightarrow> 'q list \<Rightarrow> bool" where
  "refers f rs g qs \<longleftrightarrow> f ` set rs \<subseteq> g ` set qs"

lemma refers_append [simp]: "refers f (rs @ [r]) g qs \<longleftrightarrow> refers f rs g qs \<and> f r \<in> g ` set qs"
  by (auto simp: refers_def)

lemma refers_append_target [simp]: "refers f rs g qs \<Longrightarrow> refers f rs g (qs @ [q])"
  by (auto simp: refers_def)

lemma refers_update:
  "(\<And>r. f (h r) = f r) \<Longrightarrow> refers f (update_where P h rs) g qs = refers f rs g qs"
  "(\<And>q. g (h' q) = g q) \<Longrightarrow> refers f rs g (update_where P' h' qs) = refers f rs g qs"
  by (simp_all add: refers_def image_update_where)

lemma list_all_update_where:
  "list_all Q rs \<Longrightarrow> (\<And>r. P r \<Longrightarrow> Q r \<Longrightarrow> Q (f r)) \<Longrightarrow> list_all Q (update_where P f rs)"
  by (auto simp: update_where_def list_all_iff)

text \<open>Rows stay where they are, each related to its former self; new rows come after them.\<close>

definition grown :: "('r \<Rightarrow> 'r \<Rightarrow> bool) \<Rightarrow> 'r list \<Rightarrow> 'r list \<Rightarrow> bool" where
  "grown R rs qs \<longleftrightarrow> length rs \<le> length qs \<and> list_all2 R rs (take (length rs) qs)"

lemma grown_refl: "(\<And>r. R r r) \<Longrightarrow> grown R rs rs"
  by (simp add: grown_def list_all2_same)

lemma grown_append: "(\<And>r. R r r) \<Longrightarrow> grown R rs (rs @ qs)"
  by (simp add: grown_def list_all2_same)

lemma grown_trans:
  assumes "\<And>a b c. R a b \<Longrightarrow> R b c \<Longrightarrow> R a c" "grown R rs qs" "grown R qs us"
  shows "grown R rs us"
proof -
  from assms(2,3) have l: "length rs \<le> length qs" "length qs \<le> length us" by (auto simp: grown_def)
  from assms(3) have "list_all2 R qs (take (length qs) us)" by (simp add: grown_def)
  then have "list_all2 R (take (length rs) qs) (take (length rs) (take (length qs) us))" by (rule list_all2_takeI)
  then have "list_all2 R (take (length rs) qs) (take (length rs) us)" using l by (simp add: min_def)
  with assms(2) l show ?thesis
    unfolding grown_def by (auto intro: list_all2_trans [of R R R, OF assms(1)])
qed

lemma grown_update: "(\<And>r. r \<in> set rs \<Longrightarrow> P r \<Longrightarrow> R r (f r)) \<Longrightarrow> (\<And>r. R r r) \<Longrightarrow> grown R rs (update_where P f rs)"
  by (auto simp: grown_def update_where_def list.rel_map list_all2_same)

section \<open>Step relations\<close>

text \<open>
  A component's operations as a set of computations; a step runs one of them on a connection to
  the current database, in any environment (failing statements, UUIDs, clock).
\<close>

definition op_step :: "('d, response) io set \<Rightarrow> 'd \<Rightarrow> 'd \<Rightarrow> bool" where
  "op_step ops d d' \<longleftrightarrow> (\<exists>m \<in> ops. \<exists>s. committed s = d \<and> committed (snd (m s)) = d')"

lemma op_step_inv: "(\<And>m. m \<in> ops \<Longrightarrow> op_inv P m) \<Longrightarrow> op_step ops d d' \<Longrightarrow> P d \<Longrightarrow> P d'"
  by (auto simp: op_step_def op_inv_def)

lemma op_step_quiet: "m \<in> ops \<Longrightarrow> op_step ops d (committed (snd (m (quiet tag d))))"
  unfolding op_step_def by (rule bexI, rule exI [of _ "quiet tag d"]) simp_all

lemma op_step_two: "op_step ops a b \<Longrightarrow> op_step ops b c \<Longrightarrow> (op_step ops)\<^sup>*\<^sup>* a c"
  by (meson rtranclp.rtrancl_refl rtranclp.rtrancl_into_rtrancl)

locale service_system =
  fixes ops :: "('d, response) io set" and P :: "'d \<Rightarrow> bool"
  assumes ops_inv: "m \<in> ops \<Longrightarrow> op_inv P m"
begin

sublocale sys: invariant_system "op_step ops" P
  by unfold_locales (blast intro: op_step_inv ops_inv)

lemma reachable_inv: "(op_step ops)\<^sup>*\<^sup>* d d' \<Longrightarrow> P d \<Longrightarrow> P d'"
  by (rule sys.steps_inv)

end

text \<open>A relation between database states that every step satisfies and that is transitive.\<close>

lemma op_steps_relation:
  assumes "\<And>d d'. op_step ops d d' \<Longrightarrow> I d \<Longrightarrow> I d' \<and> R d d'" "\<And>d. R d d"
    "\<And>a b c. R a b \<Longrightarrow> R b c \<Longrightarrow> R a c" "(op_step ops)\<^sup>*\<^sup>* d d'" "I d"
  shows "I d' \<and> R d d'"
  using assms(4,5) by (induction rule: rtranclp_induct) (use assms(1-3) in blast)+

end
