(* ===== verification/Market.thy ===== *)
theory Market
  imports Proposal Tx_Inv
begin

text \<open>
  What the project and proposal services keep together on their tables: budgets and bids are valid,
  a freelancer has at most one proposal per project, children refer to existing rows; the state
  machines of projects and proposals; and who may move them.
\<close>

section \<open>The invariant\<close>

definition project_ok :: "Project \<Rightarrow> bool" where
  "project_ok p \<longleftrightarrow> validBudgetTypes (prj_BudgetType p) \<and>
     (\<exists>lo. prj_BudgetMinCents p = Some lo \<and> 0 < lo \<and> opt_all (\<lambda>hi. lo \<le> hi) (prj_BudgetMaxCents p)) \<and>
     (prj_BudgetType p = ''hourly'' \<longrightarrow> (\<exists>l. prj_WeeklyHourLimit p = Some l \<and> 0 < l)) \<and>
     (prj_Status p = ''published'' \<longrightarrow> prj_PublishedAt p \<noteq> None) \<and>
     (prj_Status p = ''closed'' \<longrightarrow> prj_ClosedAt p \<noteq> None)"

definition proposal_ok :: "Proposal \<Rightarrow> bool" where
  "proposal_ok p \<longleftrightarrow> 0 < prp_BidAmountCents p \<and> length (prp_Currency p) = 3 \<and>
     (prp_Status p = ''withdrawn'' \<longleftrightarrow> prp_withdrawn_at p \<noteq> None)"

definition milestone_key :: "ProposalMilestone \<Rightarrow> string \<times> int" where
  "milestone_key m = (pm_ProposalID m, pm_Seq m)"

definition market_ok :: "market_db \<Rightarrow> bool" where
  "market_ok d \<longleftrightarrow>
     distinct (map prj_ID (projects d)) \<and> list_all project_ok (projects d) \<and>
     distinct (map prp_ID (proposals d)) \<and> distinct (map proposal_key (proposals d)) \<and> list_all proposal_ok (proposals d) \<and>
     refers prp_ProjectID (proposals d) prj_ID (projects d) \<and>
     distinct (map milestone_key (proposal_milestones d)) \<and>
     refers pm_ProposalID (proposal_milestones d) prp_ID (proposals d) \<and>
     refers pa_ProposalID (proposal_answers d) prp_ID (proposals d) \<and>
     distinct (project_skills d) \<and> refers fst (project_skills d) prj_ID (projects d)"

lemma row_update_simps [simp]:
  "prj_ID (publish_row t p) = prj_ID p" "prj_ID (close_project_row t p) = prj_ID p"
  "prp_ID (withdraw_row t q) = prp_ID q" "prp_ID (shortlist_row q) = prp_ID q"
  "proposal_key (withdraw_row t q) = proposal_key q" "proposal_key (shortlist_row q) = proposal_key q"
  "prp_ProjectID (withdraw_row t q) = prp_ProjectID q" "prp_ProjectID (shortlist_row q) = prp_ProjectID q"
  "project_ok p \<Longrightarrow> project_ok (publish_row t p)" "project_ok p \<Longrightarrow> project_ok (close_project_row t p)"
  "proposal_ok q \<Longrightarrow> proposal_ok (withdraw_row t q)"
  "proposal_ok q \<Longrightarrow> prp_Status q = ''submitted'' \<Longrightarrow> proposal_ok (shortlist_row q)"
  by (simp_all add: publish_row_def close_project_row_def withdraw_row_def shortlist_row_def proposal_key_def
      project_ok_def proposal_ok_def)

lemma market_ok_post_event [simp]: "market_ok (post_event e d) = market_ok d"
  by (simp add: market_ok_def)

lemma tx_inv_market_event [tx_invs]: "tx_inv market_ok (Enqueue e)"
  by (rule tx_inv_Enqueue) simp

lemma validateBudget_ok:
  assumes "validateBudget i = None"
  shows "project_ok (new_project i uid now cur)"
  using assms by (auto simp: validateBudget_def project_ok_def new_project_def validBudgetTypes_def opt_all_def
      split: if_splits option.splits)

lemma tx_inv_insert_project: "validateBudget i = None \<Longrightarrow> tx_inv market_ok (insert_project i)"
  unfolding insert_project_def
  by (rule tx_inv_stmt, rule stmt_invI)
    (auto simp: market_ok_def new_project_def [of i, THEN arg_cong, of prj_ID] validateBudget_ok
      split: if_splits option.splits)

lemma tx_inv_insert_skills [tx_invs]: "tx_inv market_ok (insert_skills pid sids)"
proof (induction sids)
  case (Cons a sids)
  have "tx_inv market_ok (insert_skill pid a)"
    unfolding insert_skill_def by (rule tx_inv_stmt, rule stmt_invI) (auto simp: market_ok_def split: if_splits)
  with Cons show ?case by (auto intro!: tx_invs)
qed (simp add: tx_invs)

lemma tx_inv_projects [tx_invs]:
  "tx_inv market_ok (SetStatusPublished i)" "tx_inv market_ok (SetStatusClosed i)" "tx_inv market_ok (GetProjectForUpdate i)"
proof -
  have u: "stmt_inv market_ok (\<lambda>now uid d. Inr ((), d\<lparr>projects := update_where (\<lambda>p. prj_ID p = i) (f now) (projects d)\<rparr>))"
    if "\<And>t p. prj_ID (f t p) = prj_ID p" "\<And>t p. project_ok p \<Longrightarrow> project_ok (f t p)" for f
    using that by (auto simp: stmt_inv_def market_ok_def map_update_where_same refers_update list_all_update_where)
  show "tx_inv market_ok (SetStatusPublished i)" "tx_inv market_ok (SetStatusClosed i)"
    unfolding SetStatusPublished_def SetStatusClosed_def by (auto intro!: tx_inv_stmt u)
  show "tx_inv market_ok (GetProjectForUpdate i)"
    unfolding GetProjectForUpdate_def by (intro tx_invs)
qed

lemma tx_inv_InsertProposal: "0 < prp_BidAmountCents p \<Longrightarrow> tx_inv market_ok (InsertProposal p)"
  unfolding InsertProposal_def
  by (rule tx_inv_stmt, rule stmt_invI)
    (auto simp: market_ok_def new_proposal_def proposal_key_def proposal_ok_def char3_length
      split: if_splits option.splits)

lemma tx_inv_children [tx_invs]:
  "tx_inv market_ok (insert_pmilestones pid ms)" "tx_inv market_ok (insert_answers pid as)"
proof -
  have m: "tx_inv market_ok (InsertMilestone pid m)" for m
    unfolding InsertMilestone_def
    by (rule tx_inv_stmt, rule stmt_invI) (fastforce simp: market_ok_def milestone_key_def split: if_splits)
  have a: "tx_inv market_ok (InsertAnswer pid x)" for x
    unfolding InsertAnswer_def
    by (rule tx_inv_stmt, rule stmt_invI) (auto simp: market_ok_def split: if_splits)
  show "tx_inv market_ok (insert_pmilestones pid ms)" by (induction ms) (auto intro!: tx_invs m)
  show "tx_inv market_ok (insert_answers pid as)" by (induction as) (auto intro!: tx_invs a)
qed

lemma tx_inv_proposals [tx_invs]:
  "tx_inv market_ok (store_WithdrawProposal i f)" "tx_inv market_ok (store_ShortlistProposal i)"
  unfolding store_WithdrawProposal_def store_ShortlistProposal_def
  by (auto intro!: tx_inv_stmt list_all_update_where
      simp: stmt_inv_def market_ok_def map_update_where_same refers_update can_shortlist_def)

lemma op_inv_market:
  "op_inv market_ok (CreateProject i)" "op_inv market_ok (PublishProject j c)" "op_inv market_ok (CloseProject j c)"
  "op_inv market_ok (AddAttachment j c k f n t)" "op_inv market_ok (SubmitProposal si)"
  "op_inv market_ok (WithdrawProposal j c)" "op_inv market_ok (ShortlistProposal j c)"
proof -
  show "op_inv market_ok (CreateProject i)"
    unfolding CreateProject_def store_CreateProject_def Let_def
    by (auto intro!: op_invs op_inv_check tx_invs tx_inv_insert_project simp: validateBudget_def)
  show "op_inv market_ok (PublishProject j c)" "op_inv market_ok (CloseProject j c)"
    unfolding PublishProject_def CloseProject_def by (intro op_invs tx_invs)+
  show "op_inv market_ok (AddAttachment j c k f n t)"
    unfolding AddAttachment_def store_AddAttachment_def
    by (auto intro!: op_invs io_keeps op_inv_pool_exec stmt_invI simp: market_ok_def Let_def split: if_splits)
  show "op_inv market_ok (SubmitProposal si)"
    unfolding SubmitProposal_def Let_def
    by (intro op_invs tx_invs tx_inv_InsertProposal) (simp add: submitted_row_def)
  show "op_inv market_ok (WithdrawProposal j c)" "op_inv market_ok (ShortlistProposal j c)"
    unfolding WithdrawProposal_def ShortlistProposal_def by (intro op_invs tx_invs io_keeps)+
qed

end
