(* ===== verification/Market_Props.thy ===== *)
theory Market_Props
  imports Market
begin

text \<open>
  Effects of the project and proposal operations as single changes of the database, the services as
  a transition system, their state machines, and who may move them.
\<close>

section \<open>Effects of the operations\<close>

lemma insert_skill_ok:
  assumes "insert_skill pid sid s = (Inr u, t)"
  shows "(\<exists>sk. work t = (work s)\<lparr>project_skills := sk\<rparr>) \<and> committed t = committed s \<and> clock t = clock s"
proof -
  from assms have "work t = (work s)\<lparr>project_skills := project_skills (work t)\<rparr>" "committed t = committed s" "clock t = clock s"
    by (auto simp: insert_skill_def tx_stmt_ok split: if_splits)
  then show ?thesis by blast
qed

lemma insert_skills_ok:
  "insert_skills pid sids s = (Inr u, t) \<Longrightarrow>
     (\<exists>sk. work t = (work s)\<lparr>project_skills := sk\<rparr>) \<and> committed t = committed s \<and> clock t = clock s"
proof (induction sids arbitrary: s)
  case Nil
  then have "work t = (work s)\<lparr>project_skills := project_skills (work s)\<rparr>" "committed t = committed s" "clock t = clock s"
    by (simp_all add: ret_ok)
  then show ?case by blast
next
  case (Cons a sids)
  from Cons.prems obtain s1 where s1: "\<exists>sk. work s1 = (work s)\<lparr>project_skills := sk\<rparr>" "committed s1 = committed s"
      "clock s1 = clock s" and rest: "insert_skills pid sids s1 = (Inr u, t)"
    by (auto simp: bindE_ok dest!: insert_skill_ok)
  from Cons.IH [OF rest] s1 show ?case by auto
qed

lemma CreateProject_ok:
  assumes "CreateProject i s = (Inr p, t)"
  shows "validateBudget i = None \<and> cp_ClientID i \<noteq> '''' \<and> (\<exists>uid cur sk. p = new_project i uid (clock s) cur \<and>
    committed t = (committed s)\<lparr>projects := projects (committed s) @ [p], project_skills := sk\<rparr>)"
proof -
  define i' where "i' = (if cp_Currency i = '''' then i\<lparr>cp_Currency := ''USD''\<rparr> else i)"
  let ?s1 = "(tick s)\<lparr>work := committed s, aborted := False\<rparr>"
  from assms obtain s2 u where v: "validateBudget i = None" "cp_ClientID i \<noteq> ''''"
    and ins: "insert_project i' ?s1 = (Inr p, s2)"
    and sk: "\<exists>u s3. insert_skills (prj_ID p) (cp_SkillIDs i') s2 = (Inr u, s3) \<and> committed t = work s3"
    by (auto simp: CreateProject_def store_CreateProject_def i'_def Let_def bindE_ok check_ok begin_tx_ok commit_tx_ok
        ret_ok throw_ok simp del: insert_skills.simps split: if_splits)
  from ins obtain uid cur where p: "p = new_project i' uid (clock s) cur"
    "work s2 = (committed s)\<lparr>projects := projects (committed s) @ [p]\<rparr>"
    by (auto simp: insert_project_def tx_stmt_ok split: if_splits option.splits)
  moreover have "new_project i' uid (clock s) cur = new_project i uid (clock s) cur"
    by (simp add: new_project_def i'_def)
  ultimately show ?thesis using v sk insert_skills_ok by fastforce
qed

lemma GetProjectForUpdate_ok:
  "GetProjectForUpdate i s = (Inr p, t) \<longleftrightarrow> \<not> aborted s \<and> \<not> faults s 0 \<and> live_project i (work s) = Some p \<and> t = tick s"
  by (auto simp: GetProjectForUpdate_def scan_row_ok tx_stmt_ok)

lemma PublishProject_ok:
  assumes "PublishProject i c s = (Inr p', t)"
  shows "\<exists>p. live_project i (committed s) = Some p \<and> prj_ClientID p = c \<and> prj_Status p = ''draft'' \<and>
    committed t = post_event (published_event i c p)
      ((committed s)\<lparr>projects := update_where (\<lambda>p. prj_ID p = i) (publish_row (clock s)) (projects (committed s))\<rparr>)"
  using assms
  by (auto simp: PublishProject_def bindE_ok begin_tx_ok GetProjectForUpdate_ok SetStatusPublished_def tx_stmt_ok
      Enqueue_ok commit_tx_ok ret_ok throw_ok split: if_splits)

lemma CloseProject_ok:
  assumes "CloseProject i c s = (Inr p', t)"
  shows "\<exists>p. live_project i (committed s) = Some p \<and> prj_ClientID p = c \<and> prj_Status p \<notin> {''closed'', ''archived''} \<and>
    committed t = post_event (Project.closed_event i c p)
      ((committed s)\<lparr>projects := update_where (\<lambda>p. prj_ID p = i) (close_project_row (clock s)) (projects (committed s))\<rparr>)"
  using assms
  by (auto simp: CloseProject_def bindE_ok begin_tx_ok GetProjectForUpdate_ok SetStatusClosed_def tx_stmt_ok
      Enqueue_ok commit_tx_ok ret_ok throw_ok split: if_splits)

lemma AddAttachment_ok:
  assumes "AddAttachment i c k f n ct s = (Inr a, t)"
  shows "\<exists>p. live_project i (committed s) = Some p \<and> prj_ClientID p = c \<and> att_ProjectID a = i \<and>
    committed t = (committed s)\<lparr>project_attachments := project_attachments (committed s) @ [a]\<rparr>"
  using assms
  by (auto simp: AddAttachment_def bindE_ok store_GetProject_def store_AddAttachment_def scan_row_ok pool_query_ok
      pool_exec_ok throw_ok Let_def split: if_splits)

text \<open>The milestones of a proposal without their identifiers.\<close>

definition milestone_input :: "ProposalMilestone \<Rightarrow> PMilestoneInput" where
  "milestone_input m = \<lparr>pmi_Seq = pm_Seq m, pmi_Title = pm_Title m, pmi_AmountCents = pm_AmountCents m, pmi_DueDays = pm_DueDays m\<rparr>"

lemma InsertMilestone_ok:
  assumes "InsertMilestone pid m s = (Inr u, t)"
  shows "work t = (work s)\<lparr>proposal_milestones := proposal_milestones (work s) @ [m\<lparr>pm_ID := ids s 0, pm_ProposalID := pid\<rparr>]\<rparr> \<and>
    committed t = committed s \<and> clock t = clock s"
  using assms by (auto simp: InsertMilestone_def tx_stmt_ok split: if_splits)

lemma InsertAnswer_ok:
  assumes "InsertAnswer pid a s = (Inr u, t)"
  shows "(\<exists>an. work t = (work s)\<lparr>proposal_answers := an\<rparr>) \<and> committed t = committed s \<and> clock t = clock s"
  using assms by (auto simp: InsertAnswer_def tx_stmt_ok split: if_splits)

lemma insert_pmilestones_ok:
  "insert_pmilestones pid ms s = (Inr u, t) \<Longrightarrow>
     (\<exists>new. work t = (work s)\<lparr>proposal_milestones := proposal_milestones (work s) @ new\<rparr> \<and>
        map milestone_input new = ms \<and> (\<forall>m \<in> set new. pm_ProposalID m = pid)) \<and>
     committed t = committed s \<and> clock t = clock s"
proof (induction ms arbitrary: s)
  case Nil
  then have "work t = (work s)\<lparr>proposal_milestones := proposal_milestones (work s) @ []\<rparr>" "committed t = committed s" "clock t = clock s"
    by (simp_all add: ret_ok)
  then show ?case by fastforce
next
  case (Cons m ms)
  from Cons.prems obtain s1 uid where s1: "work s1 = (work s)\<lparr>proposal_milestones := proposal_milestones (work s) @
        [\<lparr>pm_ID = uid, pm_ProposalID = pid, pm_Seq = pmi_Seq m, pm_Title = pmi_Title m,
          pm_AmountCents = pmi_AmountCents m, pm_DueDays = pmi_DueDays m\<rparr>]\<rparr>" (is "_ = _\<lparr>proposal_milestones := _ @ [?m]\<rparr>")
      "committed s1 = committed s" "clock s1 = clock s" and rest: "insert_pmilestones pid ms s1 = (Inr u, t)"
    by (auto simp: bindE_ok dest!: InsertMilestone_ok)
  from Cons.IH [OF rest] obtain new where new: "work t = (work s1)\<lparr>proposal_milestones := proposal_milestones (work s1) @ new\<rparr>"
    "map milestone_input new = ms" "\<forall>m \<in> set new. pm_ProposalID m = pid" "committed t = committed s1" "clock t = clock s1" by blast
  have "work t = (work s)\<lparr>proposal_milestones := proposal_milestones (work s) @ (?m # new)\<rparr>" by (simp add: new(1) s1(1))
  moreover have "map milestone_input (?m # new) = m # ms" by (simp add: new(2) milestone_input_def)
  moreover have "\<forall>m \<in> set (?m # new). pm_ProposalID m = pid" using new(3) by simp
  ultimately show ?case using new(4,5) s1(2,3) by metis
qed

lemma insert_answers_ok:
  "insert_answers pid as s = (Inr u, t) \<Longrightarrow>
     (\<exists>an. work t = (work s)\<lparr>proposal_answers := an\<rparr>) \<and> committed t = committed s \<and> clock t = clock s"
proof (induction as arbitrary: s)
  case Nil
  then have "work t = (work s)\<lparr>proposal_answers := proposal_answers (work s)\<rparr>" "committed t = committed s" "clock t = clock s"
    by (simp_all add: ret_ok)
  then show ?case by blast
next
  case (Cons a as)
  from Cons.prems obtain s1 where s1: "\<exists>an. work s1 = (work s)\<lparr>proposal_answers := an\<rparr>" "committed s1 = committed s"
      "clock s1 = clock s" and rest: "insert_answers pid as s1 = (Inr u, t)"
    by (auto simp: bindE_ok dest!: InsertAnswer_ok)
  from Cons.IH [OF rest] s1 show ?case by auto
qed

text \<open>The row a submission leaves.\<close>

definition proposal_of :: "SubmitInput \<Rightarrow> string \<Rightarrow> int \<Rightarrow> string \<Rightarrow> Proposal" where
  "proposal_of i pid now cur = new_proposal (submitted_row i []) pid now cur"

lemma SubmitProposal_ok:
  assumes "SubmitProposal i s = (Inr p, t)"
  shows "0 < si_BidAmountCents i \<and> (\<exists>cur new an.
    char3 (if si_Currency i = '''' then ''USD'' else si_Currency i) = Some cur \<and>
    prp_ID p \<notin> prp_ID ` set (proposals (committed s)) \<and>
    (si_ProjectID i, si_FreelancerID i) \<notin> proposal_key ` set (proposals (committed s)) \<and>
    si_ProjectID i \<in> prj_ID ` set (projects (committed s)) \<and>
    map milestone_input new = si_Milestones i \<and> (\<forall>m \<in> set new. pm_ProposalID m = prp_ID p) \<and>
    (\<exists>e. committed t = post_event e ((committed s)\<lparr>proposals := proposals (committed s) @ [proposal_of i (prp_ID p) (clock s) cur],
      proposal_milestones := proposal_milestones (committed s) @ new, proposal_answers := an\<rparr>)))"
proof -
  define i' where "i' = (if si_Currency i = '''' then i\<lparr>si_Currency := ''USD''\<rparr> else i)"
  let ?s1 = "(tick s)\<lparr>work := committed s, aborted := False\<rparr>"
  from assms obtain s2 s3 s4 u v where bid: "0 < si_BidAmountCents i"
    and ins: "InsertProposal (submitted_row i' []) ?s1 = (Inr (prp_ID p), s2)"
    and ms: "insert_pmilestones (prp_ID p) (si_Milestones i') s2 = (Inr u, s3)"
    and an: "insert_answers (prp_ID p) (si_Answers i') s3 = (Inr v, s4)"
    and t: "committed t = post_event (submitted_event (prp_ID p) i') (work s4)"
    by (auto simp: SubmitProposal_def i'_def Let_def bindE_ok begin_tx_ok map_error_ok Enqueue_ok commit_tx_ok ret_ok throw_ok
        submitted_row_def simp del: insert_pmilestones.simps insert_answers.simps split: if_splits)
  have i': "si_ProjectID i' = si_ProjectID i" "si_FreelancerID i' = si_FreelancerID i" "si_Milestones i' = si_Milestones i"
    "si_Currency i' = (if si_Currency i = '''' then ''USD'' else si_Currency i)"
    "new_proposal (submitted_row i' []) pid now cur = proposal_of i pid now cur" for pid now cur
    by (simp_all add: i'_def proposal_of_def new_proposal_def submitted_row_def)
  from ins obtain cur where cur: "char3 (si_Currency i') = Some cur" and
    fresh: "prp_ID p \<notin> prp_ID ` set (proposals (committed s))"
      "(si_ProjectID i, si_FreelancerID i) \<notin> proposal_key ` set (proposals (committed s))"
      "si_ProjectID i \<in> prj_ID ` set (projects (committed s))" and
    w2: "work s2 = (committed s)\<lparr>proposals := proposals (committed s) @ [new_proposal (submitted_row i' []) (prp_ID p) (clock s) cur]\<rparr>"
    unfolding InsertProposal_def tx_stmt_ok
    by (auto simp: submitted_row_def proposal_key_def i' split: if_splits option.splits)
  from insert_pmilestones_ok [OF ms] obtain new where new: "map milestone_input new = si_Milestones i"
    "\<forall>m \<in> set new. pm_ProposalID m = prp_ID p" "work s3 = (work s2)\<lparr>proposal_milestones := proposal_milestones (work s2) @ new\<rparr>"
    unfolding i' by blast
  from insert_answers_ok [OF an] obtain ans where "work s4 = (work s3)\<lparr>proposal_answers := ans\<rparr>" by blast
  with new(3) w2 have "committed t = post_event (submitted_event (prp_ID p) i') ((committed s)\<lparr>proposals := proposals (committed s) @
      [proposal_of i (prp_ID p) (clock s) cur], proposal_milestones := proposal_milestones (committed s) @ new, proposal_answers := ans\<rparr>)"
    unfolding t by (simp add: i')
  moreover from cur have "char3 (if si_Currency i = '''' then ''USD'' else si_Currency i) = Some cur" unfolding i'(4) .
  ultimately show ?thesis using bid fresh new(1,2) by blast
qed

lemma WithdrawProposal_ok:
  assumes "WithdrawProposal i f s = (Inr u, t)"
  shows "length (filter (can_withdraw i f) (proposals (committed s))) = 1 \<and>
    committed t = post_event (withdrawn_event i f)
      ((committed s)\<lparr>proposals := update_where (can_withdraw i f) (withdraw_row (clock s)) (proposals (committed s))\<rparr>)"
  using assms
  by (auto simp: WithdrawProposal_def bindE_ok begin_tx_ok store_WithdrawProposal_def tx_stmt_ok Enqueue_ok commit_tx_ok
      throw_ok split: if_splits)

lemma ProjectClientOfProposal_ok:
  "ProjectClientOfProposal i s = (Inr c, t) \<longleftrightarrow> \<not> faults s 0 \<and> project_client_of i (committed s) = Some c \<and> t = tick s"
  by (auto simp: ProjectClientOfProposal_def scan_row_ok pool_query_ok)

lemma ShortlistProposal_ok:
  assumes "ShortlistProposal i c s = (Inr u, t)"
  shows "c \<noteq> '''' \<and> project_client_of i (committed s) = Some c \<and> length (filter (can_shortlist i) (proposals (committed s))) = 1 \<and>
    committed t = post_event (shortlisted_event i c)
      ((committed s)\<lparr>proposals := update_where (can_shortlist i) shortlist_row (proposals (committed s))\<rparr>)"
  using assms
  by (auto simp: ShortlistProposal_def bindE_ok begin_tx_ok ProjectClientOfProposal_ok store_ShortlistProposal_def tx_stmt_ok
      Enqueue_ok commit_tx_ok throw_ok split: if_splits)

section \<open>The services as a transition system\<close>

inductive_set market_ops :: "(market_db, response) io set" where
  "createProject p b \<in> market_ops"
| "listProjects m st c q l f \<in> market_ops"
| "getProject i \<in> market_ops"
| "publishProject p i \<in> market_ops"
| "closeProject p i \<in> market_ops"
| "addAttachment p i a \<in> market_ops"
| "submit u body \<in> market_ops"
| "get i \<in> market_ops"
| "withdraw u i \<in> market_ops"
| "shortlist u i \<in> market_ops"
| "listByProject u i st \<in> market_ops"
| "listMine u \<in> market_ops"
| "internalProposal i \<in> market_ops"

inductive_cases market_opsE: "m \<in> market_ops"

lemma keeps_market_reads:
  "keeps (listProjects m st c q l f)" "keeps (getProject i)" "keeps (get i)" "keeps (listByProject u i st)"
  "keeps (listMine u)" "keeps (internalProposal i)"
  unfolding listProjects_def getProject_def get_def listByProject_def listMine_def internalProposal_def ListProjects_def
    GetProject_def GetProposal_def ListProposalsForProject_def ListProposalsForFreelancer_def Proposal.unauthorized_def
    ProposalForContract_def
  by (intro io_keeps)+

text \<open>The handlers that write, one after the other; what holds of each write holds of every step.\<close>

lemma market_ops_cases:
  assumes "m \<in> market_ops" "\<And>x. keeps x \<Longrightarrow> Q x"
    "\<And>i an. Q (handle Project.mapError (CreateProject i) an)" "\<And>i c an. Q (handle Project.mapError (PublishProject i c) an)"
    "\<And>i c an. Q (handle Project.mapError (CloseProject i c) an)" "\<And>i c k f n t an. Q (handle Project.mapError (AddAttachment i c k f n t) an)"
    "\<And>i an. Q (handle Proposal.mapError (SubmitProposal i) an)" "\<And>i c an. Q (handle Proposal.mapError (WithdrawProposal i c) an)"
    "\<And>i c an. Q (handle Proposal.mapError (ShortlistProposal i c) an)"
  shows "Q m"
proof -
  have r: "Q (ret x)" for x by (rule assms(2)) (intro io_keeps)
  have g: "(\<And>x. Q (f x)) \<Longrightarrow> Q (guarded (ret (decode b)) f)" for f :: "'x \<Rightarrow> (market_db, response) io" and b
  proof -
    assume f: "\<And>x. Q (f x)"
    have "guarded (ret (decode b)) f = (case b of None \<Rightarrow> ret (Problem 400 ''INVALID_JSON'') | Some x \<Rightarrow> f x)"
      by (rule ext) (simp add: guarded_run run_basic decode_def split: option.split)
    then show ?thesis using f r by (simp split: option.split)
  qed
  from assms(1) show ?thesis
    by (cases rule: market_opsE)
      (auto simp: keeps_market_reads assms(2) createProject_def publishProject_def closeProject_def addAttachment_def submit_def withdraw_def
        shortlist_def Proposal.unauthorized_def intro!: r g assms(3-9))
qed

interpretation market: service_system market_ops market_ok
  by unfold_locales (erule market_ops_cases; simp add: op_inv_keeps op_inv_handle op_inv_market)

text \<open>
  C23: the marketplace invariant. Whatever sequence of requests the project and proposal services
  answer, with statements failing anywhere: every project's budget is positive, ordered and, for
  hourly work, has a weekly limit; every bid is positive; a freelancer has at most one proposal per
  project and each belongs to an existing project; milestones are numbered without repetition; a
  proposal is withdrawn exactly when it carries a withdrawal time.
\<close>

theorem market_invariant:
  assumes "(op_step market_ops)\<^sup>*\<^sup>* d d'" "market_ok d"
  shows "market_ok d'"
  using assms by (rule market.reachable_inv)

section \<open>State machines\<close>

definition project_moved :: "Project \<Rightarrow> Project \<Rightarrow> bool" where
  "project_moved p q \<longleftrightarrow> prj_ID q = prj_ID p \<and> prj_ClientID q = prj_ClientID p \<and> prj_BudgetType q = prj_BudgetType p \<and>
     prj_BudgetMinCents q = prj_BudgetMinCents p \<and> prj_BudgetMaxCents q = prj_BudgetMaxCents p \<and>
     prj_deleted_at q = prj_deleted_at p \<and>
     (prj_Status q = prj_Status p \<or> prj_Status p = ''draft'' \<and> prj_Status q = ''published'' \<or>
      prj_Status p \<notin> {''closed'', ''archived''} \<and> prj_Status q = ''closed'')"

definition proposal_moved :: "Proposal \<Rightarrow> Proposal \<Rightarrow> bool" where
  "proposal_moved p q \<longleftrightarrow> prp_ID q = prp_ID p \<and> proposal_key q = proposal_key p \<and> prp_BidAmountCents q = prp_BidAmountCents p \<and>
     prp_Currency q = prp_Currency p \<and> prp_CoverLetter q = prp_CoverLetter p \<and>
     (prp_Status q = prp_Status p \<or> prp_Status p = ''submitted'' \<and> prp_Status q = ''shortlisted'' \<or>
      prp_Status p \<in> {''submitted'', ''shortlisted''} \<and> prp_Status q = ''withdrawn'')"

lemma project_moved_refl [simp]: "project_moved p p"
  by (simp add: project_moved_def)

lemma proposal_moved_refl [simp]: "proposal_moved p p"
  by (simp add: proposal_moved_def)

lemma project_moved_trans: "project_moved a b \<Longrightarrow> project_moved b c \<Longrightarrow> project_moved a c"
  by (auto simp: project_moved_def)

lemma proposal_moved_trans: "proposal_moved a b \<Longrightarrow> proposal_moved b c \<Longrightarrow> proposal_moved a c"
  by (auto simp: proposal_moved_def)

definition market_moved :: "market_db \<Rightarrow> market_db \<Rightarrow> bool" where
  "market_moved d d' \<longleftrightarrow> grown project_moved (projects d) (projects d') \<and> grown proposal_moved (proposals d) (proposals d')"

lemma market_moved_refl [simp]: "market_moved d d"
  by (simp add: market_moved_def grown_refl)

lemma market_moved_trans: "market_moved a b \<Longrightarrow> market_moved b c \<Longrightarrow> market_moved a c"
  unfolding market_moved_def by (meson grown_trans project_moved_trans proposal_moved_trans)

lemma live_project_unique:
  assumes "market_ok d" "live_project i d = Some p" "q \<in> set (projects d)" "prj_ID q = i"
  shows "q = p"
  using assms by (auto simp: live_project_def market_ok_def dest!: select_one_SomeD dest: distinct_key_unique)

text \<open>An operation moves rows only along the machines; on error it moves none.\<close>

definition moves :: "(market_db, response) io \<Rightarrow> bool" where
  "moves m \<longleftrightarrow> (\<forall>s. market_ok (committed s) \<longrightarrow> market_moved (committed s) (committed (snd (m s))))"

lemma moves_keeps: "keeps m \<Longrightarrow> moves m"
  by (simp add: moves_def keeps_def)

lemma moves_handle:
  assumes "atomic m" "\<And>x s t. market_ok (committed s) \<Longrightarrow> m s = (Inr x, t) \<Longrightarrow> market_moved (committed s) (committed t)"
  shows "moves (handle me m an)"
proof -
  have "market_moved (committed s) (committed (snd (handle me m an s)))" if s: "market_ok (committed s)" for s
  proof (cases "committed (snd (handle me m an s)) = committed s")
    case False
    from handle_changed [OF prod.collapse [symmetric] assms(1) False] assms(2) [OF s] show ?thesis by blast
  qed simp
  then show ?thesis by (simp add: moves_def)
qed

lemma moved_write:
  assumes "market_ok d" "live_project i d = Some p" "project_moved p (f p)"
  shows "market_moved d (post_event e (d\<lparr>projects := update_where (\<lambda>p. prj_ID p = i) f (projects d)\<rparr>))"
  using assms live_project_unique [OF assms(1,2)] by (auto simp: market_moved_def intro!: grown_update grown_refl)

lemma market_step_moves: "m \<in> market_ops \<Longrightarrow> moves m"
proof (erule market_ops_cases)
  fix i an
  show "moves (handle Project.mapError (CreateProject i) an)"
    by (rule moves_handle [OF atomic_project(1)]) (auto dest!: CreateProject_ok simp: market_moved_def grown_append grown_refl)
next
  fix i c an
  show "moves (handle Project.mapError (PublishProject i c) an)"
    by (rule moves_handle [OF atomic_project(2)])
      (auto dest!: PublishProject_ok intro!: moved_write simp: project_moved_def publish_row_def)
  show "moves (handle Project.mapError (CloseProject i c) an)"
    by (rule moves_handle [OF atomic_project(3)])
      (auto dest!: CloseProject_ok intro!: moved_write simp: project_moved_def close_project_row_def)
next
  fix i c an
  show "moves (handle Proposal.mapError (WithdrawProposal i c) an)"
    by (rule moves_handle [OF atomic_proposal(2)])
      (auto dest!: WithdrawProposal_ok intro!: grown_update
        simp: market_moved_def grown_refl proposal_moved_def withdraw_row_def can_withdraw_def proposal_key_def)
  show "moves (handle Proposal.mapError (ShortlistProposal i c) an)"
    by (rule moves_handle [OF atomic_proposal(3)])
      (auto dest!: ShortlistProposal_ok intro!: grown_update
        simp: market_moved_def grown_refl proposal_moved_def shortlist_row_def can_shortlist_def proposal_key_def)
next
  fix i c k f n t an
  show "moves (handle Project.mapError (AddAttachment i c k f n t) an)"
    by (rule moves_handle [OF atomic_project(4)]) (auto dest!: AddAttachment_ok simp: market_moved_def grown_refl)
next
  fix i an
  show "moves (handle Proposal.mapError (SubmitProposal i) an)"
    by (rule moves_handle [OF atomic_proposal(1)])
      (auto dest!: SubmitProposal_ok simp: market_moved_def grown_append grown_refl)
qed (simp_all add: moves_keeps)

text \<open>
  The machines of projects and proposals. Over any sequence of requests no project and no
  proposal disappears or changes its owner, budget or bid; a project only goes from draft to
  published and from any state but closed and archived to closed; a proposal only from submitted to
  shortlisted and from either to withdrawn, so a withdrawn proposal stays withdrawn. The database
  has values for accepted and declined proposals, but no request reaches them.
\<close>

theorem market_machines:
  assumes "(op_step market_ops)\<^sup>*\<^sup>* d d'" "market_ok d"
  shows "grown project_moved (projects d) (projects d') \<and> grown proposal_moved (proposals d) (proposals d')"
proof -
  have "market_ok d' \<and> market_moved d d'"
  proof (rule op_steps_relation [where I = market_ok and R = market_moved, OF _ _ _ assms])
    show "op_step market_ops a b \<Longrightarrow> market_ok a \<Longrightarrow> market_ok b \<and> market_moved a b" for a b
      using market.sys.step_inv [of a b] by (auto simp: op_step_def moves_def dest!: market_step_moves)
  qed (auto intro: market_moved_trans)
  then show ?thesis by (simp add: market_moved_def)
qed

section \<open>Who may move them\<close>

text \<open>Each writing handler is refused, or runs its operation for the caller.\<close>

lemma createProject_changed:
  assumes "createProject p b s = (r, t)" "committed t \<noteq> committed s"
  shows "pr_UserID p \<noteq> '''' \<and> pr_AccountType p = ''client'' \<and>
    (\<exists>new. projects (committed t) = projects (committed s) @ [new] \<and> prj_ClientID new = pr_UserID p \<and> prj_Status new = ''draft'')"
proof -
  from assms obtain req an where id: "pr_UserID p \<noteq> ''''" "pr_AccountType p = ''client''"
    and h: "handle Project.mapError (CreateProject (req\<lparr>cp_ClientID := pr_UserID p\<rparr>)) an s = (r, t)"
    by (auto simp: createProject_def guarded_run decode_def run_basic split: option.splits if_splits)
  from handle_changed [OF h atomic_project(1) assms(2)] obtain new where
    "CreateProject (req\<lparr>cp_ClientID := pr_UserID p\<rparr>) s = (Inr new, t)" by blast
  from CreateProject_ok [OF this] id show ?thesis by (auto simp: new_project_def)
qed

lemma owner_changed:
  assumes "publishProject p i s = (r, t) \<or> closeProject p i s = (r, t) \<or> addAttachment p i a s = (r, t)" "committed t \<noteq> committed s"
  shows "pr_UserID p \<noteq> '''' \<and> (\<exists>q. live_project i (committed s) = Some q \<and> prj_ClientID q = pr_UserID p)"
proof -
  from assms consider
    (pub) an where "pr_UserID p \<noteq> ''''" "handle Project.mapError (PublishProject i (pr_UserID p)) an s = (r, t)"
  | (cls) an where "pr_UserID p \<noteq> ''''" "handle Project.mapError (CloseProject i (pr_UserID p)) an s = (r, t)"
  | (att) an k f n c where "pr_UserID p \<noteq> ''''" "handle Project.mapError (AddAttachment i (pr_UserID p) k f n c) an s = (r, t)"
    by (auto simp: publishProject_def closeProject_def addAttachment_def guarded_run decode_def run_basic
        split: option.splits if_splits)
  then show ?thesis
  proof cases
    case pub
    from handle_changed [OF pub(2) atomic_project(2) assms(2)] pub(1) show ?thesis by (auto dest!: PublishProject_ok)
  next
    case cls
    from handle_changed [OF cls(2) atomic_project(3) assms(2)] cls(1) show ?thesis by (auto dest!: CloseProject_ok)
  next
    case att
    from handle_changed [OF att(2) atomic_project(4) assms(2)] att(1) show ?thesis by (auto dest!: AddAttachment_ok)
  qed
qed

lemma submit_changed:
  assumes "submit uid body s = (r, t)" "committed t \<noteq> committed s"
  shows "uid \<noteq> '''' \<and> (\<exists>new. proposals (committed t) = proposals (committed s) @ [new] \<and>
    prp_FreelancerID new = uid \<and> prp_Status new = ''submitted'')"
proof -
  from assms obtain req an where id: "uid \<noteq> ''''"
    and h: "handle Proposal.mapError (SubmitProposal (req\<lparr>si_FreelancerID := uid\<rparr>)) an s = (r, t)"
    by (auto simp: submit_def guarded_run decode_def run_basic Proposal.unauthorized_def split: option.splits if_splits)
  from handle_changed [OF h atomic_proposal(1) assms(2)] obtain new where
    "SubmitProposal (req\<lparr>si_FreelancerID := uid\<rparr>) s = (Inr new, t)" by blast
  from SubmitProposal_ok [OF this] id show ?thesis by (auto simp: proposal_of_def new_proposal_def submitted_row_def)
qed

lemma withdraw_changed:
  assumes "withdraw uid i s = (r, t)" "committed t \<noteq> committed s"
  shows "uid \<noteq> '''' \<and> (\<exists>q \<in> set (proposals (committed s)). prp_ID q = i \<and> prp_FreelancerID q = uid)"
proof -
  from assms obtain an where id: "uid \<noteq> ''''" and h: "handle Proposal.mapError (WithdrawProposal i uid) an s = (r, t)"
    by (auto simp: withdraw_def run_basic Proposal.unauthorized_def split: if_splits)
  from handle_changed [OF h atomic_proposal(2) assms(2)] obtain x where "WithdrawProposal i uid s = (Inr x, t)" by blast
  from WithdrawProposal_ok [OF this] have "filter (can_withdraw i uid) (proposals (committed s)) \<noteq> []" by auto
  then obtain q where "q \<in> set (proposals (committed s))" "can_withdraw i uid q" by (auto simp: filter_empty_conv)
  with id show ?thesis by (auto simp: can_withdraw_def)
qed

lemma shortlist_changed:
  assumes "shortlist uid i s = (r, t)" "committed t \<noteq> committed s"
  shows "uid \<noteq> '''' \<and> project_client_of i (committed s) = Some uid"
proof -
  from assms obtain an where id: "uid \<noteq> ''''" and h: "handle Proposal.mapError (ShortlistProposal i uid) an s = (r, t)"
    by (auto simp: shortlist_def run_basic Proposal.unauthorized_def split: if_splits)
  from handle_changed [OF h atomic_proposal(3) assms(2)] id show ?thesis by (auto dest!: ShortlistProposal_ok)
qed

text \<open>
  C24: every change has an authorised author. A request that changes the database was made by
  a user with an identity, and: a new project is owned by its poster, a client account; publishing,
  closing and attaching is done by the project's client; a new proposal is the caller's, with the
  freelancer field taken from the identity and not from the body; withdrawing is done by the
  proposal's author; shortlisting by the client of the project it was made for.
\<close>

theorem market_authorization:
  "(createProject p b s = (r, t) \<and> committed t \<noteq> committed s \<longrightarrow> pr_UserID p \<noteq> '''' \<and> pr_AccountType p = ''client'' \<and>
     (\<exists>new. projects (committed t) = projects (committed s) @ [new] \<and> prj_ClientID new = pr_UserID p \<and> prj_Status new = ''draft'')) \<and>
   (publishProject p i s = (r, t) \<and> committed t \<noteq> committed s \<or> closeProject p i s = (r, t) \<and> committed t \<noteq> committed s \<or>
    addAttachment p i a s = (r, t) \<and> committed t \<noteq> committed s \<longrightarrow>
     pr_UserID p \<noteq> '''' \<and> (\<exists>q. live_project i (committed s) = Some q \<and> prj_ClientID q = pr_UserID p)) \<and>
   (submit uid body s = (r, t) \<and> committed t \<noteq> committed s \<longrightarrow> uid \<noteq> '''' \<and>
     (\<exists>new. proposals (committed t) = proposals (committed s) @ [new] \<and> prp_FreelancerID new = uid \<and> prp_Status new = ''submitted'')) \<and>
   (withdraw uid i s = (r, t) \<and> committed t \<noteq> committed s \<longrightarrow> uid \<noteq> '''' \<and>
     (\<exists>q \<in> set (proposals (committed s)). prp_ID q = i \<and> prp_FreelancerID q = uid)) \<and>
   (shortlist uid i s = (r, t) \<and> committed t \<noteq> committed s \<longrightarrow> uid \<noteq> '''' \<and> project_client_of i (committed s) = Some uid)"
  using createProject_changed [of p b s r t] owner_changed [of p i s r t a] submit_changed [of uid body s r t]
    withdraw_changed [of uid i s r t] shortlist_changed [of uid i s r t]
  by blast

end
