(* ===== verification/Market_Contract.thy ===== *)
theory Market_Contract
  imports Market_Props Contract_Props
begin

text \<open>
  From a proposal to a contract across two services: the contract service asks the proposal
  service's internal endpoint, parses its JSON answer and forms the contract from it. Also the
  concrete marketplace used as an example of the properties of projects and proposals.
\<close>

section \<open>The lookup client on the endpoint's answer\<close>

text \<open>\<open>json.Unmarshal\<close> into a struct: a missing field keeps its zero value, another type is an error.\<close>

definition json_str :: "string \<Rightarrow> (string \<times> json) list \<Rightarrow> string option" where
  "json_str k fs = (case map_of fs k of None \<Rightarrow> Some '''' | Some (JStr x) \<Rightarrow> Some x | Some JNull \<Rightarrow> Some '''' | Some _ \<Rightarrow> None)"

definition json_int :: "string \<Rightarrow> (string \<times> json) list \<Rightarrow> int option" where
  "json_int k fs = (case map_of fs k of None \<Rightarrow> Some 0 | Some (JInt x) \<Rightarrow> (if is_int64 x then Some x else None)
     | Some JNull \<Rightarrow> Some 0 | Some _ \<Rightarrow> None)"

definition unmarshal_proposal :: "json \<Rightarrow> LookupProposal option" where
  "unmarshal_proposal b = (case b of
     JObj fs \<Rightarrow>
       Option.bind (json_str ''proposal_id'' fs) (\<lambda>i.
       Option.bind (json_str ''project_id'' fs) (\<lambda>pr.
       Option.bind (json_str ''project_client_id'' fs) (\<lambda>cl.
       Option.bind (json_str ''freelancer_id'' fs) (\<lambda>fr.
       Option.bind (json_str ''status'' fs) (\<lambda>st.
       Option.bind (json_int ''bid_amount_cents'' fs) (\<lambda>bid.
       Option.bind (json_str ''currency'' fs) (\<lambda>cur.
       Some \<lparr>lp_ProposalID = i, lp_ProjectID = pr, lp_ProjectClientID = cl, lp_FreelancerID = fr, lp_Status = st,
             lp_BidAmountCents = bid, lp_Currency = cur\<rparr>)))))))
   | _ \<Rightarrow> None)"

text \<open>What arrives at the client of a response of the endpoint.\<close>

definition lookup_answer :: "response \<Rightarrow> LookupProposal http_answer" where
  "lookup_answer r = (case r of Reply st b \<Rightarrow> Answer st (unmarshal_proposal b) | Problem st c \<Rightarrow> Answer st None)"

lemma find_project_join:
  "project_client_of i d = Some c \<longleftrightarrow>
     (\<exists>p q. find_proposal i d = Some p \<and> find_project (prp_ProjectID p) d = Some q \<and> c = prj_ClientID q)"
  by (auto simp: project_client_of_def bind_eq_Some_conv)

lemma ProposalForContract_ok:
  assumes "ProposalForContract i s = (Inr c, t)"
  shows "\<exists>p q. find_proposal i (committed s) = Some p \<and> find_project (prp_ProjectID p) (committed s) = Some q \<and>
    c = \<lparr>cpr_ProposalID = prp_ID p, cpr_ProjectID = prp_ProjectID p, cpr_ProjectClientID = prj_ClientID q,
      cpr_FreelancerID = prp_FreelancerID p, cpr_Status = prp_Status p, cpr_BidAmountCents = prp_BidAmountCents p,
      cpr_Currency = prp_Currency p\<rparr>"
  using assms
  by (auto simp: ProposalForContract_def bindE_ok store_GetProposal_def scan_row_ok pool_query_ok ProjectClientOfProposal_ok
      find_project_join ret_ok)

lemma internalProposal_answer:
  assumes "internalProposal i s = (Inr resp, t)" "lookup_get (lookup_answer resp) = Inr lp"
  shows "\<exists>p q. find_proposal i (committed s) = Some p \<and> find_project (prp_ProjectID p) (committed s) = Some q \<and>
    lp = \<lparr>lp_ProposalID = prp_ID p, lp_ProjectID = prp_ProjectID p, lp_ProjectClientID = prj_ClientID q,
      lp_FreelancerID = prp_FreelancerID p, lp_Status = prp_Status p, lp_BidAmountCents = prp_BidAmountCents p,
      lp_Currency = prp_Currency p\<rparr>"
proof (cases "fst (ProposalForContract i s)")
  case (Inl e)
  with assms(1) have "resp = Proposal.mapError e"
    by (auto simp: internalProposal_def handle_run split: prod.splits sum.splits)
  with assms(2) show ?thesis
    by (simp add: lookup_answer_def Proposal.mapError_def lookup_get_def split: if_splits)
next
  case (Inr c)
  then have run: "ProposalForContract i s = (Inr c, snd (ProposalForContract i s))" by (simp add: prod_eq_iff)
  with assms(1) have resp: "resp = Reply 200 (JObj
     [(''proposal_id'', JStr (cpr_ProposalID c)), (''project_id'', JStr (cpr_ProjectID c)),
      (''project_client_id'', JStr (cpr_ProjectClientID c)), (''freelancer_id'', JStr (cpr_FreelancerID c)),
      (''status'', JStr (cpr_Status c)), (''bid_amount_cents'', JInt (cpr_BidAmountCents c)),
      (''currency'', JStr (cpr_Currency c))])"
    by (simp add: internalProposal_def handle_run split: prod.splits sum.splits)
  from assms(2) have "unmarshal_proposal (case resp of Reply st b \<Rightarrow> b) = Some lp"
    by (auto simp: resp lookup_answer_def lookup_get_Inr)
  then have "lp = \<lparr>lp_ProposalID = cpr_ProposalID c, lp_ProjectID = cpr_ProjectID c, lp_ProjectClientID = cpr_ProjectClientID c,
      lp_FreelancerID = cpr_FreelancerID c, lp_Status = cpr_Status c, lp_BidAmountCents = cpr_BidAmountCents c,
      lp_Currency = cpr_Currency c\<rparr>"
    by (simp add: resp unmarshal_proposal_def json_str_def json_int_def split: if_splits)
  with ProposalForContract_ok [OF run] show ?thesis by auto
qed

text \<open>
  C25: a contract carries the stored proposal's terms. When the contract service forms a contract
  from the answer of the proposal service's internal endpoint, whatever the request body claims,
  the proposal is stored there and not withdrawn or declined; the contract's client is the owner of
  its project, the freelancer its author, the amount its bid; and the two parties differ.
\<close>

theorem contract_from_proposal:
  assumes "internalProposal (ci_ProposalID i) ms = (Inr resp, ms')"
    and "CreateFromProposal (lookup_answer resp) i s = (Inr c, t)"
  shows "\<exists>p q. find_proposal (ci_ProposalID i) (committed ms) = Some p \<and>
    find_project (prp_ProjectID p) (committed ms) = Some q \<and>
    prp_Status p \<notin> {''withdrawn'', ''declined''} \<and>
    con_ClientID c = prj_ClientID q \<and> con_ProjectID c = prj_ID q \<and> con_FreelancerID c = prp_FreelancerID p \<and>
    con_ClientID c \<noteq> con_FreelancerID c \<and>
    (con_BudgetType c = ''hourly'' \<longrightarrow> con_HourlyRateCents c = Some (prp_BidAmountCents p)) \<and>
    (con_BudgetType c = ''fixed'' \<longrightarrow> con_TotalAmountCents c = Some (prp_BidAmountCents p))"
proof -
  from CreateFromProposal_effect [OF assms(2)] obtain lp i' uid where
    l: "lookup_get (lookup_answer resp) = Inr lp" and terms: "deriveContractTerms i lp = Inr i'"
    and c: "c = input_contract i' uid"
    by (metis (no_types, lifting))
  from internalProposal_answer [OF assms(1) l] obtain p q where pq: "find_proposal (ci_ProposalID i) (committed ms) = Some p"
    "find_project (prp_ProjectID p) (committed ms) = Some q" and
    lp: "lp = \<lparr>lp_ProposalID = prp_ID p, lp_ProjectID = prp_ProjectID p, lp_ProjectClientID = prj_ClientID q,
      lp_FreelancerID = prp_FreelancerID p, lp_Status = prp_Status p, lp_BidAmountCents = prp_BidAmountCents p,
      lp_Currency = prp_Currency p\<rparr>" by blast
  from pq(2) have "prj_ID q = prp_ProjectID p" by (auto simp: find_project_def dest: select_one_SomeD)
  with pq deriveContractTerms_ok [OF terms] show ?thesis
    by (intro exI [of _ p] exI [of _ q]) (auto simp: c input_contract_def lp)
qed

section \<open>A concrete marketplace\<close>

definition demo_client :: Principal where
  "demo_client = principal ''client'' ''client_user'' ''client''"

definition demo_project_input :: CreateProjectInput where
  "demo_project_input = \<lparr>cp_ClientID = ''someone else'', cp_Title = ''site'', cp_Description = ''d'', cp_BudgetType = ''fixed'',
     cp_BudgetMinCents = Some 500, cp_BudgetMaxCents = None, cp_Currency = '''', cp_WeeklyHourLimit = None,
     cp_ExperienceRequired = None, cp_EstimatedDurationDs = None, cp_CategoryID = None, cp_SkillIDs = [''go'', ''go'']\<rparr>"

definition demo_submit :: SubmitInput where
  "demo_submit = \<lparr>si_ProjectID = ''ai'', si_FreelancerID = ''client'', si_CoverLetter = ''hi'', si_BidAmountCents = 1000,
     si_Currency = '''', si_EstimatedDurationDays = None, si_ConnectsSpent = 2,
     si_Milestones = [\<lparr>pmi_Seq = 1, pmi_Title = ''all'', pmi_AmountCents = 1000, pmi_DueDays = None\<rparr>], si_Answers = []\<rparr>"

definition demo_market0 :: market_db where
  "demo_market0 = \<lparr>outbox = [], outbox_seq = 1, processed_events = [], projects = [], project_skills = [],
     project_attachments = [], proposals = [], proposal_milestones = [], proposal_answers = [],
     mkt_other_keys = [(''users'', ''client''), (''users'', ''freelancer''), (''skills'', ''go'')]\<rparr>"

definition demo_market1 :: market_db where
  "demo_market1 = committed (snd (createProject demo_client (Some demo_project_input) (quiet ''a'' demo_market0)))"

definition demo_market2 :: market_db where
  "demo_market2 = committed (snd (submit ''freelancer'' (Some demo_submit) (quiet ''b'' demo_market1)))"

definition demo_market3 :: market_db where
  "demo_market3 = committed (snd (withdraw ''freelancer'' ''bi'' (quiet ''c'' demo_market2)))"

lemma demo_market_steps: "(op_step market_ops)\<^sup>*\<^sup>* demo_market0 demo_market2" "op_step market_ops demo_market2 demo_market3"
proof -
  have "op_step market_ops demo_market0 demo_market1" "op_step market_ops demo_market1 demo_market2"
    unfolding demo_market1_def demo_market2_def by (auto intro!: op_step_quiet market_ops.intros)
  then show "(op_step market_ops)\<^sup>*\<^sup>* demo_market0 demo_market2" by (meson converse_rtranclp_into_rtranclp r_into_rtranclp)
  show "op_step market_ops demo_market2 demo_market3"
    unfolding demo_market3_def by (auto intro!: op_step_quiet market_ops.intros)
qed

lemma demo_market0_ok: "market_ok demo_market0"
  by (simp add: market_ok_def demo_market0_def refers_def)

lemma demo_market2_shape:
  "map prp_Status (proposals demo_market2) = [''submitted'']" "map prp_ID (proposals demo_market2) = [''bi'']"
  "map prp_FreelancerID (proposals demo_market2) = [''freelancer'']" "map prj_Status (projects demo_market2) = [''draft'']"
  "map prp_Status (proposals demo_market3) = [''withdrawn'']"
  by code_simp+

theorem market_invariant_witness:
  "market_ok demo_market2 \<and> length (proposals demo_market2) = 1"
  using market_invariant [OF demo_market_steps(1) demo_market0_ok] demo_market2_shape(2) by (metis length_map list.size(3) list.size(4) One_nat_def add_0)

theorem market_machines_witness:
  "grown proposal_moved (proposals demo_market2) (proposals demo_market3) \<and> map prp_Status (proposals demo_market3) = [''withdrawn'']"
proof -
  from demo_market_steps(2) have "(op_step market_ops)\<^sup>*\<^sup>* demo_market2 demo_market3" by (rule r_into_rtranclp)
  from market_machines [OF this market.reachable_inv [OF demo_market_steps(1) demo_market0_ok]] demo_market2_shape(5)
  show ?thesis by blast
qed

theorem market_authorization_witness:
  "prp_FreelancerID (last (proposals demo_market2)) = ''freelancer'' \<and> demo_market2 \<noteq> demo_market1"
proof -
  let ?run = "submit ''freelancer'' (Some demo_submit) (quiet ''b'' demo_market1)"
  have "length (proposals demo_market1) = 0" "length (proposals demo_market2) = 1" by code_simp+
  then have neq: "demo_market2 \<noteq> demo_market1" by auto
  have "\<exists>new. proposals demo_market2 = proposals demo_market1 @ [new] \<and> prp_FreelancerID new = ''freelancer'' \<and> prp_Status new = ''submitted''"
    using market_authorization [of demo_client None "quiet ''b'' demo_market1" "fst ?run" "snd ?run" "''p''" None
      "''freelancer''" "Some demo_submit"] neq by (simp add: demo_market2_def)
  with neq show ?thesis by auto
qed

definition demo_contract_run :: "(err + Contract) \<times> db conn" where
  "demo_contract_run = CreateFromProposal (lookup_answer (projr (fst (internalProposal ''bi'' (quiet ''m'' demo_market2)))))
     ((demo_input [demo_ms_input 1 400, demo_ms_input 2 600])\<lparr>ci_ProposalID := ''bi''\<rparr>)
     (quiet ''n'' (demo_keys\<lparr>other_keys := [(''projects'', ''ai''), (''proposals'', ''bi''), (''users'', ''client''), (''users'', ''freelancer'')]\<rparr>))"

theorem contract_from_proposal_witness:
  "\<exists>c. fst demo_contract_run = Inr c \<and> con_ClientID c = ''client'' \<and> con_FreelancerID c = ''freelancer'' \<and>
     con_TotalAmountCents c = Some 1000"
proof -
  let ?i = "(demo_input [demo_ms_input 1 400, demo_ms_input 2 600])\<lparr>ci_ProposalID := ''bi''\<rparr>"
  let ?q = "internalProposal ''bi'' (quiet ''m'' demo_market2)"
  let ?c = "projr (fst demo_contract_run)"
  have "\<not> isl (fst demo_contract_run)" "\<not> isl (fst ?q)" by code_simp+
  then have run: "demo_contract_run = (Inr ?c, snd demo_contract_run)" and q: "?q = (Inr (projr (fst ?q)), snd ?q)"
    by (simp_all add: prod_eq_iff)
  have i: "ci_ProposalID ?i = ''bi''" by simp
  have "con_BudgetType ?c = ''fixed''" by code_simp
  with contract_from_proposal [of ?i "quiet ''m'' demo_market2", unfolded i, OF q run [unfolded demo_contract_run_def]]
  obtain p r where pr: "find_proposal ''bi'' demo_market2 = Some p" "find_project (prp_ProjectID p) demo_market2 = Some r"
    "con_ClientID ?c = prj_ClientID r" "con_FreelancerID ?c = prp_FreelancerID p" "con_TotalAmountCents ?c = Some (prp_BidAmountCents p)"
    by (auto simp: demo_contract_run_def)
  moreover have "map_option (\<lambda>p. (prp_FreelancerID p, prp_BidAmountCents p)) (find_proposal ''bi'' demo_market2) = Some (''freelancer'', 1000)"
    "map_option prj_ClientID (Option.bind (find_proposal ''bi'' demo_market2) (\<lambda>p. find_project (prp_ProjectID p) demo_market2)) = Some ''client''"
    by code_simp+
  ultimately show ?thesis using run by (intro exI [of _ ?c]) (simp add: prod_eq_iff)
qed

text \<open>
  The services do not look at a project's state when a proposal arrives: one for a draft, which
  only its client has published to nobody, is accepted, and so is a client's own.
\<close>

lemma proposal_on_draft_accepted:
  "status_of (projr (fst (submit ''freelancer'' (Some demo_submit) (quiet ''b'' demo_market1)))) = 201 \<and>
   map prj_Status (projects demo_market1) = [''draft''] \<and>
   status_of (projr (fst (submit ''client'' (Some demo_submit) (quiet ''b'' demo_market1)))) = 201"
  by code_simp

text \<open>
  A withdrawn proposal keeps its place under the unique constraint: its author cannot submit again.
\<close>

lemma resubmission_refused:
  "projr (fst (submit ''freelancer'' (Some demo_submit) (quiet ''d'' demo_market3))) = Problem 409 ''DUPLICATE_PROPOSAL''"
  by code_simp

text \<open>The public listing serves drafts to anyone who asks for them by status.\<close>

lemma drafts_listed:
  "fst (ListProjects (\<lambda>q p. True) \<lparr>lf_Status = ''draft'', lf_CategoryID = '''', lf_Search = '''', lf_Limit = 0, lf_Offset = 0\<rparr>
     (quiet ''e'' demo_market1)) = Inr (projects demo_market1) \<and> length (projects demo_market1) = 1"
  by code_simp

end
