(* ===== verification/Base64.thy ===== *)
theory Base64
  imports Go_Text
begin

text \<open>
  Go's \<open>encoding/base64\<close> without padding, as the platform uses it: \<open>RawStdEncoding\<close> in stored password
  hashes and \<open>RawURLEncoding\<close> in key sets. Bytes are characters. The decoder skips line breaks, takes
  four digits at a time, refuses a single digit at the end and ignores spare bits.
\<close>

section \<open>Digits\<close>

definition common_digits :: string where
  "common_digits = ''ABCDEFGHIJKLMNOPQRSTUVWXYZabcdefghijklmnopqrstuvwxyz0123456789''"

definition std_alphabet :: string where
  "std_alphabet = common_digits @ ''+/''"

definition url_alphabet :: string where
  "url_alphabet = common_digits @ ''-_''"

fun digit_index :: "string \<Rightarrow> nat \<Rightarrow> char \<Rightarrow> nat option" where
  "digit_index [] n c = None"
| "digit_index (a # as) n c = (if a = c then Some n else digit_index as (Suc n) c)"

definition dec6 :: "string \<Rightarrow> char \<Rightarrow> nat option" where
  "dec6 alpha c = digit_index alpha 0 c"

definition enc6 :: "string \<Rightarrow> nat \<Rightarrow> char" where
  "enc6 alpha n = alpha ! n"

text \<open>An alphabet: 64 different characters, none of them a line break or a separator of the hash format.\<close>

definition alphabet :: "string \<Rightarrow> bool" where
  "alphabet a \<longleftrightarrow> length a = 64 \<and> distinct a \<and> CHR 0x0A \<notin> set a \<and> CHR 0x0D \<notin> set a \<and> CHR ''$'' \<notin> set a"

lemma alphabets [simp]: "alphabet std_alphabet" "alphabet url_alphabet"
  unfolding alphabet_def by code_simp+

lemma digit_index_nth:
  "distinct a \<Longrightarrow> i < length a \<Longrightarrow> digit_index a n (a ! i) = Some (n + i)"
proof (induction a arbitrary: n i)
  case (Cons x a)
  show ?case
  proof (cases i)
    case (Suc j)
    with Cons.prems have "x \<noteq> a ! j" by auto
    with Suc Cons show ?thesis by simp
  qed simp
qed simp

lemma dec6_enc6: "alphabet a \<Longrightarrow> n < 64 \<Longrightarrow> dec6 a (enc6 a n) = Some n"
  by (simp add: dec6_def enc6_def alphabet_def digit_index_nth)

lemma enc6_in: "alphabet a \<Longrightarrow> n < 64 \<Longrightarrow> enc6 a n \<in> set a"
  by (simp add: enc6_def alphabet_def)

section \<open>Encoding and decoding\<close>

definition byte :: "nat \<Rightarrow> char" where
  "byte n = char_of n"

definition val :: "char \<Rightarrow> nat" where
  "val c = of_char c"

fun EncodeToString :: "string \<Rightarrow> char list \<Rightarrow> string" where
  "EncodeToString al [] = []"
| "EncodeToString al [a] = [enc6 al (val a div 4), enc6 al (val a mod 4 * 16)]"
| "EncodeToString al [a, b] =
     [enc6 al (val a div 4), enc6 al (val a mod 4 * 16 + val b div 16), enc6 al (val b mod 16 * 4)]"
| "EncodeToString al (a # b # c # rest) =
     enc6 al (val a div 4) # enc6 al (val a mod 4 * 16 + val b div 16) #
     enc6 al (val b mod 16 * 4 + val c div 64) # enc6 al (val c mod 64) # EncodeToString al rest"

fun decode_quanta :: "nat list \<Rightarrow> char list option" where
  "decode_quanta [] = Some []"
| "decode_quanta [p] = None"
| "decode_quanta [p, q] = Some [byte (p * 4 + q div 16)]"
| "decode_quanta [p, q, r] = Some [byte (p * 4 + q div 16), byte (q mod 16 * 16 + r div 4)]"
| "decode_quanta (p # q # r # t # rest) =
     map_option (\<lambda>bs. byte (p * 4 + q div 16) # byte (q mod 16 * 16 + r div 4) # byte (r mod 4 * 64 + t) # bs)
       (decode_quanta rest)"

definition line_break :: "char \<Rightarrow> bool" where
  "line_break c \<longleftrightarrow> c = CHR 0x0A \<or> c = CHR 0x0D"

fun decode_digits :: "string \<Rightarrow> string \<Rightarrow> nat list option" where
  "decode_digits al [] = Some []"
| "decode_digits al (c # cs) = (case dec6 al c of None \<Rightarrow> None | Some n \<Rightarrow> map_option (\<lambda>ns. n # ns) (decode_digits al cs))"

definition DecodeString :: "string \<Rightarrow> string \<Rightarrow> char list option" where
  "DecodeString al s = Option.bind (decode_digits al (filter (\<lambda>c. \<not> line_break c) s)) decode_quanta"

section \<open>Round trip\<close>

lemma val_less [simp]: "val c < 256"
  by (simp add: val_def)

lemma byte_val [simp]: "byte (val c) = c"
  by (simp add: byte_def val_def)

lemma byte_parts:
  "byte (val a div 4 * 4 + (val a mod 4 * 16 + x) div 16) = a" if "x < 16"
  using that byte_val [of a] by (simp add: div_mult_mod_eq)

lemma digits_less:
  "val a div 4 < 64" "val a mod 4 * 16 < 64" "x < 16 \<Longrightarrow> val a mod 4 * 16 + x < 64" "val a mod 16 * 4 < 64"
  "y < 4 \<Longrightarrow> val a mod 16 * 4 + y < 64" "val a div 16 < 16" "val a div 64 < 4"
proof -
  have "val a < 256" by simp
  then show "val a div 4 < 64" "val a div 16 < 16" "val a div 64 < 4" by (simp_all add: less_mult_imp_div_less)
qed presburger+

lemma EncodeToString_alphabet: "alphabet al \<Longrightarrow> set (EncodeToString al bs) \<subseteq> set al"
  by (induction al bs rule: EncodeToString.induct) (auto simp: enc6_in digits_less)

lemma decode_digits_encode:
  assumes "alphabet al"
  shows "\<exists>ns. decode_digits al (EncodeToString al bs) = Some ns \<and> decode_quanta ns = Some bs"
  using assms
proof (induction al bs rule: EncodeToString.induct)
  case (2 al a)
  then show ?case by (simp add: dec6_enc6 digits_less byte_parts [of 0, simplified])
next
  case (3 al a b)
  have "byte ((val a mod 4 * 16 + val b div 16) mod 16 * 16 + val b mod 16 * 4 div 4) = b"
    using byte_val [of b] by (simp add: digits_less)
  with 3 show ?case by (simp add: dec6_enc6 digits_less byte_parts)
next
  case (4 al a b c rest)
  from 4 obtain ns where ns: "decode_digits al (EncodeToString al rest) = Some ns" "decode_quanta ns = Some rest" by blast
  have "byte ((val a mod 4 * 16 + val b div 16) mod 16 * 16 + (val b mod 16 * 4 + val c div 64) div 4) = b"
    "byte ((val b mod 16 * 4 + val c div 64) mod 4 * 64 + val c mod 64) = c"
    using byte_val [of b] byte_val [of c] by (simp_all add: digits_less)
  with 4 ns show ?case by (simp add: dec6_enc6 digits_less byte_parts)
qed simp

text \<open>Decoding an encoded byte string gives it back, in either alphabet.\<close>

lemma DecodeString_EncodeToString:
  assumes "alphabet al"
  shows "DecodeString al (EncodeToString al bs) = Some bs"
proof -
  have "\<forall>c \<in> set (EncodeToString al bs). \<not> line_break c"
    using EncodeToString_alphabet [OF assms] assms by (auto simp: alphabet_def line_break_def)
  then have "filter (\<lambda>c. \<not> line_break c) (EncodeToString al bs) = EncodeToString al bs" by (simp add: filter_id_conv)
  with decode_digits_encode [OF assms, of bs] show ?thesis by (auto simp: DecodeString_def)
qed

lemma EncodeToString_no_dollar: "alphabet al \<Longrightarrow> CHR ''$'' \<notin> set (EncodeToString al bs)"
  using EncodeToString_alphabet [of al bs] by (auto simp: alphabet_def)

end
