(* ===== verification/Password.thy ===== *)
theory Password
  imports Base64
begin

text \<open>
  \<open>services/pkg/crypto/password.go\<close>: the stored form of a password hash, its parser and the check of a
  password against it. \<open>argon2.IDKey\<close> is an argument; it panics for fewer than one iteration or
  thread. A panic is an error value here.
\<close>

section \<open>Parameters and errors\<close>

record Argon2Params =
  ap_Memory :: nat
  ap_Iterations :: nat
  ap_Parallelism :: nat
  ap_SaltLength :: nat
  ap_KeyLength :: nat

definition DefaultArgon2Params :: Argon2Params where
  "DefaultArgon2Params = \<lparr>ap_Memory = 64 * 1024, ap_Iterations = 3, ap_Parallelism = 2, ap_SaltLength = 16, ap_KeyLength = 32\<rparr>"

text \<open>The fields at their widths: \<open>uint32\<close> and, for the parallelism, \<open>uint8\<close>.\<close>

definition params_fit :: "Argon2Params \<Rightarrow> bool" where
  "params_fit p \<longleftrightarrow> ap_Memory p < 2 ^ 32 \<and> ap_Iterations p < 2 ^ 32 \<and> ap_Parallelism p < 2 ^ 8 \<and>
     ap_SaltLength p < 2 ^ 32 \<and> ap_KeyLength p < 2 ^ 32"

definition argon2_Version :: nat where
  "argon2_Version = 19"

text \<open>Password, salt, iterations, memory, threads, length of the key.\<close>

type_synonym idkey = "string \<Rightarrow> string \<Rightarrow> nat \<Rightarrow> nat \<Rightarrow> nat \<Rightarrow> nat \<Rightarrow> string"

definition call_IDKey :: "idkey \<Rightarrow> string \<Rightarrow> string \<Rightarrow> nat \<Rightarrow> nat \<Rightarrow> nat \<Rightarrow> nat \<Rightarrow> err + string" where
  "call_IDKey IDKey pw salt t m p k = (if t < 1 \<or> p < 1 then Inl (Errorf ''panic: argon2'') else Inr (IDKey pw salt t m p k))"

section \<open>Hashing\<close>

definition phc :: "Argon2Params \<Rightarrow> string \<Rightarrow> string \<Rightarrow> string" where
  "phc p salt key = ''$argon2id$v='' @ show_nat argon2_Version @ ''$m='' @ show_nat (ap_Memory p) @ '',t='' @ show_nat (ap_Iterations p) @
     '',p='' @ show_nat (ap_Parallelism p) @ ''$'' @ EncodeToString std_alphabet salt @ ''$'' @ EncodeToString std_alphabet key"

text \<open>\<open>salt\<close> is what the random generator answers when asked for so many bytes.\<close>

definition HashPassword :: "idkey \<Rightarrow> (nat \<Rightarrow> err + string) \<Rightarrow> string \<Rightarrow> Argon2Params \<Rightarrow> err + string" where
  "HashPassword IDKey rand_Read password p =
     (case rand_Read (ap_SaltLength p) of Inl e \<Rightarrow> Inl e | Inr salt \<Rightarrow>
      case call_IDKey IDKey password salt (ap_Iterations p) (ap_Memory p) (ap_Parallelism p) (ap_KeyLength p) of
        Inl e \<Rightarrow> Inl e | Inr key \<Rightarrow> Inr (phc p salt key))"

section \<open>Scanning\<close>

text \<open>
  \<open>fmt.Sscanf\<close> on the formats of this file: a literal must match; \<open>%d\<close> skips blanks (a line break is an
  error), takes an optional sign if the operand is signed, and the longest run of digits. What
  follows the last operand is not looked at.
\<close>

fun scan_lit :: "string \<Rightarrow> string \<Rightarrow> string option" where
  "scan_lit [] s = Some s"
| "scan_lit (c # cs) [] = None"
| "scan_lit (c # cs) (x # xs) = (if c = x then scan_lit cs xs else None)"

definition blank :: "char \<Rightarrow> bool" where
  "blank c \<longleftrightarrow> is_space c \<and> c \<noteq> CHR 0x0A"

definition scan_digits :: "string \<Rightarrow> (nat \<times> string) option" where
  "scan_digits s = (let ds = takeWhile is_digit s in
     if ds = [] then None else Some (nat (digits_value ds), dropWhile is_digit s))"

definition scan_uint :: "nat \<Rightarrow> string \<Rightarrow> (nat \<times> string) option" where
  "scan_uint bits s = (case scan_digits (dropWhile blank s) of
     None \<Rightarrow> None | Some (n, rest) \<Rightarrow> if n < 2 ^ bits then Some (n, rest) else None)"

definition scan_int :: "string \<Rightarrow> (int \<times> string) option" where
  "scan_int s = (let s1 = dropWhile blank s;
       (neg, s2) = (case s1 of [] \<Rightarrow> (False, []) | c # cs \<Rightarrow>
         if c = CHR ''-'' then (True, cs) else if c = CHR ''+'' then (False, cs) else (False, s1)) in
     case scan_digits s2 of None \<Rightarrow> None | Some (n, rest) \<Rightarrow>
       let v = (if neg then - int n else int n) in if is_int64 v then Some (v, rest) else None)"

definition scan_version :: "string \<Rightarrow> int option" where
  "scan_version s = Option.bind (scan_lit ''v='' s) (\<lambda>r. map_option fst (scan_int r))"

definition scan_params :: "string \<Rightarrow> (nat \<times> nat \<times> nat) option" where
  "scan_params s =
     Option.bind (scan_lit ''m='' s) (\<lambda>r. Option.bind (scan_uint 32 r) (\<lambda>(m, r).
     Option.bind (scan_lit '',t='' r) (\<lambda>r. Option.bind (scan_uint 32 r) (\<lambda>(t, r).
     Option.bind (scan_lit '',p='' r) (\<lambda>r. map_option (\<lambda>(p, r). (m, t, p)) (scan_uint 8 r))))))"

section \<open>Decoding and verifying\<close>

definition scan_error :: err where
  "scan_error = Errorf ''fmt.Sscanf''"

definition base64_error :: err where
  "base64_error = Errorf ''illegal base64 data''"

definition decodeHash :: "string \<Rightarrow> err + Argon2Params \<times> string \<times> string" where
  "decodeHash encoded =
     (let parts = split_on (CHR ''$'') encoded in
      if length parts \<noteq> 6 \<or> parts ! 1 \<noteq> ''argon2id'' then Inl ErrInvalidHash else
      case scan_version (parts ! 2) of None \<Rightarrow> Inl scan_error | Some version \<Rightarrow>
      if version \<noteq> int argon2_Version then Inl ErrIncompatibleVersion else
      case scan_params (parts ! 3) of None \<Rightarrow> Inl scan_error | Some (m, t, p) \<Rightarrow>
      case DecodeString std_alphabet (parts ! 4) of None \<Rightarrow> Inl base64_error | Some salt \<Rightarrow>
      case DecodeString std_alphabet (parts ! 5) of None \<Rightarrow> Inl base64_error | Some hash \<Rightarrow>
      Inr (\<lparr>ap_Memory = m, ap_Iterations = t, ap_Parallelism = p, ap_SaltLength = 0, ap_KeyLength = 0\<rparr>, salt, hash))"

definition VerifyPassword :: "idkey \<Rightarrow> string \<Rightarrow> string \<Rightarrow> err + bool" where
  "VerifyPassword IDKey password encoded =
     (case decodeHash encoded of Inl e \<Rightarrow> Inl e | Inr (p, salt, hash) \<Rightarrow>
      case call_IDKey IDKey password salt (ap_Iterations p) (ap_Memory p) (ap_Parallelism p) (length hash mod 2 ^ 32) of
        Inl e \<Rightarrow> Inl e | Inr other \<Rightarrow> Inr (hash = other))"

section \<open>Round trip\<close>

lemma split_on_nonempty [simp]: "split_on c s \<noteq> []"
  by (induction s) (auto split: list.split)

lemma split_on_append:
  "c \<notin> set w \<Longrightarrow> split_on c (w @ c # rest) = w # split_on c rest"
  by (induction w) (auto split: list.split)

lemma split_on_last: "c \<notin> set w \<Longrightarrow> split_on c w = [w]"
  by (induction w) auto

lemma split_on_six:
  assumes "c \<notin> set a" "c \<notin> set v" "c \<notin> set m" "c \<notin> set s" "c \<notin> set k"
  shows "split_on c (c # a @ c # v @ c # m @ c # s @ c # k) = [[], a, v, m, s, k]"
  using split_on_append [of c "[]"] assms by (simp add: split_on_append split_on_last)

lemma show_nat_no:
  "\<not> is_digit c \<Longrightarrow> c \<notin> set (show_nat n)"
  using show_nat_digits [of n] by (auto simp: list_all_iff)

lemma scan_lit_append [simp]: "scan_lit w (w @ s) = Some s"
  by (induction w) auto

lemma digit_not_blank: "is_digit c \<Longrightarrow> \<not> blank c"
  by (auto simp: is_digit_def blank_def is_space_def)

text \<open>A printed number is scanned back when no digit follows it.\<close>

lemma scan_digits_show:
  assumes "rest = [] \<or> \<not> is_digit (hd rest)"
  shows "scan_digits (show_nat n @ rest) = Some (n, rest)"
proof -
  have d: "\<forall>c \<in> set (show_nat n). is_digit c" using show_nat_digits [of n] by (simp add: list_all_iff)
  have "takeWhile is_digit (show_nat n @ rest) = show_nat n" "dropWhile is_digit (show_nat n @ rest) = rest"
    using d assms by (cases rest; simp add: takeWhile_append dropWhile_append)+
  then show ?thesis by (simp add: scan_digits_def Let_def show_nat_nonempty digits_value_show_nat)
qed

lemma show_nat_Cons: "\<exists>c cs. show_nat n = c # cs \<and> is_digit c"
  using show_nat_nonempty [of n] show_nat_digits [of n] by (cases "show_nat n") auto

lemma dropWhile_blank_show: "dropWhile blank (show_nat n @ rest) = show_nat n @ rest"
  using show_nat_Cons [of n] by (auto simp: digit_not_blank)

lemma scan_uint_show:
  "n < 2 ^ bits \<Longrightarrow> rest = [] \<or> \<not> is_digit (hd rest) \<Longrightarrow> scan_uint bits (show_nat n @ rest) = Some (n, rest)"
  by (simp add: scan_uint_def dropWhile_blank_show scan_digits_show)

lemma scan_version_show: "scan_version (''v='' @ show_nat argon2_Version) = Some (int argon2_Version)"
  by code_simp

lemma scan_params_show:
  assumes "params_fit p"
  shows "scan_params (''m='' @ show_nat (ap_Memory p) @ '',t='' @ show_nat (ap_Iterations p) @ '',p='' @ show_nat (ap_Parallelism p))
    = Some (ap_Memory p, ap_Iterations p, ap_Parallelism p)"
proof -
  have "scan_uint 32 (show_nat (ap_Memory p) @ '',t='' @ r) = Some (ap_Memory p, '',t='' @ r)"
    "scan_uint 32 (show_nat (ap_Iterations p) @ '',p='' @ r) = Some (ap_Iterations p, '',p='' @ r)"
    "scan_uint 8 (show_nat (ap_Parallelism p)) = Some (ap_Parallelism p, [])" for r
    using assms scan_uint_show [of "ap_Parallelism p" 8 "[]"]
    by (auto simp: params_fit_def is_digit_def intro!: scan_uint_show)
  then show ?thesis
    unfolding scan_params_def scan_lit_append by simp
qed

lemma decodeHash_phc:
  assumes "params_fit p"
  shows "decodeHash (phc p salt key) = Inr (\<lparr>ap_Memory = ap_Memory p, ap_Iterations = ap_Iterations p,
    ap_Parallelism = ap_Parallelism p, ap_SaltLength = 0, ap_KeyLength = 0\<rparr>, salt, key)"
proof -
  let ?v = "''v='' @ show_nat argon2_Version"
  let ?m = "''m='' @ show_nat (ap_Memory p) @ '',t='' @ show_nat (ap_Iterations p) @ '',p='' @ show_nat (ap_Parallelism p)"
  let ?s = "EncodeToString std_alphabet salt" and ?k = "EncodeToString std_alphabet key"
  have nd: "\<not> is_digit (CHR ''$'')" by (simp add: is_digit_def)
  have free: "CHR ''$'' \<notin> set ''argon2id''" "CHR ''$'' \<notin> set ?v" "CHR ''$'' \<notin> set ?m" "CHR ''$'' \<notin> set ?s" "CHR ''$'' \<notin> set ?k"
    using show_nat_no [OF nd] EncodeToString_no_dollar [OF alphabets(1)] by (auto simp del: One_nat_def)
  have "phc p salt key = CHR ''$'' # ''argon2id'' @ CHR ''$'' # ?v @ CHR ''$'' # ?m @ CHR ''$'' # ?s @ CHR ''$'' # ?k"
    by (simp add: phc_def)
  then have "split_on (CHR ''$'') (phc p salt key) = [[], ''argon2id'', ?v, ?m, ?s, ?k]"
    by (simp only: split_on_six [OF free])
  then show ?thesis
    unfolding decodeHash_def Let_def
    by (simp add: scan_version_show [simplified] scan_params_show [OF assms, simplified] DecodeString_EncodeToString)
qed

text \<open>
  C26: stored password hashes verify. For every password, salt and parameters within their widths
  and accepted by Argon2, a hash that \<open>HashPassword\<close> returns is read back with exactly its
  parameters, salt and key, and \<open>VerifyPassword\<close> then accepts a password exactly when it derives the
  stored key; the original one always does. The hypothesis on \<open>IDKey\<close> is that it returns as many
  bytes as it is asked for.
\<close>

theorem hash_verify_roundtrip:
  assumes "HashPassword IDKey rand_Read pw p = Inr encoded" "params_fit p"
    and "\<And>pw salt t m th k. length (IDKey pw salt t m th k) = k"
  shows "\<exists>salt. rand_Read (ap_SaltLength p) = Inr salt \<and>
    decodeHash encoded = Inr (p\<lparr>ap_SaltLength := 0, ap_KeyLength := 0\<rparr>, salt,
      IDKey pw salt (ap_Iterations p) (ap_Memory p) (ap_Parallelism p) (ap_KeyLength p)) \<and>
    VerifyPassword IDKey pw encoded = Inr True \<and>
    VerifyPassword IDKey pw' encoded = Inr (
      IDKey pw' salt (ap_Iterations p) (ap_Memory p) (ap_Parallelism p) (ap_KeyLength p) =
      IDKey pw salt (ap_Iterations p) (ap_Memory p) (ap_Parallelism p) (ap_KeyLength p))"
proof -
  from assms(1) obtain salt where salt: "rand_Read (ap_SaltLength p) = Inr salt" "1 \<le> ap_Iterations p" "1 \<le> ap_Parallelism p"
    and enc: "encoded = phc p salt (IDKey pw salt (ap_Iterations p) (ap_Memory p) (ap_Parallelism p) (ap_KeyLength p))"
    by (auto simp: HashPassword_def call_IDKey_def split: sum.splits if_splits)
  have k: "ap_KeyLength p mod 2 ^ 32 = ap_KeyLength p" using assms(2) by (simp add: params_fit_def)
  from decodeHash_phc [OF assms(2)] have "decodeHash encoded = Inr (p\<lparr>ap_SaltLength := 0, ap_KeyLength := 0\<rparr>, salt,
      IDKey pw salt (ap_Iterations p) (ap_Memory p) (ap_Parallelism p) (ap_KeyLength p))"
    unfolding enc by simp
  with salt k show ?thesis
    by (auto simp: VerifyPassword_def call_IDKey_def assms(3))
qed

text \<open>A stand-in for Argon2 with keys of the right length, for the concrete run.\<close>

definition toy_IDKey :: idkey where
  "toy_IDKey pw salt t m th k = take k (pw @ salt @ replicate k (CHR ''0''))"

definition demo_hash :: string where
  "demo_hash = projr (HashPassword toy_IDKey (\<lambda>n. Inr (replicate n (CHR ''s''))) ''secret'' DefaultArgon2Params)"

theorem hash_verify_roundtrip_witness:
  "VerifyPassword toy_IDKey ''secret'' demo_hash = Inr True \<and> VerifyPassword toy_IDKey ''Secret'' demo_hash = Inr False"
proof -
  have h: "HashPassword toy_IDKey (\<lambda>n. Inr (replicate n (CHR ''s''))) ''secret'' DefaultArgon2Params = Inr demo_hash"
    by (simp add: demo_hash_def HashPassword_def call_IDKey_def DefaultArgon2Params_def)
  have f: "params_fit DefaultArgon2Params" by (simp add: params_fit_def DefaultArgon2Params_def)
  have l: "length (toy_IDKey pw salt t m th k) = k" for pw salt t m th k by (simp add: toy_IDKey_def)
  have "toy_IDKey ''Secret'' salt t m th 32 \<noteq> toy_IDKey ''secret'' salt t m th 32" for salt t m th by (simp add: toy_IDKey_def)
  then show ?thesis
    using hash_verify_roundtrip [OF h f l, where pw' = "''Secret''"] by (auto simp: DefaultArgon2Params_def)
qed

text \<open>
  The parser accepts more than the printer writes: text after a number and blanks before it, and a
  hash with no iterations or threads, on which Argon2 panics.
\<close>

lemma scans_lenient:
  "scan_version ''v= 19x'' = Some 19" "scan_params ''m=1,t=0,p=1junk'' = Some (1, 0, 1)"
  by (simp_all add: scan_version_def scan_params_def scan_int_def scan_uint_def scan_digits_def blank_def is_space_def
      is_digit_def digits_value_def is_int64_def Let_def)

end
