(* ===== verification/Token.thy ===== *)
theory Token
  imports Auth Base64 "HOL-Library.AList"
begin

text \<open>
  \<open>services/pkg/token/jwt.go\<close> and \<open>services/gateway/internal/auth/verifier.go\<close>: how the auth service's
  public keys reach the gateway as a JSON Web Key Set, how the gateway refreshes them, and which
  tokens it then accepts. Parsing and signature checking of the JWT library is an argument;
  \<open>jwt_spec\<close> states its documented behaviour.
\<close>

section \<open>Keys\<close>

text \<open>\<open>ecdsa.PublicKey\<close>: the curve by name, the coordinates as \<open>big.Int\<close>s.\<close>

record PublicKey =
  pk_Curve :: string
  pk_X :: nat
  pk_Y :: nat

record jwk =
  jk_Kty :: string
  jk_Crv :: string
  jk_Kid :: string
  jk_Use :: string
  jk_Alg :: string
  jk_X :: string
  jk_Y :: string

text \<open>\<open>big.Int.Bytes\<close> and \<open>SetBytes\<close>: big-endian, without leading zeros.\<close>

fun big_Bytes :: "nat \<Rightarrow> char list" where
  "big_Bytes n = (if n = 0 then [] else big_Bytes (n div 256) @ [byte (n mod 256)])"

declare big_Bytes.simps [simp del]

definition SetBytes :: "char list \<Rightarrow> nat" where
  "SetBytes bs = foldl (\<lambda>n b. n * 256 + val b) 0 bs"

definition b64 :: "nat \<Rightarrow> string" where
  "b64 n = (let b = big_Bytes n;
               b = (if length b < 32 then replicate (32 - length b) (byte 0) @ b else b)
            in EncodeToString url_alphabet b)"

text \<open>The keys in the order the iteration over the map takes.\<close>

fun MarshalJWKS :: "(string \<times> PublicKey) list \<Rightarrow> err + jwk list" where
  "MarshalJWKS [] = Inr []"
| "MarshalJWKS ((kid, pub) # rest) =
     (if pk_Curve pub \<noteq> ''P-256'' then Inl (Errorf ''token: only P-256 supported'')
      else case MarshalJWKS rest of Inl e \<Rightarrow> Inl e
        | Inr out \<Rightarrow> Inr (\<lparr>jk_Kty = ''EC'', jk_Crv = ''P-256'', jk_Kid = kid, jk_Use = ''sig'', jk_Alg = ''ES256'',
            jk_X = b64 (pk_X pub), jk_Y = b64 (pk_Y pub)\<rparr> # out))"

fun parse_keys :: "jwk list \<Rightarrow> (string \<times> PublicKey) list \<Rightarrow> err + (string \<times> PublicKey) list" where
  "parse_keys [] out = Inr out"
| "parse_keys (k # ks) out =
     (if jk_Kty k \<noteq> ''EC'' \<or> jk_Crv k \<noteq> ''P-256'' then parse_keys ks out
      else case DecodeString url_alphabet (jk_X k) of None \<Rightarrow> Inl (Errorf ''token: bad jwk x'') | Some xb \<Rightarrow>
           case DecodeString url_alphabet (jk_Y k) of None \<Rightarrow> Inl (Errorf ''token: bad jwk y'') | Some yb \<Rightarrow>
           parse_keys ks (AList.update (jk_Kid k) \<lparr>pk_Curve = ''P-256'', pk_X = SetBytes xb, pk_Y = SetBytes yb\<rparr> out))"

text \<open>\<open>None\<close> is a document that is no JSON of that shape.\<close>

definition ParseJWKS :: "jwk list option \<Rightarrow> err + (string \<times> PublicKey) list" where
  "ParseJWKS doc = (case doc of None \<Rightarrow> Inl (Errorf ''json'') | Some ks \<Rightarrow>
     case parse_keys ks [] of Inl e \<Rightarrow> Inl e | Inr out \<Rightarrow>
       if out = [] then Inl (Errorf ''token: no usable EC keys in JWKS'') else Inr out)"

lemma SetBytes_snoc [simp]: "SetBytes (bs @ [b]) = SetBytes bs * 256 + val b"
  by (simp add: SetBytes_def)

lemma val_byte [simp]: "n < 256 \<Longrightarrow> val (byte n) = n"
  by (simp add: val_def byte_def)

lemma SetBytes_big_Bytes [simp]: "SetBytes (big_Bytes n) = n"
proof (induction n rule: big_Bytes.induct)
  case (1 n)
  then show ?case by (subst big_Bytes.simps) (auto simp: SetBytes_def [of "[]"])
qed

lemma SetBytes_pad: "SetBytes (replicate k (byte 0) @ bs) = SetBytes bs"
proof -
  have "foldl (\<lambda>n b. n * 256 + val b) 0 (replicate k (byte 0)) = 0" by (induction k) simp_all
  then show ?thesis by (simp add: SetBytes_def)
qed

lemma b64_decode: "\<exists>bs. DecodeString url_alphabet (b64 n) = Some bs \<and> SetBytes bs = n"
  by (simp add: b64_def Let_def DecodeString_EncodeToString SetBytes_pad)

text \<open>A published key set is read back as the keys it was made of.\<close>

lemma parse_keys_marshal:
  assumes "MarshalJWKS keys = Inr ks"
  shows "parse_keys ks out = Inr (foldl (\<lambda>m (k, v). AList.update k v m) out keys)"
  using assms
proof (induction keys arbitrary: ks out)
  case (Cons e keys)
  obtain kid pub where e: "e = (kid, pub)" by (cases e)
  from Cons.prems obtain out' where c: "pk_Curve pub = ''P-256''" and m: "MarshalJWKS keys = Inr out'"
    and ks: "ks = \<lparr>jk_Kty = ''EC'', jk_Crv = ''P-256'', jk_Kid = kid, jk_Use = ''sig'', jk_Alg = ''ES256'',
            jk_X = b64 (pk_X pub), jk_Y = b64 (pk_Y pub)\<rparr> # out'"
    by (auto simp: e split: if_splits sum.splits)
  obtain xb yb where "DecodeString url_alphabet (b64 (pk_X pub)) = Some xb" "SetBytes xb = pk_X pub"
    "DecodeString url_alphabet (b64 (pk_Y pub)) = Some yb" "SetBytes yb = pk_Y pub"
    using b64_decode by metis
  moreover have "\<lparr>pk_Curve = ''P-256'', pk_X = pk_X pub, pk_Y = pk_Y pub\<rparr> = pub" using c by (cases pub) simp
  ultimately show ?case by (simp add: ks e Cons.IH [OF m])
qed simp

lemma map_of_updates:
  "distinct (map fst keys) \<Longrightarrow> map_of (foldl (\<lambda>m (k, v). AList.update k v m) out keys) = map_of out ++ map_of keys"
proof (induction keys arbitrary: out)
  case (Cons e keys)
  obtain k v where e: "e = (k, v)" by (cases e)
  with Cons.prems have "k \<notin> dom (map_of keys)" by (auto simp: dom_map_of_conv_image_fst)
  then have "(map_of out)(k \<mapsto> v) ++ map_of keys = map_of out ++ (map_of keys)(k \<mapsto> v)"
    by (auto simp: map_add_def fun_eq_iff split: option.splits)
  with Cons e show ?case
    by (auto simp: update_conv' case_prod_unfold map_add_def fun_eq_iff split: option.splits)
qed simp

lemma ParseJWKS_MarshalJWKS:
  assumes "MarshalJWKS keys = Inr ks" "keys \<noteq> []" "distinct (map fst keys)"
  shows "\<exists>out. ParseJWKS (Some ks) = Inr out \<and> map_of out = map_of keys"
proof -
  let ?out = "foldl (\<lambda>m (k, v). AList.update k v m) [] keys"
  have m: "map_of ?out = map_of keys" using map_of_updates [OF assms(3), of "[]"] by simp
  then have "?out \<noteq> []" using assms(2) by (cases keys) (auto simp: fun_eq_iff split: if_splits)
  with m parse_keys_marshal [OF assms(1), of "[]"] show ?thesis by (simp add: ParseJWKS_def)
qed

section \<open>Verifying\<close>

text \<open>The parts of a token's header the key function reads; a \<open>kid\<close> that is no string is absent.\<close>

record jwt_header =
  jh_alg :: string
  jh_kid :: "string option"

record jwt_options =
  jo_ValidMethods :: "string list"
  jo_Issuer :: string
  jo_Audience :: string
  jo_ExpirationRequired :: bool

type_synonym keyfunc = "jwt_header \<Rightarrow> err + PublicKey"
type_synonym jwt_parser = "string \<Rightarrow> keyfunc \<Rightarrow> jwt_options \<Rightarrow> int \<Rightarrow> err + Claims"

record Verifier =
  vf_keys :: "(string \<times> PublicKey) list"
  vf_issuer :: string
  vf_audience :: string

definition is_ecdsa :: "string \<Rightarrow> bool" where
  "is_ecdsa alg \<longleftrightarrow> alg \<in> {''ES256'', ''ES384'', ''ES512''}"

definition verifier_key :: "Verifier \<Rightarrow> keyfunc" where
  "verifier_key v h =
     (if \<not> is_ecdsa (jh_alg h) then Inl (Errorf ''token: unexpected alg'')
      else case map_of (vf_keys v) (case jh_kid h of None \<Rightarrow> '''' | Some k \<Rightarrow> k) of
        None \<Rightarrow> Inl (Errorf ''token: unknown kid'') | Some key \<Rightarrow> Inr key)"

definition Verify :: "jwt_parser \<Rightarrow> Verifier \<Rightarrow> int \<Rightarrow> string \<Rightarrow> err + Claims" where
  "Verify ParseWithClaims v now raw =
     (case ParseWithClaims raw (verifier_key v)
        \<lparr>jo_ValidMethods = [''ES256''], jo_Issuer = vf_issuer v, jo_Audience = vf_audience v, jo_ExpirationRequired = True\<rparr> now of
        Inl e \<Rightarrow> Inl ErrInvalidToken | Inr c \<Rightarrow> Inr c)"

text \<open>
  What the library promises for these options: a token is accepted exactly when it parses, its
  algorithm is allowed, the key function has a key under which the signature is valid, issuer and
  audience are the expected ones and the time lies between \<open>nbf\<close> and \<open>exp\<close>.
\<close>

definition jwt_spec ::
  "jwt_parser \<Rightarrow> (string \<Rightarrow> (jwt_header \<times> RegisteredClaims \<times> Claims) option) \<Rightarrow> (PublicKey \<Rightarrow> string \<Rightarrow> bool) \<Rightarrow> bool" where
  "jwt_spec ParseWithClaims parts sig_ok \<longleftrightarrow> (\<forall>raw kf opts now c.
     jo_ExpirationRequired opts \<longrightarrow>
     (ParseWithClaims raw kf opts now = Inr c \<longleftrightarrow>
       (\<exists>h rc key. parts raw = Some (h, rc, c) \<and> jh_alg h \<in> set (jo_ValidMethods opts) \<and> kf h = Inr key \<and> sig_ok key raw \<and>
          rc_Issuer rc = jo_Issuer opts \<and> rc_Audience rc = jo_Audience opts \<and>
          rc_NotBefore rc \<le> now \<and> now < rc_ExpiresAt rc)))"

lemma Verify_iff:
  assumes "jwt_spec P parts sig_ok"
  shows "Verify P v now raw = Inr c \<longleftrightarrow>
    (\<exists>h rc key. parts raw = Some (h, rc, c) \<and> jh_alg h = ''ES256'' \<and>
       map_of (vf_keys v) (case jh_kid h of None \<Rightarrow> '''' | Some k \<Rightarrow> k) = Some key \<and> sig_ok key raw \<and>
       rc_Issuer rc = vf_issuer v \<and> rc_Audience rc = vf_audience v \<and> rc_NotBefore rc \<le> now \<and> now < rc_ExpiresAt rc)"
proof -
  let ?o = "\<lparr>jo_ValidMethods = [''ES256''], jo_Issuer = vf_issuer v, jo_Audience = vf_audience v, jo_ExpirationRequired = True\<rparr>"
  have "Verify P v now raw = Inr c \<longleftrightarrow> P raw (verifier_key v) ?o now = Inr c"
    by (simp add: Verify_def split: sum.split)
  also have "\<dots> \<longleftrightarrow> (\<exists>h rc key. parts raw = Some (h, rc, c) \<and> jh_alg h = ''ES256'' \<and> verifier_key v h = Inr key \<and> sig_ok key raw \<and>
       rc_Issuer rc = vf_issuer v \<and> rc_Audience rc = vf_audience v \<and> rc_NotBefore rc \<le> now \<and> now < rc_ExpiresAt rc)"
    using assms [unfolded jwt_spec_def, rule_format, of ?o raw "verifier_key v" now c] by simp
  also have "\<dots> \<longleftrightarrow> (\<exists>h rc key. parts raw = Some (h, rc, c) \<and> jh_alg h = ''ES256'' \<and>
       map_of (vf_keys v) (case jh_kid h of None \<Rightarrow> '''' | Some k \<Rightarrow> k) = Some key \<and> sig_ok key raw \<and>
       rc_Issuer rc = vf_issuer v \<and> rc_Audience rc = vf_audience v \<and> rc_NotBefore rc \<le> now \<and> now < rc_ExpiresAt rc)"
    by (intro ex_cong1 conj_cong refl) (simp add: verifier_key_def is_ecdsa_def split: option.split)
  finally show ?thesis .
qed

section \<open>The gateway's verifier\<close>

text \<open>What a fetch of the key set meets: no response, a status, or a body that breaks off or parses or not.\<close>

datatype jwks_answer = NoResponse | Status int | BrokenBody | Body "jwk list option"

record GwVerifier =
  gv_issuer :: string
  gv_audience :: string
  gv_inner :: Verifier

definition swap :: "(string \<times> PublicKey) list \<Rightarrow> GwVerifier \<Rightarrow> GwVerifier" where
  "swap keys v = v\<lparr>gv_inner := \<lparr>vf_keys = keys, vf_issuer = gv_issuer v, vf_audience = gv_audience v\<rparr>\<rparr>"

text \<open>\<open>Status\<close> carries a status other than 200; a 200 comes with its body.\<close>

definition refresh :: "jwks_answer \<Rightarrow> GwVerifier \<Rightarrow> err option \<times> GwVerifier" where
  "refresh a v = (case a of
     NoResponse \<Rightarrow> (Some DBError, v)
   | Status st \<Rightarrow> (Some (Errorf ''jwks endpoint returned''), v)
   | BrokenBody \<Rightarrow> (Some (Errorf ''read body''), v)
   | Body doc \<Rightarrow> (case ParseJWKS doc of Inl e \<Rightarrow> (Some e, v) | Inr keys \<Rightarrow> (None, swap keys v)))"

definition NewVerifier :: "jwks_answer \<Rightarrow> string \<Rightarrow> string \<Rightarrow> err + GwVerifier" where
  "NewVerifier a issuer audience =
     (case refresh a \<lparr>gv_issuer = issuer, gv_audience = audience, gv_inner = \<lparr>vf_keys = [], vf_issuer = '''', vf_audience = ''''\<rparr>\<rparr> of
        (Some e, v) \<Rightarrow> Inl e | (None, v) \<Rightarrow> Inr v)"

definition gw_Verify :: "jwt_parser \<Rightarrow> GwVerifier \<Rightarrow> int \<Rightarrow> string \<Rightarrow> err + Claims" where
  "gw_Verify P v now raw = Verify P (gv_inner v) now raw"

text \<open>One refresh per tick; the error is logged.\<close>

fun gw_Run :: "jwks_answer list \<Rightarrow> GwVerifier \<Rightarrow> GwVerifier" where
  "gw_Run [] v = v"
| "gw_Run (a # as) v = gw_Run as (snd (refresh a v))"

text \<open>The verifier always checks with the issuer and audience it was configured with.\<close>

definition verifier_ok :: "GwVerifier \<Rightarrow> bool" where
  "verifier_ok v \<longleftrightarrow> vf_issuer (gv_inner v) = gv_issuer v \<and> vf_audience (gv_inner v) = gv_audience v \<and> vf_keys (gv_inner v) \<noteq> []"

lemma ParseJWKS_nonempty: "ParseJWKS doc = Inr keys \<Longrightarrow> keys \<noteq> []"
  by (auto simp: ParseJWKS_def split: option.splits sum.splits if_splits)

lemma refresh_cases:
  "refresh a v = (e, v') \<Longrightarrow> (\<exists>x. e = Some x) \<and> v' = v \<or> e = None \<and> (\<exists>doc keys. a = Body doc \<and> ParseJWKS doc = Inr keys \<and> v' = swap keys v)"
  by (auto simp: refresh_def split: jwks_answer.splits sum.splits)

lemma refresh_ok: "verifier_ok v \<Longrightarrow> verifier_ok (snd (refresh a v))"
  using refresh_cases [OF prod.collapse [symmetric], of a v]
  by (auto simp: verifier_ok_def swap_def dest: ParseJWKS_nonempty)

lemma gw_Run_append [simp]: "gw_Run (as @ bs) v = gw_Run bs (gw_Run as v)"
  by (induction as arbitrary: v) auto

lemma gw_Run_fixed [simp]: "gv_issuer (gw_Run as v) = gv_issuer v" "gv_audience (gw_Run as v) = gv_audience v"
proof (induction as arbitrary: v)
  case (Cons a as)
  { case 1 show ?case using Cons(1) refresh_cases [OF prod.collapse [symmetric], of a v] by (auto simp: swap_def) }
  { case 2 show ?case using Cons(2) refresh_cases [OF prod.collapse [symmetric], of a v] by (auto simp: swap_def) }
qed simp_all

text \<open>The keys an answer brings, if it brings any.\<close>

definition keys_of :: "jwks_answer \<Rightarrow> (string \<times> PublicKey) list option" where
  "keys_of a = (case a of Body doc \<Rightarrow> (case ParseJWKS doc of Inl e \<Rightarrow> None | Inr keys \<Rightarrow> Some keys) | _ \<Rightarrow> None)"

lemma snd_refresh: "snd (refresh a v) = (case keys_of a of None \<Rightarrow> v | Some keys \<Rightarrow> swap keys v)"
  by (auto simp: refresh_def keys_of_def split: jwks_answer.splits sum.splits)

lemma gw_Run_failing: "\<forall>a \<in> set as. keys_of a = None \<Longrightarrow> gw_Run as v = v"
  by (induction as) (simp_all add: snd_refresh)

lemma gw_Run_published:
  assumes "MarshalJWKS keys = Inr ks" "keys \<noteq> []" "distinct (map fst keys)" "\<forall>a \<in> set later. keys_of a = None"
  shows "\<exists>out. map_of out = map_of keys \<and> gw_Run (earlier @ Body (Some ks) # later) v = swap out (gw_Run earlier v)"
proof -
  from ParseJWKS_MarshalJWKS [OF assms(1-3)] obtain out where out: "ParseJWKS (Some ks) = Inr out" "map_of out = map_of keys" by blast
  have "gw_Run (earlier @ Body (Some ks) # later) v = swap out (gw_Run earlier v)"
    using gw_Run_failing [OF assms(4)] by (simp add: snd_refresh keys_of_def out(1))
  with out(2) show ?thesis by blast
qed


text \<open>A token \<open>Issue\<close> signed, as the gateway reads it. The library writes times in whole seconds.\<close>

definition whole_seconds :: "RegisteredClaims \<Rightarrow> RegisteredClaims" where
  "whole_seconds rc = rc\<lparr>rc_IssuedAt := rc_IssuedAt rc div 10 ^ 9 * 10 ^ 9, rc_NotBefore := rc_NotBefore rc div 10 ^ 9 * 10 ^ 9,
     rc_ExpiresAt := rc_ExpiresAt rc div 10 ^ 9 * 10 ^ 9\<rparr>"

definition sign_spec ::
  "signer \<Rightarrow> (string \<Rightarrow> (jwt_header \<times> RegisteredClaims \<times> Claims) option) \<Rightarrow> (PublicKey \<Rightarrow> string \<Rightarrow> bool) \<Rightarrow> PublicKey \<Rightarrow> bool" where
  "sign_spec sign parts sig_ok pub \<longleftrightarrow> (\<forall>kid rc c raw. sign kid rc c = Inr raw \<longrightarrow>
     parts raw = Some (\<lparr>jh_alg = ''ES256'', jh_kid = Some kid\<rparr>, whole_seconds rc, c) \<and> sig_ok pub raw)"


section \<open>A concrete key set\<close>

text \<open>
  Stand-ins for the library: a token is written out in the clear, signed by repeating the key's first
  coordinate.
\<close>

definition demo_pub :: PublicKey where
  "demo_pub = \<lparr>pk_Curve = ''P-256'', pk_X = 5, pk_Y = 7\<rparr>"

definition demo_issuer :: Issuer where
  "demo_issuer = \<lparr>iss_kid = ''k1'', iss_issuer = ''auth'', iss_audience = ''api'', iss_accessTTL = 900 * 10 ^ 9\<rparr>"

definition demo_claims :: Claims where
  "demo_claims = \<lparr>cl_UserID = ''u1'', cl_SessionID = ''s1'', cl_Roles = [], cl_Permissions = [], cl_ResidencyCountry = '''', cl_AccountType = ''client''\<rparr>"

definition demo_rc :: RegisteredClaims where
  "demo_rc = \<lparr>rc_Issuer = ''auth'', rc_Audience = ''api'', rc_Subject = ''u1'', rc_IssuedAt = 1000, rc_NotBefore = 1000,
     rc_ExpiresAt = 1000 + 900 * 10 ^ 9, rc_ID = ''j''\<rparr>"

definition demo_parts :: "string \<Rightarrow> (jwt_header \<times> RegisteredClaims \<times> Claims) option" where
  "demo_parts raw = (if raw = ''tok'' then Some (\<lparr>jh_alg = ''ES256'', jh_kid = Some ''k1''\<rparr>, whole_seconds demo_rc, demo_claims) else None)"

definition demo_sig_ok :: "PublicKey \<Rightarrow> string \<Rightarrow> bool" where
  "demo_sig_ok key raw \<longleftrightarrow> pk_X key = 5"

definition demo_sign :: signer where
  "demo_sign kid rc c = (if kid = ''k1'' \<and> rc = demo_rc \<and> c = demo_claims then Inr ''tok'' else Inl DBError)"

definition demo_parser :: jwt_parser where
  "demo_parser raw kf opts now = (case demo_parts raw of None \<Rightarrow> Inl ErrInvalidToken | Some (h, rc, c) \<Rightarrow>
     if jh_alg h \<in> set (jo_ValidMethods opts) \<and> rc_Issuer rc = jo_Issuer opts \<and> rc_Audience rc = jo_Audience opts \<and>
        rc_NotBefore rc \<le> now \<and> now < rc_ExpiresAt rc
     then (case kf h of Inl e \<Rightarrow> Inl e | Inr key \<Rightarrow> if demo_sig_ok key raw then Inr c else Inl ErrInvalidToken)
     else Inl ErrInvalidToken)"

definition demo_verifier :: GwVerifier where
  "demo_verifier = \<lparr>gv_issuer = ''auth'', gv_audience = ''api'', gv_inner = \<lparr>vf_keys = [], vf_issuer = '''', vf_audience = ''''\<rparr>\<rparr>"

lemma demo_specs: "jwt_spec demo_parser demo_parts demo_sig_ok" "sign_spec demo_sign demo_parts demo_sig_ok demo_pub"
proof -
  show "jwt_spec demo_parser demo_parts demo_sig_ok"
    unfolding jwt_spec_def demo_parser_def by (auto split: option.splits sum.splits if_splits)
  show "sign_spec demo_sign demo_parts demo_sig_ok demo_pub"
    by (auto simp: sign_spec_def demo_sign_def demo_parts_def demo_sig_ok_def demo_pub_def)
qed

lemma demo_issue:
  "Issue demo_sign demo_issuer demo_claims ((quiet ''j'' ())\<lparr>ids := (\<lambda>n. ''j'')\<rparr>) =
     (Inr ''tok'', (quiet ''j'' ())\<lparr>ids := (\<lambda>n. ''j'')\<rparr>)"
  by (simp add: Issue_def run_basic demo_sign_def demo_issuer_def demo_claims_def demo_rc_def quiet_def)



end
