(* ===== verification/Review.thy ===== *)
theory Review
  imports Outbox Rbac
begin

text \<open>
  \<open>services/review\<close>: double-blind reviews of finished contracts, their publication, the reputation
  computed from published reviews and the reviewee's response; store with the constraints of
  migration 000009, service and HTTP handlers. Scores are \<open>NUMERIC(6,2)\<close>, kept here in hundredths;
  the \<open>float64\<close> they pass through is taken as exact.
\<close>

section \<open>Store\<close>

definition review_key :: "Review \<Rightarrow> string \<times> string" where
  "review_key r = (rvw_ContractID r, rvw_ReviewerID r)"

definition find_review :: "string \<Rightarrow> review_db \<Rightarrow> Review option" where
  "find_review i d = select_one (\<lambda>r. rvw_ID r = i) (reviews d)"

definition asPgUnique :: "err \<Rightarrow> bool" where
  "asPgUnique e \<longleftrightarrow> e = UniqueViolation"

text \<open>A unique violation leaves the store as its own sentinel, here \<open>ErrDuplicateKey\<close>.\<close>

definition InsertReview ::
  "string \<Rightarrow> string \<Rightarrow> string \<Rightarrow> int \<Rightarrow> json \<Rightarrow> string option \<Rightarrow> (review_db, string) io" where
  "InsertReview contractID reviewerID revieweeID rating dimensions comment =
     map_error (\<lambda>e. if asPgUnique e then ErrDuplicateKey else e) (tx_stmt (\<lambda>now uid d.
       if rating < 1 \<or> 5 < rating then Inl CheckViolation
       else if uid \<in> rvw_ID ` set (reviews d) \<or> (contractID, reviewerID) \<in> review_key ` set (reviews d) then Inl UniqueViolation
       else if (''contracts'', contractID) \<notin> set (rev_other_keys d) \<or> (''users'', reviewerID) \<notin> set (rev_other_keys d) \<or>
         (''users'', revieweeID) \<notin> set (rev_other_keys d) then Inl ForeignKeyViolation
       else Inr (uid, d\<lparr>reviews := reviews d @
         [\<lparr>rvw_ID = uid, rvw_ContractID = contractID, rvw_ReviewerID = reviewerID, rvw_RevieweeID = revieweeID,
           rvw_Rating = rating, rvw_Dimensions = dimensions, rvw_Comment = comment, rvw_IsPublished = False,
           rvw_PublishedAt = None, rvw_CreatedAt = now\<rparr>]\<rparr>)))"

definition contract_reviews :: "string \<Rightarrow> review_db \<Rightarrow> Review list" where
  "contract_reviews c d = filter (\<lambda>r. rvw_ContractID r = c) (reviews d)"

definition CountReviews :: "string \<Rightarrow> (review_db, int) io" where
  "CountReviews contractID = tx_stmt (\<lambda>now uid d. Inr (int (length (contract_reviews contractID d)), d))"

definition hidden :: "string \<Rightarrow> Review \<Rightarrow> bool" where
  "hidden c r \<longleftrightarrow> rvw_ContractID r = c \<and> \<not> rvw_IsPublished r"

definition reveal :: "int \<Rightarrow> Review \<Rightarrow> Review" where
  "reveal now r = r\<lparr>rvw_IsPublished := True, rvw_PublishedAt := Some now\<rparr>"

text \<open>The rows \<open>RETURNING\<close> gives back, in insertion order.\<close>

definition PublishUnpublished :: "string \<Rightarrow> (review_db, Review list) io" where
  "PublishUnpublished contractID = tx_stmt (\<lambda>now uid d.
     Inr (map (reveal now) (filter (hidden contractID) (reviews d)),
       d\<lparr>reviews := update_where (hidden contractID) (reveal now) (reviews d)\<rparr>))"

definition published_of :: "string \<Rightarrow> review_db \<Rightarrow> Review list" where
  "published_of u d = filter (\<lambda>r. rvw_RevieweeID r = u \<and> rvw_IsPublished r) (reviews d)"

text \<open>\<open>coalesce(avg(rating),0)*20\<close> in hundredths, and the share of ratings of at least 4.\<close>

definition score_of :: "string \<Rightarrow> review_db \<Rightarrow> int" where
  "score_of u d = (let rs = published_of u d in
     if rs = [] then 0 else round_div (2000 * sum_list (map rvw_Rating rs)) (int (length rs)))"

definition success_of :: "string \<Rightarrow> review_db \<Rightarrow> int" where
  "success_of u d = (let rs = published_of u d in
     if rs = [] then 0 else round_div (100 * int (length (filter (\<lambda>r. 4 \<le> rvw_Rating r) rs))) (int (length rs)))"

definition find_reputation :: "string \<Rightarrow> review_db \<Rightarrow> Reputation option" where
  "find_reputation u d = select_one (\<lambda>p. rep_UserID p = u) (reputation_scores d)"

definition upsert_reputation :: "string \<Rightarrow> int \<Rightarrow> int option \<Rightarrow> int \<Rightarrow> review_db \<Rightarrow> review_db" where
  "upsert_reputation u score jsp now d =
     (let row = \<lparr>rep_UserID = u, rep_Score = score, rep_JobSuccessPct = jsp, rep_RecomputeAt = Some now, rep_UpdatedAt = now\<rparr> in
      case find_reputation u d of
        None \<Rightarrow> d\<lparr>reputation_scores := reputation_scores d @ [row]\<rparr>
      | Some _ \<Rightarrow> d\<lparr>reputation_scores := update_where (\<lambda>p. rep_UserID p = u) (\<lambda>_. row) (reputation_scores d)\<rparr>)"

definition store_RecomputeReputation :: "string \<Rightarrow> (review_db, unit) io" where
  "store_RecomputeReputation userID =
     bindE (tx_stmt (\<lambda>now uid d. Inr ((score_of userID d, success_of userID d, length (published_of userID d)), d)))
       (\<lambda>(score, jobSuccess, n).
     let jsp = (if 0 < n then Some jobSuccess else None) in
     tx_stmt (\<lambda>now uid d.
       if find_reputation userID d = None \<and> (''users'', userID) \<notin> set (rev_other_keys d) then Inl ForeignKeyViolation
       else Inr ((), upsert_reputation userID score jsp now d)))"

definition GetRevieweeID :: "string \<Rightarrow> (review_db, string) io" where
  "GetRevieweeID reviewID = scan_row (tx_stmt (\<lambda>now uid d. Inr (map_option rvw_RevieweeID (find_review reviewID d), d)))"

definition UpsertResponse :: "string \<Rightarrow> string \<Rightarrow> string \<Rightarrow> (review_db, unit) io" where
  "UpsertResponse reviewID responderID response = tx_stmt (\<lambda>now uid d.
     if reviewID \<notin> rvw_ID ` set (reviews d) \<or> (''users'', responderID) \<notin> set (rev_other_keys d) then Inl ForeignKeyViolation
     else if reviewID \<in> rsp_review_id ` set (review_responses d)
     then Inr ((), d\<lparr>review_responses := update_where (\<lambda>x. rsp_review_id x = reviewID)
       (\<lambda>x. x\<lparr>rsp_responder_id := responderID, rsp_response := response\<rparr>) (review_responses d)\<rparr>)
     else Inr ((), d\<lparr>review_responses := review_responses d @
       [\<lparr>rsp_review_id = reviewID, rsp_responder_id = responderID, rsp_response = response\<rparr>]\<rparr>))"

definition store_GetReview :: "string \<Rightarrow> (review_db, Review) io" where
  "store_GetReview i = scan_row (pool_query (find_review i))"

text \<open>\<open>ORDER BY published_at DESC NULLS LAST, created_at DESC\<close>.\<close>

definition by_published_at :: "Review list \<Rightarrow> Review list" where
  "by_published_at rs =
     (let sorted = sort_key (\<lambda>r. - rvw_CreatedAt r) rs in
      sort_key (\<lambda>r. - the (rvw_PublishedAt r)) (filter (\<lambda>r. rvw_PublishedAt r \<noteq> None) sorted)
      @ filter (\<lambda>r. rvw_PublishedAt r = None) sorted)"

definition ListPublishedForUser :: "string \<Rightarrow> (review_db, Review list) io" where
  "ListPublishedForUser revieweeID = pool_query (\<lambda>d. by_published_at (published_of revieweeID d))"

definition store_GetReputation :: "string \<Rightarrow> (review_db, Reputation) io" where
  "store_GetReputation userID = scan_row (pool_query (find_reputation userID))"

section \<open>Service\<close>

definition Opposite :: "Parties \<Rightarrow> string \<Rightarrow> string" where
  "Opposite p userID = (if userID = par_ClientID p then par_FreelancerID p
     else if userID = par_FreelancerID p then par_ClientID p else '''')"

definition completedContractStatuses :: "string \<Rightarrow> bool" where
  "completedContractStatuses st \<longleftrightarrow> st = ''completed''"

definition review_event :: "Review \<Rightarrow> Event" where
  "review_event r =
     \<lparr>ev_AggregateType = ''review'', ev_AggregateID = rvw_ID r, ev_EventType = ''review.published'',
      ev_Topic = ''review.events'', ev_PartitionKey = rvw_ID r,
      ev_Payload = JObj [(''review_id'', JStr (rvw_ID r)), (''contract_id'', JStr (rvw_ContractID r)),
        (''reviewer_id'', JStr (rvw_ReviewerID r)), (''reviewee_id'', JStr (rvw_RevieweeID r)),
        (''rating'', JInt (rvw_Rating r))], ev_Headers = []\<rparr>"

fun announce :: "Review list \<Rightarrow> (review_db, unit) io" where
  "announce [] = ret ()"
| "announce (r # rs) =
     bindE (store_RecomputeReputation (rvw_RevieweeID r)) (\<lambda>_.
     bindE (Enqueue (review_event r)) (\<lambda>_. announce rs))"

definition publishContractCount :: "string \<Rightarrow> (review_db, nat) io" where
  "publishContractCount contractID =
     bindE (PublishUnpublished contractID) (\<lambda>published.
     bindE (announce published) (\<lambda>_. ret (length published)))"

text \<open>The transaction of \<open>CreateReview\<close>; the review is read back after it has been committed.\<close>

definition insert_and_publish ::
  "string \<Rightarrow> string \<Rightarrow> string \<Rightarrow> int \<Rightarrow> json \<Rightarrow> string option \<Rightarrow> (review_db, string) io" where
  "insert_and_publish contractID reviewerID revieweeID rating dimensions comment =
     bindE begin_tx (\<lambda>_.
     bindE (map_error (\<lambda>e. if e = ErrDuplicateKey then ErrAlreadyReviewed else e)
       (InsertReview contractID reviewerID revieweeID rating dimensions comment)) (\<lambda>i.
     bindE (CountReviews contractID) (\<lambda>count.
     bindE (if 2 \<le> count then bindE (publishContractCount contractID) (\<lambda>_. ret ()) else ret ()) (\<lambda>_.
     bindE commit_tx (\<lambda>_. ret i)))))"

definition CreateReview ::
  "(string \<Rightarrow> Parties http_answer) \<Rightarrow> string \<Rightarrow> string \<Rightarrow> string \<Rightarrow> int \<Rightarrow> json \<Rightarrow> string option \<Rightarrow> (review_db, Review) io" where
  "CreateReview parties contractID reviewerID revieweeID rating dimensions comment =
     (if rating < 1 \<or> rating > 5 then throw ErrInvalidRating
      else if contractID = '''' then throw ErrInvalidContract
      else case lookup_get (parties contractID) of
        Inl e \<Rightarrow> throw ErrForbidden
      | Inr p \<Rightarrow>
          if \<not> IsParty p reviewerID then throw ErrForbidden
          else if revieweeID \<noteq> Opposite p reviewerID then throw ErrInvalidContract
          else if \<not> completedContractStatuses (par_Status p) then throw ErrContractNotComplete
          else
          bindE (insert_and_publish contractID reviewerID revieweeID rating dimensions comment) (\<lambda>i.
          store_GetReview i))"

definition PublishWindowClosed :: "string \<Rightarrow> (review_db, nat) io" where
  "PublishWindowClosed contractID =
     bindE begin_tx (\<lambda>_.
     bindE (publishContractCount contractID) (\<lambda>published.
     bindE commit_tx (\<lambda>_. ret published)))"

definition RecomputeReputation :: "string \<Rightarrow> (review_db, unit) io" where
  "RecomputeReputation userID =
     bindE begin_tx (\<lambda>_. bindE (store_RecomputeReputation userID) (\<lambda>_. commit_tx))"

definition AddResponse :: "string \<Rightarrow> string \<Rightarrow> string \<Rightarrow> (review_db, unit) io" where
  "AddResponse reviewID responderID response =
     bindE begin_tx (\<lambda>_.
     bindE (GetRevieweeID reviewID) (\<lambda>revieweeID.
     if responderID \<noteq> revieweeID then throw ErrForbidden else
     bindE (UpsertResponse reviewID responderID response) (\<lambda>_.
     commit_tx)))"

definition GetReview :: "string \<Rightarrow> (review_db, Review) io" where
  "GetReview i = store_GetReview i"

definition ListReviewsForUser :: "string \<Rightarrow> (review_db, Review list) io" where
  "ListReviewsForUser revieweeID = ListPublishedForUser revieweeID"

definition GetReputation :: "string \<Rightarrow> (review_db, Reputation) io" where
  "GetReputation userID = store_GetReputation userID"

section \<open>Handlers\<close>

definition mapError :: "err \<Rightarrow> response" where
  "mapError e =
     (if e = ErrInvalidRating then Problem 400 ''INVALID_RATING''
      else if e = ErrInvalidContract then Problem 400 ''INVALID_CONTRACT''
      else if e = ErrContractNotComplete then Problem 400 ''CONTRACT_NOT_COMPLETE''
      else if e = ErrAlreadyReviewed then Problem 409 ''ALREADY_REVIEWED''
      else if e = ErrForbidden then Problem 403 ''FORBIDDEN''
      else if e = ErrNotFound then Problem 404 ''NOT_FOUND''
      else Problem 500 ''INTERNAL'')"

definition reviewDTO :: "Review \<Rightarrow> json" where
  "reviewDTO r = JObj [(''id'', JStr (rvw_ID r)), (''contract_id'', JStr (rvw_ContractID r)),
     (''reviewer_id'', JStr (rvw_ReviewerID r)), (''reviewee_id'', JStr (rvw_RevieweeID r)), (''rating'', JInt (rvw_Rating r)),
     (''dimensions'', rvw_Dimensions r), (''comment'', opt_json JStr (rvw_Comment r)),
     (''is_published'', JBool (rvw_IsPublished r)), (''published_at'', opt_json JInt (rvw_PublishedAt r)),
     (''created_at'', JInt (rvw_CreatedAt r))]"

record createReq =
  crq_ContractID :: string
  crq_RevieweeID :: string
  crq_Rating :: int
  crq_Dimensions :: json
  crq_Comment :: "string option"

definition createReview :: "(string \<Rightarrow> Parties http_answer) \<Rightarrow> string \<Rightarrow> createReq option \<Rightarrow> (review_db, response) io" where
  "createReview parties reviewer body =
     guarded (ret (decode body)) (\<lambda>req.
     if reviewer = '''' then ret (Problem 401 ''UNAUTHENTICATED'')
     else if crq_RevieweeID req = '''' then ret (Problem 400 ''INVALID_ARGUMENT'')
     else if crq_RevieweeID req = reviewer then ret (Problem 400 ''INVALID_ARGUMENT'')
     else handle mapError
       (CreateReview parties (crq_ContractID req) reviewer (crq_RevieweeID req) (crq_Rating req) (crq_Dimensions req) (crq_Comment req))
       (\<lambda>rv. Reply 201 (reviewDTO rv)))"

definition getReview :: "string \<Rightarrow> (review_db, response) io" where
  "getReview i = handle mapError (GetReview i) (\<lambda>rv. Reply 200 (reviewDTO rv))"

definition listForUser :: "string \<Rightarrow> (review_db, response) io" where
  "listForUser revieweeID =
     (if revieweeID = '''' then ret (Problem 400 ''INVALID_ARGUMENT'')
      else handle mapError (ListReviewsForUser revieweeID) (\<lambda>rs. Reply 200 (JObj [(''reviews'', JArr (map reviewDTO rs))])))"

definition addResponse :: "string \<Rightarrow> string \<Rightarrow> string option \<Rightarrow> (review_db, response) io" where
  "addResponse responder i body =
     guarded (ret (decode body)) (\<lambda>response.
     if responder = '''' then ret (Problem 401 ''UNAUTHENTICATED'')
     else handle mapError (AddResponse i responder response) (\<lambda>_. Reply 200 (JObj [(''status'', JStr ''ok'')])))"

definition getReputation :: "string \<Rightarrow> (review_db, response) io" where
  "getReputation userID = handle mapError (GetReputation userID) (\<lambda>rep. Reply 200 (JObj
     [(''user_id'', JStr (rep_UserID rep)), (''score'', JInt (rep_Score rep)),
      (''job_success_pct'', opt_json JInt (rep_JobSuccessPct rep)), (''recompute_at'', opt_json JInt (rep_RecomputeAt rep)),
      (''updated_at'', JInt (rep_UpdatedAt rep))]))"

definition closeWindow :: "string \<Rightarrow> (review_db, response) io" where
  "closeWindow contractID = handle mapError (PublishWindowClosed contractID)
     (\<lambda>n. Reply 200 (JObj [(''published'', JInt (int n))]))"

section \<open>Framing\<close>

lemma keeps_review_store [io_keeps]:
  "keeps (InsertReview c rv re n dm cm)" "keeps (CountReviews c)" "keeps (PublishUnpublished c)"
  "keeps (store_RecomputeReputation u)" "keeps (GetRevieweeID i)" "keeps (UpsertResponse i u x)" "keeps (store_GetReview i)"
  "keeps (ListPublishedForUser u)" "keeps (store_GetReputation u)"
  unfolding InsertReview_def CountReviews_def PublishUnpublished_def store_RecomputeReputation_def GetRevieweeID_def
    UpsertResponse_def store_GetReview_def ListPublishedForUser_def store_GetReputation_def
  by (intro io_keeps | simp add: Let_def io_keeps split: prod.split)+

lemma keeps_announce [io_keeps]: "keeps (announce rs)"
  by (induction rs) (auto intro!: io_keeps)

lemma keeps_publishContractCount [io_keeps]: "keeps (publishContractCount c)"
  unfolding publishContractCount_def by (intro io_keeps)

lemma atomic_review:
  "atomic (PublishWindowClosed c)" "atomic (RecomputeReputation u)" "atomic (AddResponse i u x)"
  "atomic (insert_and_publish c rv re n dm cm)"
  unfolding insert_and_publish_def PublishWindowClosed_def RecomputeReputation_def AddResponse_def by (intro io_atomic io_keeps)+

end
