(* ===== verification/Review_Props.thy ===== *)
theory Review_Props
  imports Review Tx_Inv
begin

text \<open>
  What the review service keeps: reviews stay hidden until the other party has written or the window
  is closed, the reputation of everyone with a published review is the one computed from them, only
  the reviewee answers.
\<close>

section \<open>Effects of publication\<close>

lemma store_RecomputeReputation_ok:
  assumes "store_RecomputeReputation u s = (Inr x, t)"
  shows "committed t = committed s \<and> clock t = clock s \<and>
    work t = upsert_reputation u (score_of u (work s)) (if published_of u (work s) = [] then None else Some (success_of u (work s)))
      (clock s) (work s)"
  using assms by (auto simp: store_RecomputeReputation_def Let_def bindE_ok tx_stmt_ok split: if_splits)

text \<open>A reputation row that says what the published reviews say.\<close>

definition current :: "string \<Rightarrow> review_db \<Rightarrow> bool" where
  "current u d \<longleftrightarrow> (\<exists>p. find_reputation u d = Some p \<and> rep_Score p = score_of u d \<and>
     rep_JobSuccessPct p = (if published_of u d = [] then None else Some (success_of u d)))"

lemma upsert_simps [simp]:
  "reviews (upsert_reputation u sc js now d) = reviews d"
  "review_responses (upsert_reputation u sc js now d) = review_responses d"
  "rev_other_keys (upsert_reputation u sc js now d) = rev_other_keys d"
  by (auto simp: upsert_reputation_def Let_def split: option.splits)

lemma find_upsert:
  "find_reputation v (upsert_reputation u sc js now d) =
     (if v = u then Some \<lparr>rep_UserID = u, rep_Score = sc, rep_JobSuccessPct = js, rep_RecomputeAt = Some now, rep_UpdatedAt = now\<rparr>
      else find_reputation v d)"
proof (cases "find_reputation u d")
  case None
  then show ?thesis
    by (auto simp: upsert_reputation_def Let_def find_reputation_def select_one_append split: option.splits)
next
  case (Some p)
  let ?row = "\<lparr>rep_UserID = u, rep_Score = sc, rep_JobSuccessPct = js, rep_RecomputeAt = Some now, rep_UpdatedAt = now\<rparr>"
  have "select_one (\<lambda>p. rep_UserID p = v) (update_where (\<lambda>p. rep_UserID p = u) (\<lambda>_. ?row) ps) =
    (if v = u then map_option (\<lambda>_. ?row) (select_one (\<lambda>p. rep_UserID p = u) ps) else select_one (\<lambda>p. rep_UserID p = v) ps)" for ps
    by (induction ps) auto
  with Some show ?thesis by (simp add: upsert_reputation_def Let_def find_reputation_def)
qed

lemma published_of_reviews: "reviews d = reviews d' \<Longrightarrow> published_of u d = published_of u d'"
  by (simp add: published_of_def)

lemma score_reviews: "reviews d = reviews d' \<Longrightarrow> score_of u d = score_of u d' \<and> success_of u d = success_of u d'"
  by (simp add: score_of_def success_of_def published_of_def)

lemma current_upsert:
  assumes "sc = score_of u d" "js = (if published_of u d = [] then None else Some (success_of u d))"
  shows "current v (upsert_reputation u sc js now d) \<longleftrightarrow> v = u \<or> current v d"
proof -
  have r: "reviews (upsert_reputation u sc js now d) = reviews d" by simp
  from score_reviews [OF r] published_of_reviews [OF r] show ?thesis
    by (auto simp: current_def find_upsert assms)
qed

lemma current_post_event [simp]: "current u (post_event e d) = current u d"
  by (simp add: current_def find_reputation_def score_of_def success_of_def published_of_def)

lemma announce_ok:
  "announce rs s = (Inr x, t) \<Longrightarrow>
     committed t = committed s \<and> clock t = clock s \<and> reviews (work t) = reviews (work s) \<and>
     review_responses (work t) = review_responses (work s) \<and> rev_other_keys (work t) = rev_other_keys (work s) \<and>
     (\<forall>u. current u (work t) \<longleftrightarrow> u \<in> rvw_RevieweeID ` set rs \<or> current u (work s))"
proof (induction rs arbitrary: s)
  case Nil
  then show ?case by (simp add: ret_ok)
next
  case (Cons r rs)
  from Cons.prems obtain y s1 where st: "store_RecomputeReputation (rvw_RevieweeID r) s = (Inr y, s1)"
    and rest: "announce rs ((tick s1)\<lparr>work := post_event (review_event r) (work s1)\<rparr>) = (Inr x, t)"
    by (auto simp: bindE_ok Enqueue_ok)
  from store_RecomputeReputation_ok [OF st] Cons.IH [OF rest]
  show ?case by (auto simp: current_upsert)
qed

definition revealed :: "string \<Rightarrow> int \<Rightarrow> review_db \<Rightarrow> review_db" where
  "revealed c now d = d\<lparr>reviews := update_where (hidden c) (reveal now) (reviews d)\<rparr>"

lemma publishContractCount_ok:
  assumes "publishContractCount c s = (Inr n, t)"
  shows "committed t = committed s \<and> clock t = clock s \<and> reviews (work t) = reviews (revealed c (clock s) (work s)) \<and>
     review_responses (work t) = review_responses (work s) \<and> rev_other_keys (work t) = rev_other_keys (work s) \<and>
     (\<forall>u. current u (work t) \<longleftrightarrow> u \<in> rvw_RevieweeID ` set (filter (hidden c) (reviews (work s))) \<or> current u (revealed c (clock s) (work s))) \<and>
     n = length (filter (hidden c) (reviews (work s)))"
proof -
  let ?rs = "map (reveal (clock s)) (filter (hidden c) (reviews (work s)))"
  from assms obtain x s2 where an: "announce ?rs ((tick s)\<lparr>work := revealed c (clock s) (work s)\<rparr>) = (Inr x, s2)"
    and t: "t = s2" "n = length ?rs"
    by (auto simp: publishContractCount_def PublishUnpublished_def bindE_ok tx_stmt_ok ret_ok revealed_def)
  have "rvw_RevieweeID ` set ?rs = rvw_RevieweeID ` set (filter (hidden c) (reviews (work s)))"
    by (simp add: image_image reveal_def)
  with announce_ok [OF an] t show ?thesis by (simp add: revealed_def [of c _ "work s", THEN arg_cong, of review_responses]
      revealed_def [of c _ "work s", THEN arg_cong, of rev_other_keys] del: set_filter)
qed

text \<open>Publication brings every reputation up to date that it touches.\<close>

lemma reveal_untouched:
  assumes "u \<notin> rvw_RevieweeID ` set (filter (hidden c) (reviews d))"
  shows "current u (revealed c now d) = current u d" "published_of u (revealed c now d) = published_of u d"
proof -
  have "filter (\<lambda>r. rvw_RevieweeID r = u \<and> rvw_IsPublished r) (update_where (hidden c) (reveal now) rs)
      = filter (\<lambda>r. rvw_RevieweeID r = u \<and> rvw_IsPublished r) rs"
    if "u \<notin> rvw_RevieweeID ` set (filter (hidden c) rs)" for rs
    using that by (induction rs) (auto simp: hidden_def reveal_def split: if_splits)
  then show p: "published_of u (revealed c now d) = published_of u d" using assms by (simp add: published_of_def revealed_def)
  have f: "find_reputation u (revealed c now d) = find_reputation u d" by (simp add: find_reputation_def revealed_def)
  show "current u (revealed c now d) = current u d"
    by (simp add: current_def f score_of_def success_of_def p)
qed

section \<open>The invariant\<close>

definition review_row_ok :: "Review \<Rightarrow> bool" where
  "review_row_ok r \<longleftrightarrow> 1 \<le> rvw_Rating r \<and> rvw_Rating r \<le> 5 \<and> rvw_ReviewerID r \<noteq> rvw_RevieweeID r \<and>
     (rvw_IsPublished r \<longleftrightarrow> rvw_PublishedAt r \<noteq> None)"

definition answered :: "Review \<Rightarrow> string \<times> string" where
  "answered r = (rvw_ID r, rvw_RevieweeID r)"

definition answer_key :: "review_response_row \<Rightarrow> string \<times> string" where
  "answer_key x = (rsp_review_id x, rsp_responder_id x)"

definition review_base :: "review_db \<Rightarrow> bool" where
  "review_base d \<longleftrightarrow> distinct (map rvw_ID (reviews d)) \<and> distinct (map review_key (reviews d)) \<and>
     list_all review_row_ok (reviews d) \<and> distinct (map rsp_review_id (review_responses d)) \<and>
     refers answer_key (review_responses d) answered (reviews d)"

text \<open>A hidden review is the only one of its contract.\<close>

definition blind :: "review_db \<Rightarrow> string \<Rightarrow> bool" where
  "blind d c \<longleftrightarrow> (\<forall>r \<in> set (reviews d). hidden c r \<longrightarrow> (\<forall>r' \<in> set (reviews d). rvw_ContractID r' = c \<longrightarrow> r' = r))"

lemma blind_cong:
  assumes "\<And>r. rvw_ContractID r = c \<Longrightarrow> r \<in> set (reviews d) \<longleftrightarrow> r \<in> set (reviews d')"
  shows "blind d c \<longleftrightarrow> blind d' c"
proof -
  have "blind d c \<longleftrightarrow> (\<forall>r r'. (r \<in> set (reviews d) \<and> rvw_ContractID r = c) \<longrightarrow> \<not> rvw_IsPublished r \<longrightarrow>
      (r' \<in> set (reviews d) \<and> rvw_ContractID r' = c) \<longrightarrow> r' = r)" for d
    unfolding blind_def hidden_def by blast
  moreover have "r \<in> set (reviews d) \<and> rvw_ContractID r = c \<longleftrightarrow> r \<in> set (reviews d') \<and> rvw_ContractID r = c" for r
    using assms by blast
  ultimately show ?thesis by simp
qed

definition reputations_current :: "review_db \<Rightarrow> bool" where
  "reputations_current d \<longleftrightarrow> (\<forall>u. published_of u d \<noteq> [] \<longrightarrow> current u d)"

definition review_inv :: "review_db \<Rightarrow> bool" where
  "review_inv d \<longleftrightarrow> review_base d \<and> (\<forall>c. blind d c) \<and> reputations_current d"

lemma reveal_simps [simp]:
  "rvw_ID (reveal t r) = rvw_ID r" "review_key (reveal t r) = review_key r" "answered (reveal t r) = answered r"
  "rvw_ContractID (reveal t r) = rvw_ContractID r" "rvw_IsPublished (reveal t r)" "review_row_ok r \<Longrightarrow> review_row_ok (reveal t r)"
  by (simp_all add: reveal_def review_key_def answered_def review_row_ok_def)

lemma review_base_cong:
  "reviews d = reviews d' \<Longrightarrow> review_responses d = review_responses d' \<Longrightarrow> review_base d = review_base d'"
  by (simp add: review_base_def)

lemma review_base_revealed: "review_base d \<Longrightarrow> review_base (revealed c now d)"
  by (simp add: review_base_def revealed_def map_update_where_same refers_update list_all_update_where)

lemma blind_revealed:
  assumes "\<And>c'. c' \<noteq> c \<Longrightarrow> blind d c'"
  shows "blind (revealed c now d) c'"
proof (cases "c' = c")
  case True
  have "\<not> hidden c r" if r: "r \<in> set (reviews (revealed c now d))" for r
  proof -
    from r have "r \<in> {r \<in> set (reviews d). \<not> hidden c r} \<union> reveal now ` {r \<in> set (reviews d). hidden c r}"
      by (simp add: revealed_def set_update_where)
    then show ?thesis by (elim UnE imageE) (simp_all add: hidden_def)
  qed
  with True show ?thesis by (simp add: blind_def)
next
  case False
  have "r \<in> set (reviews (revealed c now d)) \<and> rvw_ContractID r = c' \<longleftrightarrow> r \<in> set (reviews d) \<and> rvw_ContractID r = c'" for r
  proof -
    have "set (reviews (revealed c now d)) = {r \<in> set (reviews d). \<not> hidden c r} \<union> reveal now ` {r \<in> set (reviews d). hidden c r}"
      by (simp add: revealed_def set_update_where)
    moreover have "r \<in> reveal now ` {r \<in> set (reviews d). hidden c r} \<Longrightarrow> rvw_ContractID r = c"
      by (elim imageE) (simp add: hidden_def)
    ultimately show ?thesis using False unfolding hidden_def by blast
  qed
  with assms [OF False] show ?thesis unfolding blind_def hidden_def by blast
qed

text \<open>What a publication leaves behind satisfies the invariant if all other contracts did before.\<close>

lemma published_inv:
  assumes "review_base d" "\<And>c'. c' \<noteq> c \<Longrightarrow> blind d c'" "reputations_current d"
    and "reviews d' = reviews (revealed c now d)" "review_responses d' = review_responses d"
    and "\<forall>u. current u d' \<longleftrightarrow> u \<in> rvw_RevieweeID ` set (filter (hidden c) (reviews d)) \<or> current u (revealed c now d)"
  shows "review_inv d'"
proof -
  have "review_base d'"
    using review_base_revealed [OF assms(1)] review_base_cong [OF assms(4)] assms(5) by (simp add: revealed_def)
  moreover have "blind d' c'" for c'
    using blind_revealed [of c d, OF assms(2)] assms(4) by (simp add: blind_def)
  moreover have "current u d'" if "published_of u d' \<noteq> []" for u
  proof (cases "u \<in> rvw_RevieweeID ` set (filter (hidden c) (reviews d))")
    case True
    then show ?thesis using assms(6) by blast
  next
    case False
    from that have "published_of u (revealed c now d) \<noteq> []" using published_of_reviews [OF assms(4)] by simp
    with reveal_untouched [OF False] assms(3,6) show ?thesis by (simp add: reputations_current_def)
  qed
  ultimately show ?thesis by (simp add: review_inv_def reputations_current_def)
qed

section \<open>Effects of the operations\<close>

definition new_review :: "string \<Rightarrow> string \<Rightarrow> string \<Rightarrow> string \<Rightarrow> int \<Rightarrow> json \<Rightarrow> string option \<Rightarrow> int \<Rightarrow> Review" where
  "new_review i c rv re n dm cm now = \<lparr>rvw_ID = i, rvw_ContractID = c, rvw_ReviewerID = rv, rvw_RevieweeID = re,
     rvw_Rating = n, rvw_Dimensions = dm, rvw_Comment = cm, rvw_IsPublished = False, rvw_PublishedAt = None, rvw_CreatedAt = now\<rparr>"

lemma InsertReview_ok:
  assumes "InsertReview c rv re n dm cm s = (Inr i, t)"
  shows "1 \<le> n \<and> n \<le> 5 \<and> i \<notin> rvw_ID ` set (reviews (work s)) \<and> (c, rv) \<notin> review_key ` set (reviews (work s)) \<and>
    work t = (work s)\<lparr>reviews := reviews (work s) @ [new_review i c rv re n dm cm (clock s)]\<rparr> \<and>
    committed t = committed s \<and> clock t = clock s"
  using assms by (auto simp: InsertReview_def map_error_ok tx_stmt_ok new_review_def split: if_splits)

lemma insert_and_publish_ok:
  assumes "insert_and_publish c rv re n dm cm s = (Inr i, t)"
  defines "d1 \<equiv> (committed s)\<lparr>reviews := reviews (committed s) @ [new_review i c rv re n dm cm (clock s)]\<rparr>"
  shows "1 \<le> n \<and> n \<le> 5 \<and> i \<notin> rvw_ID ` set (reviews (committed s)) \<and> (c, rv) \<notin> review_key ` set (reviews (committed s)) \<and>
    (if 2 \<le> length (contract_reviews c d1)
     then reviews (committed t) = reviews (revealed c (clock s) d1) \<and> review_responses (committed t) = review_responses d1 \<and>
       (\<forall>u. current u (committed t) \<longleftrightarrow> u \<in> rvw_RevieweeID ` set (filter (hidden c) (reviews d1)) \<or> current u (revealed c (clock s) d1))
     else committed t = d1)"
proof -
  let ?s1 = "(tick s)\<lparr>work := committed s, aborted := False\<rparr>"
  from assms(1) obtain s2 s3 x where ins: "InsertReview c rv re n dm cm ?s1 = (Inr i, s2)"
    and pub: "(if 2 \<le> int (length (contract_reviews c (work s2))) then bindE (publishContractCount c) (\<lambda>_. ret ()) else ret ())
        ((tick s2)\<lparr>work := work s2\<rparr>) = (Inr x, s3)"
    and t: "committed t = work s3"
    by (auto simp: insert_and_publish_def bindE_ok begin_tx_ok map_error_ok CountReviews_def tx_stmt_ok commit_tx_ok ret_ok)
  from InsertReview_ok [OF ins] have i: "1 \<le> n" "n \<le> 5" "i \<notin> rvw_ID ` set (reviews (committed s))"
    "(c, rv) \<notin> review_key ` set (reviews (committed s))" and w2: "work s2 = d1" "clock s2 = clock s"
    by (auto simp: d1_def)
  show ?thesis
  proof (cases "2 \<le> length (contract_reviews c d1)")
    case True
    with pub w2 obtain m where "publishContractCount c ((tick s2)\<lparr>work := work s2\<rparr>) = (Inr m, s3)"
      by (auto simp: bindE_ok ret_ok)
    from publishContractCount_ok [OF this] i True t w2 show ?thesis by simp
  next
    case False
    with pub w2 t i show ?thesis by (simp add: ret_ok)
  qed
qed

section \<open>The service as a transition system\<close>

lemma append_hidden:
  fixes r :: Review
  assumes "\<not> rvw_IsPublished r"
  defines "d1 \<equiv> \<lambda>d. d\<lparr>reviews := reviews d @ [r]\<rparr>"
  shows "published_of u (d1 d) = published_of u d" "current u (d1 d) = current u d"
    "c' \<noteq> rvw_ContractID r \<Longrightarrow> blind d c' \<Longrightarrow> blind (d1 d) c'"
proof -
  show p: "published_of u (d1 d) = published_of u d" using assms(1) by (simp add: published_of_def d1_def)
  have f: "find_reputation u (d1 d) = find_reputation u d" by (simp add: find_reputation_def d1_def)
  show "current u (d1 d) = current u d" by (simp add: current_def f score_of_def success_of_def p)
  show "blind (d1 d) c'" if "c' \<noteq> rvw_ContractID r" "blind d c'"
  proof -
    have "r' \<in> set (reviews (d1 d)) \<longleftrightarrow> r' \<in> set (reviews d)" if "rvw_ContractID r' = c'" for r'
    proof -
      from that \<open>c' \<noteq> rvw_ContractID r\<close> have "r' \<noteq> r" by blast
      then show ?thesis by (simp add: d1_def)
    qed
    from blind_cong [of c', OF this] that(2) show ?thesis by blast
  qed
qed

lemma insert_and_publish_inv:
  assumes "review_inv (committed s)" "rv \<noteq> re" "insert_and_publish c rv re n dm cm s = (Inr i, t)"
  shows "review_inv (committed t)"
proof -
  let ?d = "committed s" and ?r = "new_review i c rv re n dm cm (clock s)"
  let ?d1 = "?d\<lparr>reviews := reviews ?d @ [?r]\<rparr>"
  have r: "\<not> rvw_IsPublished ?r" "rvw_ContractID ?r = c" by (simp_all add: new_review_def)
  note ok = insert_and_publish_ok [OF assms(3)]
  from ok assms(1,2) have base: "review_base ?d1"
    by (auto simp: review_inv_def review_base_def review_key_def answered_def review_row_ok_def new_review_def)
  have bl: "blind ?d1 c'" if "c' \<noteq> c" for c'
    using append_hidden(3) [OF r(1), of c' ?d] that assms(1) by (simp add: r(2) review_inv_def)
  have cur: "reputations_current ?d1"
    using assms(1) append_hidden(1,2) [OF r(1), where d = ?d] by (simp add: review_inv_def reputations_current_def)
  show ?thesis
  proof (cases "2 \<le> length (contract_reviews c ?d1)")
    case True
    with ok have "reviews (committed t) = reviews (revealed c (clock s) ?d1)" "review_responses (committed t) = review_responses ?d1"
      "\<forall>u. current u (committed t) \<longleftrightarrow> u \<in> rvw_RevieweeID ` set (filter (hidden c) (reviews ?d1)) \<or> current u (revealed c (clock s) ?d1)"
      by simp_all
    from published_inv [OF base bl cur this] show ?thesis .
  next
    case False
    then have "\<not> 1 \<le> length (contract_reviews c ?d)" by (simp add: contract_reviews_def r(2))
    then have "contract_reviews c ?d = []" by (cases "contract_reviews c ?d") simp_all
    then have none: "\<forall>q \<in> set (reviews ?d). rvw_ContractID q \<noteq> c" by (simp add: contract_reviews_def filter_empty_conv)
    then have "blind ?d1 c" by (simp add: blind_def hidden_def)
    with bl have "blind ?d1 c'" for c' by (cases "c' = c") blast+
    with False ok base cur show ?thesis by (simp add: review_inv_def)
  qed
qed

lemma PublishWindowClosed_inv:
  assumes "review_inv (committed s)" "PublishWindowClosed c s = (Inr n, t)"
  shows "review_inv (committed t)"
proof -
  let ?s1 = "(tick s)\<lparr>work := committed s, aborted := False\<rparr>"
  from assms(2) obtain s2 where p: "publishContractCount c ?s1 = (Inr n, s2)" and t: "committed t = work s2"
    by (auto simp: PublishWindowClosed_def bindE_ok begin_tx_ok commit_tx_ok ret_ok)
  from publishContractCount_ok [OF p] t have "reviews (committed t) = reviews (revealed c (clock s) (committed s))"
    "review_responses (committed t) = review_responses (committed s)"
    "\<forall>u. current u (committed t) \<longleftrightarrow> u \<in> rvw_RevieweeID ` set (filter (hidden c) (reviews (committed s))) \<or> current u (revealed c (clock s) (committed s))"
    by simp_all
  from published_inv [OF _ _ _ this] assms(1) show ?thesis by (simp add: review_inv_def)
qed

lemma RecomputeReputation_inv:
  assumes "review_inv (committed s)" "RecomputeReputation u s = (Inr x, t)"
  shows "review_inv (committed t)"
proof -
  let ?s1 = "(tick s)\<lparr>work := committed s, aborted := False\<rparr>"
  let ?sc = "score_of u (committed s)" and ?js = "if published_of u (committed s) = [] then None else Some (success_of u (committed s))"
  from assms(2) obtain y s2 where p: "store_RecomputeReputation u ?s1 = (Inr y, s2)" and t: "committed t = work s2"
    by (auto simp: RecomputeReputation_def bindE_ok begin_tx_ok commit_tx_ok)
  from store_RecomputeReputation_ok [OF p] t have e: "committed t = upsert_reputation u ?sc ?js (clock s) (committed s)" by simp
  have r: "reviews (committed t) = reviews (committed s)" "review_responses (committed t) = review_responses (committed s)" by (simp_all add: e)
  have "current v (committed t)" if "published_of v (committed t) \<noteq> []" for v
    using that published_of_reviews [OF r(1)] assms(1) current_upsert [of ?sc u "committed s" ?js v "clock s"]
    unfolding e by (simp add: review_inv_def reputations_current_def)
  with r assms(1) review_base_cong [OF r] show ?thesis
    by (simp add: review_inv_def reputations_current_def blind_def)
qed

lemma AddResponse_ok:
  assumes "AddResponse i u x s = (Inr y, t)"
  shows "(\<exists>r. find_review i (committed s) = Some r \<and> rvw_RevieweeID r = u) \<and>
    (\<exists>rs. committed t = (committed s)\<lparr>review_responses := rs\<rparr> \<and>
      (i \<in> rsp_review_id ` set (review_responses (committed s)) \<and>
         rs = update_where (\<lambda>x. rsp_review_id x = i) (\<lambda>z. z\<lparr>rsp_responder_id := u, rsp_response := x\<rparr>) (review_responses (committed s)) \<or>
       i \<notin> rsp_review_id ` set (review_responses (committed s)) \<and>
         rs = review_responses (committed s) @ [\<lparr>rsp_review_id = i, rsp_responder_id = u, rsp_response = x\<rparr>]))"
proof -
  let ?s1 = "(tick s)\<lparr>work := committed s, aborted := False\<rparr>"
  from assms obtain y s3 where g: "\<exists>r. find_review i (committed s) = Some r \<and> rvw_RevieweeID r = u"
    and up: "UpsertResponse i u x ((tick ?s1)\<lparr>work := committed s\<rparr>) = (Inr y, s3)" and t: "committed t = work s3"
    by (auto simp: AddResponse_def bindE_ok begin_tx_ok GetRevieweeID_def scan_row_ok tx_stmt_ok commit_tx_ok throw_ok split: if_splits)
  from up t show ?thesis using g
    by (auto simp: UpsertResponse_def tx_stmt_ok split: if_splits)
qed

lemma AddResponse_inv:
  assumes "review_inv (committed s)" "AddResponse i u x s = (Inr y, t)"
  shows "review_inv (committed t)"
proof -
  from AddResponse_ok [OF assms(2)] obtain r rs where r: "find_review i (committed s) = Some r" "rvw_RevieweeID r = u"
    and t: "committed t = (committed s)\<lparr>review_responses := rs\<rparr>"
    and rs: "i \<in> rsp_review_id ` set (review_responses (committed s)) \<and>
         rs = update_where (\<lambda>x. rsp_review_id x = i) (\<lambda>z. z\<lparr>rsp_responder_id := u, rsp_response := x\<rparr>) (review_responses (committed s)) \<or>
       i \<notin> rsp_review_id ` set (review_responses (committed s)) \<and>
         rs = review_responses (committed s) @ [\<lparr>rsp_review_id = i, rsp_responder_id = u, rsp_response = x\<rparr>]" by blast
  from r have key: "(i, u) \<in> answered ` set (reviews (committed s))"
    by (auto simp: find_review_def answered_def dest!: select_one_SomeD)
  from assms(1) have b: "distinct (map rsp_review_id (review_responses (committed s)))"
    "refers answer_key (review_responses (committed s)) answered (reviews (committed s))"
    by (simp_all add: review_inv_def review_base_def)
  have "distinct (map rsp_review_id rs)" using rs b(1) by (auto simp: map_update_where_same)
  moreover have "refers answer_key rs answered (reviews (committed s))"
    using rs
  proof (elim disjE conjE)
    assume "rs = update_where (\<lambda>x. rsp_review_id x = i) (\<lambda>z. z\<lparr>rsp_responder_id := u, rsp_response := x\<rparr>) (review_responses (committed s))"
    moreover have "answer_key ` set (update_where (\<lambda>x. rsp_review_id x = i) (\<lambda>z. z\<lparr>rsp_responder_id := u, rsp_response := x\<rparr>) qs)
        \<subseteq> insert (i, u) (answer_key ` set qs)" for qs
    proof (induction qs)
      case (Cons q qs)
      then show ?case by (cases "rsp_review_id q = i") (simp_all add: answer_key_def, blast+)
    qed simp
    ultimately have "answer_key ` set rs \<subseteq> insert (i, u) (answer_key ` set (review_responses (committed s)))" by simp
    also have "\<dots> \<subseteq> answered ` set (reviews (committed s))" using key b(2) by (simp add: refers_def)
    finally show ?thesis by (simp add: refers_def)
  qed (use key b(2) in \<open>simp add: answer_key_def\<close>)
  moreover have "current v (committed t) = current v (committed s)" "published_of v (committed t) = published_of v (committed s)" for v
    by (simp_all add: t current_def find_reputation_def score_of_def success_of_def published_of_def)
  ultimately show ?thesis using assms(1)
    by (simp add: t review_inv_def review_base_def blind_def reputations_current_def)
qed

text \<open>The reviewer and the reviewee of a review the handler accepts are the two parties.\<close>

lemma createReview_changed:
  assumes "createReview parties u (Some q) s = (r, t)" "committed t \<noteq> committed s"
  obtains p i s2 where "lookup_get (parties (crq_ContractID q)) = Inr p" "IsParty p u" "u \<noteq> ''''"
    "crq_RevieweeID q = Opposite p u" "crq_RevieweeID q \<noteq> u" "par_Status p = ''completed''"
    "insert_and_publish (crq_ContractID q) u (crq_RevieweeID q) (crq_Rating q) (crq_Dimensions q) (crq_Comment q) s = (Inr i, s2)"
    "committed t = committed s2"
proof -
  let ?ins = "insert_and_publish (crq_ContractID q) u (crq_RevieweeID q) (crq_Rating q) (crq_Dimensions q) (crq_Comment q)"
  obtain p where p: "lookup_get (parties (crq_ContractID q)) = Inr p" "IsParty p u" "u \<noteq> ''''"
    "crq_RevieweeID q = Opposite p u" "crq_RevieweeID q \<noteq> u" "par_Status p = ''completed''"
    and m: "handle mapError (bindE ?ins store_GetReview) (\<lambda>rv. Reply 201 (reviewDTO rv)) s = (r, t)"
    using assms(1,2) by (auto simp: createReview_def CreateReview_def decode_def guarded_ret run_basic handle_run
        completedContractStatuses_def split: if_splits sum.splits)
  show thesis
  proof (cases "?ins s")
    case (Pair x s2)
    have k: "keeps (store_GetReview i)" for i by (intro io_keeps)
    from Pair m assms(2) obtain i where i: "x = Inr i"
      by (cases x) (auto simp: handle_run bindE_def dest!: atomicD [OF atomic_review(4)])
    with Pair m have "committed t = committed s2"
      using keepsD [OF k, of i s2] by (auto simp: handle_run bindE_def split: prod.splits sum.splits)
    with that p Pair i show thesis by blast
  qed
qed

inductive_set review_ops :: "(review_db, response) io set" where
  op_createReview: "createReview parties u body \<in> review_ops"
| op_getReview: "getReview i \<in> review_ops"
| op_listForUser: "listForUser u \<in> review_ops"
| op_addResponse: "addResponse u i x \<in> review_ops"
| op_getReputation: "getReputation u \<in> review_ops"
| op_closeWindow: "closeWindow c \<in> review_ops"

lemma createReview_inv: "op_inv review_inv (createReview parties u body)"
proof (cases body)
  case None
  then show ?thesis by (simp add: op_inv_def createReview_def decode_def guarded_ret run_basic)
next
  case (Some q)
  have "review_inv (committed (snd (createReview parties u (Some q) s)))" if i: "review_inv (committed s)" for s
  proof (cases "committed (snd (createReview parties u (Some q) s)) = committed s")
    case False
    obtain r t where rt: "createReview parties u (Some q) s = (r, t)" by fastforce
    with False have "committed t \<noteq> committed s" by simp
    with rt obtain p j s2 where "crq_RevieweeID q \<noteq> u" "committed t = committed s2"
      "insert_and_publish (crq_ContractID q) u (crq_RevieweeID q) (crq_Rating q) (crq_Dimensions q) (crq_Comment q) s = (Inr j, s2)"
      by (rule createReview_changed)
    with insert_and_publish_inv [OF i] rt show ?thesis by (metis snd_conv)
  qed (simp add: i)
  then show ?thesis by (simp add: op_inv_def Some)
qed

lemma review_ops_inv: "m \<in> review_ops \<Longrightarrow> op_inv review_inv m"
proof (induction rule: review_ops.induct)
  case (op_addResponse u i x)
  have "op_inv review_inv (AddResponse i u y)" for y
    by (rule op_inv_atomic [OF atomic_review(3)]) (rule AddResponse_inv)
  then show ?case unfolding addResponse_def by (intro op_invs)
next
  case (op_closeWindow c)
  have "op_inv review_inv (PublishWindowClosed c)"
    by (rule op_inv_atomic [OF atomic_review(1)]) (rule PublishWindowClosed_inv)
  then show ?case unfolding closeWindow_def by (intro op_invs)
qed (simp_all add: createReview_inv getReview_def GetReview_def listForUser_def ListReviewsForUser_def getReputation_def GetReputation_def
    op_inv_keeps io_keeps)

interpretation review_service: service_system review_ops review_inv
  by unfold_locales (rule review_ops_inv)

definition empty_reviews :: "(string \<times> string) list \<Rightarrow> review_db" where
  "empty_reviews ks = \<lparr>outbox = [], outbox_seq = 0, processed_events = [], reviews = [], review_responses = [], reputation_scores = [], rev_other_keys = ks\<rparr>"

lemma empty_reviews_inv: "review_inv (empty_reviews ks)"
  by (simp add: review_inv_def review_base_def blind_def reputations_current_def published_of_def empty_reviews_def refers_def)

section \<open>Example\<close>

definition demo_parties :: "string \<Rightarrow> Parties http_answer" where
  "demo_parties c = Answer 200 (Some \<lparr>par_ContractID = c, par_ClientID = ''cl'', par_FreelancerID = ''fr'', par_Status = ''completed''\<rparr>)"

definition demo_review :: "string \<Rightarrow> int \<Rightarrow> createReq" where
  "demo_review u n = \<lparr>crq_ContractID = ''c1'', crq_RevieweeID = u, crq_Rating = n, crq_Dimensions = JObj [], crq_Comment = None\<rparr>"

definition demo_reviews0 :: review_db where
  "demo_reviews0 = empty_reviews [(''users'', ''cl''), (''users'', ''fr''), (''contracts'', ''c1'')]"

definition demo_reviews1 :: review_db where
  "demo_reviews1 = committed (snd (createReview demo_parties ''cl'' (Some (demo_review ''fr'' 4)) (quiet ''a'' demo_reviews0)))"

definition demo_reviews2 :: review_db where
  "demo_reviews2 = committed (snd (createReview demo_parties ''fr'' (Some (demo_review ''cl'' 2)) (quiet ''b'' demo_reviews1)))"

lemma demo_review_steps:
  "op_step review_ops demo_reviews0 demo_reviews1" "op_step review_ops demo_reviews1 demo_reviews2"
  unfolding demo_reviews1_def demo_reviews2_def by (rule op_step_quiet, rule review_ops.intros)+

section \<open>Properties\<close>

text \<open>
  C29: Starting from a database that satisfies it, every sequence of review operations, interleaved in
  any order and with any failing statement, keeps: a review that is not yet published is the only
  review of its contract (so the second one reveals both), nobody reviews a contract twice or
  themselves, ratings lie between 1 and 5, only the reviewee of a review has answered it, and
  everyone with a published review has a reputation row with exactly the score and job success rate
  computed from the published reviews.
\<close>

theorem review_invariant:
  assumes "(op_step review_ops)\<^sup>*\<^sup>* d d'" "review_inv d"
  shows "review_inv d'"
  by (rule review_service.reachable_inv [OF assms])

theorem review_invariant_witness:
  "review_inv demo_reviews2 \<and> length (filter rvw_IsPublished (reviews demo_reviews1)) = 0 \<and>
   map rvw_IsPublished (reviews demo_reviews2) = [True, True] \<and>
   map (\<lambda>p. (rep_UserID p, rep_Score p, rep_JobSuccessPct p)) (reputation_scores demo_reviews2)
     = [(''fr'', 8000, Some 100), (''cl'', 4000, Some 0)]"
proof (intro conjI)
  have "(op_step review_ops)\<^sup>*\<^sup>* demo_reviews0 demo_reviews2"
    by (rule op_step_two) (rule demo_review_steps)+
  then show "review_inv demo_reviews2"
    by (rule review_invariant) (simp add: demo_reviews0_def empty_reviews_inv)
qed code_simp+

text \<open>
  C30: A request that creates a review got its parties from the contract service with status
  completed; the reviewer is one of them, the reviewee the other one, the rating is in range, and
  the reviewer had not reviewed this contract. The stored reviews are the former ones and the new
  one, still hidden; unless the other party's review was there already, in which case all reviews
  of the contract are published at this moment.
\<close>

theorem review_creation:
  assumes "createReview parties u (Some q) s = (r, t)" "committed t \<noteq> committed s"
  shows "\<exists>p. lookup_get (parties (crq_ContractID q)) = Inr p \<and> par_Status p = ''completed'' \<and>
    (u = par_ClientID p \<and> crq_RevieweeID q = par_FreelancerID p \<or> u = par_FreelancerID p \<and> crq_RevieweeID q = par_ClientID p) \<and>
    1 \<le> crq_Rating q \<and> crq_Rating q \<le> 5 \<and> (crq_ContractID q, u) \<notin> review_key ` set (reviews (committed s)) \<and>
    (\<exists>i. let rs = reviews (committed s) @ [new_review i (crq_ContractID q) u (crq_RevieweeID q) (crq_Rating q) (crq_Dimensions q) (crq_Comment q) (clock s)]
      in reviews (committed t) = (if contract_reviews (crq_ContractID q) (committed s) = [] then rs
           else update_where (hidden (crq_ContractID q)) (reveal (clock s)) rs))"
proof -
  from assms obtain p i s2 where p: "lookup_get (parties (crq_ContractID q)) = Inr p" "IsParty p u" "u \<noteq> ''''"
    "crq_RevieweeID q = Opposite p u" "crq_RevieweeID q \<noteq> u" "par_Status p = ''completed''"
    "insert_and_publish (crq_ContractID q) u (crq_RevieweeID q) (crq_Rating q) (crq_Dimensions q) (crq_Comment q) s = (Inr i, s2)"
    "committed t = committed s2" by (rule createReview_changed)
  let ?r = "new_review i (crq_ContractID q) u (crq_RevieweeID q) (crq_Rating q) (crq_Dimensions q) (crq_Comment q) (clock s)"
  have "2 \<le> length (contract_reviews (crq_ContractID q) ((committed s)\<lparr>reviews := reviews (committed s) @ [?r]\<rparr>)) \<longleftrightarrow>
    contract_reviews (crq_ContractID q) (committed s) \<noteq> []"
    by (cases "contract_reviews (crq_ContractID q) (committed s)") (simp_all add: contract_reviews_def new_review_def)
  with insert_and_publish_ok [OF p(7)] p(8) have "reviews (committed t) = (if contract_reviews (crq_ContractID q) (committed s) = [] then reviews (committed s) @ [?r]
       else update_where (hidden (crq_ContractID q)) (reveal (clock s)) (reviews (committed s) @ [?r]))"
    by (simp add: revealed_def split: if_splits)
  moreover have "u = par_ClientID p \<and> crq_RevieweeID q = par_FreelancerID p \<or> u = par_FreelancerID p \<and> crq_RevieweeID q = par_ClientID p"
    using p(2-5) by (auto simp: IsParty_def Opposite_def split: if_splits)
  ultimately show ?thesis using p(1,6) insert_and_publish_ok [OF p(7)] unfolding Let_def by blast
qed

theorem review_creation_witness:
  "\<exists>i. reviews demo_reviews2 = update_where (hidden ''c1'') (reveal 1000)
     (reviews demo_reviews1 @ [new_review i ''c1'' ''fr'' ''cl'' 2 (JObj []) None 1000])"
proof -
  let ?s = "quiet ''b'' demo_reviews1" and ?q = "demo_review ''cl'' 2"
  have "committed (snd (createReview demo_parties ''fr'' (Some ?q) ?s)) \<noteq> committed ?s" by code_simp
  note c = review_creation [OF surjective_pairing this]
  have "contract_reviews ''c1'' demo_reviews1 \<noteq> []" "clock ?s = 1000" "crq_ContractID ?q = ''c1''" "crq_RevieweeID ?q = ''cl''"
    "crq_Rating ?q = 2" "crq_Dimensions ?q = JObj []" "crq_Comment ?q = None" by code_simp+
  with c show ?thesis by (simp add: Let_def demo_reviews2_def) blast
qed

end
