(* ===== verification/Review_Contract.thy ===== *)
theory Review_Contract
  imports Review_Props Money_Auth Contract_Props
begin

text \<open>
  The review service on top of the contract service: a review needs a contract whose status is
  completed, and no operation of the contract service gives a contract that status.
\<close>

section \<open>Statuses a contract can take\<close>

definition open_status :: "Contract \<Rightarrow> bool" where
  "open_status c \<longleftrightarrow> con_Status c \<in> {''pending_funding'', ''active'', ''disputed''}"

lemma open_status_updates [simp]:
  "open_status (c\<lparr>con_Status := ''active''\<rparr>)" "open_status (c\<lparr>con_Status := ''disputed''\<rparr>)"
  "open_status (c\<lparr>con_StartedAt := x\<rparr>) = open_status c" "open_status (created_row i uid cur)"
  by (simp_all add: open_status_def created_row_def input_contract_def)

lemma contract_step_open:
  assumes "contract_step d d'" "list_all open_status (contracts d)"
  shows "list_all open_status (contracts d')"
  using assms(1)
proof (cases rule: contract_step_cases)
  case (create answer j c1 s t)
  from CreateFromProposal_effect [OF create(1)] assms(2) show ?thesis
    by (auto simp: create(2,3) create_effect_def)
next
  case (activate j u x s t)
  from ActivateContract_effect [OF activate(1)] assms(2) show ?thesis
    by (auto simp: activate(2,3) intro!: list_all_update_where)
next
  case (fund j u x s t)
  from FundMilestone_effect [OF fund(1)] assms(2) show ?thesis by (auto simp: fund(2,3))
next
  case (submit j u nt ks x s t)
  from SubmitMilestone_effect [OF submit(1)] assms(2) show ?thesis
    by (auto simp: submit(2,3) delivered_def split: option.splits)
next
  case (approve j u x s t)
  from ApproveMilestone_effect [OF approve(1)] assms(2) show ?thesis by (auto simp: approve(2,3))
next
  case (dispute j u v mo why amt x s t)
  from RaiseDispute_effect [OF dispute(1)] assms(2) show ?thesis
    by (auto simp: dispute(2,3) intro!: list_all_update_where)
qed (use assms(2) in simp)

interpretation open_contracts: invariant_system contract_step "\<lambda>d. list_all open_status (contracts d)"
  by unfold_locales (rule contract_step_open)

lemma parties_open:
  assumes "list_all open_status (contracts (committed s0))" "lookup_get (parties_answer s0 c) = Inr p"
  shows "par_Status p \<noteq> ''completed''"
proof -
  from parties_answer_sound [OF assms(2)] obtain con where "con \<in> set (contracts (committed s0))" "par_Status p = con_Status con"
    by (auto dest: select_one_SomeD)
  with assms(1) show ?thesis by (auto simp: list_all_iff open_status_def)
qed

section \<open>Property\<close>

text \<open>
  C31: Whatever the contract service does from a database whose contracts are pending, active or
  disputed, no contract becomes completed; so with that service's internal endpoint answering,
  every request to create a review leaves the review database as it was: the review feature
  cannot be reached through the system's own operations.
\<close>

theorem reviews_unreachable:
  assumes "contract_step\<^sup>*\<^sup>* d (committed s0)" "list_all open_status (contracts d)"
  shows "committed (snd (createReview (parties_answer s0) u body s)) = committed s"
proof (cases body)
  case None
  then show ?thesis by (simp add: createReview_def decode_def guarded_ret run_basic)
next
  case (Some q)
  show ?thesis
  proof (rule ccontr)
    assume "\<not> ?thesis"
    with Some have ch: "committed (snd (createReview (parties_answer s0) u (Some q) s)) \<noteq> committed s" by simp
    obtain p i s2 where "lookup_get (parties_answer s0 (crq_ContractID q)) = Inr p" "par_Status p = ''completed''"
      by (rule createReview_changed [OF surjective_pairing ch]) blast
    with parties_open [OF open_contracts.steps_inv [OF assms]] show False by blast
  qed
qed

theorem reviews_unreachable_witness:
  "committed (snd (createReview (parties_answer (quiet ''p'' demo_ms_approved)) ''cl'' (Some (demo_review ''fr'' 4)) (quiet ''a'' demo_reviews0)))
     = committed (quiet ''a'' demo_reviews0)"
proof -
  have "contract_step\<^sup>*\<^sup>* demo_keys (committed (quiet ''p'' demo_ms_approved))"
    using rtranclp_trans [OF demo_contract_steps] by simp
  moreover have "list_all open_status (contracts demo_keys)" by code_simp
  ultimately show ?thesis by (rule reviews_unreachable)
qed

end
