(* ===== verification/Admin.thy ===== *)
theory Admin
  imports Outbox Rbac
begin

text \<open>
  \<open>services/admin\<close>: moderation of users, resolution of disputes, the screenshot audit and the audit
  log; store with the constraints of migrations 000010 and 000014, service and HTTP handlers behind
  the permission gate. \<open>sha\<close> is SHA-256 and \<open>inet\<close> PostgreSQL's cast of a text to an address
  (\<open>None\<close>: the statement fails), both parameters.
\<close>

section \<open>Store\<close>

definition InsertAdminAction ::
  "string \<Rightarrow> string \<Rightarrow> string \<Rightarrow> string \<Rightarrow> string option \<Rightarrow> string option \<Rightarrow> (admin_db, string) io" where
  "InsertAdminAction adminID action targetType targetID reason metadata =
     tx_stmt (\<lambda>now uid d.
       if uid \<in> aa_ID ` set (admin_actions d) then Inl UniqueViolation
       else if adminID \<notin> usr_ID ` set (adm_users d) then Inl ForeignKeyViolation
       else Inr (uid, d\<lparr>admin_actions := admin_actions d @
         [\<lparr>aa_ID = uid, aa_AdminID = adminID, aa_Action = action, aa_TargetType = targetType, aa_TargetID = targetID,
           aa_Reason = reason, aa_Metadata = (case metadata of None \<Rightarrow> ''{}'' | Some m \<Rightarrow> m), aa_CreatedAt = now\<rparr>]\<rparr>))"

definition deref :: "string option \<Rightarrow> string" where
  "deref p = (case p of None \<Rightarrow> '''' | Some x \<Rightarrow> x)"

definition hashed_fields :: "AuditLog \<Rightarrow> string list" where
  "hashed_fields l = [al_ActorType l, deref (al_ActorID l), al_Action l, al_ResourceType l, deref (al_ResourceID l),
     deref (al_IP l), deref (al_UserAgent l), deref (al_Context l)]"

definition rsep :: char where
  "rsep = CHR 0x1E"

text \<open>The bytes written to the hash: each field after a record separator.\<close>

definition hash_input :: "AuditLog \<Rightarrow> string" where
  "hash_input l = concat (map (\<lambda>f. rsep # f) (hashed_fields l))"

definition auditRowHash :: "(string \<Rightarrow> string) \<Rightarrow> AuditLog \<Rightarrow> string" where
  "auditRowHash sha l = sha (hash_input l)"

text \<open>
  The address is stored as the cast gives it; the hash is computed before, from the text. The
  identity column and the time stamp are the database's.
\<close>

definition cast_ip :: "(string \<Rightarrow> string option) \<Rightarrow> string option \<Rightarrow> string option option" where
  "cast_ip inet ip = (case ip of None \<Rightarrow> Some None | Some x \<Rightarrow> map_option Some (inet x))"

definition InsertAuditLog :: "(string \<Rightarrow> string) \<Rightarrow> (string \<Rightarrow> string option) \<Rightarrow> AuditLog \<Rightarrow> (admin_db, unit) io" where
  "InsertAuditLog sha inet l0 =
     (let l1 = (if al_Context l0 = None then l0\<lparr>al_Context := Some ''{}''\<rparr> else l0);
          l = (if al_ActorType l1 = '''' then l1\<lparr>al_ActorType := ''user''\<rparr> else l1);
          rowHash = auditRowHash sha l
      in tx_stmt (\<lambda>now uid d. case cast_ip inet (al_IP l) of
           None \<Rightarrow> Inl InvalidEnum
         | Some ip \<Rightarrow> Inr ((), d\<lparr>audit_seq := audit_seq d + 1, audit_logs := audit_logs d @
             [\<lparr>au_log = l\<lparr>al_ID := audit_seq d, al_OccurredAt := now, al_IP := ip\<rparr>, au_row_hash = rowHash\<rparr>]\<rparr>)))"

definition SetUserStatus :: "string \<Rightarrow> string \<Rightarrow> (admin_db, bool) io" where
  "SetUserStatus userID status = tx_stmt (\<lambda>now uid d.
     if status \<notin> {''pending'', ''active'', ''suspended'', ''banned'', ''deleted''} then Inl InvalidEnum
     else Inr (length (filter (\<lambda>u. usr_ID u = userID) (adm_users d)) = 1,
       d\<lparr>adm_users := update_where (\<lambda>u. usr_ID u = userID) (\<lambda>u. u\<lparr>usr_Status := status\<rparr>) (adm_users d)\<rparr>))"

definition resolve_row :: "string \<Rightarrow> string option \<Rightarrow> string \<Rightarrow> int \<Rightarrow> resolution_row \<Rightarrow> resolution_row" where
  "resolve_row resolution note' adminID now r =
     r\<lparr>rs_dispute := (rs_dispute r)\<lparr>dsp_Status := resolution\<rparr>, rs_resolution_note := note',
       rs_assigned_admin := Some adminID, rs_resolved_at := Some now\<rparr>"

definition store_ResolveDispute :: "string \<Rightarrow> string \<Rightarrow> string option \<Rightarrow> string \<Rightarrow> (admin_db, bool) io" where
  "store_ResolveDispute disputeID resolution note' adminID = tx_stmt (\<lambda>now uid d.
     let hits = filter (\<lambda>r. dsp_ID (rs_dispute r) = disputeID) (adm_disputes d) in
     if resolution \<notin> {''open'', ''in_review'', ''resolved_client'', ''resolved_freelancer'', ''split'', ''cancelled''}
     then Inl InvalidEnum
     else if hits \<noteq> [] \<and> adminID \<notin> usr_ID ` set (adm_users d) then Inl ForeignKeyViolation
     else Inr (length hits = 1, d\<lparr>adm_disputes :=
       update_where (\<lambda>r. dsp_ID (rs_dispute r) = disputeID) (resolve_row resolution note' adminID now) (adm_disputes d)\<rparr>))"

record ScreenshotFilter =
  sf_UserID :: "string option"
  sf_Status :: "string option"
  sf_Limit :: int

text \<open>\<open>$1 IS NULL OR column = $1\<close>.\<close>

definition unless_null :: "string option \<Rightarrow> string \<Rightarrow> bool" where
  "unless_null p x \<longleftrightarrow> p = None \<or> p = Some x"

text \<open>
  Whether PostgreSQL accepts \<open>status = $2\<close>, an enum compared with a parameter that \<open>$2::text\<close> makes
  a text, is left to the environment: as every statement, this one may fail.
\<close>

definition ListScreenshots :: "ScreenshotFilter \<Rightarrow> (admin_db, audit_Screenshot list) io" where
  "ListScreenshots f = pool_query (\<lambda>d. take (nat (sf_Limit f)) (sort_key (\<lambda>x. - as_CapturedAt x)
     (filter (\<lambda>x. unless_null (sf_UserID f) (as_FreelancerID x) \<and> unless_null (sf_Status f) (as_Status x)) (adm_screenshots d))))"

definition UserExists :: "string \<Rightarrow> (admin_db, bool) io" where
  "UserExists userID = tx_stmt (\<lambda>now uid d. Inr (userID \<in> usr_ID ` set (adm_users d), d))"

definition store_ListAdminActions :: "int \<Rightarrow> (admin_db, AdminAction list) io" where
  "store_ListAdminActions limit = pool_query (\<lambda>d. take (nat limit) (sort_key (\<lambda>a. - aa_CreatedAt a) (admin_actions d)))"

record AuditLogFilter =
  alf_ActorID :: "string option"
  alf_Action :: "string option"
  alf_Limit :: int

definition actor_matches :: "string option \<Rightarrow> string option \<Rightarrow> bool" where
  "actor_matches p a \<longleftrightarrow> p = None \<or> (a \<noteq> None \<and> p = a)"

definition store_ListAuditLogs :: "AuditLogFilter \<Rightarrow> (admin_db, AuditLog list) io" where
  "store_ListAuditLogs f = pool_query (\<lambda>d. take (nat (alf_Limit f))
     (sort_key (\<lambda>l. - al_OccurredAt l) (sort_key (\<lambda>l. - al_ID l)
       (filter (\<lambda>l. actor_matches (alf_ActorID f) (al_ActorID l) \<and> unless_null (alf_Action f) (al_Action l))
         (map au_log (audit_logs d))))))"

section \<open>Service\<close>

definition validResolutions :: "string \<Rightarrow> bool" where
  "validResolutions r \<longleftrightarrow> r \<in> {''resolved_client'', ''resolved_freelancer'', ''split''}"

record AuditCtx =
  ac_IP :: "string option"
  ac_UserAgent :: "string option"

definition nilIfEmpty :: "string \<Rightarrow> string option" where
  "nilIfEmpty s = (if s = '''' then None else Some s)"

definition clampLimit :: "int \<Rightarrow> int" where
  "clampLimit n = (if n \<le> 0 then 50 else if n > 500 then 500 else n)"

text \<open>The audit row of a privileged action.\<close>

definition audit_entry :: "string \<Rightarrow> string \<Rightarrow> string \<Rightarrow> string option \<Rightarrow> AuditCtx \<Rightarrow> AuditLog" where
  "audit_entry adminID action resourceType resourceID ac =
     \<lparr>al_ID = 0, al_OccurredAt = 0, al_ActorID = Some adminID, al_ActorType = ''user'', al_Action = action,
      al_ResourceType = resourceType, al_ResourceID = resourceID, al_IP = ac_IP ac, al_UserAgent = ac_UserAgent ac,
      al_Context = None\<rparr>"

definition moderation_event :: "string \<Rightarrow> string \<Rightarrow> string \<Rightarrow> string \<Rightarrow> Event" where
  "moderation_event targetUserID adminID reason eventType =
     \<lparr>ev_AggregateType = ''user'', ev_AggregateID = targetUserID, ev_EventType = eventType, ev_Topic = ''admin.events'',
      ev_PartitionKey = targetUserID, ev_Payload = JObj [(''user_id'', JStr targetUserID), (''admin_id'', JStr adminID),
        (''reason'', JStr reason)], ev_Headers = []\<rparr>"

definition moderateUser ::
  "(string \<Rightarrow> string) \<Rightarrow> (string \<Rightarrow> string option) \<Rightarrow> string \<Rightarrow> string \<Rightarrow> string \<Rightarrow> AuditCtx \<Rightarrow>
   string \<Rightarrow> string \<Rightarrow> string \<Rightarrow> bool \<Rightarrow> (admin_db, unit) io" where
  "moderateUser sha inet adminID targetUserID reason ac newStatus action eventType emit =
     bindE begin_tx (\<lambda>_.
     bindE (UserExists targetUserID) (\<lambda>exists.
     if \<not> exists then throw ErrNotFound else
     bindE (SetUserStatus targetUserID newStatus) (\<lambda>_.
     bindE (InsertAdminAction adminID action ''user'' targetUserID (nilIfEmpty reason) None) (\<lambda>_.
     bindE (InsertAuditLog sha inet (audit_entry adminID action ''user'' (Some targetUserID) ac)) (\<lambda>_.
     bindE (if emit then Enqueue (moderation_event targetUserID adminID reason eventType) else ret ()) (\<lambda>_.
     commit_tx))))))"

definition SuspendUser ::
  "(string \<Rightarrow> string) \<Rightarrow> (string \<Rightarrow> string option) \<Rightarrow> string \<Rightarrow> string \<Rightarrow> string \<Rightarrow> AuditCtx \<Rightarrow> (admin_db, unit) io" where
  "SuspendUser sha inet adminID targetUserID reason ac =
     moderateUser sha inet adminID targetUserID reason ac ''suspended'' ''user.suspend'' ''user.suspended'' True"

definition ReinstateUser ::
  "(string \<Rightarrow> string) \<Rightarrow> (string \<Rightarrow> string option) \<Rightarrow> string \<Rightarrow> string \<Rightarrow> string \<Rightarrow> AuditCtx \<Rightarrow> (admin_db, unit) io" where
  "ReinstateUser sha inet adminID targetUserID reason ac =
     moderateUser sha inet adminID targetUserID reason ac ''active'' ''user.reinstate'' '''' False"

definition resolved_event :: "string \<Rightarrow> string \<Rightarrow> Event" where
  "resolved_event disputeID resolution =
     \<lparr>ev_AggregateType = ''dispute'', ev_AggregateID = disputeID, ev_EventType = ''dispute.resolved'', ev_Topic = ''admin.events'',
      ev_PartitionKey = disputeID, ev_Payload = JObj [(''dispute_id'', JStr disputeID), (''resolution'', JStr resolution)],
      ev_Headers = []\<rparr>"

definition ResolveDispute ::
  "(string \<Rightarrow> string) \<Rightarrow> (string \<Rightarrow> string option) \<Rightarrow> string \<Rightarrow> string \<Rightarrow> string \<Rightarrow> string \<Rightarrow> AuditCtx \<Rightarrow> (admin_db, unit) io" where
  "ResolveDispute sha inet adminID disputeID resolution note' ac =
     (if \<not> validResolutions resolution then throw ErrInvalidResolution else
      bindE begin_tx (\<lambda>_.
      bindE (store_ResolveDispute disputeID resolution (nilIfEmpty note') adminID) (\<lambda>ok.
      if \<not> ok then throw ErrNotFound else
      bindE (InsertAdminAction adminID ''dispute.resolve'' ''dispute'' disputeID (nilIfEmpty note') None) (\<lambda>_.
      bindE (InsertAuditLog sha inet (audit_entry adminID ''dispute.resolve'' ''dispute'' (Some disputeID) ac)) (\<lambda>_.
      bindE (Enqueue (resolved_event disputeID resolution)) (\<lambda>_.
      commit_tx))))))"

definition ListScreenshotsForAudit ::
  "(string \<Rightarrow> string) \<Rightarrow> (string \<Rightarrow> string option) \<Rightarrow> string \<Rightarrow> ScreenshotFilter \<Rightarrow> AuditCtx \<Rightarrow> (admin_db, audit_Screenshot list) io" where
  "ListScreenshotsForAudit sha inet adminID f ac =
     bindE (ListScreenshots (f\<lparr>sf_Limit := clampLimit (sf_Limit f)\<rparr>)) (\<lambda>out.
     bindE begin_tx (\<lambda>_.
     bindE (InsertAuditLog sha inet (audit_entry adminID ''screenshot.audit_list'' ''screenshot'' None ac)) (\<lambda>_.
     bindE commit_tx (\<lambda>_. ret out))))"

definition ListAdminActions :: "int \<Rightarrow> (admin_db, AdminAction list) io" where
  "ListAdminActions limit = store_ListAdminActions (clampLimit limit)"

definition ListAuditLogs :: "AuditLogFilter \<Rightarrow> (admin_db, AuditLog list) io" where
  "ListAuditLogs f = store_ListAuditLogs (f\<lparr>alf_Limit := clampLimit (alf_Limit f)\<rparr>)"

section \<open>Handlers\<close>

text \<open>A request as the handlers see it: headers and query parameters by name, \<open>''''\<close> when absent.\<close>

record admin_req =
  ar_header :: "string \<Rightarrow> string"
  ar_query :: "string \<Rightarrow> string"

definition mapError :: "err \<Rightarrow> response" where
  "mapError e =
     (if e = ErrInvalidResolution then Problem 400 ''INVALID_RESOLUTION''
      else if e = ErrNotFound then Problem 404 ''NOT_FOUND''
      else if e = ErrForbidden then Problem 403 ''FORBIDDEN''
      else Problem 500 ''INTERNAL'')"

definition principal :: "admin_req \<Rightarrow> Principal" where
  "principal r = \<lparr>pr_UserID = ar_header r ''X-User-Id'', pr_Roles = header_list (ar_header r ''X-User-Roles''),
     pr_Permissions = header_list (ar_header r ''X-User-Permissions''), pr_AccountType = ar_header r ''X-Account-Type''\<rparr>"

definition authorize :: "Principal \<Rightarrow> string \<Rightarrow> response + unit" where
  "authorize p perm =
     (if pr_UserID p = '''' then Inl (Problem 401 ''UNAUTHORIZED'')
      else case Require p perm of Some e \<Rightarrow> Inl (mapError e) | None \<Rightarrow> Inr ())"

definition clientIP :: "admin_req \<Rightarrow> string option" where
  "clientIP r =
     (let xff = ar_header r ''X-Forwarded-For'' in
      if xff = '''' then None
      else let ip = trim_space (hd (split_on (CHR '','') xff)) in if ip = '''' then None else Some ip)"

definition auditMeta :: "admin_req \<Rightarrow> AuditCtx" where
  "auditMeta r = \<lparr>ac_IP = clientIP r, ac_UserAgent = nilIfEmpty (ar_header r ''User-Agent'')\<rparr>"

definition queryPtr :: "admin_req \<Rightarrow> string \<Rightarrow> string option" where
  "queryPtr r key = (let v = ar_query r key in if v = '''' then None else Some v)"

definition queryInt :: "admin_req \<Rightarrow> string \<Rightarrow> int \<Rightarrow> int" where
  "queryInt r key def = (let v = ar_query r key in
     if v = '''' then def else case ParseInt v of None \<Rightarrow> def | Some n \<Rightarrow> n)"

text \<open>The optional body: nothing (\<open>ContentLength\<close> 0), or a body that parses or not.\<close>

definition decode_optional :: "string option option \<Rightarrow> response + string" where
  "decode_optional body = (case body of None \<Rightarrow> Inr '''' | Some b \<Rightarrow> decode b)"

definition success :: response where
  "success = Reply 200 (JObj [(''success'', JBool True)])"

definition suspendUser ::
  "(string \<Rightarrow> string) \<Rightarrow> (string \<Rightarrow> string option) \<Rightarrow> admin_req \<Rightarrow> string \<Rightarrow> string option option \<Rightarrow> (admin_db, response) io" where
  "suspendUser sha inet r i body =
     guarded (ret (authorize (principal r) ''admin.user.suspend'')) (\<lambda>_.
     guarded (ret (decode_optional body)) (\<lambda>reason.
     handle mapError (SuspendUser sha inet (pr_UserID (principal r)) i reason (auditMeta r)) (\<lambda>_. success)))"

definition reinstateUser ::
  "(string \<Rightarrow> string) \<Rightarrow> (string \<Rightarrow> string option) \<Rightarrow> admin_req \<Rightarrow> string \<Rightarrow> string option option \<Rightarrow> (admin_db, response) io" where
  "reinstateUser sha inet r i body =
     guarded (ret (authorize (principal r) ''admin.user.suspend'')) (\<lambda>_.
     guarded (ret (decode_optional body)) (\<lambda>reason.
     handle mapError (ReinstateUser sha inet (pr_UserID (principal r)) i reason (auditMeta r)) (\<lambda>_. success)))"

record resolveReq =
  rq_Resolution :: string
  rq_Note :: string

definition resolveDispute ::
  "(string \<Rightarrow> string) \<Rightarrow> (string \<Rightarrow> string option) \<Rightarrow> admin_req \<Rightarrow> string \<Rightarrow> resolveReq option \<Rightarrow> (admin_db, response) io" where
  "resolveDispute sha inet r i body =
     guarded (ret (authorize (principal r) ''admin.dispute.resolve'')) (\<lambda>_.
     guarded (ret (decode body)) (\<lambda>req.
     if rq_Resolution req = '''' then ret (Problem 400 ''VALIDATION_FAILED'')
     else handle mapError
       (ResolveDispute sha inet (pr_UserID (principal r)) i (rq_Resolution req) (rq_Note req) (auditMeta r)) (\<lambda>_. success)))"

definition screenshotJSON :: "audit_Screenshot \<Rightarrow> json" where
  "screenshotJSON x = JObj [(''id'', JStr (as_ID x)), (''work_session_id'', JStr (as_SessionID x)),
     (''user_id'', JStr (as_FreelancerID x)), (''status'', JStr (as_Status x)), (''captured_at'', JInt (as_CapturedAt x)),
     (''s3_key'', JStr (as_S3Key x))]"

text \<open>Stored JSON is passed through; \<open>doc\<close> is the document its bytes denote.\<close>

definition rawJSON :: "(string \<Rightarrow> json) \<Rightarrow> string \<Rightarrow> json" where
  "rawJSON doc b = (if b = '''' then JObj [] else doc b)"

definition adminActionJSON :: "(string \<Rightarrow> json) \<Rightarrow> AdminAction \<Rightarrow> json" where
  "adminActionJSON doc a = JObj [(''id'', JStr (aa_ID a)), (''admin_id'', JStr (aa_AdminID a)), (''action'', JStr (aa_Action a)),
     (''target_type'', JStr (aa_TargetType a)), (''target_id'', JStr (aa_TargetID a)), (''reason'', opt_json JStr (aa_Reason a)),
     (''metadata'', rawJSON doc (aa_Metadata a)), (''created_at'', JInt (aa_CreatedAt a))]"

definition auditLogJSON :: "(string \<Rightarrow> json) \<Rightarrow> AuditLog \<Rightarrow> json" where
  "auditLogJSON doc l = JObj [(''id'', JInt (al_ID l)), (''occurred_at'', JInt (al_OccurredAt l)),
     (''actor_id'', opt_json JStr (al_ActorID l)), (''actor_type'', JStr (al_ActorType l)), (''action'', JStr (al_Action l)),
     (''resource_type'', JStr (al_ResourceType l)), (''resource_id'', opt_json JStr (al_ResourceID l)),
     (''ip'', opt_json JStr (al_IP l)), (''user_agent'', opt_json JStr (al_UserAgent l)),
     (''context'', rawJSON doc (deref (al_Context l)))]"

definition listScreenshots :: "(string \<Rightarrow> string) \<Rightarrow> (string \<Rightarrow> string option) \<Rightarrow> admin_req \<Rightarrow> (admin_db, response) io" where
  "listScreenshots sha inet r =
     guarded (ret (authorize (principal r) ''admin.screenshot.audit'')) (\<lambda>_.
     handle mapError (ListScreenshotsForAudit sha inet (pr_UserID (principal r))
         \<lparr>sf_UserID = queryPtr r ''user_id'', sf_Status = queryPtr r ''status'', sf_Limit = queryInt r ''limit'' 50\<rparr> (auditMeta r))
       (\<lambda>out. Reply 200 (JObj [(''screenshots'', JArr (map screenshotJSON out))])))"

definition listActions :: "(string \<Rightarrow> json) \<Rightarrow> admin_req \<Rightarrow> (admin_db, response) io" where
  "listActions doc r =
     guarded (ret (authorize (principal r) ''admin.audit.read'')) (\<lambda>_.
     handle mapError (ListAdminActions (queryInt r ''limit'' 50))
       (\<lambda>out. Reply 200 (JObj [(''actions'', JArr (map (adminActionJSON doc) out))])))"

definition listAuditLogs :: "(string \<Rightarrow> json) \<Rightarrow> admin_req \<Rightarrow> (admin_db, response) io" where
  "listAuditLogs doc r =
     guarded (ret (authorize (principal r) ''admin.audit.read'')) (\<lambda>_.
     handle mapError (ListAuditLogs \<lparr>alf_ActorID = queryPtr r ''actor_id'', alf_Action = queryPtr r ''action'',
         alf_Limit = queryInt r ''limit'' 50\<rparr>)
       (\<lambda>out. Reply 200 (JObj [(''audit_logs'', JArr (map (auditLogJSON doc) out))])))"

section \<open>Framing\<close>

lemma keeps_admin_store [io_keeps]:
  "keeps (InsertAdminAction a b c e f g)" "keeps (InsertAuditLog sha inet l)" "keeps (SetUserStatus u st)"
  "keeps (store_ResolveDispute i st n a)" "keeps (ListScreenshots sf)" "keeps (UserExists u)"
  "keeps (store_ListAdminActions k)" "keeps (store_ListAuditLogs af)"
  unfolding InsertAdminAction_def InsertAuditLog_def SetUserStatus_def store_ResolveDispute_def ListScreenshots_def
    UserExists_def store_ListAdminActions_def store_ListAuditLogs_def
  by (simp_all add: Let_def io_keeps)

lemma atomic_admin:
  "atomic (moderateUser sha inet a u why ac st act ev emit)" "atomic (ResolveDispute sha inet a i st n ac)"
  "atomic (ListScreenshotsForAudit sha inet a f ac)"
  unfolding moderateUser_def ResolveDispute_def ListScreenshotsForAudit_def
  by (intro io_atomic io_keeps | simp add: io_keeps keeps_atomic)+

end
