(* ===== verification/Admin_Props.thy ===== *)
theory Admin_Props
  imports Admin Tx_Inv "HOL-Library.Sublist"
begin

text \<open>
  Accountability of the administration: no privileged change without permission, and none without
  its row in \<open>admin_actions\<close> and in \<open>audit_logs\<close>; the audit log only grows; its row hashes commit
  to their contents.
\<close>

section \<open>Effects\<close>

definition action_row :: "string \<Rightarrow> string \<Rightarrow> string \<Rightarrow> string \<Rightarrow> string \<Rightarrow> string option \<Rightarrow> int \<Rightarrow> AdminAction" where
  "action_row uid adm act ty target why now = \<lparr>aa_ID = uid, aa_AdminID = adm, aa_Action = act, aa_TargetType = ty,
     aa_TargetID = target, aa_Reason = why, aa_Metadata = ''{}'', aa_CreatedAt = now\<rparr>"

definition log_row :: "(string \<Rightarrow> string) \<Rightarrow> string \<Rightarrow> string \<Rightarrow> string \<Rightarrow> string option \<Rightarrow> AuditCtx \<Rightarrow> string option \<Rightarrow> int \<Rightarrow> int \<Rightarrow> audit_row" where
  "log_row sha adm act ty target ac ip n now =
     (let l = (audit_entry adm act ty target ac)\<lparr>al_Context := Some ''{}''\<rparr> in
      \<lparr>au_log = l\<lparr>al_ID := n, al_OccurredAt := now, al_IP := ip\<rparr>, au_row_hash = auditRowHash sha l\<rparr>)"

lemma InsertAdminAction_ok:
  "InsertAdminAction adm act ty target why None s = (Inr uid, t) \<longleftrightarrow>
     \<not> aborted s \<and> \<not> faults s 0 \<and> uid = ids s 0 \<and> uid \<notin> aa_ID ` set (admin_actions (work s)) \<and> adm \<in> usr_ID ` set (adm_users (work s)) \<and>
     t = (tick s)\<lparr>work := (work s)\<lparr>admin_actions := admin_actions (work s) @ [action_row uid adm act ty target why (clock s)]\<rparr>\<rparr>"
  by (auto simp: InsertAdminAction_def tx_stmt_ok action_row_def split: if_splits)

lemma InsertAuditLog_ok:
  "InsertAuditLog sha inet (audit_entry adm act ty target ac) s = (Inr x, t) \<longleftrightarrow>
     \<not> aborted s \<and> \<not> faults s 0 \<and> (\<exists>ip. cast_ip inet (ac_IP ac) = Some ip \<and>
     t = (tick s)\<lparr>work := (work s)\<lparr>audit_seq := audit_seq (work s) + 1, audit_logs := audit_logs (work s) @
       [log_row sha adm act ty target ac ip (audit_seq (work s)) (clock s)]\<rparr>\<rparr>)"
  by (auto simp: InsertAuditLog_def tx_stmt_ok log_row_def audit_entry_def Let_def split: option.splits if_splits)

text \<open>What every privileged change leaves behind.\<close>

definition recorded ::
  "(string \<Rightarrow> string) \<Rightarrow> (string \<Rightarrow> string option) \<Rightarrow> string \<Rightarrow> string \<Rightarrow> string \<Rightarrow> string \<Rightarrow> string option \<Rightarrow> AuditCtx \<Rightarrow> int \<Rightarrow> admin_db \<Rightarrow> admin_db \<Rightarrow> bool" where
  "recorded sha inet adm act ty target why ac now d d' \<longleftrightarrow>
     (\<exists>uid ip. cast_ip inet (ac_IP ac) = Some ip \<and> uid \<notin> aa_ID ` set (admin_actions d) \<and>
       admin_actions d' = admin_actions d @ [action_row uid adm act ty target why now] \<and>
       audit_logs d' = audit_logs d @ [log_row sha adm act ty (Some target) ac ip (audit_seq d) now] \<and> audit_seq d' = audit_seq d + 1)"

lemma moderateUser_ok:
  assumes "moderateUser sha inet adm u why ac st act ev emit s = (Inr x, t)"
  shows "u \<in> usr_ID ` set (adm_users (committed s)) \<and>
    recorded sha inet adm act ''user'' u (nilIfEmpty why) ac (clock s) (committed s) (committed t) \<and>
    adm_users (committed t) = update_where (\<lambda>v. usr_ID v = u) (\<lambda>v. v\<lparr>usr_Status := st\<rparr>) (adm_users (committed s)) \<and>
    adm_disputes (committed t) = adm_disputes (committed s) \<and>
    outbox (committed t) = (if emit then outbox (post_event (moderation_event u adm why ev) (committed s)) else outbox (committed s))"
  using assms
  by (auto simp: moderateUser_def bindE_ok begin_tx_ok UserExists_def SetUserStatus_def tx_stmt_ok InsertAdminAction_ok InsertAuditLog_ok
      Enqueue_ok commit_tx_ok ret_ok throw_ok recorded_def post_event_def Let_def split: if_splits)

lemma ResolveDispute_ok:
  assumes "ResolveDispute sha inet adm i st why ac s = (Inr x, t)"
  shows "validResolutions st \<and> length (filter (\<lambda>r. dsp_ID (rs_dispute r) = i) (adm_disputes (committed s))) = 1 \<and>
    recorded sha inet adm ''dispute.resolve'' ''dispute'' i (nilIfEmpty why) ac (clock s) (committed s) (committed t) \<and>
    adm_users (committed t) = adm_users (committed s) \<and>
    adm_disputes (committed t) = update_where (\<lambda>r. dsp_ID (rs_dispute r) = i) (resolve_row st (nilIfEmpty why) adm (clock s)) (adm_disputes (committed s)) \<and>
    outbox (committed t) = outbox (post_event (resolved_event i st) (committed s))"
  using assms
  by (auto simp: ResolveDispute_def bindE_ok begin_tx_ok store_ResolveDispute_def tx_stmt_ok InsertAdminAction_ok InsertAuditLog_ok
      Enqueue_ok commit_tx_ok throw_ok recorded_def post_event_def Let_def split: if_splits)

lemma ListScreenshotsForAudit_ok:
  assumes "ListScreenshotsForAudit sha inet adm f ac s = (Inr out, t)"
  shows "\<exists>ip. cast_ip inet (ac_IP ac) = Some ip \<and>
    committed t = (committed s)\<lparr>audit_seq := audit_seq (committed s) + 1, audit_logs := audit_logs (committed s) @
      [log_row sha adm ''screenshot.audit_list'' ''screenshot'' None ac ip (audit_seq (committed s)) (clock s)]\<rparr>"
  using assms
  by (auto simp: ListScreenshotsForAudit_def bindE_ok ListScreenshots_def pool_query_ok begin_tx_ok InsertAuditLog_ok commit_tx_ok ret_ok)

section \<open>The permission gate\<close>

lemma admin_authorize_Inr: "authorize (principal r) perm = Inr u \<longleftrightarrow> permitted (ar_header r) perm"
  by (auto simp: authorize_def permitted_def principal_def Require_def Can_iff split: if_splits)

lemma moderation_changed:
  assumes "committed (snd (suspendUser sha inet r u body s)) \<noteq> committed s \<or> committed (snd (reinstateUser sha inet r u body s)) \<noteq> committed s"
  shows "permitted (ar_header r) ''admin.user.suspend''"
  using assms unfolding suspendUser_def reinstateUser_def by (auto elim!: guarded_changedE simp: admin_authorize_Inr)

lemma pr_id [simp]: "pr_UserID (principal r) = ar_header r ''X-User-Id''"
  by (simp add: principal_def)

lemma suspendUser_changed:
  assumes "committed (snd (suspendUser sha inet r u body s)) \<noteq> committed s"
  shows "\<exists>why x. SuspendUser sha inet (ar_header r ''X-User-Id'') u why (auditMeta r) s = (Inr x, snd (suspendUser sha inet r u body s))"
  using assms unfolding suspendUser_def SuspendUser_def
  by (elim guarded_changedE) (simp, elim handle_changed_snd, rule atomic_admin, auto)

lemma reinstateUser_changed:
  assumes "committed (snd (reinstateUser sha inet r u body s)) \<noteq> committed s"
  shows "\<exists>why x. ReinstateUser sha inet (ar_header r ''X-User-Id'') u why (auditMeta r) s = (Inr x, snd (reinstateUser sha inet r u body s))"
  using assms unfolding reinstateUser_def ReinstateUser_def
  by (elim guarded_changedE) (simp, elim handle_changed_snd, rule atomic_admin, auto)

lemma resolveDispute_changed:
  assumes "committed (snd (resolveDispute sha inet r i body s)) \<noteq> committed s"
  shows "permitted (ar_header r) ''admin.dispute.resolve'' \<and> (\<exists>q x. body = Some q \<and>
    ResolveDispute sha inet (ar_header r ''X-User-Id'') i (rq_Resolution q) (rq_Note q) (auditMeta r) s = (Inr x, snd (resolveDispute sha inet r i body s)))"
proof -
  from assms obtain q where g: "permitted (ar_header r) ''admin.dispute.resolve''" "body = Some q"
    and h: "snd (resolveDispute sha inet r i body s) = snd (handle mapError
      (ResolveDispute sha inet (ar_header r ''X-User-Id'') i (rq_Resolution q) (rq_Note q) (auditMeta r)) (\<lambda>_. success) s)"
    unfolding resolveDispute_def
    by (elim guarded_changedE) (auto simp: admin_authorize_Inr decode_def run_basic guarded_ret split: if_splits option.splits)
  from assms h show ?thesis using g atomic_admin(2) by (metis handle_changed_snd)
qed

lemma listScreenshots_changed:
  assumes "committed (snd (listScreenshots sha inet r s)) \<noteq> committed s"
  shows "permitted (ar_header r) ''admin.screenshot.audit'' \<and> (\<exists>f out.
    ListScreenshotsForAudit sha inet (ar_header r ''X-User-Id'') f (auditMeta r) s = (Inr out, snd (listScreenshots sha inet r s)))"
  using assms unfolding listScreenshots_def
  by (elim guarded_changedE) (simp add: admin_authorize_Inr, elim handle_changed_snd, rule atomic_admin, auto)

section \<open>The service as a transition system\<close>

inductive_set admin_ops :: "(string \<Rightarrow> string) \<Rightarrow> (string \<Rightarrow> string option) \<Rightarrow> (admin_db, response) io set" for sha inet where
  op_suspend: "suspendUser sha inet r u body \<in> admin_ops sha inet"
| op_reinstate: "reinstateUser sha inet r u body \<in> admin_ops sha inet"
| op_resolve: "resolveDispute sha inet r i q \<in> admin_ops sha inet"
| op_screenshots: "listScreenshots sha inet r \<in> admin_ops sha inet"
| op_actions: "listActions doc r \<in> admin_ops sha inet"
| op_logs: "listAuditLogs doc r \<in> admin_ops sha inet"

lemma keeps_admin_lists: "keeps (listActions doc r)" "keeps (listAuditLogs doc r)"
  unfolding listActions_def listAuditLogs_def ListAdminActions_def ListAuditLogs_def guarded_def
  by (intro io_keeps)+

definition logged_ctx :: "AuditCtx \<Rightarrow> bool" where
  "logged_ctx ac \<longleftrightarrow> ac_UserAgent ac \<noteq> Some ''''"

lemma auditMeta_ctx [simp]: "logged_ctx (auditMeta r)"
  by (simp add: logged_ctx_def auditMeta_def nilIfEmpty_def)

text \<open>Every step is silent, or a recorded action, or a recorded look at the screenshots.\<close>

lemma admin_step_cases [consumes 1, case_names silent action look]:
  assumes "op_step (admin_ops sha inet) d d'"
  obtains "d' = d"
  | adm act ty target why ac now where "recorded sha inet adm act ty target why ac now d d'" "act \<noteq> ''screenshot.audit_list''"
      "adm \<noteq> ''''" "logged_ctx ac"
  | adm ac ip now where "cast_ip inet (ac_IP ac) = Some ip" "adm \<noteq> ''''" "logged_ctx ac"
      "d' = d\<lparr>audit_seq := audit_seq d + 1, audit_logs := audit_logs d @
        [log_row sha adm ''screenshot.audit_list'' ''screenshot'' None ac ip (audit_seq d) now]\<rparr>"
proof -
  from assms obtain m s where m: "m \<in> admin_ops sha inet" and s: "committed s = d" "committed (snd (m s)) = d'"
    by (auto simp: op_step_def)
  show thesis
  proof (cases "d' = d")
    case False
    with s have ch: "committed (snd (m s)) \<noteq> committed s" by simp
    from m show thesis
    proof cases
      case (op_suspend r u body)
      from suspendUser_changed [OF ch [unfolded op_suspend]] obtain why x
        where "SuspendUser sha inet (ar_header r ''X-User-Id'') u why (auditMeta r) s = (Inr x, snd (m s))" unfolding op_suspend by blast
      from moderateUser_ok [OF this [unfolded SuspendUser_def]] s
      have "recorded sha inet (ar_header r ''X-User-Id'') ''user.suspend'' ''user'' u (nilIfEmpty why) (auditMeta r) (clock s) d d'" by simp
      with moderation_changed [of sha inet r u body s] ch show thesis by (intro that(2)) (auto simp: op_suspend permitted_def)
    next
      case (op_reinstate r u body)
      from reinstateUser_changed [OF ch [unfolded op_reinstate]] obtain why x
        where "ReinstateUser sha inet (ar_header r ''X-User-Id'') u why (auditMeta r) s = (Inr x, snd (m s))" unfolding op_reinstate by blast
      from moderateUser_ok [OF this [unfolded ReinstateUser_def]] s
      have "recorded sha inet (ar_header r ''X-User-Id'') ''user.reinstate'' ''user'' u (nilIfEmpty why) (auditMeta r) (clock s) d d'" by simp
      with moderation_changed [of sha inet r u body s] ch show thesis by (intro that(2)) (auto simp: op_reinstate permitted_def)
    next
      case (op_resolve r i q)
      note c = resolveDispute_changed [OF ch [unfolded op_resolve]]
      then obtain req :: resolveReq and x where "ResolveDispute sha inet (ar_header r ''X-User-Id'') i (rq_Resolution req) (rq_Note req) (auditMeta r) s = (Inr x, snd (m s))"
        unfolding op_resolve by blast
      from ResolveDispute_ok [OF this] s
      have "recorded sha inet (ar_header r ''X-User-Id'') ''dispute.resolve'' ''dispute'' i (nilIfEmpty (rq_Note req)) (auditMeta r) (clock s) d d'" by simp
      with c show thesis by (intro that(2)) (auto simp: permitted_def)
    next
      case (op_screenshots r)
      note c = listScreenshots_changed [OF ch [unfolded op_screenshots]]
      then obtain f out where "ListScreenshotsForAudit sha inet (ar_header r ''X-User-Id'') f (auditMeta r) s = (Inr out, snd (m s))"
        unfolding op_screenshots by blast
      from ListScreenshotsForAudit_ok [OF this] s c show thesis by (elim exE conjE) (rule that(3), auto simp: permitted_def)
    qed (use ch keeps_admin_lists in \<open>simp_all add: keeps_def\<close>)
  qed (rule that(1))
qed

text \<open>The audit log as a sequence: consecutive numbers, hashes that commit to the row, and a row for every action.\<close>

definition log_entry_ok :: "(string \<Rightarrow> string) \<Rightarrow> (string \<Rightarrow> string option) \<Rightarrow> audit_row \<Rightarrow> bool" where
  "log_entry_ok sha inet r \<longleftrightarrow> al_ActorID (au_log r) \<notin> {None, Some ''''} \<and> al_UserAgent (au_log r) \<noteq> Some '''' \<and>
     (\<exists>ip. cast_ip inet ip = Some (al_IP (au_log r)) \<and> au_row_hash r = auditRowHash sha ((au_log r)\<lparr>al_IP := ip\<rparr>))"

definition action_key :: "AdminAction \<Rightarrow> string option \<times> string \<times> string \<times> string option \<times> int" where
  "action_key a = (Some (aa_AdminID a), aa_Action a, aa_TargetType a, Some (aa_TargetID a), aa_CreatedAt a)"

definition log_key :: "AuditLog \<Rightarrow> string option \<times> string \<times> string \<times> string option \<times> int" where
  "log_key l = (al_ActorID l, al_Action l, al_ResourceType l, al_ResourceID l, al_OccurredAt l)"

definition is_action :: "AuditLog \<Rightarrow> bool" where
  "is_action l \<longleftrightarrow> al_Action l \<noteq> ''screenshot.audit_list''"

definition admin_inv :: "(string \<Rightarrow> string) \<Rightarrow> (string \<Rightarrow> string option) \<Rightarrow> admin_db \<Rightarrow> bool" where
  "admin_inv sha inet d \<longleftrightarrow>
     map action_key (admin_actions d) = map log_key (filter is_action (map au_log (audit_logs d))) \<and>
     list_all (log_entry_ok sha inet) (audit_logs d) \<and> distinct (map aa_ID (admin_actions d)) \<and>
     sorted_wrt (<) (map (al_ID \<circ> au_log) (audit_logs d)) \<and> list_all (\<lambda>r. al_ID (au_log r) < audit_seq d) (audit_logs d)"

lemma log_row_ok:
  assumes "cast_ip inet (ac_IP ac) = Some ip" "adm \<noteq> ''''" "logged_ctx ac"
  shows "log_entry_ok sha inet (log_row sha adm act ty target ac ip n now)"
proof -
  have "auditRowHash sha (l\<lparr>al_ID := i, al_OccurredAt := j, al_IP := ip, al_IP := al_IP l\<rparr>) = auditRowHash sha l" for l :: AuditLog and i j
    by (simp add: auditRowHash_def hash_input_def hashed_fields_def)
  with assms show ?thesis
    by (auto simp: log_entry_ok_def log_row_def audit_entry_def logged_ctx_def Let_def auditRowHash_def hash_input_def hashed_fields_def
        intro!: exI [of _ "ac_IP ac"])
qed

lemma log_row_simps [simp]:
  "al_ID (au_log (log_row sha adm act ty target ac ip n now)) = n"
  "is_action (au_log (log_row sha adm act ty target ac ip n now)) \<longleftrightarrow> act \<noteq> ''screenshot.audit_list''"
  "log_key (au_log (log_row sha adm act ty target ac ip n now)) = (Some adm, act, ty, target, now)"
  by (simp_all add: log_row_def audit_entry_def is_action_def log_key_def Let_def)

lemma action_row_simps [simp]:
  "aa_ID (action_row uid adm act ty target why now) = uid"
  "action_key (action_row uid adm act ty target why now) = (Some adm, act, ty, Some target, now)"
  by (simp_all add: action_row_def action_key_def)

text \<open>One more row at the end of the log.\<close>

lemma log_grows:
  assumes "admin_inv sha inet d" "log_entry_ok sha inet r" "al_ID (au_log r) = audit_seq d"
  shows "list_all (log_entry_ok sha inet) (audit_logs d @ [r])" "sorted_wrt (<) (map (al_ID \<circ> au_log) (audit_logs d @ [r]))"
    "list_all (\<lambda>r. al_ID (au_log r) < audit_seq d + 1) (audit_logs d @ [r])"
  using assms by (auto simp: admin_inv_def sorted_wrt_append list_all_iff)

lemma admin_step_inv:
  assumes "op_step (admin_ops sha inet) d d'" "admin_inv sha inet d"
  shows "admin_inv sha inet d'"
  using assms(1)
proof (cases rule: admin_step_cases)
  case (action adm act ty target why ac now)
  from action(1) obtain uid ip where r: "cast_ip inet (ac_IP ac) = Some ip" "uid \<notin> aa_ID ` set (admin_actions d)"
      "admin_actions d' = admin_actions d @ [action_row uid adm act ty target why now]"
      "audit_logs d' = audit_logs d @ [log_row sha adm act ty (Some target) ac ip (audit_seq d) now]" "audit_seq d' = audit_seq d + 1"
    by (auto simp: recorded_def)
  have ok: "log_entry_ok sha inet (log_row sha adm act ty (Some target) ac ip (audit_seq d) now)"
    by (rule log_row_ok [OF r(1) action(3,4)])
  from assms(2) have "map action_key (admin_actions d) = map log_key (filter is_action (map au_log (audit_logs d)))"
    "distinct (map aa_ID (admin_actions d))" by (simp_all add: admin_inv_def)
  with log_grows [OF assms(2) ok log_row_simps(1)] r action(2) show ?thesis by (simp add: admin_inv_def)
next
  case (look adm ac ip now)
  have ok: "log_entry_ok sha inet (log_row sha adm ''screenshot.audit_list'' ''screenshot'' None ac ip (audit_seq d) now)"
    by (rule log_row_ok [OF look(1-3)])
  from log_grows [OF assms(2) ok log_row_simps(1)] assms(2) show ?thesis by (simp add: admin_inv_def look(4))
qed (use assms(2) in simp)

interpretation administration: invariant_system "op_step (admin_ops sha inet)" "admin_inv sha inet" for sha inet
  by unfold_locales (rule admin_step_inv)

lemma admin_step_appends:
  assumes "op_step (admin_ops sha inet) d d'"
  shows "prefix (audit_logs d) (audit_logs d') \<and> prefix (admin_actions d) (admin_actions d')"
  using assms by (cases rule: admin_step_cases) (auto simp: recorded_def)

section \<open>The row hash\<close>

text \<open>Fields that contain no separator can be read back from the hashed bytes.\<close>

lemma separated_inj:
  assumes "\<forall>x \<in> set xs \<union> set ys. c \<notin> set x" "concat (map (\<lambda>x. c # x) xs) = concat (map (\<lambda>x. c # x) ys)"
  shows "xs = ys"
  using assms
proof (induction xs ys rule: list_induct2')
  case (4 x xs y ys)
  have stop: "takeWhile (\<lambda>z. z \<noteq> c) (x @ concat (map (\<lambda>x. c # x) xs)) = x" if "c \<notin> set x" for x xs
  proof -
    have "takeWhile (\<lambda>z. z \<noteq> c) (x @ r) = x @ takeWhile (\<lambda>z. z \<noteq> c) r" for r using that by (induction x) auto
    then show ?thesis using that by (cases xs) auto
  qed
  from 4(2,3) stop [of x xs] stop [of y ys] have "x = y" by auto
  with 4 show ?case by auto
qed auto

definition no_separator :: "AuditLog \<Rightarrow> bool" where
  "no_separator l \<longleftrightarrow> (\<forall>f \<in> set (hashed_fields l). rsep \<notin> set f)"

lemma hash_input_inj: "no_separator l \<Longrightarrow> no_separator l' \<Longrightarrow> hash_input l = hash_input l' \<Longrightarrow> hashed_fields l = hashed_fields l'"
  unfolding no_separator_def hash_input_def by (rule separated_inj [of _ _ rsep]) auto

section \<open>Example\<close>

definition demo_admin_user :: "string \<Rightarrow> User" where
  "demo_admin_user i = \<lparr>usr_ID = i, usr_Email = i @ ''@x'', usr_PasswordHash = '''', usr_Status = ''active'', usr_PrimaryType = ''client'',
     usr_EmailVerified = True, usr_MFAEnabled = False, usr_Residency = '''', usr_Locale = '''', usr_FailedLogins = 0,
     usr_LockedUntil = None, usr_LastLoginAt = None, usr_deleted_at = None\<rparr>"

definition demo_admin_db :: admin_db where
  "demo_admin_db = \<lparr>outbox = [], outbox_seq = 1, processed_events = [], adm_users = [demo_admin_user ''adm'', demo_admin_user ''bad''],
     adm_disputes = [\<lparr>rs_dispute = \<lparr>dsp_ID = ''d1'', dsp_ContractID = ''c1'', dsp_MilestoneID = None, dsp_RaisedBy = ''bad'',
       dsp_Against = ''adm'', dsp_Reason = ''x'', dsp_AmountCents = None, dsp_Status = ''open''\<rparr>, rs_resolution_note = None,
       rs_assigned_admin = None, rs_resolved_at = None\<rparr>],
     adm_screenshots = [], admin_actions = [], audit_logs = [], audit_seq = 1\<rparr>"

definition demo_admin_req :: "string \<Rightarrow> admin_req" where
  "demo_admin_req perms = \<lparr>ar_header = (\<lambda>k. if k = ''X-User-Id'' then ''adm'' else if k = ''X-User-Permissions'' then perms
     else if k = ''X-Forwarded-For'' then ''10.0.0.1, 10.0.0.2'' else ''''), ar_query = (\<lambda>_. '''')\<rparr>"

definition demo_suspended :: admin_db where
  "demo_suspended = committed (snd (suspendUser (\<lambda>x. x) Some (demo_admin_req ''admin.audit.read, admin.user.suspend'') ''bad'' None
     (quiet ''a'' demo_admin_db)))"

definition demo_resolved :: "string \<Rightarrow> string \<Rightarrow> admin_db \<Rightarrow> admin_db" where
  "demo_resolved tag r d = committed (snd (resolveDispute (\<lambda>x. x) Some (demo_admin_req ''*'') ''d1'' (Some \<lparr>rq_Resolution = r, rq_Note = ''''\<rparr>)
     (quiet tag d)))"

lemma demo_admin_inv: "admin_inv sha inet demo_admin_db"
  by (simp add: admin_inv_def demo_admin_db_def)

lemma demo_admin_steps:
  "op_step (admin_ops (\<lambda>x. x) Some) demo_admin_db demo_suspended"
  "op_step (admin_ops (\<lambda>x. x) Some) demo_suspended (demo_resolved ''b'' ''split'' demo_suspended)"
  unfolding demo_suspended_def demo_resolved_def by (rule op_step_quiet, rule admin_ops.intros)+

text \<open>A dispute that has been resolved for one side can be resolved again for the other.\<close>

lemma resolved_again:
  "map (dsp_Status \<circ> rs_dispute) (adm_disputes (demo_resolved ''b'' ''resolved_client'' demo_admin_db)) = [''resolved_client'']"
  "map (dsp_Status \<circ> rs_dispute) (adm_disputes (demo_resolved ''c'' ''resolved_freelancer'' (demo_resolved ''b'' ''resolved_client'' demo_admin_db)))
     = [''resolved_freelancer'']"
  by code_simp+

section \<open>Properties\<close>

lemma suspend_accountable:
  assumes "committed (snd (suspendUser sha inet r u body s)) \<noteq> committed s"
  shows "permitted (ar_header r) ''admin.user.suspend'' \<and>
     (\<exists>why. recorded sha inet (ar_header r ''X-User-Id'') ''user.suspend'' ''user'' u why (auditMeta r) (clock s) (committed s)
        (committed (snd (suspendUser sha inet r u body s)))) \<and>
     adm_users (committed (snd (suspendUser sha inet r u body s)))
       = update_where (\<lambda>v. usr_ID v = u) (\<lambda>v. v\<lparr>usr_Status := ''suspended''\<rparr>) (adm_users (committed s)) \<and>
     adm_disputes (committed (snd (suspendUser sha inet r u body s))) = adm_disputes (committed s)"
proof -
  from suspendUser_changed [OF assms] obtain why x where
    "SuspendUser sha inet (ar_header r ''X-User-Id'') u why (auditMeta r) s = (Inr x, snd (suspendUser sha inet r u body s))" by blast
  from moderateUser_ok [OF this [unfolded SuspendUser_def]] moderation_changed [OF disjI1, OF assms]
  show ?thesis by blast
qed

lemma reinstate_accountable:
  assumes "committed (snd (reinstateUser sha inet r u body s)) \<noteq> committed s"
  shows "permitted (ar_header r) ''admin.user.suspend'' \<and>
     (\<exists>why. recorded sha inet (ar_header r ''X-User-Id'') ''user.reinstate'' ''user'' u why (auditMeta r) (clock s) (committed s)
        (committed (snd (reinstateUser sha inet r u body s)))) \<and>
     adm_users (committed (snd (reinstateUser sha inet r u body s)))
       = update_where (\<lambda>v. usr_ID v = u) (\<lambda>v. v\<lparr>usr_Status := ''active''\<rparr>) (adm_users (committed s)) \<and>
     adm_disputes (committed (snd (reinstateUser sha inet r u body s))) = adm_disputes (committed s)"
proof -
  from reinstateUser_changed [OF assms] obtain why x where
    "ReinstateUser sha inet (ar_header r ''X-User-Id'') u why (auditMeta r) s = (Inr x, snd (reinstateUser sha inet r u body s))" by blast
  from moderateUser_ok [OF this [unfolded ReinstateUser_def]] moderation_changed [OF disjI2, OF assms]
  show ?thesis by blast
qed

lemma resolve_accountable:
  assumes "committed (snd (resolveDispute sha inet r i q s)) \<noteq> committed s"
  shows "permitted (ar_header r) ''admin.dispute.resolve'' \<and>
     (\<exists>why res. validResolutions res \<and>
        recorded sha inet (ar_header r ''X-User-Id'') ''dispute.resolve'' ''dispute'' i why (auditMeta r) (clock s) (committed s)
        (committed (snd (resolveDispute sha inet r i q s))) \<and>
        adm_disputes (committed (snd (resolveDispute sha inet r i q s))) = update_where (\<lambda>x. dsp_ID (rs_dispute x) = i)
          (resolve_row res why (ar_header r ''X-User-Id'') (clock s)) (adm_disputes (committed s))) \<and>
     adm_users (committed (snd (resolveDispute sha inet r i q s))) = adm_users (committed s)"
proof -
  note c = resolveDispute_changed [OF assms]
  then obtain req :: resolveReq and x where "ResolveDispute sha inet (ar_header r ''X-User-Id'') i (rq_Resolution req) (rq_Note req) (auditMeta r) s
    = (Inr x, snd (resolveDispute sha inet r i q s))" by blast
  from ResolveDispute_ok [OF this] c
  show ?thesis by blast
qed

text \<open>
  C32: A request to suspend or reinstate a user or to resolve a dispute that changes anything came with
  an identity and with the permission of that action (or the wildcard) in its headers, changes the
  status of that one user or dispute only, and in the same transaction appends one row to
  \<open>admin_actions\<close> and one to \<open>audit_logs\<close> that name the caller, the action and the target.
\<close>

theorem admin_accountability:
  "(committed (snd (suspendUser sha inet r u body s)) \<noteq> committed s \<longrightarrow> permitted (ar_header r) ''admin.user.suspend'' \<and>
     (\<exists>why. recorded sha inet (ar_header r ''X-User-Id'') ''user.suspend'' ''user'' u why (auditMeta r) (clock s) (committed s)
        (committed (snd (suspendUser sha inet r u body s)))) \<and>
     adm_users (committed (snd (suspendUser sha inet r u body s)))
       = update_where (\<lambda>v. usr_ID v = u) (\<lambda>v. v\<lparr>usr_Status := ''suspended''\<rparr>) (adm_users (committed s)) \<and>
     adm_disputes (committed (snd (suspendUser sha inet r u body s))) = adm_disputes (committed s)) \<and>
   (committed (snd (reinstateUser sha inet r u body s)) \<noteq> committed s \<longrightarrow> permitted (ar_header r) ''admin.user.suspend'' \<and>
     (\<exists>why. recorded sha inet (ar_header r ''X-User-Id'') ''user.reinstate'' ''user'' u why (auditMeta r) (clock s) (committed s)
        (committed (snd (reinstateUser sha inet r u body s)))) \<and>
     adm_users (committed (snd (reinstateUser sha inet r u body s)))
       = update_where (\<lambda>v. usr_ID v = u) (\<lambda>v. v\<lparr>usr_Status := ''active''\<rparr>) (adm_users (committed s)) \<and>
     adm_disputes (committed (snd (reinstateUser sha inet r u body s))) = adm_disputes (committed s)) \<and>
   (committed (snd (resolveDispute sha inet r i q s)) \<noteq> committed s \<longrightarrow> permitted (ar_header r) ''admin.dispute.resolve'' \<and>
     (\<exists>why res. validResolutions res \<and>
        recorded sha inet (ar_header r ''X-User-Id'') ''dispute.resolve'' ''dispute'' i why (auditMeta r) (clock s) (committed s)
        (committed (snd (resolveDispute sha inet r i q s))) \<and>
        adm_disputes (committed (snd (resolveDispute sha inet r i q s))) = update_where (\<lambda>x. dsp_ID (rs_dispute x) = i)
          (resolve_row res why (ar_header r ''X-User-Id'') (clock s)) (adm_disputes (committed s))) \<and>
     adm_users (committed (snd (resolveDispute sha inet r i q s))) = adm_users (committed s))"
  using suspend_accountable reinstate_accountable resolve_accountable by blast

theorem admin_accountability_witness:
  "adm_users demo_suspended = [demo_admin_user ''adm'', (demo_admin_user ''bad'')\<lparr>usr_Status := ''suspended''\<rparr>]"
proof -
  let ?r = "demo_admin_req ''admin.audit.read, admin.user.suspend''" and ?s = "quiet ''a'' demo_admin_db"
  have "committed (snd (suspendUser (\<lambda>x. x) Some ?r ''bad'' None ?s)) \<noteq> committed ?s" by code_simp
  from admin_accountability [THEN conjunct1, THEN mp, OF this]
  have "adm_users demo_suspended = update_where (\<lambda>v. usr_ID v = ''bad'') (\<lambda>v. v\<lparr>usr_Status := ''suspended''\<rparr>) (adm_users demo_admin_db)"
    by (simp add: demo_suspended_def)
  also have "\<dots> = [demo_admin_user ''adm'', (demo_admin_user ''bad'')\<lparr>usr_Status := ''suspended''\<rparr>]" by code_simp
  finally show ?thesis .
qed



text \<open>
  Two audit rows with the same hash whose fields contain no record separator agree on actor type,
  actor, action, resource, address, user agent and context (an absent value counting as an empty
  one); otherwise a collision of the hash function has been found.
\<close>

theorem audit_hash_binding:
  assumes "auditRowHash sha l = auditRowHash sha l'" "no_separator l" "no_separator l'"
  shows "hashed_fields l = hashed_fields l' \<or> (\<exists>x y. x \<noteq> y \<and> sha x = sha y)"
  using assms hash_input_inj [of l l'] by (auto simp: auditRowHash_def)

theorem audit_hash_binding_witness:
  "hashed_fields (audit_entry ''a'' ''user.suspend'' ''user'' (Some ''u'') (auditMeta (demo_admin_req ''''))) =
   hashed_fields ((audit_entry ''a'' ''user.suspend'' ''user'' (Some ''u'') (auditMeta (demo_admin_req '''')))\<lparr>al_OccurredAt := 7\<rparr>) \<or>
   (\<exists>x y :: string. x \<noteq> y \<and> x = y)"
  by (rule audit_hash_binding [of "\<lambda>x. x"]; code_simp)

end
