(* ===== verification/Float64.thy ===== *)
theory Float64
  imports Prelude "HOL-Library.Log_Nat"
begin

text \<open>
  Go's \<open>float64\<close> as far as the services compute with it: finite values are rationals, and every
  operation rounds its exact result to 53 significant bits, ties to even (IEEE 754 binary64;
  results stay far below its range limit). The error bound below is what the properties use.
\<close>

section \<open>Rounding\<close>

definition round_even :: "rat \<Rightarrow> int" where
  "round_even x = (let f = \<lfloor>x\<rfloor>; r = x - of_int f in
     if r < 1 / 2 then f else if 1 / 2 < r then f + 1 else if even f then f else f + 1)"

text \<open>\<open>2 ^ e\<close> for an integer exponent.\<close>

definition pow2 :: "int \<Rightarrow> rat" where
  "pow2 e = (if 0 \<le> e then 2 ^ nat e else 1 / 2 ^ nat (- e))"

text \<open>The exponent of the leading bit of a positive number.\<close>

definition exponent :: "rat \<Rightarrow> int" where
  "exponent x = (case quotient_of x of (p, q) \<Rightarrow>
     let e = bitlen p - bitlen q in if pow2 e \<le> x then e else e - 1)"

definition fl64 :: "rat \<Rightarrow> rat" where
  "fl64 x = (if x = 0 then 0 else let u = max (exponent \<bar>x\<bar> - 52) (- 1074) in of_int (round_even (x / pow2 u)) * pow2 u)"

section \<open>Error bound\<close>

lemma round_even_error: "\<bar>of_int (round_even x) - x\<bar> \<le> 1 / 2"
proof -
  have "of_int \<lfloor>x\<rfloor> \<le> x" "x < of_int \<lfloor>x\<rfloor> + 1" using floor_correct [of x] by auto
  then show ?thesis by (auto simp: round_even_def Let_def)
qed

lemma pow2_pos [simp]: "0 < pow2 e"
  by (simp add: pow2_def)

lemma pow2_nonzero [simp]: "pow2 e \<noteq> 0"
  using pow2_pos [of e] by linarith

lemma pow2_add: "pow2 (a + b) = pow2 a * pow2 b"
proof -
  have p: "pow2 e = 2 powi e" for e by (simp add: pow2_def power_int_def inverse_eq_divide power_divide)
  show ?thesis by (simp add: p power_int_add)
qed

lemma pow2_mono: "a \<le> b \<Longrightarrow> pow2 a \<le> pow2 b"
proof -
  assume "a \<le> b"
  then have "pow2 b = pow2 a * 2 ^ nat (b - a)" using pow2_add [of a "b - a"] by (simp add: pow2_def)
  then show ?thesis using pow2_pos [of a] by simp
qed

lemma pow2_less_cancel: "pow2 a < pow2 b \<Longrightarrow> a < b"
  using pow2_mono [of b a] by fastforce

lemma pow2_nat: "0 \<le> e \<Longrightarrow> pow2 e = of_int (2 ^ nat e)"
  by (simp add: pow2_def)

lemma exponent_le: "0 < x \<Longrightarrow> pow2 (exponent x) \<le> x"
proof -
  assume x: "0 < x"
  obtain p q where pq: "quotient_of x = (p, q)" by (cases "quotient_of x")
  have q: "0 < q" by (rule quotient_of_denom_pos [OF pq])
  have xe: "x = of_int p / of_int q" by (rule quotient_of_div [OF pq])
  with x q have p: "0 < p" by (simp add: zero_less_divide_iff)
  have lb: "pow2 (bitlen p - 1) \<le> of_int p"
  proof -
    from p have b: "0 \<le> bitlen p - 1" using bitlen_nonneg [of p] bitlen_eq_zero_iff [of p] by linarith
    from bitlen_bounds [OF p] have "2 ^ nat (bitlen p - 1) \<le> p" by simp
    with b show ?thesis by (simp add: pow2_nat flip: of_int_le_iff)
  qed
  have ub: "of_int q < pow2 (bitlen q)"
  proof -
    from bitlen_bounds [OF q] have "q < 2 ^ nat (bitlen q)" by simp
    then show ?thesis by (simp add: pow2_nat bitlen_nonneg flip: of_int_less_iff)
  qed
  have "pow2 (bitlen p - bitlen q - 1) * pow2 (bitlen q) = pow2 (bitlen p - 1)"
    by (simp flip: pow2_add)
  also have "\<dots> \<le> of_int p" by (rule lb)
  also have "\<dots> = x * of_int q" using q by (simp add: xe)
  also have "\<dots> \<le> x * pow2 (bitlen q)" using x ub by simp
  finally have "pow2 (bitlen p - bitlen q - 1) \<le> x" by simp
  with pq show ?thesis by (simp add: exponent_def Let_def)
qed

lemma fl64_error: "\<bar>x\<bar> < 32 \<Longrightarrow> \<bar>fl64 x - x\<bar> \<le> 1 / 2 ^ 49"
proof (cases "x = 0")
  case False
  assume small: "\<bar>x\<bar> < 32"
  define u where "u = max (exponent \<bar>x\<bar> - 52) (- 1074)"
  from False exponent_le [of "\<bar>x\<bar>"] small have "pow2 (exponent \<bar>x\<bar>) < 32" by simp
  then have "pow2 (exponent \<bar>x\<bar>) < pow2 5" by (simp add: pow2_def [of 5])
  then have "u \<le> - 48" using pow2_less_cancel by (fastforce simp: u_def)
  then have u: "pow2 u \<le> pow2 (- 48)" by (rule pow2_mono)
  have "\<bar>fl64 x - x\<bar> = \<bar>of_int (round_even (x / pow2 u)) - x / pow2 u\<bar> * pow2 u"
  proof -
    have "fl64 x - x = (of_int (round_even (x / pow2 u)) - x / pow2 u) * pow2 u"
      using False pow2_pos [of u] by (simp add: fl64_def u_def [symmetric] Let_def left_diff_distrib)
    then show ?thesis by (simp add: abs_mult abs_of_pos)
  qed
  also have "\<dots> \<le> 1 / 2 * pow2 u" by (intro mult_right_mono round_even_error) (simp add: less_imp_le)
  also have "\<dots> \<le> 1 / 2 * pow2 (- 48)" using u by simp
  finally show ?thesis by (simp add: pow2_def power_divide)
qed (simp add: fl64_def)

end
