(* ===== verification/Fraud.thy ===== *)
theory Fraud
  imports Outbox Rbac Float64
begin

text \<open>
  \<open>services/fraud\<close>: risk signals, the weighted-sum score of a subject, fraud cases; store on the
  tables of migration 000010, service and HTTP handlers behind the permission gate. Weights and
  scores are \<open>NUMERIC(4,3)\<close> in the database, kept in thousandths; the service computes with
  \<open>float64\<close>, rounding as in \<open>Float64\<close>.
\<close>

section \<open>Data\<close>

record Signal =
  sg_ID :: int
  sg_SubjectTyp :: string
  sg_SubjectID :: string
  sg_Signal :: string
  sg_Weight :: int
  sg_Details :: json
  sg_ObservedAt :: int

record RiskScore =
  rk_SubjectTyp :: string
  rk_SubjectID :: string
  rk_Score :: int
  rk_Band :: string
  rk_Features :: json
  rk_ModelVersion :: "string option"
  rk_ComputedAt :: int

record Case =
  cs_ID :: string
  cs_SubjectTyp :: string
  cs_SubjectID :: string
  cs_RiskScore :: int
  cs_Status :: string
  cs_ReasonCodes :: "string list"
  cs_AssignedTo :: "string option"
  cs_Resolution :: "string option"
  cs_CreatedAt :: int
  cs_UpdatedAt :: int
  cs_ResolvedAt :: "int option"

record fraud_db = outbox_db +
  fraud_signals :: "Signal list"
  signal_seq :: int
  risk_scores :: "RiskScore list"
  fraud_cases :: "Case list"
  frd_users :: "string list"

lemma post_event_fraud [simp]:
  "fraud_signals (post_event e d) = fraud_signals d" "signal_seq (post_event e d) = signal_seq d"
  "risk_scores (post_event e d) = risk_scores d" "fraud_cases (post_event e d) = fraud_cases d"
  "frd_users (post_event e d) = frd_users d"
  by (simp_all add: post_event_def)

section \<open>Store\<close>

text \<open>A number stored as \<open>NUMERIC(4,3)\<close>, in thousandths: rounded half away from zero, below 10.\<close>

definition numeric43 :: "rat \<Rightarrow> int option" where
  "numeric43 x = (let n = (if 0 \<le> x then \<lfloor>1000 * x + 1 / 2\<rfloor> else - \<lfloor>1 / 2 - 1000 * x\<rfloor>) in
     if \<bar>n\<bar> < 10000 then Some n else None)"

text \<open>... and read back into a \<open>float64\<close>.\<close>

definition scan_numeric :: "int \<Rightarrow> rat" where
  "scan_numeric n = fl64 (of_int n / 1000)"

definition InsertSignal :: "string \<Rightarrow> string \<Rightarrow> string \<Rightarrow> rat \<Rightarrow> json option \<Rightarrow> (fraud_db, int) io" where
  "InsertSignal subjectType subjectID signal weight details =
     tx_stmt (\<lambda>now uid d. case numeric43 weight of
         None \<Rightarrow> Inl NumericOutOfRange
       | Some w \<Rightarrow> Inr (signal_seq d, d\<lparr>signal_seq := signal_seq d + 1, fraud_signals := fraud_signals d @
           [\<lparr>sg_ID = signal_seq d, sg_SubjectTyp = subjectType, sg_SubjectID = subjectID, sg_Signal = signal, sg_Weight = w,
             sg_Details = (case details of None \<Rightarrow> JObj [] | Some j \<Rightarrow> j), sg_ObservedAt = now\<rparr>]\<rparr>))"

definition of_subject :: "string \<Rightarrow> string \<Rightarrow> Signal \<Rightarrow> bool" where
  "of_subject ty i g \<longleftrightarrow> sg_SubjectTyp g = ty \<and> sg_SubjectID g = i"

text \<open>\<open>ORDER BY observed_at DESC, id DESC LIMIT n\<close>.\<close>

definition recent_signals :: "string \<Rightarrow> string \<Rightarrow> int \<Rightarrow> fraud_db \<Rightarrow> Signal list" where
  "recent_signals ty i n d = take (nat n) (sort_key (\<lambda>g. - sg_ObservedAt g) (sort_key (\<lambda>g. - sg_ID g)
     (filter (of_subject ty i) (fraud_signals d))))"

text \<open>The loop over the rows: the running sum, and the names seen so far in order.\<close>

fun signal_loop :: "Signal list \<Rightarrow> rat \<Rightarrow> string list \<Rightarrow> rat \<times> string list" where
  "signal_loop [] score codes = (score, codes)"
| "signal_loop (g # gs) score codes =
     signal_loop gs (fl64 (score + scan_numeric (sg_Weight g)))
       (if sg_Signal g \<in> set codes then codes else codes @ [sg_Signal g])"

definition clamp_score :: "rat \<Rightarrow> rat" where
  "clamp_score x = (let y = (if x > 1 then 1 else x) in if y < 0 then 0 else y)"

definition signal_sum :: "Signal list \<Rightarrow> rat \<times> string list" where
  "signal_sum gs = (case signal_loop gs 0 [] of (score, codes) \<Rightarrow> (clamp_score score, codes))"

definition RecentSignalSum :: "string \<Rightarrow> string \<Rightarrow> int \<Rightarrow> (fraud_db, rat \<times> string list) io" where
  "RecentSignalSum subjectType subjectID n =
     tx_stmt (\<lambda>now uid d. Inr (signal_sum (recent_signals subjectType subjectID n d), d))"

definition risk_key :: "RiskScore \<Rightarrow> string \<times> string" where
  "risk_key r = (rk_SubjectTyp r, rk_SubjectID r)"

definition find_risk :: "string \<Rightarrow> string \<Rightarrow> fraud_db \<Rightarrow> RiskScore option" where
  "find_risk ty i d = select_one (\<lambda>r. risk_key r = (ty, i)) (risk_scores d)"

definition put_risk :: "RiskScore \<Rightarrow> fraud_db \<Rightarrow> fraud_db" where
  "put_risk row d = (case select_one (\<lambda>r. risk_key r = risk_key row) (risk_scores d) of
       None \<Rightarrow> d\<lparr>risk_scores := risk_scores d @ [row]\<rparr>
     | Some _ \<Rightarrow> d\<lparr>risk_scores := update_where (\<lambda>r. risk_key r = risk_key row) (\<lambda>_. row) (risk_scores d)\<rparr>)"

definition UpsertRiskScore :: "string \<Rightarrow> string \<Rightarrow> rat \<Rightarrow> string \<Rightarrow> json \<Rightarrow> string \<Rightarrow> (fraud_db, unit) io" where
  "UpsertRiskScore subjectType subjectID score band features modelVersion =
     tx_stmt (\<lambda>now uid d. case numeric43 score of
         None \<Rightarrow> Inl NumericOutOfRange
       | Some n \<Rightarrow> Inr ((), put_risk \<lparr>rk_SubjectTyp = subjectType, rk_SubjectID = subjectID, rk_Score = n, rk_Band = band,
             rk_Features = features, rk_ModelVersion = Some modelVersion, rk_ComputedAt = now\<rparr> d))"

definition store_GetRiskScore :: "string \<Rightarrow> string \<Rightarrow> (fraud_db, RiskScore) io" where
  "store_GetRiskScore subjectType subjectID = scan_row (pool_query (find_risk subjectType subjectID))"

definition unresolved :: "Case \<Rightarrow> bool" where
  "unresolved c \<longleftrightarrow> cs_Status c \<in> {''open'', ''investigating''}"

definition case_subject :: "Case \<Rightarrow> string \<times> string" where
  "case_subject c = (cs_SubjectTyp c, cs_SubjectID c)"

definition open_cases :: "string \<Rightarrow> string \<Rightarrow> fraud_db \<Rightarrow> Case list" where
  "open_cases ty i d = filter (\<lambda>c. case_subject c = (ty, i) \<and> unresolved c) (fraud_cases d)"

definition HasOpenCase :: "string \<Rightarrow> string \<Rightarrow> (fraud_db, bool) io" where
  "HasOpenCase subjectType subjectID = tx_stmt (\<lambda>now uid d. Inr (open_cases subjectType subjectID d \<noteq> [], d))"

definition InsertCase :: "string \<Rightarrow> string \<Rightarrow> rat \<Rightarrow> string list \<Rightarrow> (fraud_db, string) io" where
  "InsertCase subjectType subjectID riskScore reasonCodes =
     tx_stmt (\<lambda>now uid d. case numeric43 riskScore of
         None \<Rightarrow> Inl NumericOutOfRange
       | Some n \<Rightarrow> if uid \<in> cs_ID ` set (fraud_cases d) then Inl UniqueViolation
           else Inr (uid, d\<lparr>fraud_cases := fraud_cases d @
             [\<lparr>cs_ID = uid, cs_SubjectTyp = subjectType, cs_SubjectID = subjectID, cs_RiskScore = n, cs_Status = ''open'',
               cs_ReasonCodes = reasonCodes, cs_AssignedTo = None, cs_Resolution = None, cs_CreatedAt = now, cs_UpdatedAt = now,
               cs_ResolvedAt = None\<rparr>]\<rparr>))"

definition find_case :: "string \<Rightarrow> fraud_db \<Rightarrow> Case option" where
  "find_case i d = select_one (\<lambda>c. cs_ID c = i) (fraud_cases d)"

definition close_case :: "string \<Rightarrow> string \<Rightarrow> string option \<Rightarrow> int \<Rightarrow> Case \<Rightarrow> Case" where
  "close_case resolution status assignedTo now c =
     c\<lparr>cs_Status := status, cs_Resolution := Some resolution,
       cs_AssignedTo := (case assignedTo of None \<Rightarrow> cs_AssignedTo c | Some a \<Rightarrow> Some a),
       cs_ResolvedAt := Some now, cs_UpdatedAt := now\<rparr>"

definition store_ResolveCase :: "string \<Rightarrow> string \<Rightarrow> string \<Rightarrow> string option \<Rightarrow> (fraud_db, Case) io" where
  "store_ResolveCase caseID resolution status assignedTo = scan_row (tx_stmt (\<lambda>now uid d.
     if status \<notin> {''open'', ''investigating'', ''confirmed'', ''dismissed''} then Inl InvalidEnum
     else if find_case caseID d \<noteq> None \<and> (\<exists>a. assignedTo = Some a \<and> a \<notin> set (frd_users d)) then Inl ForeignKeyViolation
     else Inr (map_option (close_case resolution status assignedTo now) (find_case caseID d),
       d\<lparr>fraud_cases := update_where (\<lambda>c. cs_ID c = caseID) (close_case resolution status assignedTo now) (fraud_cases d)\<rparr>)))"

definition store_GetCase :: "string \<Rightarrow> (fraud_db, Case) io" where
  "store_GetCase i = scan_row (pool_query (find_case i))"

definition ListSignalsForSubject :: "string \<Rightarrow> string \<Rightarrow> int \<Rightarrow> (fraud_db, Signal list) io" where
  "ListSignalsForSubject subjectType subjectID limit0 =
     (let limit = (if limit0 \<le> 0 then 50 else limit0) in pool_query (recent_signals subjectType subjectID limit))"

definition store_ListOpenCases :: "int \<Rightarrow> (fraud_db, Case list) io" where
  "store_ListOpenCases limit0 =
     (let limit = (if limit0 \<le> 0 then 50 else limit0) in pool_query (\<lambda>d. take (nat limit)
        (sort_key (\<lambda>c. - cs_RiskScore c) (sort_key (\<lambda>c. - cs_CreatedAt c) (filter unresolved (fraud_cases d))))))"

section \<open>Service\<close>

definition modelVersion :: string where
  "modelVersion = ''weighted-sum-v1''"

definition recentSignalCount :: int where
  "recentSignalCount = 20"

definition caseThreshold :: rat where
  "caseThreshold = fl64 (85 / 100)"

definition band :: "rat \<Rightarrow> string" where
  "band score = (if score < fl64 (3 / 10) then ''low'' else if score < fl64 (6 / 10) then ''medium''
     else if score < fl64 (85 / 100) then ''high'' else ''critical'')"

record IngestResult =
  ir_SignalID :: int
  ir_Score :: rat
  ir_Band :: string
  ir_CaseID :: "string option"
  ir_CaseCodes :: "string list"

definition opened_event :: "string \<Rightarrow> string \<Rightarrow> string \<Rightarrow> rat \<Rightarrow> string list \<Rightarrow> Event" where
  "opened_event caseID subjectType subjectID riskScore codes =
     \<lparr>ev_AggregateType = ''fraud_case'', ev_AggregateID = caseID, ev_EventType = ''fraud.case_opened'', ev_Topic = ''fraud.events'',
      ev_PartitionKey = subjectID, ev_Payload = JObj [(''case_id'', JStr caseID), (''subject_type'', JStr subjectType),
        (''subject_id'', JStr subjectID), (''risk_score'', JNum riskScore), (''reason_codes'', JArr (map JStr codes))],
      ev_Headers = []\<rparr>"

definition flagged_event :: "string \<Rightarrow> rat \<Rightarrow> string list \<Rightarrow> Event" where
  "flagged_event subjectID riskScore codes =
     \<lparr>ev_AggregateType = ''screenshot'', ev_AggregateID = subjectID, ev_EventType = ''screenshot.flagged'',
      ev_Topic = ''screenshot.events'', ev_PartitionKey = subjectID,
      ev_Payload = JObj [(''screenshot_id'', JStr subjectID), (''risk_score'', JNum riskScore), (''reason_codes'', JArr (map JStr codes))],
      ev_Headers = []\<rparr>"

definition openCaseTx :: "string \<Rightarrow> string \<Rightarrow> rat \<Rightarrow> string list \<Rightarrow> (fraud_db, string) io" where
  "openCaseTx subjectType subjectID riskScore reasonCodes =
     bindE (InsertCase subjectType subjectID riskScore reasonCodes) (\<lambda>caseID.
     bindE (Enqueue (opened_event caseID subjectType subjectID riskScore reasonCodes)) (\<lambda>_.
     bindE (if subjectType = ''screenshot'' then Enqueue (flagged_event subjectID riskScore reasonCodes) else ret ()) (\<lambda>_.
     ret caseID)))"

text \<open>The block of \<open>IngestSignal\<close> that opens a case at or above the threshold.\<close>

definition open_if_due :: "string \<Rightarrow> string \<Rightarrow> rat \<Rightarrow> string list \<Rightarrow> IngestResult \<Rightarrow> (fraud_db, IngestResult) io" where
  "open_if_due subjectType subjectID score codes res =
     (if score \<ge> caseThreshold
      then bindE (HasOpenCase subjectType subjectID) (\<lambda>opn.
        if \<not> opn
        then bindE (openCaseTx subjectType subjectID score codes) (\<lambda>caseID.
          ret (res\<lparr>ir_CaseID := Some caseID, ir_CaseCodes := codes\<rparr>))
        else ret res)
      else ret res)"

definition IngestSignal :: "string \<Rightarrow> string \<Rightarrow> string \<Rightarrow> rat \<Rightarrow> json option \<Rightarrow> (fraud_db, IngestResult) io" where
  "IngestSignal subjectType subjectID signal weight details =
     (if subjectType = '''' \<or> subjectID = '''' then throw ErrInvalidSubject else
      bindE begin_tx (\<lambda>_.
      bindE (InsertSignal subjectType subjectID signal weight details) (\<lambda>signalID.
      bindE (RecentSignalSum subjectType subjectID recentSignalCount) (\<lambda>(score, codes).
      let b = band score;
          features = JObj [(''contributing_signals'', JArr (map JStr codes)), (''signal_count'', JInt (int (length codes)))];
          res = \<lparr>ir_SignalID = signalID, ir_Score = score, ir_Band = b, ir_CaseID = None, ir_CaseCodes = []\<rparr> in
      bindE (UpsertRiskScore subjectType subjectID score b features modelVersion) (\<lambda>_.
      bindE (open_if_due subjectType subjectID score codes res) (\<lambda>res'.
      bindE commit_tx (\<lambda>_. ret res')))))))"

text \<open>Not reachable through the routes; kept for a manual path.\<close>

definition OpenCase :: "string \<Rightarrow> string \<Rightarrow> rat \<Rightarrow> string list \<Rightarrow> (fraud_db, string) io" where
  "OpenCase subjectType subjectID riskScore reasonCodes =
     (if subjectType = '''' \<or> subjectID = '''' then throw ErrInvalidSubject else
      bindE begin_tx (\<lambda>_.
      bindE (openCaseTx subjectType subjectID riskScore reasonCodes) (\<lambda>caseID.
      bindE commit_tx (\<lambda>_. ret caseID))))"

definition case_resolved_event :: "Case \<Rightarrow> Event" where
  "case_resolved_event c =
     \<lparr>ev_AggregateType = ''fraud_case'', ev_AggregateID = cs_ID c, ev_EventType = ''fraud.case_resolved'', ev_Topic = ''fraud.events'',
      ev_PartitionKey = cs_SubjectID c, ev_Payload = JObj [(''case_id'', JStr (cs_ID c)), (''subject_type'', JStr (cs_SubjectTyp c)),
        (''subject_id'', JStr (cs_SubjectID c)), (''status'', JStr (cs_Status c)), (''resolution'', opt_json JStr (cs_Resolution c))],
      ev_Headers = []\<rparr>"

definition ResolveCase :: "string \<Rightarrow> string \<Rightarrow> string \<Rightarrow> string option \<Rightarrow> (fraud_db, Case) io" where
  "ResolveCase caseID resolution status assignedTo =
     (if status \<noteq> ''confirmed'' \<and> status \<noteq> ''dismissed'' then throw ErrInvalidResolution else
      bindE begin_tx (\<lambda>_.
      bindE (store_ResolveCase caseID resolution status assignedTo) (\<lambda>c.
      bindE (Enqueue (case_resolved_event c)) (\<lambda>_.
      bindE commit_tx (\<lambda>_. ret c)))))"

definition ListOpenCases :: "int \<Rightarrow> (fraud_db, Case list) io" where
  "ListOpenCases limit = store_ListOpenCases limit"

definition GetCase :: "string \<Rightarrow> (fraud_db, Case \<times> Signal list) io" where
  "GetCase i = bindE (store_GetCase i) (\<lambda>c.
     bindE (ListSignalsForSubject (cs_SubjectTyp c) (cs_SubjectID c) 50) (\<lambda>signals. ret (c, signals)))"

definition GetRiskScore :: "string \<Rightarrow> string \<Rightarrow> (fraud_db, RiskScore) io" where
  "GetRiskScore subjectType subjectID = store_GetRiskScore subjectType subjectID"

section \<open>Handlers\<close>

record fraud_req =
  fq_header :: "string \<Rightarrow> string"
  fq_query :: "string \<Rightarrow> string"

definition mapError :: "err \<Rightarrow> response" where
  "mapError e =
     (if e = ErrInvalidSubject then Problem 400 ''INVALID_ARGUMENT''
      else if e = ErrInvalidResolution then Problem 400 ''INVALID_ARGUMENT''
      else if e = ErrNotFound then Problem 404 ''NOT_FOUND''
      else if e = ErrForbidden then Problem 403 ''FORBIDDEN''
      else Problem 500 ''INTERNAL'')"

definition principal :: "fraud_req \<Rightarrow> Principal" where
  "principal r = \<lparr>pr_UserID = fq_header r ''X-User-Id'', pr_Roles = header_list (fq_header r ''X-User-Roles''),
     pr_Permissions = header_list (fq_header r ''X-User-Permissions''), pr_AccountType = fq_header r ''X-Account-Type''\<rparr>"

definition authorize :: "Principal \<Rightarrow> string \<Rightarrow> response + unit" where
  "authorize p perm =
     (if pr_UserID p = '''' then Inl (Problem 401 ''UNAUTHORIZED'')
      else case Require p perm of Some e \<Rightarrow> Inl (Problem 403 ''FORBIDDEN'') | None \<Rightarrow> Inr ())"

definition caseDTO :: "Case \<Rightarrow> (string \<times> json) list" where
  "caseDTO c = [(''id'', JStr (cs_ID c)), (''subject_type'', JStr (cs_SubjectTyp c)), (''subject_id'', JStr (cs_SubjectID c)),
     (''risk_score'', JNum (scan_numeric (cs_RiskScore c))), (''status'', JStr (cs_Status c)),
     (''reason_codes'', JArr (map JStr (cs_ReasonCodes c))), (''assigned_to'', opt_json JStr (cs_AssignedTo c)),
     (''resolution'', opt_json JStr (cs_Resolution c)), (''created_at'', JInt (cs_CreatedAt c)),
     (''updated_at'', JInt (cs_UpdatedAt c)), (''resolved_at'', opt_json JInt (cs_ResolvedAt c))]"

definition signalDTO :: "Signal \<Rightarrow> json" where
  "signalDTO g = JObj [(''id'', JInt (sg_ID g)), (''subject_type'', JStr (sg_SubjectTyp g)), (''subject_id'', JStr (sg_SubjectID g)),
     (''signal'', JStr (sg_Signal g)), (''weight'', JNum (scan_numeric (sg_Weight g))), (''details'', sg_Details g),
     (''observed_at'', JInt (sg_ObservedAt g))]"

definition riskDTO :: "RiskScore \<Rightarrow> json" where
  "riskDTO r = JObj [(''subject_type'', JStr (rk_SubjectTyp r)), (''subject_id'', JStr (rk_SubjectID r)),
     (''score'', JNum (scan_numeric (rk_Score r))), (''band'', JStr (rk_Band r)), (''features'', rk_Features r),
     (''model_version'', opt_json JStr (rk_ModelVersion r)), (''computed_at'', JInt (rk_ComputedAt r))]"

record ingestReq =
  iq_SubjectType :: string
  iq_SubjectID :: string
  iq_Signal :: string
  iq_Weight :: rat
  iq_Details :: "json option"

definition ingestSignal :: "fraud_req \<Rightarrow> ingestReq option \<Rightarrow> (fraud_db, response) io" where
  "ingestSignal r body =
     guarded (ret (authorize (principal r) ''fraud.signal.ingest'')) (\<lambda>_.
     guarded (ret (decode body)) (\<lambda>req.
     if iq_Weight req < 0 \<or> iq_Weight req > 1 then ret (Problem 400 ''INVALID_ARGUMENT'')
     else handle mapError
       (IngestSignal (iq_SubjectType req) (iq_SubjectID req) (iq_Signal req) (iq_Weight req) (iq_Details req))
       (\<lambda>res. Reply 201 (JObj ([(''signal_id'', JInt (ir_SignalID res)), (''score'', JNum (ir_Score res)), (''band'', JStr (ir_Band res))]
          @ (case ir_CaseID res of None \<Rightarrow> []
             | Some c \<Rightarrow> [(''case_id'', JStr c), (''reason_codes'', JArr (map JStr (ir_CaseCodes res)))]))))))"

definition listOpenCases :: "fraud_req \<Rightarrow> (fraud_db, response) io" where
  "listOpenCases r =
     guarded (ret (authorize (principal r) ''fraud.case.read'')) (\<lambda>_.
     let v = fq_query r ''limit'';
         limit = (if v = '''' then 50 else case ParseInt v of Some n \<Rightarrow> if n > 0 then n else 50 | None \<Rightarrow> 50) in
     handle mapError (ListOpenCases limit) (\<lambda>cases. Reply 200 (JObj [(''cases'', JArr (map (JObj \<circ> caseDTO) cases))])))"

definition getCase :: "fraud_req \<Rightarrow> string \<Rightarrow> (fraud_db, response) io" where
  "getCase r i =
     guarded (ret (authorize (principal r) ''fraud.case.read'')) (\<lambda>_.
     handle mapError (GetCase i) (\<lambda>(c, signals). Reply 200 (JObj (caseDTO c @ [(''signals'', JArr (map signalDTO signals))]))))"

record resolveReq =
  rr_Status :: string
  rr_Resolution :: string
  rr_AssignedTo :: "string option"

definition resolveCase :: "fraud_req \<Rightarrow> string \<Rightarrow> resolveReq option \<Rightarrow> (fraud_db, response) io" where
  "resolveCase r i body =
     guarded (ret (authorize (principal r) ''fraud.case.resolve'')) (\<lambda>_.
     guarded (ret (decode body)) (\<lambda>req.
     handle mapError (ResolveCase i (rr_Resolution req) (rr_Status req) (rr_AssignedTo req)) (\<lambda>c. Reply 200 (JObj (caseDTO c)))))"

definition getRisk :: "fraud_req \<Rightarrow> (fraud_db, response) io" where
  "getRisk r =
     guarded (ret (authorize (principal r) ''fraud.case.read'')) (\<lambda>_.
     let subjectType = fq_query r ''subject_type''; subjectID = fq_query r ''subject_id'' in
     if subjectType = '''' \<or> subjectID = '''' then ret (Problem 400 ''INVALID_ARGUMENT'')
     else handle mapError (GetRiskScore subjectType subjectID) (\<lambda>rs. Reply 200 (riskDTO rs)))"

section \<open>Framing\<close>

lemma keeps_fraud_store [io_keeps]:
  "keeps (InsertSignal ty i g w dt)" "keeps (RecentSignalSum ty i n)" "keeps (UpsertRiskScore ty i x b f m)"
  "keeps (store_GetRiskScore ty i)" "keeps (HasOpenCase ty i)" "keeps (InsertCase ty i x cs)" "keeps (store_ResolveCase i rs st a)"
  "keeps (store_GetCase i)" "keeps (ListSignalsForSubject ty i n)" "keeps (store_ListOpenCases n)"
  unfolding InsertSignal_def RecentSignalSum_def UpsertRiskScore_def store_GetRiskScore_def HasOpenCase_def InsertCase_def
    store_ResolveCase_def store_GetCase_def ListSignalsForSubject_def store_ListOpenCases_def
  by (intro io_keeps | simp add: Let_def io_keeps)+

lemma keeps_openCaseTx [io_keeps]: "keeps (openCaseTx ty i x cs)" "keeps (Enqueue e)"
  unfolding openCaseTx_def Enqueue_def by (intro io_keeps)+

lemma keeps_open_if_due [io_keeps]: "keeps (open_if_due ty i x cs res)"
  unfolding open_if_due_def by (intro io_keeps)

lemma atomic_fraud:
  "atomic (IngestSignal ty i g w dt)" "atomic (OpenCase ty i x cs)" "atomic (ResolveCase j rs st a)"
  unfolding IngestSignal_def OpenCase_def ResolveCase_def Let_def
  by (intro io_atomic io_keeps | simp add: io_keeps keeps_atomic split: prod.split)+

end
