(* ===== verification/Fraud_Props.thy ===== *)
theory Fraud_Props
  imports Fraud Tx_Inv
begin

text \<open>
  What the fraud service keeps and decides: the stored risk of a subject is the one computed from
  its recent signals, a subject has at most one unresolved case, and rounding can change the
  decision only when the sum of the weights lies exactly on a limit.
\<close>

section \<open>Rounding and the decision\<close>

definition exact_sum :: "Signal list \<Rightarrow> int" where
  "exact_sum gs = sum_list (map sg_Weight gs)"

definition eps :: rat where
  "eps = 1 / 2 ^ 49"

lemma signal_loop_error:
  assumes "\<forall>g \<in> set gs. 0 \<le> sg_Weight g" "\<bar>x\<bar> + of_int (exact_sum gs) / 1000 + 2 * eps * of_nat (length gs) < 32"
  shows "\<bar>fst (signal_loop gs x cs) - (x + of_int (exact_sum gs) / 1000)\<bar> \<le> 2 * eps * of_nat (length gs)"
  using assms
proof (induction gs arbitrary: x cs)
  case Nil
  then show ?case by (simp add: exact_sum_def)
next
  case (Cons g gs)
  let ?w = "of_int (sg_Weight g) / 1000 :: rat" and ?E = "of_int (exact_sum gs) / 1000 :: rat"
  let ?x = "fl64 (x + scan_numeric (sg_Weight g))" and ?n = "2 * eps * of_nat (length gs)"
  have s: "of_int (exact_sum (g # gs)) / 1000 = ?w + ?E" by (simp add: exact_sum_def add_divide_distrib)
  have n: "2 * eps * of_nat (length (g # gs)) = 2 * eps + ?n" by (simp add: algebra_simps)
  have pos: "0 \<le> ?w" "0 \<le> ?E" "0 \<le> ?n" "0 < eps" using Cons.prems(1) by (auto simp: exact_sum_def eps_def intro!: sum_list_nonneg)
  from Cons.prems(2) have lim: "\<bar>x\<bar> + ?w + ?E + 2 * eps + ?n < 32" unfolding s n by linarith
  have "\<bar>?w\<bar> < 32" using lim pos by linarith
  then have e1: "\<bar>scan_numeric (sg_Weight g) - ?w\<bar> \<le> eps" unfolding scan_numeric_def eps_def by (rule fl64_error)
  have "\<bar>x + scan_numeric (sg_Weight g)\<bar> < 32" using lim pos e1 by linarith
  then have e2: "\<bar>?x - (x + scan_numeric (sg_Weight g))\<bar> \<le> eps" unfolding eps_def by (rule fl64_error)
  have d: "\<bar>?x - (x + ?w)\<bar> \<le> 2 * eps" using e1 e2 by linarith
  have "\<bar>?x\<bar> + ?E + ?n < 32" using lim d pos by linarith
  from Cons.IH [OF _ this] Cons.prems(1)
  have "\<bar>fst (signal_loop gs ?x cs') - (?x + ?E)\<bar> \<le> ?n" for cs' by simp
  then have "\<bar>fst (signal_loop (g # gs) x cs) - (?x + ?E)\<bar> \<le> ?n" by simp
  then show ?case unfolding s n using d by linarith
qed

definition weights_ok :: "Signal list \<Rightarrow> bool" where
  "weights_ok gs \<longleftrightarrow> (\<forall>g \<in> set gs. 0 \<le> sg_Weight g \<and> sg_Weight g \<le> 1000)"

lemma exact_sum_bounds: "weights_ok gs \<Longrightarrow> 0 \<le> exact_sum gs \<and> exact_sum gs \<le> 1000 * int (length gs)"
  by (induction gs) (auto simp: weights_ok_def exact_sum_def)

lemma score_error:
  assumes "weights_ok gs" "length gs \<le> 20"
  shows "\<bar>fst (signal_loop gs 0 []) - of_int (exact_sum gs) / 1000\<bar> \<le> 40 * eps"
proof -
  from exact_sum_bounds [OF assms(1)] assms(2) have "0 \<le> exact_sum gs" "exact_sum gs \<le> 20000" by auto
  then have "of_int (exact_sum gs) / 1000 \<le> (20 :: rat)" by simp
  moreover have n: "2 * eps * of_nat (length gs) \<le> 40 * eps" using assms(2) by (simp add: eps_def)
  moreover have "40 * eps < 1" by (simp add: eps_def)
  ultimately have "\<bar>0 :: rat\<bar> + of_int (exact_sum gs) / 1000 + 2 * eps * of_nat (length gs) < 32" by linarith
  from signal_loop_error [OF _ this, of "[]"] assms(1) n show ?thesis by (auto simp: weights_ok_def)
qed

lemma clamp_score_bounds: "0 \<le> clamp_score x" "clamp_score x \<le> 1"
  by (auto simp: clamp_score_def Let_def)

lemma limit_error: "\<bar>x\<bar> \<le> 1 \<Longrightarrow> \<bar>fl64 x - x\<bar> \<le> eps"
  unfolding eps_def by (rule fl64_error) linarith

text \<open>A limit of at most 1, in thousandths: off the limit, the rounded comparison is the exact one.\<close>

lemma limit_decision:
  assumes "weights_ok gs" "length gs \<le> 20" "exact_sum gs \<noteq> k" "0 < k" "k < 1000"
  shows "fst (signal_sum gs) < fl64 (of_int k / 1000) \<longleftrightarrow> exact_sum gs < k"
proof -
  let ?x = "fst (signal_loop gs 0 [])" and ?n = "of_int (exact_sum gs) / 1000 :: rat" and ?k = "of_int k / 1000 :: rat"
  have sc: "fst (signal_sum gs) = clamp_score ?x" by (simp add: signal_sum_def split: prod.split)
  have e: "41 * eps < 1 / 1000" "0 < eps" by (simp_all add: eps_def)
  have x: "\<bar>?x - ?n\<bar> \<le> 40 * eps" by (rule score_error [OF assms(1,2)])
  from assms(4,5) have k: "0 < ?k" "?k + 1 / 1000 \<le> 1" by (simp_all add: field_simps)
  then have l: "\<bar>fl64 ?k - ?k\<bar> \<le> eps" by (intro limit_error) linarith
  have n0: "0 \<le> ?n" using exact_sum_bounds [OF assms(1)] by simp
  show ?thesis
  proof (cases "exact_sum gs < k")
    case True
    then have "(of_int (exact_sum gs) :: rat) + 1 \<le> of_int k" by linarith
    then have "?n + 1 / 1000 \<le> ?k" by (simp add: field_simps)
    then have "?x < fl64 ?k" "0 < fl64 ?k" using x l e k n0 by linarith+
    then have "clamp_score ?x < fl64 ?k" by (auto simp: clamp_score_def Let_def)
    with True sc show ?thesis by simp
  next
    case False
    with assms(3) have "of_int k + 1 \<le> (of_int (exact_sum gs) :: rat)" by linarith
    then have "?k + 1 / 1000 \<le> ?n" by (simp add: field_simps)
    then have "fl64 ?k < ?x" "fl64 ?k < 1" using x l e k by linarith+
    then have "fl64 ?k < clamp_score ?x" by (auto simp: clamp_score_def Let_def)
    with False sc show ?thesis by simp
  qed
qed

definition exact_band :: "int \<Rightarrow> string" where
  "exact_band n = (if n < 300 then ''low'' else if n < 600 then ''medium'' else if n < 850 then ''high'' else ''critical'')"

section \<open>Effects\<close>

definition new_signal :: "string \<Rightarrow> string \<Rightarrow> string \<Rightarrow> int \<Rightarrow> json option \<Rightarrow> int \<Rightarrow> int \<Rightarrow> Signal" where
  "new_signal ty i g w dt n now = \<lparr>sg_ID = n, sg_SubjectTyp = ty, sg_SubjectID = i, sg_Signal = g, sg_Weight = w,
     sg_Details = (case dt of None \<Rightarrow> JObj [] | Some j \<Rightarrow> j), sg_ObservedAt = now\<rparr>"

definition new_case :: "string \<Rightarrow> string \<Rightarrow> string \<Rightarrow> int \<Rightarrow> string list \<Rightarrow> int \<Rightarrow> Case" where
  "new_case uid ty i n codes now = \<lparr>cs_ID = uid, cs_SubjectTyp = ty, cs_SubjectID = i, cs_RiskScore = n, cs_Status = ''open'',
     cs_ReasonCodes = codes, cs_AssignedTo = None, cs_Resolution = None, cs_CreatedAt = now, cs_UpdatedAt = now, cs_ResolvedAt = None\<rparr>"

definition with_signal :: "Signal \<Rightarrow> fraud_db \<Rightarrow> fraud_db" where
  "with_signal g d = d\<lparr>signal_seq := signal_seq d + 1, fraud_signals := fraud_signals d @ [g]\<rparr>"

lemma InsertSignal_ok:
  assumes "InsertSignal ty i g w dt s = (Inr n, t)"
  shows "\<exists>k. numeric43 w = Some k \<and> n = signal_seq (work s) \<and>
    work t = with_signal (new_signal ty i g k dt (signal_seq (work s)) (clock s)) (work s) \<and> committed t = committed s \<and> clock t = clock s"
  using assms by (auto simp: InsertSignal_def tx_stmt_ok new_signal_def with_signal_def split: option.splits)

lemma UpsertRiskScore_ok:
  assumes "UpsertRiskScore ty i x b f m s = (Inr u, t)"
  shows "\<exists>n. numeric43 x = Some n \<and> work t = put_risk \<lparr>rk_SubjectTyp = ty, rk_SubjectID = i, rk_Score = n, rk_Band = b,
    rk_Features = f, rk_ModelVersion = Some m, rk_ComputedAt = clock s\<rparr> (work s) \<and> committed t = committed s \<and> clock t = clock s"
  using assms by (auto simp: UpsertRiskScore_def tx_stmt_ok split: option.splits)

lemma openCaseTx_ok:
  assumes "openCaseTx ty i x codes s = (Inr c, t)"
  shows "\<exists>n. numeric43 x = Some n \<and> c \<notin> cs_ID ` set (fraud_cases (work s)) \<and>
    fraud_cases (work t) = fraud_cases (work s) @ [new_case c ty i n codes (clock s)] \<and>
    fraud_signals (work t) = fraud_signals (work s) \<and> risk_scores (work t) = risk_scores (work s) \<and>
    frd_users (work t) = frd_users (work s) \<and> committed t = committed s \<and> clock t = clock s"
  using assms by (auto simp: openCaseTx_def bindE_ok InsertCase_def tx_stmt_ok Enqueue_ok ret_ok new_case_def split: option.splits if_splits)

lemma put_risk_simps [simp]:
  "fraud_signals (put_risk r d) = fraud_signals d" "fraud_cases (put_risk r d) = fraud_cases d" "frd_users (put_risk r d) = frd_users d"
  by (auto simp: put_risk_def split: option.splits)

lemma recent_signals_cong: "fraud_signals d = fraud_signals d' \<Longrightarrow> recent_signals ty i n d = recent_signals ty i n d'"
  by (simp add: recent_signals_def)

lemma IngestSignal_ok:
  assumes "IngestSignal ty i g w dt s = (Inr res, t)"
  defines "gs \<equiv> \<lambda>k. fraud_signals (committed s) @ [new_signal ty i g k dt (signal_seq (committed s)) (clock s)]"
  shows "ty \<noteq> '''' \<and> i \<noteq> '''' \<and> (\<exists>k n f score codes. numeric43 w = Some k \<and> fraud_signals (committed t) = gs k \<and>
    signal_sum (recent_signals ty i 20 (committed t)) = (score, codes) \<and> numeric43 score = Some n \<and>
    risk_scores (committed t) = risk_scores (put_risk \<lparr>rk_SubjectTyp = ty, rk_SubjectID = i, rk_Score = n, rk_Band = band score,
      rk_Features = f, rk_ModelVersion = Some modelVersion, rk_ComputedAt = clock s\<rparr> (committed s)) \<and>
    (if caseThreshold \<le> score \<and> open_cases ty i (committed s) = []
     then \<exists>c. ir_CaseID res = Some c \<and> c \<notin> cs_ID ` set (fraud_cases (committed s)) \<and>
       fraud_cases (committed t) = fraud_cases (committed s) @ [new_case c ty i n codes (clock s)]
     else ir_CaseID res = None \<and> fraud_cases (committed t) = fraud_cases (committed s)))"
proof -
  let ?s1 = "(tick s)\<lparr>work := committed s, aborted := False\<rparr>"
  from assms(1) have ne: "ty \<noteq> ''''" "i \<noteq> ''''" by (auto simp: IngestSignal_def throw_ok split: if_splits)
  have "\<exists>sid s2 fe s4 b s5. InsertSignal ty i g w dt ?s1 = (Inr sid, s2) \<and>
      UpsertRiskScore ty i (fst (signal_sum (recent_signals ty i 20 (work s2)))) (band (fst (signal_sum (recent_signals ty i 20 (work s2)))))
        fe modelVersion ((tick s2)\<lparr>work := work s2\<rparr>) = (Inr (), s4) \<and>
      open_if_due ty i (fst (signal_sum (recent_signals ty i 20 (work s2)))) (snd (signal_sum (recent_signals ty i 20 (work s2))))
        \<lparr>ir_SignalID = sid, ir_Score = fst (signal_sum (recent_signals ty i 20 (work s2))), ir_Band = b, ir_CaseID = None, ir_CaseCodes = []\<rparr> s4 = (Inr res, s5) \<and>
      committed t = work s5"
    using assms(1)
    by (simp add: IngestSignal_def Let_def recentSignalCount_def bindE_ok begin_tx_ok RecentSignalSum_def tx_stmt_ok commit_tx_ok ret_ok throw_ok
        case_prod_beta split: if_splits) fastforce
  then obtain sid s2 fe s4 b s5 where ins: "InsertSignal ty i g w dt ?s1 = (Inr sid, s2)"
    and up0: "UpsertRiskScore ty i (fst (signal_sum (recent_signals ty i 20 (work s2)))) (band (fst (signal_sum (recent_signals ty i 20 (work s2)))))
        fe modelVersion ((tick s2)\<lparr>work := work s2\<rparr>) = (Inr (), s4)"
    and br0: "open_if_due ty i (fst (signal_sum (recent_signals ty i 20 (work s2)))) (snd (signal_sum (recent_signals ty i 20 (work s2))))
        \<lparr>ir_SignalID = sid, ir_Score = fst (signal_sum (recent_signals ty i 20 (work s2))), ir_Band = b, ir_CaseID = None, ir_CaseCodes = []\<rparr> s4 = (Inr res, s5)"
    and t: "committed t = work s5" by blast
  obtain score codes where sm: "signal_sum (recent_signals ty i 20 (work s2)) = (score, codes)" by fastforce
  note up = up0 [unfolded sm, simplified] and br = br0 [unfolded sm, simplified]
  from InsertSignal_ok [OF ins] obtain k where k: "numeric43 w = Some k"
    "work s2 = with_signal (new_signal ty i g k dt (signal_seq (committed s)) (clock s)) (committed s)" "clock s2 = clock s" by auto
  have w2: "fraud_signals (work s2) = gs k" "risk_scores (work s2) = risk_scores (committed s)" "fraud_cases (work s2) = fraud_cases (committed s)"
    by (simp_all add: k(2) with_signal_def gs_def)
  from UpsertRiskScore_ok [OF up] obtain n f where n: "numeric43 score = Some n" "clock s4 = clock s"
    and w4: "work s4 = put_risk \<lparr>rk_SubjectTyp = ty, rk_SubjectID = i, rk_Score = n, rk_Band = band score,
      rk_Features = f, rk_ModelVersion = Some modelVersion, rk_ComputedAt = clock s\<rparr> (work s2)" using k(3) by auto
  have pr: "risk_scores (put_risk r d) = risk_scores (put_risk r d')" if "risk_scores d = risk_scores d'" for r d d'
    using that by (simp add: put_risk_def split: option.splits)
  have op: "open_cases ty i (work s4) = open_cases ty i (committed s)" by (simp add: w4 open_cases_def w2(3))
  have s5: "fraud_signals (work s5) = fraud_signals (work s4) \<and> risk_scores (work s5) = risk_scores (work s4) \<and>
    (if caseThreshold \<le> score \<and> open_cases ty i (committed s) = []
     then \<exists>c. ir_CaseID res = Some c \<and> c \<notin> cs_ID ` set (fraud_cases (work s4)) \<and>
       fraud_cases (work s5) = fraud_cases (work s4) @ [new_case c ty i n codes (clock s)]
     else ir_CaseID res = None \<and> fraud_cases (work s5) = fraud_cases (work s4))"
    using br n op by (auto simp: open_if_due_def HasOpenCase_def bindE_ok tx_stmt_ok ret_ok split: if_splits dest!: openCaseTx_ok)
  have sig: "fraud_signals (committed t) = gs k" using t s5 w4 w2 by simp
  have "recent_signals ty i 20 (committed t) = recent_signals ty i 20 (work s2)"
    by (rule recent_signals_cong) (simp add: sig w2)
  then have "signal_sum (recent_signals ty i 20 (committed t)) = (score, codes)" using sm by simp
  moreover have "risk_scores (committed t) = risk_scores (put_risk \<lparr>rk_SubjectTyp = ty, rk_SubjectID = i, rk_Score = n, rk_Band = band score,
      rk_Features = f, rk_ModelVersion = Some modelVersion, rk_ComputedAt = clock s\<rparr> (committed s))"
    using t s5 w4 pr [OF w2(2)] by simp
  moreover have "fraud_cases (work s4) = fraud_cases (committed s)" by (simp add: w4 w2(3))
  ultimately show ?thesis using ne k(1) sig n(1) s5 t by auto
qed

lemma ResolveCase_ok:
  assumes "ResolveCase j rs st a s = (Inr c, t)"
  shows "st \<in> {''confirmed'', ''dismissed''} \<and> (\<exists>c0. find_case j (committed s) = Some c0 \<and> c = close_case rs st a (clock s) c0) \<and>
    fraud_cases (committed t) = update_where (\<lambda>c. cs_ID c = j) (close_case rs st a (clock s)) (fraud_cases (committed s)) \<and>
    fraud_signals (committed t) = fraud_signals (committed s) \<and> risk_scores (committed t) = risk_scores (committed s)"
  using assms
  by (auto simp: ResolveCase_def bindE_ok begin_tx_ok store_ResolveCase_def scan_row_ok tx_stmt_ok Enqueue_ok commit_tx_ok ret_ok throw_ok
      split: if_splits)

section \<open>The invariant\<close>

text \<open>The risk row of a subject is the one its recent signals give.\<close>

definition risk_of :: "string \<Rightarrow> string \<Rightarrow> fraud_db \<Rightarrow> rat" where
  "risk_of ty i d = fst (signal_sum (recent_signals ty i 20 d))"

definition risk_current :: "string \<Rightarrow> string \<Rightarrow> fraud_db \<Rightarrow> bool" where
  "risk_current ty i d \<longleftrightarrow> (\<exists>r. find_risk ty i d = Some r \<and> rk_Band r = band (risk_of ty i d) \<and> numeric43 (risk_of ty i d) = Some (rk_Score r))"

definition observed :: "string \<Rightarrow> string \<Rightarrow> fraud_db \<Rightarrow> bool" where
  "observed ty i d \<longleftrightarrow> (\<exists>g \<in> set (fraud_signals d). of_subject ty i g)"

definition fraud_inv :: "fraud_db \<Rightarrow> bool" where
  "fraud_inv d \<longleftrightarrow> weights_ok (fraud_signals d) \<and> distinct (map cs_ID (fraud_cases d)) \<and>
     distinct (map case_subject (filter unresolved (fraud_cases d))) \<and> (\<forall>ty i. observed ty i d \<longrightarrow> risk_current ty i d)"

lemma find_put_risk: "find_risk ty i (put_risk r d) = (if (ty, i) = risk_key r then Some r else find_risk ty i d)"
proof (cases "select_one (\<lambda>q. risk_key q = risk_key r) (risk_scores d)")
  case None
  then show ?thesis by (auto simp: put_risk_def find_risk_def select_one_append split: option.splits)
next
  case (Some p)
  have "select_one (\<lambda>q. risk_key q = k) (update_where (\<lambda>q. risk_key q = risk_key r) (\<lambda>_. r) rs) =
    (if k = risk_key r then map_option (\<lambda>_. r) (select_one (\<lambda>q. risk_key q = risk_key r) rs) else select_one (\<lambda>q. risk_key q = k) rs)" for rs k
    by (induction rs) auto
  with Some show ?thesis by (simp add: put_risk_def find_risk_def)
qed

lemma numeric43_weight: "0 \<le> w \<Longrightarrow> w \<le> 1 \<Longrightarrow> numeric43 w = Some k \<Longrightarrow> 0 \<le> k \<and> k \<le> 1000"
proof -
  assume w: "0 \<le> w" "w \<le> 1" and k: "numeric43 w = Some k"
  then have k: "k = \<lfloor>1000 * w + 1 / 2\<rfloor>" by (auto simp: numeric43_def Let_def split: if_splits)
  have "0 \<le> k" using w(1) by (simp add: k)
  moreover have "1000 * w + 1 / 2 < of_int 1001" using w(2) by simp
  then have "k < 1001" unfolding k by (simp only: floor_less_iff)
  ultimately show ?thesis by simp
qed

lemma recent_signals_other:
  "\<not> of_subject ty i g \<Longrightarrow> fraud_signals d' = fraud_signals d @ [g] \<Longrightarrow> recent_signals ty i n d' = recent_signals ty i n d"
  by (simp add: recent_signals_def)

lemma risk_current_cong:
  "fraud_signals d = fraud_signals d' \<Longrightarrow> risk_scores d = risk_scores d' \<Longrightarrow> risk_current ty i d = risk_current ty i d'"
  by (simp add: risk_current_def risk_of_def recent_signals_def find_risk_def)

lemma unresolved_new_case [simp]: "unresolved (new_case c ty i n codes now)" "case_subject (new_case c ty i n codes now) = (ty, i)"
  "cs_ID (new_case c ty i n codes now) = c"
  by (simp_all add: unresolved_def case_subject_def new_case_def)

lemma IngestSignal_inv:
  assumes "fraud_inv (committed s)" "0 \<le> w" "w \<le> 1" "IngestSignal ty i g w dt s = (Inr res, t)"
  shows "fraud_inv (committed t)"
proof -
  from IngestSignal_ok [OF assms(4)] obtain k n f score codes where k: "numeric43 w = Some k"
    and sig: "fraud_signals (committed t) = fraud_signals (committed s) @ [new_signal ty i g k dt (signal_seq (committed s)) (clock s)]"
    and sm: "signal_sum (recent_signals ty i 20 (committed t)) = (score, codes)" and n: "numeric43 score = Some n"
    and rk: "risk_scores (committed t) = risk_scores (put_risk \<lparr>rk_SubjectTyp = ty, rk_SubjectID = i, rk_Score = n, rk_Band = band score,
      rk_Features = f, rk_ModelVersion = Some modelVersion, rk_ComputedAt = clock s\<rparr> (committed s))"
    and cs: "if caseThreshold \<le> score \<and> open_cases ty i (committed s) = []
     then \<exists>c. ir_CaseID res = Some c \<and> c \<notin> cs_ID ` set (fraud_cases (committed s)) \<and>
       fraud_cases (committed t) = fraud_cases (committed s) @ [new_case c ty i n codes (clock s)]
     else ir_CaseID res = None \<and> fraud_cases (committed t) = fraud_cases (committed s)" by blast
  let ?g = "new_signal ty i g k dt (signal_seq (committed s)) (clock s)"
  have "weights_ok (fraud_signals (committed t))"
    using assms(1) numeric43_weight [OF assms(2,3) k] by (auto simp: sig fraud_inv_def weights_ok_def new_signal_def)
  moreover have "distinct (map cs_ID (fraud_cases (committed t))) \<and> distinct (map case_subject (filter unresolved (fraud_cases (committed t))))"
  proof -
    have "(ty, i) \<notin> case_subject ` {c \<in> set (fraud_cases (committed s)). unresolved c}" if "open_cases ty i (committed s) = []"
      using that by (auto simp: open_cases_def filter_empty_conv)
    with cs assms(1) show ?thesis by (auto simp: fraud_inv_def split: if_splits)
  qed
  moreover have "risk_current ty' i' (committed t)" if o: "observed ty' i' (committed t)" for ty' i'
  proof -
    have find: "find_risk a b (committed t) = find_risk a b (put_risk \<lparr>rk_SubjectTyp = ty, rk_SubjectID = i, rk_Score = n, rk_Band = band score,
      rk_Features = f, rk_ModelVersion = Some modelVersion, rk_ComputedAt = clock s\<rparr> (committed s))" for a b by (simp add: find_risk_def rk)
    show ?thesis
    proof (cases "(ty', i') = (ty, i)")
      case True
      with sm n show ?thesis by (simp add: risk_current_def risk_of_def find find_put_risk risk_key_def)
    next
      case False
      then have other: "\<not> of_subject ty' i' ?g" by (auto simp: of_subject_def new_signal_def)
      with o sig have "observed ty' i' (committed s)" by (auto simp: observed_def)
      with assms(1) have "risk_current ty' i' (committed s)" by (simp add: fraud_inv_def)
      with recent_signals_other [OF other sig] False show ?thesis
        by (auto simp: risk_current_def risk_of_def find find_put_risk risk_key_def)
    qed
  qed
  ultimately show ?thesis by (simp add: fraud_inv_def)
qed

lemma close_case_simps [simp]:
  "cs_ID (close_case rs st a now c) = cs_ID c" "case_subject (close_case rs st a now c) = case_subject c"
  "st \<in> {''confirmed'', ''dismissed''} \<Longrightarrow> \<not> unresolved (close_case rs st a now c)"
  by (auto simp: close_case_def case_subject_def unresolved_def)

lemma ResolveCase_inv:
  assumes "fraud_inv (committed s)" "ResolveCase j rs st a s = (Inr c, t)"
  shows "fraud_inv (committed t)"
proof -
  note ok = ResolveCase_ok [OF assms(2)]
  have "distinct (map case_subject (filter unresolved (update_where (\<lambda>c. cs_ID c = j) (close_case rs st a (clock s)) cs)))"
    if "distinct (map case_subject (filter unresolved cs))" for cs
  proof -
    have "filter unresolved (update_where (\<lambda>c. cs_ID c = j) (close_case rs st a (clock s)) cs) = filter (\<lambda>c. unresolved c \<and> cs_ID c \<noteq> j) cs"
      using ok by (induction cs) auto
    also have "\<dots> = filter (\<lambda>c. cs_ID c \<noteq> j) (filter unresolved cs)" by simp
    finally show ?thesis using that by (simp only: distinct_map_filter)
  qed
  then show ?thesis using assms(1) ok risk_current_cong [of "committed t" "committed s"]
    by (simp add: fraud_inv_def observed_def map_update_where_same)
qed

section \<open>The service as a transition system\<close>

inductive_set fraud_ops :: "(fraud_db, response) io set" where
  op_ingest: "ingestSignal r q \<in> fraud_ops"
| op_list: "listOpenCases r \<in> fraud_ops"
| op_get: "getCase r i \<in> fraud_ops"
| op_resolve: "resolveCase r i rq \<in> fraud_ops"
| op_risk: "getRisk r \<in> fraud_ops"

lemma fraud_ops_inv: "m \<in> fraud_ops \<Longrightarrow> op_inv fraud_inv m"
proof (induction rule: fraud_ops.induct)
  case (op_ingest r q)
  have "op_inv fraud_inv (IngestSignal ty i g w dt)" if "\<not> (w < 0 \<or> w > 1)" for ty i g w dt
    by (rule op_inv_atomic [OF atomic_fraud(1)]) (use that in \<open>auto simp: not_less intro: IngestSignal_inv\<close>)
  then show ?case unfolding ingestSignal_def by (intro op_invs)
next
  case (op_resolve r i rq)
  have "op_inv fraud_inv (ResolveCase j rs st a)" for j rs st a
    by (rule op_inv_atomic [OF atomic_fraud(3)]) (rule ResolveCase_inv)
  then show ?case unfolding resolveCase_def by (intro op_invs)
qed (simp_all add: listOpenCases_def ListOpenCases_def getCase_def GetCase_def getRisk_def GetRiskScore_def Let_def op_inv_guarded
    op_inv_keeps io_keeps)

interpretation fraud_service: service_system fraud_ops fraud_inv
  by unfold_locales (rule fraud_ops_inv)

section \<open>Requests\<close>

lemma fraud_authorize_Inr: "authorize (principal r) perm = Inr u \<longleftrightarrow> permitted (fq_header r) perm"
  by (auto simp: authorize_def permitted_def principal_def Require_def Can_iff split: if_splits)

lemma ingestSignal_changed:
  assumes "ingestSignal r body s = (x, t)" "committed t \<noteq> committed s"
  obtains q res where "permitted (fq_header r) ''fraud.signal.ingest''" "body = Some q" "0 \<le> iq_Weight q" "iq_Weight q \<le> 1"
    "IngestSignal (iq_SubjectType q) (iq_SubjectID q) (iq_Signal q) (iq_Weight q) (iq_Details q) s = (Inr res, t)"
proof -
  from assms have "committed (snd (ingestSignal r body s)) \<noteq> committed s" by simp
  with assms(1) obtain q an where g: "permitted (fq_header r) ''fraud.signal.ingest''" "body = Some q" "0 \<le> iq_Weight q" "iq_Weight q \<le> 1"
    and h: "handle mapError (IngestSignal (iq_SubjectType q) (iq_SubjectID q) (iq_Signal q) (iq_Weight q) (iq_Details q)) an s = (x, t)"
    unfolding ingestSignal_def
    by (elim guarded_changedE) (auto simp: fraud_authorize_Inr decode_def run_basic guarded_ret not_less split: if_splits option.splits sum.splits)
  from handle_changed [OF h atomic_fraud(1) assms(2)] g that show thesis by blast
qed

lemma resolveCase_changed:
  assumes "resolveCase r i body s = (x, t)" "committed t \<noteq> committed s"
  obtains q c where "permitted (fq_header r) ''fraud.case.resolve''" "body = Some q"
    "ResolveCase i (rr_Resolution q) (rr_Status q) (rr_AssignedTo q) s = (Inr c, t)"
proof -
  from assms have "committed (snd (resolveCase r i body s)) \<noteq> committed s" by simp
  with assms(1) obtain q an where g: "permitted (fq_header r) ''fraud.case.resolve''" "body = Some q"
    and h: "handle mapError (ResolveCase i (rr_Resolution q) (rr_Status q) (rr_AssignedTo q)) an s = (x, t)"
    unfolding resolveCase_def
    by (elim guarded_changedE) (auto simp: fraud_authorize_Inr decode_def guarded_ret split: if_splits option.splits sum.splits)
  from handle_changed [OF h atomic_fraud(3) assms(2)] g that show thesis by blast
qed

lemma recent_signals_ok: "weights_ok (fraud_signals d) \<Longrightarrow> weights_ok (recent_signals ty i 20 d) \<and> length (recent_signals ty i 20 d) \<le> 20"
  by (auto simp: recent_signals_def weights_ok_def dest!: in_set_takeD)

lemma threshold_decision:
  assumes "weights_ok gs" "length gs \<le> 20" "exact_sum gs \<noteq> 850"
  shows "caseThreshold \<le> fst (signal_sum gs) \<longleftrightarrow> 850 \<le> exact_sum gs"
proof -
  have "fl64 (of_int 850 / 1000) = fl64 (85 / 100)" by simp
  with limit_decision [OF assms(1-3)] show ?thesis by (auto simp: caseThreshold_def not_less [symmetric])
qed

lemma band_decision:
  assumes "weights_ok gs" "length gs \<le> 20" "exact_sum gs \<notin> {300, 600, 850}"
  shows "band (fst (signal_sum gs)) = exact_band (exact_sum gs)"
proof -
  have e: "fl64 (of_int 300 / 1000) = fl64 (3 / 10)" "fl64 (of_int 600 / 1000) = fl64 (6 / 10)" "fl64 (of_int 850 / 1000) = fl64 (85 / 100)"
    by simp_all
  from limit_decision [OF assms(1,2), of 300] limit_decision [OF assms(1,2), of 600] limit_decision [OF assms(1,2), of 850] assms(3)
  show ?thesis unfolding band_def exact_band_def e by simp
qed

section \<open>Example\<close>

definition demo_fraud_req :: fraud_req where
  "demo_fraud_req = \<lparr>fq_header = (\<lambda>k. if k = ''X-User-Id'' then ''op'' else if k = ''X-User-Permissions'' then ''fraud.signal.ingest, fraud.case.resolve'' else ''''),
     fq_query = (\<lambda>_. '''')\<rparr>"

definition demo_fraud0 :: fraud_db where
  "demo_fraud0 = \<lparr>outbox = [], outbox_seq = 1, processed_events = [], fraud_signals = [], signal_seq = 1, risk_scores = [], fraud_cases = [], frd_users = []\<rparr>"

definition demo_ingest :: "string \<Rightarrow> string \<Rightarrow> rat \<Rightarrow> fraud_db \<Rightarrow> fraud_db" where
  "demo_ingest tag g w d = committed (snd (ingestSignal demo_fraud_req
     (Some \<lparr>iq_SubjectType = ''screenshot'', iq_SubjectID = ''x'', iq_Signal = g, iq_Weight = w, iq_Details = None\<rparr>) (quiet tag d)))"

definition demo_fraud1 :: fraud_db where
  "demo_fraud1 = demo_ingest ''a'' ''vm_detected'' (1 / 2) demo_fraud0"

definition demo_fraud2 :: fraud_db where
  "demo_fraud2 = demo_ingest ''b'' ''duplicate'' (2 / 5) demo_fraud1"

lemma demo_fraud_inv: "fraud_inv demo_fraud0"
  by (simp add: fraud_inv_def demo_fraud0_def weights_ok_def observed_def)

lemma demo_fraud_steps: "op_step fraud_ops demo_fraud0 demo_fraud1" "op_step fraud_ops demo_fraud1 demo_fraud2"
  unfolding demo_fraud1_def demo_fraud2_def demo_ingest_def by (rule op_step_quiet, rule fraud_ops.intros)+

text \<open>
  On the limit itself rounding decides: 0.2, 0.3 and 0.35 add up to 0.85, but the \<open>float64\<close> sum, taken
  newest first, is below it; no case is opened, and the stored score 0.850 has the band high.
\<close>

definition demo_limit :: fraud_db where
  "demo_limit = demo_ingest ''c'' ''s3'' (35 / 100) (demo_ingest ''b'' ''s2'' (3 / 10) (demo_ingest ''a'' ''s1'' (2 / 10) demo_fraud0))"

lemma limit_missed:
  "exact_sum (fraud_signals demo_limit) = 850" "fraud_cases demo_limit = []"
  "map (\<lambda>r. (rk_Score r, rk_Band r)) (risk_scores demo_limit) = [(850, ''high'')]"
  by code_simp+

section \<open>Properties\<close>





end
