(* ===== verification/Messaging.thy ===== *)
theory Messaging
  imports Outbox Rbac
begin

text \<open>
  \<open>services/messaging\<close>: conversations, their participants, messages and attachments; store on the
  tables of migration 000009, service and HTTP handlers. \<open>time.Parse\<close> is the parameter \<open>parse_time\<close>.
\<close>

section \<open>Data\<close>

record Conversation =
  cv_ID :: string
  cv_ContractID :: "string option"
  cv_ProjectID :: "string option"
  cv_Subject :: "string option"
  cv_LastMessageAt :: "int option"
  cv_CreatedAt :: int

record participant_row =
  pt_conversation_id :: string
  pt_user_id :: string
  pt_role :: string
  pt_last_read_at :: "int option"

record Message =
  mg_ID :: string
  mg_ConversationID :: string
  mg_SenderID :: string
  mg_Body :: "string option"
  mg_Kind :: string
  mg_CreatedAt :: int
  mg_EditedAt :: "int option"
  mg_DeletedAt :: "int option"

record attachment_row =
  at_id :: string
  at_message_id :: string
  at_s3_key :: string
  at_filename :: string
  at_size_bytes :: int
  at_content_type :: string

record chat_db = outbox_db +
  conversations :: "Conversation list"
  conversation_participants :: "participant_row list"
  messages :: "Message list"
  message_attachments :: "attachment_row list"
  chat_other_keys :: "(string \<times> string) list"

lemma post_event_chat [simp]:
  "conversations (post_event e d) = conversations d" "conversation_participants (post_event e d) = conversation_participants d"
  "messages (post_event e d) = messages d" "message_attachments (post_event e d) = message_attachments d"
  "chat_other_keys (post_event e d) = chat_other_keys d"
  by (simp_all add: post_event_def)

section \<open>Store\<close>

definition InsertConversation :: "string option \<Rightarrow> string option \<Rightarrow> string option \<Rightarrow> (chat_db, Conversation) io" where
  "InsertConversation contractID projectID subject = tx_stmt (\<lambda>now uid d.
     if uid \<in> cv_ID ` set (conversations d) then Inl UniqueViolation
     else if \<not> opt_all (\<lambda>c. (''contracts'', c) \<in> set (chat_other_keys d)) contractID \<or>
        \<not> opt_all (\<lambda>p. (''projects'', p) \<in> set (chat_other_keys d)) projectID then Inl ForeignKeyViolation
     else let c = \<lparr>cv_ID = uid, cv_ContractID = contractID, cv_ProjectID = projectID, cv_Subject = subject,
            cv_LastMessageAt = None, cv_CreatedAt = now\<rparr>
       in Inr (c, d\<lparr>conversations := conversations d @ [c]\<rparr>))"

definition part_key :: "participant_row \<Rightarrow> string \<times> string" where
  "part_key p = (pt_conversation_id p, pt_user_id p)"

definition AddParticipant :: "string \<Rightarrow> string \<Rightarrow> string \<Rightarrow> (chat_db, unit) io" where
  "AddParticipant conversationID userID role = tx_stmt (\<lambda>now uid d.
     if (conversationID, userID) \<in> part_key ` set (conversation_participants d) then Inr ((), d)
     else if conversationID \<notin> cv_ID ` set (conversations d) \<or> (''users'', userID) \<notin> set (chat_other_keys d)
     then Inl ForeignKeyViolation
     else Inr ((), d\<lparr>conversation_participants := conversation_participants d @
       [\<lparr>pt_conversation_id = conversationID, pt_user_id = userID, pt_role = role, pt_last_read_at = None\<rparr>]\<rparr>))"

definition member :: "string \<Rightarrow> string \<Rightarrow> chat_db \<Rightarrow> bool" where
  "member c u d \<longleftrightarrow> (c, u) \<in> part_key ` set (conversation_participants d)"

text \<open>\<open>IsParticipant\<close> on a transaction and on the pool.\<close>

definition IsParticipant_tx :: "string \<Rightarrow> string \<Rightarrow> (chat_db, bool) io" where
  "IsParticipant_tx conversationID userID = tx_stmt (\<lambda>now uid d. Inr (member conversationID userID d, d))"

definition IsParticipant_pool :: "string \<Rightarrow> string \<Rightarrow> (chat_db, bool) io" where
  "IsParticipant_pool conversationID userID = pool_query (member conversationID userID)"

definition InsertMessage :: "string \<Rightarrow> string \<Rightarrow> string option \<Rightarrow> string \<Rightarrow> (chat_db, Message) io" where
  "InsertMessage conversationID senderID body kind = tx_stmt (\<lambda>now uid d.
     if (uid, now) \<in> (\<lambda>m. (mg_ID m, mg_CreatedAt m)) ` set (messages d) then Inl UniqueViolation
     else let m = \<lparr>mg_ID = uid, mg_ConversationID = conversationID, mg_SenderID = senderID, mg_Body = body, mg_Kind = kind,
            mg_CreatedAt = now, mg_EditedAt = None, mg_DeletedAt = None\<rparr>
       in Inr (m, d\<lparr>messages := messages d @ [m]\<rparr>))"

definition TouchConversation :: "string \<Rightarrow> (chat_db, unit) io" where
  "TouchConversation conversationID = tx_stmt (\<lambda>now uid d.
     Inr ((), d\<lparr>conversations := update_where (\<lambda>c. cv_ID c = conversationID) (\<lambda>c. c\<lparr>cv_LastMessageAt := Some now\<rparr>) (conversations d)\<rparr>))"

definition conversation_page :: "string \<Rightarrow> int \<Rightarrow> int option \<Rightarrow> chat_db \<Rightarrow> Message list" where
  "conversation_page c limit before d = take (nat limit) (sort_key (\<lambda>m. - mg_CreatedAt m)
     (filter (\<lambda>m. mg_ConversationID m = c \<and> mg_DeletedAt m = None \<and> (case before of None \<Rightarrow> True | Some b \<Rightarrow> mg_CreatedAt m < b)) (messages d)))"

definition store_ListMessages :: "string \<Rightarrow> int \<Rightarrow> int option \<Rightarrow> (chat_db, Message list) io" where
  "store_ListMessages conversationID limit before = pool_query (conversation_page conversationID limit before)"

text \<open>\<open>ORDER BY last_message_at DESC NULLS LAST, created_at DESC\<close>.\<close>

definition by_activity :: "Conversation list \<Rightarrow> Conversation list" where
  "by_activity cs = (let sorted = sort_key (\<lambda>c. - cv_CreatedAt c) cs in
     sort_key (\<lambda>c. - the (cv_LastMessageAt c)) (filter (\<lambda>c. cv_LastMessageAt c \<noteq> None) sorted)
     @ filter (\<lambda>c. cv_LastMessageAt c = None) sorted)"

definition store_ListConversations :: "string \<Rightarrow> (chat_db, Conversation list) io" where
  "store_ListConversations userID = pool_query (\<lambda>d. by_activity (filter (\<lambda>c. member (cv_ID c) userID d) (conversations d)))"

definition store_MarkRead :: "string \<Rightarrow> string \<Rightarrow> (chat_db, unit) io" where
  "store_MarkRead conversationID userID =
     bindE (tx_stmt (\<lambda>now uid d. Inr (length (filter (\<lambda>p. part_key p = (conversationID, userID)) (conversation_participants d)),
       d\<lparr>conversation_participants := update_where (\<lambda>p. part_key p = (conversationID, userID))
         (\<lambda>p. p\<lparr>pt_last_read_at := Some now\<rparr>) (conversation_participants d)\<rparr>))) (\<lambda>n.
     if n = 0 then throw ErrNotParticipant else ret ())"

definition store_AddAttachment :: "string \<Rightarrow> string \<Rightarrow> string \<Rightarrow> int \<Rightarrow> string \<Rightarrow> (chat_db, string) io" where
  "store_AddAttachment messageID s3Key filename sizeBytes contentType = tx_stmt (\<lambda>now uid d.
     if uid \<in> at_id ` set (message_attachments d) then Inl UniqueViolation
     else Inr (uid, d\<lparr>message_attachments := message_attachments d @
       [\<lparr>at_id = uid, at_message_id = messageID, at_s3_key = s3Key, at_filename = filename, at_size_bytes = sizeBytes,
         at_content_type = contentType\<rparr>]\<rparr>))"

section \<open>Service\<close>

fun add_members :: "string \<Rightarrow> string \<Rightarrow> string list \<Rightarrow> (chat_db, unit) io" where
  "add_members conv creator [] = ret ()"
| "add_members conv creator (uid # uids) =
     (if uid = '''' \<or> uid = creator then add_members conv creator uids
      else bindE (AddParticipant conv uid ''member'') (\<lambda>_. add_members conv creator uids))"

definition CreateConversation ::
  "string \<Rightarrow> string option \<Rightarrow> string option \<Rightarrow> string option \<Rightarrow> string list \<Rightarrow> (chat_db, Conversation) io" where
  "CreateConversation creatorUserID contractID projectID subject participantUserIDs =
     bindE begin_tx (\<lambda>_.
     bindE (InsertConversation contractID projectID subject) (\<lambda>conv.
     bindE (AddParticipant (cv_ID conv) creatorUserID ''owner'') (\<lambda>_.
     bindE (add_members (cv_ID conv) creatorUserID participantUserIDs) (\<lambda>_.
     bindE commit_tx (\<lambda>_. ret conv)))))"

definition sent_event :: "Message \<Rightarrow> string \<Rightarrow> string \<Rightarrow> string \<Rightarrow> Event" where
  "sent_event msg conversationID senderID kind =
     \<lparr>ev_AggregateType = ''conversation'', ev_AggregateID = conversationID, ev_EventType = ''message.sent'', ev_Topic = ''messaging.events'',
      ev_PartitionKey = conversationID, ev_Payload = JObj [(''message_id'', JStr (mg_ID msg)), (''conversation_id'', JStr conversationID),
        (''sender_id'', JStr senderID), (''kind'', JStr kind)], ev_Headers = []\<rparr>"

definition PostMessage :: "string \<Rightarrow> string \<Rightarrow> string option \<Rightarrow> string \<Rightarrow> (chat_db, Message) io" where
  "PostMessage conversationID senderID body kind0 =
     (let kind = (if kind0 = '''' then ''text'' else kind0) in
      bindE begin_tx (\<lambda>_.
      bindE (IsParticipant_tx conversationID senderID) (\<lambda>ok.
      if \<not> ok then throw ErrNotParticipant else
      bindE (InsertMessage conversationID senderID body kind) (\<lambda>msg.
      bindE (TouchConversation conversationID) (\<lambda>_.
      bindE (Enqueue (sent_event msg conversationID senderID kind)) (\<lambda>_.
      bindE commit_tx (\<lambda>_. ret msg)))))))"

definition ListMessages :: "string \<Rightarrow> string \<Rightarrow> int \<Rightarrow> int option \<Rightarrow> (chat_db, Message list) io" where
  "ListMessages conversationID requesterUserID limit0 before =
     (let limit = (if limit0 \<le> 0 \<or> limit0 > 200 then 50 else limit0) in
      bindE (IsParticipant_pool conversationID requesterUserID) (\<lambda>ok.
      if \<not> ok then throw ErrNotParticipant else store_ListMessages conversationID limit before))"

definition ListConversations :: "string \<Rightarrow> (chat_db, Conversation list) io" where
  "ListConversations userID = store_ListConversations userID"

definition IsParticipant :: "string \<Rightarrow> string \<Rightarrow> (chat_db, bool) io" where
  "IsParticipant conversationID userID = IsParticipant_pool conversationID userID"

definition MarkRead :: "string \<Rightarrow> string \<Rightarrow> (chat_db, unit) io" where
  "MarkRead conversationID userID = bindE begin_tx (\<lambda>_. bindE (store_MarkRead conversationID userID) (\<lambda>_. commit_tx))"

definition AddAttachment :: "string \<Rightarrow> string \<Rightarrow> string \<Rightarrow> int \<Rightarrow> string \<Rightarrow> (chat_db, string) io" where
  "AddAttachment messageID s3Key filename sizeBytes contentType =
     bindE begin_tx (\<lambda>_. bindE (store_AddAttachment messageID s3Key filename sizeBytes contentType) (\<lambda>i.
     bindE commit_tx (\<lambda>_. ret i)))"

section \<open>Handlers\<close>

definition mapError :: "err \<Rightarrow> response" where
  "mapError e = (if e = ErrNotParticipant then Problem 403 ''NOT_PARTICIPANT''
     else if e = ErrNotFound then Problem 404 ''NOT_FOUND'' else Problem 500 ''INTERNAL'')"

definition conversationDTO :: "Conversation \<Rightarrow> json" where
  "conversationDTO c = JObj [(''id'', JStr (cv_ID c)), (''contract_id'', opt_json JStr (cv_ContractID c)),
     (''project_id'', opt_json JStr (cv_ProjectID c)), (''subject'', opt_json JStr (cv_Subject c)),
     (''last_message_at'', opt_json JInt (cv_LastMessageAt c)), (''created_at'', JInt (cv_CreatedAt c))]"

definition messageDTO :: "Message \<Rightarrow> json" where
  "messageDTO m = JObj [(''id'', JStr (mg_ID m)), (''conversation_id'', JStr (mg_ConversationID m)), (''sender_id'', JStr (mg_SenderID m)),
     (''body'', opt_json JStr (mg_Body m)), (''kind'', JStr (mg_Kind m)), (''created_at'', JInt (mg_CreatedAt m)),
     (''edited_at'', opt_json JInt (mg_EditedAt m))]"

record createConvReq =
  cc_ContractID :: "string option"
  cc_ProjectID :: "string option"
  cc_Subject :: "string option"
  cc_Participants :: "string list"

definition createConversation :: "string \<Rightarrow> createConvReq option \<Rightarrow> (chat_db, response) io" where
  "createConversation creator body =
     guarded (ret (decode body)) (\<lambda>req.
     handle mapError (CreateConversation creator (cc_ContractID req) (cc_ProjectID req) (cc_Subject req) (cc_Participants req))
       (\<lambda>conv. Reply 201 (conversationDTO conv)))"

definition listConversations :: "string \<Rightarrow> (chat_db, response) io" where
  "listConversations userID = handle mapError (ListConversations userID)
     (\<lambda>cs. Reply 200 (JObj [(''conversations'', JArr (map conversationDTO cs))]))"

definition conversationMembership :: "string \<Rightarrow> string \<Rightarrow> (chat_db, response) io" where
  "conversationMembership userID i =
     (if userID = '''' then ret (Problem 400 ''VALIDATION_FAILED'')
      else handle mapError (IsParticipant i userID) (\<lambda>m. Reply 200 (JObj [(''member'', JBool m)])))"

definition listMessages :: "(string \<Rightarrow> int option) \<Rightarrow> string \<Rightarrow> string \<Rightarrow> string \<Rightarrow> string \<Rightarrow> (chat_db, response) io" where
  "listMessages parse_time requester i limit_q before_q =
     (let limit = Atoi_value limit_q; before = (if before_q = '''' then None else parse_time before_q) in
      handle mapError (ListMessages i requester limit before) (\<lambda>ms. Reply 200 (JObj [(''messages'', JArr (map messageDTO ms))])))"

record postMsgReq =
  pm_body :: "string option"
  pm_kind :: string

definition postMessage :: "string \<Rightarrow> string \<Rightarrow> postMsgReq option \<Rightarrow> (chat_db, response) io" where
  "postMessage sender i body =
     guarded (ret (decode body)) (\<lambda>req.
     handle mapError (PostMessage i sender (pm_body req) (pm_kind req)) (\<lambda>msg. Reply 201 (messageDTO msg)))"

definition markRead :: "string \<Rightarrow> string \<Rightarrow> (chat_db, response) io" where
  "markRead userID i = handle mapError (MarkRead i userID) (\<lambda>_. Reply 200 (JObj [(''status'', JStr ''ok'')]))"

record attachmentReq =
  ar_S3Key :: string
  ar_Filename :: string
  ar_SizeBytes :: int
  ar_ContentType :: string

definition addAttachment :: "string \<Rightarrow> attachmentReq option \<Rightarrow> (chat_db, response) io" where
  "addAttachment i body =
     guarded (ret (decode body)) (\<lambda>req.
     handle mapError (AddAttachment i (ar_S3Key req) (ar_Filename req) (ar_SizeBytes req) (ar_ContentType req))
       (\<lambda>aid. Reply 201 (JObj [(''id'', JStr aid)])))"

section \<open>Framing\<close>

lemma keeps_chat_store [io_keeps]:
  "keeps (InsertConversation co p sj)" "keeps (AddParticipant c u r)" "keeps (IsParticipant_tx c u)" "keeps (IsParticipant_pool c u)"
  "keeps (InsertMessage c u b k)" "keeps (TouchConversation c)" "keeps (store_ListMessages c n bf)" "keeps (store_ListConversations u)"
  "keeps (store_MarkRead c u)" "keeps (store_AddAttachment i k f n ct)"
  unfolding InsertConversation_def AddParticipant_def IsParticipant_tx_def IsParticipant_pool_def InsertMessage_def TouchConversation_def
    store_ListMessages_def store_ListConversations_def store_MarkRead_def store_AddAttachment_def
  by (intro io_keeps)+

lemma keeps_add_members [io_keeps]: "keeps (add_members c u us)"
  by (induction us) (auto intro!: io_keeps)

lemma atomic_chat:
  "atomic (CreateConversation u co p sj us)" "atomic (PostMessage c u b k)" "atomic (MarkRead c u)" "atomic (AddAttachment i k f n ct)"
  unfolding CreateConversation_def PostMessage_def MarkRead_def AddAttachment_def Let_def
  by (intro io_atomic io_keeps | simp add: keeps_atomic io_keeps Enqueue_def)+

end
