(* ===== verification/Messaging_Props.thy ===== *)
theory Messaging_Props
  imports Messaging Tx_Inv
begin

text \<open>
  Who writes and reads in a conversation: only its participants, in every reachable state; and the
  one operation that asks for no identity at all.
\<close>

section \<open>The invariant\<close>

definition msg_key :: "Message \<Rightarrow> string \<times> string" where
  "msg_key m = (mg_ConversationID m, mg_SenderID m)"

definition owners :: "chat_db \<Rightarrow> participant_row list" where
  "owners d = filter (\<lambda>p. pt_role p = ''owner'') (conversation_participants d)"

definition chat_inv :: "chat_db \<Rightarrow> bool" where
  "chat_inv d \<longleftrightarrow> distinct (map cv_ID (conversations d)) \<and> distinct (map part_key (conversation_participants d)) \<and>
     refers pt_conversation_id (conversation_participants d) cv_ID (conversations d) \<and>
     refers msg_key (messages d) part_key (conversation_participants d) \<and>
     refers cv_ID (conversations d) pt_conversation_id (owners d)"

section \<open>Effects\<close>

definition new_participant :: "string \<Rightarrow> string \<Rightarrow> string \<Rightarrow> participant_row" where
  "new_participant c u r = \<lparr>pt_conversation_id = c, pt_user_id = u, pt_role = r, pt_last_read_at = None\<rparr>"

lemma AddParticipant_ok:
  assumes "AddParticipant c u r s = (Inr x, t)"
  shows "committed t = committed s \<and> clock t = clock s \<and>
    (if member c u (work s) then work t = work s
     else c \<in> cv_ID ` set (conversations (work s)) \<and>
       work t = (work s)\<lparr>conversation_participants := conversation_participants (work s) @ [new_participant c u r]\<rparr>)"
  using assms by (auto simp: AddParticipant_def tx_stmt_ok member_def new_participant_def split: if_splits)

text \<open>The other members: only new members of this conversation are added.\<close>

definition members_added :: "string \<Rightarrow> string list \<Rightarrow> participant_row list \<Rightarrow> participant_row list \<Rightarrow> bool" where
  "members_added c us ps new \<longleftrightarrow> (\<forall>p \<in> set new. pt_conversation_id p = c \<and> pt_role p = ''member'' \<and> pt_user_id p \<in> set us) \<and>
     (distinct (map part_key ps) \<longrightarrow> distinct (map part_key (ps @ new)))"

lemma members_added_Cons:
  assumes "members_added c us (ps @ [new_participant c v ''member'']) new" "(c, v) \<notin> part_key ` set ps"
  shows "members_added c (v # us) ps (new_participant c v ''member'' # new)"
proof -
  have "distinct (map part_key (ps @ [new_participant c v ''member'']))" if "distinct (map part_key ps)"
    using that assms(2) by (simp add: part_key_def [of "new_participant c v ''member''"]) (simp add: new_participant_def)
  with assms(1) show ?thesis by (simp add: members_added_def) (simp add: new_participant_def)
qed

lemma add_members_ok:
  "add_members c u us s = (Inr x, t) \<Longrightarrow> committed t = committed s \<and> clock t = clock s \<and>
     (\<exists>new. work t = (work s)\<lparr>conversation_participants := conversation_participants (work s) @ new\<rparr> \<and>
        members_added c us (conversation_participants (work s)) new)"
proof (induction us arbitrary: s)
  case Nil
  then show ?case by (intro conjI exI [of _ "[]"]) (simp_all add: ret_ok members_added_def)
next
  case (Cons v us)
  have mono: "members_added c us ps new \<Longrightarrow> members_added c (v # us) ps new" for ps new by (simp add: members_added_def)
  show ?case
  proof (cases "v = '''' \<or> v = u")
    case True
    with Cons.prems have "add_members c u us s = (Inr x, t)" by auto
    from Cons.IH [OF this] mono show ?thesis by blast
  next
    case False
    with Cons.prems obtain y s1 where a: "AddParticipant c v ''member'' s = (Inr y, s1)" and r: "add_members c u us s1 = (Inr x, t)"
      by (auto simp: bindE_ok)
    note a1 = AddParticipant_ok [OF a]
    show ?thesis
    proof (cases "member c v (work s)")
      case True
      with a1 have "work s1 = work s" "committed s1 = committed s" "clock s1 = clock s" by simp_all
      with Cons.IH [OF r] mono show ?thesis by simp blast
    next
      case False
      with a1 have w: "work s1 = (work s)\<lparr>conversation_participants := conversation_participants (work s) @ [new_participant c v ''member'']\<rparr>"
        "committed s1 = committed s" "clock s1 = clock s" by simp_all
      from Cons.IH [OF r] obtain new where ps: "work t = (work s1)\<lparr>conversation_participants := conversation_participants (work s1) @ new\<rparr>"
        "members_added c us (conversation_participants (work s1)) new" "committed t = committed s1" "clock t = clock s1" by blast
      have "members_added c (v # us) (conversation_participants (work s)) (new_participant c v ''member'' # new)"
        using ps(2) False by (intro members_added_Cons) (simp_all add: w member_def)
      with ps w show ?thesis by (intro conjI exI [of _ "new_participant c v ''member'' # new"]) simp_all
    qed
  qed
qed

lemma CreateConversation_ok:
  assumes "CreateConversation u co pr sj us s = (Inr c, t)" "chat_inv (committed s)"
  shows "cv_ID c \<notin> cv_ID ` set (conversations (committed s)) \<and> (\<exists>new.
    committed t = (committed s)\<lparr>conversations := conversations (committed s) @ [c],
      conversation_participants := conversation_participants (committed s) @ new_participant (cv_ID c) u ''owner'' # new\<rparr> \<and>
    members_added (cv_ID c) us (conversation_participants (committed s) @ [new_participant (cv_ID c) u ''owner'']) new \<and>
    distinct (map part_key (conversation_participants (committed s) @ [new_participant (cv_ID c) u ''owner''])))"
proof -
  let ?s1 = "(tick s)\<lparr>work := committed s, aborted := False\<rparr>" and ?o = "new_participant (cv_ID c) u ''owner''"
  from assms(1) obtain s2 s3 s4 x y where ins: "InsertConversation co pr sj ?s1 = (Inr c, s2)"
    and own: "AddParticipant (cv_ID c) u ''owner'' s2 = (Inr x, s3)" and mem: "add_members (cv_ID c) u us s3 = (Inr y, s4)"
    and t: "committed t = work s4"
    by (auto simp: CreateConversation_def bindE_ok begin_tx_ok commit_tx_ok ret_ok)
  from ins have w2: "work s2 = (committed s)\<lparr>conversations := conversations (committed s) @ [c]\<rparr>"
    and new: "cv_ID c \<notin> cv_ID ` set (conversations (committed s))"
    by (auto simp: InsertConversation_def tx_stmt_ok Let_def split: if_splits)
  from assms(2) have "pt_conversation_id ` set (conversation_participants (committed s)) \<subseteq> cv_ID ` set (conversations (committed s))"
    by (simp add: chat_inv_def refers_def)
  with new have nm: "(cv_ID c, u) \<notin> part_key ` set (conversation_participants (committed s))"
    by (auto simp: part_key_def)
  then have "\<not> member (cv_ID c) u (work s2)" by (simp add: member_def w2)
  with AddParticipant_ok [OF own] w2 have w3: "work s3 = (committed s)\<lparr>conversations := conversations (committed s) @ [c],
      conversation_participants := conversation_participants (committed s) @ [?o]\<rparr>" by simp
  have d3: "distinct (map part_key (conversation_participants (committed s) @ [?o]))"
    using assms(2) nm by (simp add: chat_inv_def part_key_def [of ?o]) (simp add: new_participant_def)
  from add_members_ok [OF mem] t w3 new d3 show ?thesis by auto
qed

lemma CreateConversation_inv:
  assumes "chat_inv (committed s)" "CreateConversation u co pr sj us s = (Inr c, t)"
  shows "chat_inv (committed t)"
proof -
  let ?o = "new_participant (cv_ID c) u ''owner''" and ?ps = "conversation_participants (committed s)"
  from CreateConversation_ok [OF assms(2,1)] obtain new where c: "cv_ID c \<notin> cv_ID ` set (conversations (committed s))"
    and t: "committed t = (committed s)\<lparr>conversations := conversations (committed s) @ [c], conversation_participants := ?ps @ ?o # new\<rparr>"
    and m: "members_added (cv_ID c) us (?ps @ [?o]) new" and d: "distinct (map part_key (?ps @ [?o]))" by blast
  have o: "pt_conversation_id ?o = cv_ID c" "pt_role ?o = ''owner''" by (simp_all add: new_participant_def)
  from m d have dist: "distinct (map part_key (?ps @ ?o # new))" by (simp add: members_added_def)
  have conv: "pt_conversation_id ` set new \<subseteq> {cv_ID c}" "filter (\<lambda>p. pt_role p = ''owner'') new = []"
    using m by (auto simp: members_added_def filter_empty_conv)
  from assms(1) have i: "distinct (map cv_ID (conversations (committed s)))"
    "pt_conversation_id ` set ?ps \<subseteq> cv_ID ` set (conversations (committed s))" "msg_key ` set (messages (committed s)) \<subseteq> part_key ` set ?ps"
    "cv_ID ` set (conversations (committed s)) \<subseteq> pt_conversation_id ` set (owners (committed s))"
    by (simp_all add: chat_inv_def refers_def)
  have "owners (committed t) = owners (committed s) @ [?o]" by (simp add: owners_def t o conv)
  with i(4) o have own: "cv_ID ` set (conversations (committed s) @ [c]) \<subseteq> pt_conversation_id ` set (owners (committed t))"
    by (simp add: subset_insertI2)
  have "pt_conversation_id ` set (?ps @ ?o # new) = pt_conversation_id ` set ?ps \<union> insert (cv_ID c) (pt_conversation_id ` set new)"
    by (simp add: o image_Un)
  also have "\<dots> \<subseteq> cv_ID ` set (conversations (committed s)) \<union> {cv_ID c}"
    by (intro Un_mono i(2)) (use conv in simp)
  finally have par: "pt_conversation_id ` set (?ps @ ?o # new) \<subseteq> cv_ID ` set (conversations (committed s) @ [c])" by simp
  have msg: "msg_key ` set (messages (committed s)) \<subseteq> part_key ` set (?ps @ ?o # new)"
    by (rule subset_trans [OF i(3)]) (rule image_mono, auto)
  from i(1) c dist own par msg show ?thesis by (simp add: chat_inv_def refers_def t)
qed

lemma PostMessage_ok:
  assumes "PostMessage c u b k s = (Inr m, t)"
  shows "member c u (committed s) \<and> mg_ConversationID m = c \<and> mg_SenderID m = u \<and> mg_Body m = b \<and> mg_DeletedAt m = None \<and>
    messages (committed t) = messages (committed s) @ [m] \<and> conversation_participants (committed t) = conversation_participants (committed s) \<and>
    conversations (committed t) = update_where (\<lambda>x. cv_ID x = c) (\<lambda>x. x\<lparr>cv_LastMessageAt := Some (clock s)\<rparr>) (conversations (committed s)) \<and>
    message_attachments (committed t) = message_attachments (committed s)"
  using assms
  by (auto simp: PostMessage_def Let_def bindE_ok begin_tx_ok IsParticipant_tx_def tx_stmt_ok InsertMessage_def TouchConversation_def
      Enqueue_ok commit_tx_ok ret_ok throw_ok split: if_splits)

lemma chat_MarkRead_ok:
  assumes "MarkRead c u s = (Inr x, t)"
  shows "member c u (committed s) \<and> committed t = (committed s)\<lparr>conversation_participants := update_where (\<lambda>p. part_key p = (c, u))
    (\<lambda>p. p\<lparr>pt_last_read_at := Some (clock s)\<rparr>) (conversation_participants (committed s))\<rparr>"
proof -
  have e: "filter (\<lambda>p. part_key p = (c, u)) ps = [] \<longleftrightarrow> (c, u) \<notin> part_key ` set ps" for ps
    by (induction ps) auto
  from assms have "filter (\<lambda>p. part_key p = (c, u)) (conversation_participants (committed s)) \<noteq> []"
    "committed t = (committed s)\<lparr>conversation_participants := update_where (\<lambda>p. part_key p = (c, u))
      (\<lambda>p. p\<lparr>pt_last_read_at := Some (clock s)\<rparr>) (conversation_participants (committed s))\<rparr>"
    by (auto simp: MarkRead_def bindE_ok begin_tx_ok store_MarkRead_def tx_stmt_ok commit_tx_ok ret_ok throw_ok split: if_splits)
  then show ?thesis by (simp add: e member_def)
qed

lemma chat_AddAttachment_ok:
  assumes "AddAttachment i k f n ct s = (Inr a, t)"
  shows "committed t = (committed s)\<lparr>message_attachments := message_attachments (committed s) @
    [\<lparr>at_id = a, at_message_id = i, at_s3_key = k, at_filename = f, at_size_bytes = n, at_content_type = ct\<rparr>]\<rparr>"
  using assms by (auto simp: AddAttachment_def bindE_ok begin_tx_ok store_AddAttachment_def tx_stmt_ok commit_tx_ok ret_ok split: if_splits)

lemma PostMessage_inv:
  assumes "chat_inv (committed s)" "PostMessage c u b k s = (Inr m, t)"
  shows "chat_inv (committed t)"
  using assms(1) PostMessage_ok [OF assms(2)]
  by (simp add: chat_inv_def owners_def map_update_where_same refers_update member_def msg_key_def [of m])

lemma chat_MarkRead_inv:
  assumes "chat_inv (committed s)" "MarkRead c u s = (Inr x, t)"
  shows "chat_inv (committed t)"
proof -
  let ?f = "\<lambda>p. p\<lparr>pt_last_read_at := Some (clock s)\<rparr>" and ?P = "\<lambda>p. part_key p = (c, u)"
  have "map pt_conversation_id (filter (\<lambda>p. pt_role p = ''owner'') (update_where ?P ?f ps)) = map pt_conversation_id (filter (\<lambda>p. pt_role p = ''owner'') ps)" for ps
    by (induction ps) auto
  then have "map pt_conversation_id (owners (committed t)) = map pt_conversation_id (owners (committed s))"
    using chat_MarkRead_ok [OF assms(2)] by (simp add: owners_def)
  then have "pt_conversation_id ` set (owners (committed t)) = pt_conversation_id ` set (owners (committed s))"
    by (metis list.set_map)
  moreover have "part_key (?f p) = part_key p" for p by (simp add: part_key_def)
  ultimately show ?thesis using assms(1) chat_MarkRead_ok [OF assms(2)]
    by (simp add: chat_inv_def map_update_where_same refers_update) (simp add: refers_def)
qed

section \<open>The service as a transition system\<close>

inductive_set chat_ops :: "(chat_db, response) io set" where
  op_createConversation: "createConversation u q \<in> chat_ops"
| op_listConversations: "listConversations u \<in> chat_ops"
| op_membership: "conversationMembership u i \<in> chat_ops"
| op_listMessages: "listMessages pt u i l b \<in> chat_ops"
| op_postMessage: "postMessage u i mq \<in> chat_ops"
| op_markRead: "markRead u i \<in> chat_ops"
| op_addAttachment: "addAttachment i aq \<in> chat_ops"

lemma chat_ops_inv: "m \<in> chat_ops \<Longrightarrow> op_inv chat_inv m"
proof (induction rule: chat_ops.induct)
  case (op_createConversation u q)
  have "op_inv chat_inv (CreateConversation u co pr sj us)" for co pr sj us
    by (rule op_inv_atomic [OF atomic_chat(1)]) (rule CreateConversation_inv)
  then show ?case unfolding createConversation_def by (intro op_invs)
next
  case (op_postMessage u i mq)
  have "op_inv chat_inv (PostMessage i u b k)" for b k by (rule op_inv_atomic [OF atomic_chat(2)]) (rule PostMessage_inv)
  then show ?case unfolding postMessage_def by (intro op_invs)
next
  case (op_markRead u i)
  have "op_inv chat_inv (MarkRead i u)" by (rule op_inv_atomic [OF atomic_chat(3)]) (rule chat_MarkRead_inv)
  then show ?case unfolding markRead_def by (intro op_invs)
next
  case (op_addAttachment i aq)
  have "op_inv chat_inv (AddAttachment i k f n ct)" for k f n ct
    by (rule op_inv_atomic [OF atomic_chat(4)]) (auto simp: chat_inv_def owners_def dest!: chat_AddAttachment_ok)
  then show ?case unfolding addAttachment_def by (intro op_invs)
qed (simp_all add: listConversations_def ListConversations_def conversationMembership_def IsParticipant_def listMessages_def ListMessages_def
    Let_def op_inv_keeps io_keeps)

interpretation chat_service: service_system chat_ops chat_inv
  by unfold_locales (rule chat_ops_inv)

section \<open>Example\<close>

definition demo_chat0 :: chat_db where
  "demo_chat0 = \<lparr>outbox = [], outbox_seq = 1, processed_events = [], conversations = [], conversation_participants = [], messages = [],
     message_attachments = [], chat_other_keys = [(''users'', ''a''), (''users'', ''b''), (''users'', ''x'')]\<rparr>"

definition demo_chat1 :: chat_db where
  "demo_chat1 = committed (snd (createConversation ''a'' (Some \<lparr>cc_ContractID = None, cc_ProjectID = None, cc_Subject = None,
     cc_Participants = [''b'', ''b'', ''a'']\<rparr>) (quiet ''k'' demo_chat0)))"

definition demo_conv :: string where
  "demo_conv = cv_ID (hd (conversations demo_chat1))"

definition demo_chat2 :: chat_db where
  "demo_chat2 = committed (snd (postMessage ''b'' demo_conv (Some \<lparr>pm_body = Some ''hi'', pm_kind = ''''\<rparr>) (quiet ''m'' demo_chat1)))"

lemma demo_chat_inv: "chat_inv demo_chat0"
  by (simp add: chat_inv_def demo_chat0_def refers_def)

lemma demo_chat_steps: "op_step chat_ops demo_chat0 demo_chat1" "op_step chat_ops demo_chat1 demo_chat2"
  unfolding demo_chat1_def demo_chat2_def by (rule op_step_quiet, rule chat_ops.intros)+

text \<open>
  The handler for attachments takes no identity: whoever reaches it attaches a file to any message,
  even to an identifier no message has.
\<close>

lemma attachment_to_anything:
  "map at_message_id (message_attachments (committed (snd (addAttachment ''nothing''
     (Some \<lparr>ar_S3Key = ''k'', ar_Filename = ''f'', ar_SizeBytes = 1, ar_ContentType = ''t''\<rparr>) (quiet ''z'' demo_chat0))))) = [''nothing'']"
  by code_simp

section \<open>Properties\<close>

text \<open>
  Over any sequence of messaging requests: a user is at most once a participant of a conversation,
  every participant row belongs to a conversation, every conversation has an owner, and the sender of
  every stored message is a participant of its conversation.
\<close>

theorem messaging_invariant:
  assumes "(op_step chat_ops)\<^sup>*\<^sup>* d d'" "chat_inv d"
  shows "chat_inv d'"
  by (rule chat_service.reachable_inv [OF assms])

theorem messaging_invariant_witness:
  "chat_inv demo_chat2 \<and> map (\<lambda>p. (pt_user_id p, pt_role p)) (conversation_participants demo_chat2) = [(''a'', ''owner''), (''b'', ''member'')] \<and>
   map mg_SenderID (messages demo_chat2) = [''b'']"
proof (intro conjI)
  show "chat_inv demo_chat2" by (rule messaging_invariant [OF op_step_two [OF demo_chat_steps] demo_chat_inv])
qed code_simp+

text \<open>
  C36: A message is stored only when its sender is a participant of the conversation, at the end and
  undeleted; a list of messages is answered only to a participant and consists of at most 200
  undeleted messages of that conversation; only a participant moves a read mark.
\<close>

theorem messaging_participants_only:
  "(committed (snd (postMessage u c (Some q) s)) \<noteq> committed s \<longrightarrow> member c u (committed s) \<and>
     (\<exists>m. messages (committed (snd (postMessage u c (Some q) s))) = messages (committed s) @ [m] \<and> mg_SenderID m = u \<and>
       mg_ConversationID m = c \<and> mg_Body m = pm_body q \<and> mg_DeletedAt m = None)) \<and>
   (fst (listMessages pt u c l b s) = Inr (Reply 200 j) \<longrightarrow> member c u (committed s) \<and>
     (\<exists>ms. j = JObj [(''messages'', JArr (map messageDTO ms))] \<and> length ms \<le> 200 \<and>
       (\<forall>m \<in> set ms. m \<in> set (messages (committed s)) \<and> mg_ConversationID m = c \<and> mg_DeletedAt m = None))) \<and>
   (committed (snd (markRead u c s)) \<noteq> committed s \<longrightarrow> member c u (committed s))"
proof (intro conjI impI)
  assume a: "committed (snd (postMessage u c (Some q) s)) \<noteq> committed s"
  then have "committed (snd (handle mapError (PostMessage c u (pm_body q) (pm_kind q)) (\<lambda>msg. Reply 201 (messageDTO msg)) s)) \<noteq> committed s"
    by (simp add: postMessage_def decode_def guarded_ret)
  then obtain m where "PostMessage c u (pm_body q) (pm_kind q) s = (Inr m, snd (postMessage u c (Some q) s))"
    by (rule handle_changed_snd [OF _ atomic_chat(2)]) (simp add: postMessage_def decode_def guarded_ret)
  note ok = PostMessage_ok [OF this]
  from ok show "member c u (committed s)" by blast
  from ok show "\<exists>m. messages (committed (snd (postMessage u c (Some q) s))) = messages (committed s) @ [m] \<and> mg_SenderID m = u \<and>
       mg_ConversationID m = c \<and> mg_Body m = pm_body q \<and> mg_DeletedAt m = None" by blast
next
  assume a: "fst (listMessages pt u c l b s) = Inr (Reply 200 j)"
  have e: "mapError e \<noteq> Reply 200 j" for e by (simp add: mapError_def)
  from a e obtain ms t where m: "ListMessages c u (Atoi_value l) (if b = '''' then None else pt b) s = (Inr ms, t)"
    and j: "j = JObj [(''messages'', JArr (map messageDTO ms))]"
    by (auto simp: listMessages_def Let_def handle_run split: prod.splits sum.splits)
  from m obtain n bf where mem: "member c u (committed s)" and page: "ms = conversation_page c n bf (committed s)" "n \<le> 200"
    by (auto simp: ListMessages_def Let_def bindE_ok IsParticipant_pool_def store_ListMessages_def pool_query_ok throw_ok split: if_splits)
  show "member c u (committed s)" by (rule mem)
  show "\<exists>ms. j = JObj [(''messages'', JArr (map messageDTO ms))] \<and> length ms \<le> 200 \<and>
       (\<forall>m \<in> set ms. m \<in> set (messages (committed s)) \<and> mg_ConversationID m = c \<and> mg_DeletedAt m = None)"
    using j page by (intro exI [of _ ms]) (auto simp: conversation_page_def dest!: in_set_takeD)
next
  assume "committed (snd (markRead u c s)) \<noteq> committed s"
  then obtain x where "MarkRead c u s = (Inr x, snd (markRead u c s))"
    unfolding markRead_def by (rule handle_changed_snd [OF _ atomic_chat(3)])
  from chat_MarkRead_ok [OF this] show "member c u (committed s)" by blast
qed

theorem messaging_participants_only_witness:
  "member demo_conv ''b'' demo_chat1 \<and> \<not> member demo_conv ''x'' demo_chat1 \<and>
   fst (postMessage ''x'' demo_conv (Some \<lparr>pm_body = None, pm_kind = ''''\<rparr>) (quiet ''n'' demo_chat1)) = Inr (Problem 403 ''NOT_PARTICIPANT'')"
proof (intro conjI)
  have "committed (snd (postMessage ''b'' demo_conv (Some \<lparr>pm_body = Some ''hi'', pm_kind = ''''\<rparr>) (quiet ''m'' demo_chat1))) \<noteq> committed (quiet ''m'' demo_chat1)"
    by code_simp
  from messaging_participants_only [THEN conjunct1, THEN mp, OF this] show "member demo_conv ''b'' demo_chat1" by simp
qed code_simp+

end
