(* ===== verification/Notification.thy ===== *)
theory Notification
  imports Outbox Rbac Float64
begin

text \<open>
  \<open>services/notification\<close>: the fan-out of domain events to users and channels, read marks and
  preferences; store on the tables of migration 000009, service with the event routing of
  \<open>events.go\<close>, HTTP handlers and the handler of the Kafka consumer. The channel sender behind the
  \<open>Sender\<close> interface is the parameter \<open>send\<close>: whether it succeeds. A payload is the JSON document its
  bytes denote, \<open>None\<close> if they are none.
\<close>

section \<open>Data\<close>

record Notification =
  nt_ID :: string
  nt_UserID :: string
  nt_Type :: string
  nt_Title :: string
  nt_Body :: "string option"
  nt_Data :: json
  nt_ReadAt :: "int option"
  nt_CreatedAt :: int

record delivery_row =
  da_id :: string
  da_notification_id :: string
  da_channel :: string
  da_status :: string
  da_provider_ref :: "string option"
  da_error :: "string option"

record Preference =
  np_user_id :: string
  np_EventType :: string
  np_Channel :: string
  np_Enabled :: bool

record notify_db = outbox_db +
  notifications :: "Notification list"
  delivery_attempts :: "delivery_row list"
  notification_preferences :: "Preference list"
  ntf_users :: "string list"

definition channel_enum :: "string set" where
  "channel_enum = {''in_app'', ''email'', ''push'', ''sms''}"

section \<open>Store\<close>

definition InsertNotification ::
  "string \<Rightarrow> string \<Rightarrow> string \<Rightarrow> string option \<Rightarrow> json \<Rightarrow> (notify_db, string) io" where
  "InsertNotification userID typ title body data = tx_stmt (\<lambda>now uid d.
     if uid \<in> nt_ID ` set (notifications d) then Inl UniqueViolation
     else if userID \<notin> set (ntf_users d) then Inl ForeignKeyViolation
     else Inr (uid, d\<lparr>notifications := notifications d @
       [\<lparr>nt_ID = uid, nt_UserID = userID, nt_Type = typ, nt_Title = title, nt_Body = body, nt_Data = data, nt_ReadAt = None,
         nt_CreatedAt = now\<rparr>]\<rparr>))"

definition enabled_channels :: "string \<Rightarrow> string \<Rightarrow> notify_db \<Rightarrow> string list" where
  "enabled_channels u ty d = map np_Channel (filter (\<lambda>p. np_user_id p = u \<and> np_EventType p = ty \<and> np_Enabled p) (notification_preferences d))"

definition EnabledChannels :: "string \<Rightarrow> string \<Rightarrow> (notify_db, string list) io" where
  "EnabledChannels userID eventType = tx_stmt (\<lambda>now uid d. Inr (enabled_channels userID eventType d, d))"

definition InsertDeliveryAttempt :: "string \<Rightarrow> string \<Rightarrow> string \<Rightarrow> (notify_db, string) io" where
  "InsertDeliveryAttempt notificationID channel status = tx_stmt (\<lambda>now uid d.
     if channel \<notin> channel_enum then Inl InvalidEnum
     else if uid \<in> da_id ` set (delivery_attempts d) then Inl UniqueViolation
     else if notificationID \<notin> nt_ID ` set (notifications d) then Inl ForeignKeyViolation
     else Inr (uid, d\<lparr>delivery_attempts := delivery_attempts d @
       [\<lparr>da_id = uid, da_notification_id = notificationID, da_channel = channel, da_status = status, da_provider_ref = None,
         da_error = None\<rparr>]\<rparr>))"

definition MarkDeliveryStatus :: "string \<Rightarrow> string \<Rightarrow> string option \<Rightarrow> string option \<Rightarrow> (notify_db, unit) io" where
  "MarkDeliveryStatus attemptID status providerRef errMsg = tx_stmt (\<lambda>now uid d.
     Inr ((), d\<lparr>delivery_attempts := update_where (\<lambda>a. da_id a = attemptID)
       (\<lambda>a. a\<lparr>da_status := status, da_provider_ref := providerRef, da_error := errMsg\<rparr>) (delivery_attempts d)\<rparr>))"

definition store_ListNotifications :: "string \<Rightarrow> bool \<Rightarrow> int \<Rightarrow> (notify_db, Notification list) io" where
  "store_ListNotifications userID unreadOnly limit = pool_query (\<lambda>d. take (nat limit) (sort_key (\<lambda>n. - nt_CreatedAt n)
     (filter (\<lambda>n. nt_UserID n = userID \<and> (\<not> unreadOnly \<or> nt_ReadAt n = None)) (notifications d))))"

definition unread_of :: "string \<Rightarrow> Notification \<Rightarrow> bool" where
  "unread_of u n \<longleftrightarrow> nt_UserID n = u \<and> nt_ReadAt n = None"

definition stamp_read :: "int \<Rightarrow> Notification \<Rightarrow> Notification" where
  "stamp_read now n = n\<lparr>nt_ReadAt := Some now\<rparr>"

definition store_MarkRead :: "string \<Rightarrow> string \<Rightarrow> (notify_db, unit) io" where
  "store_MarkRead notificationID userID =
     bindE (tx_stmt (\<lambda>now uid d. Inr (length (filter (\<lambda>n. nt_ID n = notificationID \<and> unread_of userID n) (notifications d)),
       d\<lparr>notifications := update_where (\<lambda>n. nt_ID n = notificationID \<and> unread_of userID n) (stamp_read now) (notifications d)\<rparr>))) (\<lambda>k.
     if k = 0 then throw ErrNotFound else ret ())"

definition store_MarkAllRead :: "string \<Rightarrow> (notify_db, int) io" where
  "store_MarkAllRead userID = tx_stmt (\<lambda>now uid d. Inr (int (length (filter (unread_of userID) (notifications d))),
     d\<lparr>notifications := update_where (unread_of userID) (stamp_read now) (notifications d)\<rparr>))"

text \<open>\<open>ORDER BY event_type, channel\<close>; an enum column is ordered by the position of its values.\<close>

definition channel_rank :: "string \<Rightarrow> nat" where
  "channel_rank c = (if c = ''in_app'' then 0 else if c = ''email'' then 1 else if c = ''push'' then 2 else 3)"

definition store_GetPreferences :: "(string \<Rightarrow> int) \<Rightarrow> string \<Rightarrow> (notify_db, Preference list) io" where
  "store_GetPreferences collate userID = pool_query (\<lambda>d. sort_key (\<lambda>p. collate (np_EventType p)) (sort_key (\<lambda>p. channel_rank (np_Channel p))
     (filter (\<lambda>p. np_user_id p = userID) (notification_preferences d))))"

definition pref_key :: "Preference \<Rightarrow> string \<times> string \<times> string" where
  "pref_key p = (np_user_id p, np_EventType p, np_Channel p)"

definition UpsertPreference :: "string \<Rightarrow> string \<Rightarrow> string \<Rightarrow> bool \<Rightarrow> (notify_db, unit) io" where
  "UpsertPreference userID eventType channel enabled = tx_stmt (\<lambda>now uid d.
     if channel \<notin> channel_enum then Inl InvalidEnum
     else if (userID, eventType, channel) \<in> pref_key ` set (notification_preferences d)
     then Inr ((), d\<lparr>notification_preferences := update_where (\<lambda>p. pref_key p = (userID, eventType, channel))
       (\<lambda>p. p\<lparr>np_Enabled := enabled\<rparr>) (notification_preferences d)\<rparr>)
     else if userID \<notin> set (ntf_users d) then Inl ForeignKeyViolation
     else Inr ((), d\<lparr>notification_preferences := notification_preferences d @
       [\<lparr>np_user_id = userID, np_EventType = eventType, np_Channel = channel, np_Enabled = enabled\<rparr>]\<rparr>))"

section \<open>Service\<close>

definition defaultChannel :: string where
  "defaultChannel = ''in_app''"

record NotificationView =
  nv_ID :: string
  nv_UserID :: string
  nv_Type :: string
  nv_Title :: string
  nv_Body :: "string option"
  nv_Data :: json

type_synonym sender = "string \<Rightarrow> NotificationView \<Rightarrow> bool"

definition stubSender :: sender where
  "stubSender channel n = True"

fun deliver :: "sender \<Rightarrow> NotificationView \<Rightarrow> string list \<Rightarrow> (notify_db, unit) io" where
  "deliver send n [] = ret ()"
| "deliver send n (ch # chs) =
     bindE (InsertDeliveryAttempt (nv_ID n) ch ''queued'') (\<lambda>attemptID.
     if \<not> send ch n then deliver send n chs
     else bindE (MarkDeliveryStatus attemptID ''sent'' None None) (\<lambda>_. deliver send n chs))"

definition HandleEvent :: "sender \<Rightarrow> string \<Rightarrow> string \<Rightarrow> string \<Rightarrow> string option \<Rightarrow> json \<Rightarrow> (notify_db, string) io" where
  "HandleEvent send userID eventType title body data =
     bindE begin_tx (\<lambda>_.
     bindE (InsertNotification userID eventType title body data) (\<lambda>notifID.
     bindE (EnabledChannels userID eventType) (\<lambda>channels0.
     let channels = (if channels0 = [] then [defaultChannel] else channels0);
         n = \<lparr>nv_ID = notifID, nv_UserID = userID, nv_Type = eventType, nv_Title = title, nv_Body = body, nv_Data = data\<rparr> in
     bindE (deliver send n channels) (\<lambda>_.
     bindE commit_tx (\<lambda>_. ret notifID)))))"

definition ListNotifications :: "string \<Rightarrow> bool \<Rightarrow> int \<Rightarrow> (notify_db, Notification list) io" where
  "ListNotifications userID unreadOnly limit0 =
     (let limit = (if limit0 \<le> 0 \<or> limit0 > 200 then 50 else limit0) in store_ListNotifications userID unreadOnly limit)"

definition MarkRead :: "string \<Rightarrow> string \<Rightarrow> (notify_db, unit) io" where
  "MarkRead notificationID userID = bindE begin_tx (\<lambda>_. bindE (store_MarkRead notificationID userID) (\<lambda>_. commit_tx))"

definition MarkAllRead :: "string \<Rightarrow> (notify_db, int) io" where
  "MarkAllRead userID = bindE begin_tx (\<lambda>_. bindE (store_MarkAllRead userID) (\<lambda>n. bindE commit_tx (\<lambda>_. ret n)))"

definition GetPreferences :: "(string \<Rightarrow> int) \<Rightarrow> string \<Rightarrow> (notify_db, Preference list) io" where
  "GetPreferences collate userID = store_GetPreferences collate userID"

definition SetPreference :: "string \<Rightarrow> string \<Rightarrow> string \<Rightarrow> bool \<Rightarrow> (notify_db, unit) io" where
  "SetPreference userID eventType channel enabled =
     bindE begin_tx (\<lambda>_. bindE (UpsertPreference userID eventType channel enabled) (\<lambda>_. commit_tx))"

section \<open>Events\<close>

text \<open>
  \<open>json.Unmarshal\<close> into a map: an object, \<open>null\<close> (no entries), or an error. Numbers become \<open>float64\<close>
  values (an integer the nearest one, an integer again).
\<close>

type_synonym fields = "(string \<times> json) list"

fun float_json :: "json \<Rightarrow> json" where
  "float_json (JInt n) = JInt \<lfloor>fl64 (of_int n)\<rfloor>"
| "float_json (JNum x) = JNum (fl64 x)"
| "float_json (JArr js) = JArr (map float_json js)"
| "float_json (JObj fs) = JObj (map (\<lambda>(k, v). (k, float_json v)) fs)"
| "float_json j = j"

definition unmarshal_map :: "json option \<Rightarrow> fields option" where
  "unmarshal_map payload = (case payload of Some (JObj fs) \<Rightarrow> Some (map (\<lambda>(k, v). (k, float_json v)) fs) | Some JNull \<Rightarrow> Some [] | _ \<Rightarrow> None)"

fun stringField :: "fields \<Rightarrow> string list \<Rightarrow> string" where
  "stringField m [] = ''''"
| "stringField m (k # ks) = (case map_of m k of Some (JStr v) \<Rightarrow> if v \<noteq> '''' then v else stringField m ks | _ \<Rightarrow> stringField m ks)"

definition has_key :: "fields \<Rightarrow> string \<Rightarrow> bool" where
  "has_key m k \<longleftrightarrow> map_of m k \<noteq> None"

definition inferEventType :: "string \<Rightarrow> fields \<Rightarrow> string" where
  "inferEventType topic m =
     (if topic = ''payment.events'' then ''payment.captured''
      else if topic = ''proposal.events'' then ''proposal.submitted''
      else if topic = ''contract.events'' then
        (if has_key m ''dispute_id'' then ''contract.disputed'' else if has_key m ''milestone_id'' then ''milestone.approved''
         else ''contract.activated'')
      else if topic = ''worksession.events'' then ''worksession.closed''
      else if topic = ''review.events'' then ''review.published''
      else if topic = ''user.events'' then (if has_key m ''kyc_status'' then ''user.kyc_updated'' else ''profile.updated'')
      else if topic = ''fraud.events'' then (if has_key m ''resolution'' then ''fraud.case_resolved'' else ''fraud.case_opened'')
      else if topic = ''project.events'' then (if has_key m ''closed_at'' then ''project.closed'' else ''project.published'')
      else if topic = ''screenshot.ingested'' then ''screenshot.ingested''
      else topic)"

definition ResolveEventType :: "string \<Rightarrow> json option \<Rightarrow> string" where
  "ResolveEventType topic payload =
     (let m = (case unmarshal_map payload of None \<Rightarrow> [] | Some fs \<Rightarrow> fs); t = stringField m [''type'', ''event_type''] in
      if t \<noteq> '''' then t else inferEventType topic m)"

definition recipient :: "fields \<Rightarrow> string" where
  "recipient m = stringField m [''user_id'', ''recipient_id'', ''freelancer_id'', ''client_id'', ''payer_id'', ''subject_id'']"

text \<open>\<open>fmt.Sprintf("$%.2f", f/100)\<close> of a JSON number.\<close>

definition two_digits :: "nat \<Rightarrow> string" where
  "two_digits n = (if n < 10 then ''0'' else '''') @ show_nat n"

definition sprintf_2f :: "rat \<Rightarrow> string" where
  "sprintf_2f x = (let c = round_even (100 * x); a = nat \<bar>c\<bar> in
     (if x < 0 then ''-'' else '''') @ show_nat (a div 100) @ ''.'' @ two_digits (a mod 100))"

definition centsField :: "fields \<Rightarrow> string \<Rightarrow> string" where
  "centsField m key = (case map_of m key of
       Some (JInt n) \<Rightarrow> ''$'' @ sprintf_2f (fl64 (of_int n / 100))
     | Some (JNum x) \<Rightarrow> ''$'' @ sprintf_2f (fl64 (x / 100))
     | _ \<Rightarrow> '''')"

definition notificationCopy :: "string \<Rightarrow> fields \<Rightarrow> string \<times> string option" where
  "notificationCopy eventType m =
     (if eventType = ''proposal.submitted'' then (''New proposal received'', Some ''A freelancer submitted a proposal on your project.'')
      else if eventType = ''proposal.shortlisted'' then (''You were shortlisted'', Some ''Your proposal was shortlisted by the client.'')
      else if eventType = ''proposal.withdrawn'' then (''Proposal withdrawn'', Some ''A proposal on your project was withdrawn.'')
      else if eventType = ''contract.activated'' then (''Contract activated'', Some ''Your contract is now active. Work can begin.'')
      else if eventType = ''milestone.approved'' then (''Milestone approved'', Some ''A milestone was approved and is ready for release.'')
      else if eventType = ''contract.disputed'' then (''Contract disputed'', Some ''A dispute was raised on your contract.'')
      else if eventType = ''payment.captured'' then
        (let amt = centsField m ''amount_cents'' in
         if amt \<noteq> '''' then (''Payment received'', Some (''A payment of '' @ amt @ '' was captured for your contract.''))
         else (''Payment received'', Some ''A payment was captured for your contract.''))
      else if eventType = ''worksession.closed'' then (''Work session logged'', Some ''A tracked work session was closed on your contract.'')
      else if eventType = ''activity.suspicious'' then (''Suspicious activity detected'', Some ''Unusual activity was detected on a tracked work session.'')
      else if eventType = ''review.published'' then (''New review'', Some ''You received a new review.'')
      else if eventType = ''profile.updated'' then (''Profile updated'', Some ''Your profile was updated.'')
      else if eventType = ''user.kyc_updated'' then (''Identity verification update'', Some ''Your identity verification status changed.'')
      else if eventType = ''fraud.case_opened'' then (''Account under review'', Some ''A trust & safety review was opened on your account.'')
      else if eventType = ''fraud.case_resolved'' then (''Account review resolved'', Some ''A trust & safety review on your account was resolved.'')
      else (eventType, None))"

definition HandleRawEvent :: "sender \<Rightarrow> string \<Rightarrow> json option \<Rightarrow> (notify_db, unit) io" where
  "HandleRawEvent send eventType payload = (case unmarshal_map payload of
       None \<Rightarrow> ret ()
     | Some m \<Rightarrow>
         let userID = recipient m in
         if userID = '''' then ret ()
         else let (title, body) = notificationCopy eventType m in
           bindE (HandleEvent send userID eventType title body (JObj m)) (\<lambda>_. ret ()))"

text \<open>The handler of the consumer process: the header's event type, or the inferred one.\<close>

definition consume_event :: "sender \<Rightarrow> string \<Rightarrow> string \<Rightarrow> json option \<Rightarrow> (notify_db, unit) io" where
  "consume_event send topic headerType payload =
     HandleRawEvent send (if headerType = '''' then ResolveEventType topic payload else headerType) payload"

definition subscribed :: "string list" where
  "subscribed = [''contract.events'', ''payment.events'', ''escrow.events'', ''proposal.events'', ''worksession.events'', ''review.events'',
     ''user.events'', ''fraud.events'']"

section \<open>Handlers\<close>

definition mapError :: "err \<Rightarrow> response" where
  "mapError e = (if e = ErrNotFound then Problem 404 ''NOT_FOUND'' else Problem 500 ''INTERNAL'')"

definition notificationDTO :: "Notification \<Rightarrow> json" where
  "notificationDTO n = JObj [(''id'', JStr (nt_ID n)), (''user_id'', JStr (nt_UserID n)), (''type'', JStr (nt_Type n)),
     (''title'', JStr (nt_Title n)), (''body'', opt_json JStr (nt_Body n)), (''data'', nt_Data n),
     (''read_at'', opt_json JInt (nt_ReadAt n)), (''created_at'', JInt (nt_CreatedAt n))]"

definition list_notifications :: "string \<Rightarrow> string \<Rightarrow> string \<Rightarrow> (notify_db, response) io" where
  "list_notifications userID unread_q limit_q =
     handle mapError (ListNotifications userID (unread_q = ''true'') (Atoi_value limit_q))
       (\<lambda>ns. Reply 200 (JObj [(''notifications'', JArr (map notificationDTO ns))]))"

definition markRead :: "string \<Rightarrow> string \<Rightarrow> (notify_db, response) io" where
  "markRead userID i = handle mapError (MarkRead i userID) (\<lambda>_. Reply 200 (JObj [(''status'', JStr ''ok'')]))"

definition markAllRead :: "string \<Rightarrow> (notify_db, response) io" where
  "markAllRead userID = handle mapError (MarkAllRead userID) (\<lambda>n. Reply 200 (JObj [(''updated'', JInt n)]))"

definition getPreferences :: "(string \<Rightarrow> int) \<Rightarrow> string \<Rightarrow> (notify_db, response) io" where
  "getPreferences collate userID = handle mapError (GetPreferences collate userID)
     (\<lambda>ps. Reply 200 (JObj [(''preferences'', JArr (map (\<lambda>p. JObj [(''event_type'', JStr (np_EventType p)),
        (''channel'', JStr (np_Channel p)), (''enabled'', JBool (np_Enabled p))]) ps))]))"

record setPrefReq =
  sp_EventType :: string
  sp_Channel :: string
  sp_Enabled :: bool

definition setPreference :: "string \<Rightarrow> setPrefReq option \<Rightarrow> (notify_db, response) io" where
  "setPreference userID body =
     guarded (ret (decode body)) (\<lambda>req.
     handle mapError (SetPreference userID (sp_EventType req) (sp_Channel req) (sp_Enabled req))
       (\<lambda>_. Reply 200 (JObj [(''status'', JStr ''ok'')])))"

record dispatchReq =
  dq_UserID :: string
  dq_EventType :: string
  dq_Title :: string
  dq_Body :: "string option"
  dq_Data :: "fields option"

definition dispatch :: "sender \<Rightarrow> dispatchReq option \<Rightarrow> (notify_db, response) io" where
  "dispatch send body =
     guarded (ret (decode body)) (\<lambda>req.
     if dq_UserID req = '''' \<or> dq_EventType req = '''' then ret (Problem 400 ''INVALID_ARGUMENT'')
     else handle mapError
       (HandleEvent send (dq_UserID req) (dq_EventType req) (dq_Title req) (dq_Body req)
         (case dq_Data req of None \<Rightarrow> JNull | Some fs \<Rightarrow> JObj fs))
       (\<lambda>i. Reply 201 (JObj [(''notification_id'', JStr i)])))"

section \<open>Framing\<close>

lemma keeps_notify_store [io_keeps]:
  "keeps (InsertNotification u ty ti bo da)" "keeps (EnabledChannels u ty)" "keeps (InsertDeliveryAttempt i c st)"
  "keeps (MarkDeliveryStatus i st p e)" "keeps (store_ListNotifications u un n)" "keeps (store_MarkRead i u)" "keeps (store_MarkAllRead u)"
  "keeps (store_GetPreferences co u)" "keeps (UpsertPreference u ty c en)"
  unfolding InsertNotification_def EnabledChannels_def InsertDeliveryAttempt_def MarkDeliveryStatus_def store_ListNotifications_def
    store_MarkRead_def store_MarkAllRead_def store_GetPreferences_def UpsertPreference_def
  by (intro io_keeps)+

lemma keeps_deliver [io_keeps]: "keeps (deliver send n chs)"
  by (induction chs) (auto intro!: io_keeps)

lemma atomic_notify:
  "atomic (HandleEvent send u ty ti bo da)" "atomic (MarkRead i u)" "atomic (MarkAllRead u)" "atomic (SetPreference u ty c en)"
  unfolding HandleEvent_def MarkRead_def MarkAllRead_def SetPreference_def Let_def by (intro io_atomic io_keeps)+

end
