(* ===== verification/Notification_Props.thy ===== *)
theory Notification_Props
  imports Notification Tx_Inv
begin

text \<open>
  What a handled event leaves behind: one notification and one delivery attempt per channel; what
  the tables keep; that the read marks and preferences of one user are never touched by another; and
  which events leave nothing.
\<close>

section \<open>The invariant\<close>

definition attempt_key :: "delivery_row \<Rightarrow> string \<times> string" where
  "attempt_key a = (da_notification_id a, da_channel a)"

definition attempt_ok :: "delivery_row \<Rightarrow> bool" where
  "attempt_ok a \<longleftrightarrow> da_channel a \<in> channel_enum \<and> da_status a \<in> {''queued'', ''sent''}"

definition notify_inv :: "notify_db \<Rightarrow> bool" where
  "notify_inv d \<longleftrightarrow> distinct (map nt_ID (notifications d)) \<and> distinct (map da_id (delivery_attempts d)) \<and>
     distinct (map attempt_key (delivery_attempts d)) \<and> distinct (map pref_key (notification_preferences d)) \<and>
     refers da_notification_id (delivery_attempts d) nt_ID (notifications d) \<and>
     refers nt_ID (notifications d) da_notification_id (delivery_attempts d) \<and>
     refers nt_UserID (notifications d) (\<lambda>u. u) (ntf_users d) \<and>
     list_all attempt_ok (delivery_attempts d) \<and> list_all (\<lambda>p. np_Channel p \<in> channel_enum) (notification_preferences d)"

section \<open>The fan-out\<close>

definition attempt_row :: "sender \<Rightarrow> NotificationView \<Rightarrow> string \<Rightarrow> string \<Rightarrow> delivery_row" where
  "attempt_row send n c i = \<lparr>da_id = i, da_notification_id = nv_ID n, da_channel = c,
     da_status = (if send c n then ''sent'' else ''queued''), da_provider_ref = None, da_error = None\<rparr>"

lemma attempt_row_simps [simp]:
  "da_id (attempt_row send n c i) = i" "da_notification_id (attempt_row send n c i) = nv_ID n" "da_channel (attempt_row send n c i) = c"
  "da_status (attempt_row send n c i) = (if send c n then ''sent'' else ''queued'')"
  by (simp_all add: attempt_row_def)

definition attempts_added :: "sender \<Rightarrow> NotificationView \<Rightarrow> string list \<Rightarrow> delivery_row list \<Rightarrow> delivery_row list \<Rightarrow> bool" where
  "attempts_added send n chs rows new \<longleftrightarrow> (\<exists>ids. length ids = length chs \<and> new = map2 (attempt_row send n) chs ids \<and> distinct ids \<and>
     set ids \<inter> da_id ` set rows = {})"

lemma attempts_added_Cons:
  assumes "attempts_added send n chs (rows @ [attempt_row send n c i]) new" "i \<notin> da_id ` set rows"
  shows "attempts_added send n (c # chs) rows (attempt_row send n c i # new)"
proof -
  from assms(1) obtain ids where "length ids = length chs" "new = map2 (attempt_row send n) chs ids" "distinct ids"
    "set ids \<inter> da_id ` set (rows @ [attempt_row send n c i]) = {}"
    by (auto simp: attempts_added_def)
  with assms(2) show ?thesis unfolding attempts_added_def by (intro exI [of _ "i # ids"]) auto
qed

lemma update_last:
  "i \<notin> f ` set rows \<Longrightarrow> f r = i \<Longrightarrow> update_where (\<lambda>x. f x = i) g (rows @ [r]) = rows @ [g r]"
  by (induction rows) (auto simp: update_where_def)

text \<open>One round of the loop: the attempt is recorded, and marked sent when the sender succeeds.\<close>

lemma deliver_ok:
  "deliver send n chs s = (Inr x, t) \<Longrightarrow> committed t = committed s \<and> clock t = clock s \<and> set chs \<subseteq> channel_enum \<and>
     (\<exists>new. work t = (work s)\<lparr>delivery_attempts := delivery_attempts (work s) @ new\<rparr> \<and>
        attempts_added send n chs (delivery_attempts (work s)) new)"
proof (induction chs arbitrary: s)
  case Nil
  then show ?case by (intro conjI exI [of _ "[]"]) (simp_all add: ret_ok attempts_added_def)
next
  case (Cons c chs)
  let ?rows = "delivery_attempts (work s)"
  from Cons.prems obtain i s1 s2 where ins: "InsertDeliveryAttempt (nv_ID n) c ''queued'' s = (Inr i, s1)"
    and mark: "if send c n then MarkDeliveryStatus i ''sent'' None None s1 = (Inr (), s2) else s2 = s1"
    and rest: "deliver send n chs s2 = (Inr x, t)"
    by (cases "send c n") (auto simp: bindE_ok)
  from ins have i: "i \<notin> da_id ` set ?rows" and c: "c \<in> channel_enum" and s1: "committed s1 = committed s" "clock s1 = clock s"
    and w1: "work s1 = (work s)\<lparr>delivery_attempts := ?rows @ [\<lparr>da_id = i, da_notification_id = nv_ID n, da_channel = c, da_status = ''queued'',
      da_provider_ref = None, da_error = None\<rparr>]\<rparr>"
    by (auto simp: InsertDeliveryAttempt_def tx_stmt_ok split: if_splits)
  have s2: "committed s2 = committed s" "clock s2 = clock s" "work s2 = (work s)\<lparr>delivery_attempts := ?rows @ [attempt_row send n c i]\<rparr>"
    using mark s1 w1 i by (auto simp: MarkDeliveryStatus_def tx_stmt_ok update_last attempt_row_def split: if_splits)
  from Cons.IH [OF rest] obtain new where t: "committed t = committed s2" "clock t = clock s2" "set chs \<subseteq> channel_enum"
    "work t = (work s2)\<lparr>delivery_attempts := delivery_attempts (work s2) @ new\<rparr>"
    and added: "attempts_added send n chs (delivery_attempts (work s2)) new" by blast
  from added i s2 have "attempts_added send n (c # chs) ?rows (attempt_row send n c i # new)"
    by (intro attempts_added_Cons) simp_all
  with t s2 c show ?case by (intro conjI exI [of _ "attempt_row send n c i # new"]) simp_all
qed

definition channels_for :: "string \<Rightarrow> string \<Rightarrow> notify_db \<Rightarrow> string list" where
  "channels_for u ty d = (if enabled_channels u ty d = [] then [defaultChannel] else enabled_channels u ty d)"

lemma HandleEvent_ok:
  assumes "HandleEvent send u ty ti bo da s = (Inr i, t)"
  shows "i \<notin> nt_ID ` set (notifications (committed s)) \<and> u \<in> set (ntf_users (committed s)) \<and>
    set (channels_for u ty (committed s)) \<subseteq> channel_enum \<and>
    (\<exists>new. committed t = (committed s)\<lparr>notifications := notifications (committed s) @
         [\<lparr>nt_ID = i, nt_UserID = u, nt_Type = ty, nt_Title = ti, nt_Body = bo, nt_Data = da, nt_ReadAt = None, nt_CreatedAt = clock s\<rparr>],
         delivery_attempts := delivery_attempts (committed s) @ new\<rparr> \<and>
       attempts_added send \<lparr>nv_ID = i, nv_UserID = u, nv_Type = ty, nv_Title = ti, nv_Body = bo, nv_Data = da\<rparr>
         (channels_for u ty (committed s)) (delivery_attempts (committed s)) new)"
proof -
  let ?s1 = "(tick s)\<lparr>work := committed s, aborted := False\<rparr>"
  let ?n = "\<lparr>nv_ID = i, nv_UserID = u, nv_Type = ty, nv_Title = ti, nv_Body = bo, nv_Data = da\<rparr>"
  from assms obtain s2 s3 s4 chs where ins: "InsertNotification u ty ti bo da ?s1 = (Inr i, s2)"
    and ch: "EnabledChannels u ty s2 = (Inr chs, s3)"
    and del: "deliver send ?n (if chs = [] then [defaultChannel] else chs) s3 = (Inr (), s4)" and t: "committed t = work s4"
    by (auto simp: HandleEvent_def Let_def bindE_ok begin_tx_ok commit_tx_ok ret_ok)
  from ins have n: "i \<notin> nt_ID ` set (notifications (committed s))" "u \<in> set (ntf_users (committed s))"
    "work s2 = (committed s)\<lparr>notifications := notifications (committed s) @
       [\<lparr>nt_ID = i, nt_UserID = u, nt_Type = ty, nt_Title = ti, nt_Body = bo, nt_Data = da, nt_ReadAt = None, nt_CreatedAt = clock s\<rparr>]\<rparr>"
    by (auto simp: InsertNotification_def tx_stmt_ok split: if_splits)
  with ch have c: "work s3 = work s2" "(if chs = [] then [defaultChannel] else chs) = channels_for u ty (committed s)"
    by (auto simp: EnabledChannels_def tx_stmt_ok channels_for_def enabled_channels_def)
  from deliver_ok [OF del] c n t show ?thesis by auto
qed

lemma distinct_channels_for:
  assumes "distinct (map pref_key (notification_preferences d))"
  shows "distinct (channels_for u ty d)"
proof -
  have "distinct (map np_Channel (filter (\<lambda>p. np_user_id p = u \<and> np_EventType p = ty \<and> np_Enabled p) ps))" if "distinct (map pref_key ps)" for ps
    using that by (induction ps) (auto simp: pref_key_def image_iff)
  with assms show ?thesis by (simp add: channels_for_def enabled_channels_def)
qed

lemma map_attempts:
  assumes "length ks = length chs"
  shows "map da_id (map2 (attempt_row send n) chs ks) = ks"
    "map attempt_key (map2 (attempt_row send n) chs ks) = map (Pair (nv_ID n)) chs"
    "set chs \<subseteq> channel_enum \<Longrightarrow> list_all attempt_ok (map2 (attempt_row send n) chs ks)"
    "da_notification_id ` set (map2 (attempt_row send n) chs ks) = (if chs = [] then {} else {nv_ID n})"
    "map (\<lambda>a. (da_channel a, da_status a)) (map2 (attempt_row send n) chs ks) = map (\<lambda>c. (c, if send c n then ''sent'' else ''queued'')) chs"
  using assms by (induction chs ks rule: list_induct2') (auto simp: attempt_key_def attempt_ok_def)

lemma HandleEvent_inv:
  assumes "notify_inv (committed s)" "HandleEvent send u ty ti bo da s = (Inr i, t)"
  shows "notify_inv (committed t)"
proof -
  let ?d = "committed s" and ?n = "\<lparr>nv_ID = i, nv_UserID = u, nv_Type = ty, nv_Title = ti, nv_Body = bo, nv_Data = da\<rparr>"
  let ?chs = "channels_for u ty ?d"
  let ?row = "\<lparr>nt_ID = i, nt_UserID = u, nt_Type = ty, nt_Title = ti, nt_Body = bo, nt_Data = da, nt_ReadAt = None, nt_CreatedAt = clock s\<rparr>"
  from HandleEvent_ok [OF assms(2)] obtain ks where i: "i \<notin> nt_ID ` set (notifications ?d)" "u \<in> set (ntf_users ?d)"
    and ch: "set ?chs \<subseteq> channel_enum" and k: "length ks = length ?chs" "distinct ks" "set ks \<inter> da_id ` set (delivery_attempts ?d) = {}"
    and t: "committed t = ?d\<lparr>notifications := notifications ?d @ [?row],
      delivery_attempts := delivery_attempts ?d @ map2 (attempt_row send ?n) ?chs ks\<rparr>"
    by (auto simp: attempts_added_def)
  from assms(1) have inv: "distinct (map nt_ID (notifications ?d))" "distinct (map da_id (delivery_attempts ?d))"
    "distinct (map attempt_key (delivery_attempts ?d))" "distinct (map pref_key (notification_preferences ?d))"
    "da_notification_id ` set (delivery_attempts ?d) \<subseteq> nt_ID ` set (notifications ?d)"
    "nt_ID ` set (notifications ?d) \<subseteq> da_notification_id ` set (delivery_attempts ?d)"
    "refers nt_UserID (notifications ?d) (\<lambda>u. u) (ntf_users ?d)" "list_all attempt_ok (delivery_attempts ?d)"
    "list_all (\<lambda>p. np_Channel p \<in> channel_enum) (notification_preferences ?d)"
    by (simp_all add: notify_inv_def refers_def)
  have ne: "?chs \<noteq> []" by (simp add: channels_for_def)
  note new = map_attempts [OF k(1), of send ?n]
  have d1: "distinct (map da_id (delivery_attempts ?d @ map2 (attempt_row send ?n) ?chs ks))"
    using inv(2) k(2,3) new(1) by auto
  have "i \<notin> da_notification_id ` set (delivery_attempts ?d)" using i(1) inv(5) by blast
  then have "attempt_key ` set (delivery_attempts ?d) \<inter> set (map (Pair i) ?chs) = {}" by (auto simp: attempt_key_def)
  then have d2: "distinct (map attempt_key (delivery_attempts ?d @ map2 (attempt_row send ?n) ?chs ks))"
    using inv(3) distinct_channels_for [OF inv(4)] new(2) by (auto simp: distinct_map inj_on_def simp flip: set_map)
  have "da_notification_id ` set (delivery_attempts ?d @ map2 (attempt_row send ?n) ?chs ks) = da_notification_id ` set (delivery_attempts ?d) \<union> {i}"
    using new(4) ne by (simp add: image_Un)
  then have r: "refers da_notification_id (delivery_attempts (committed t)) nt_ID (notifications (committed t))"
    "refers nt_ID (notifications (committed t)) da_notification_id (delivery_attempts (committed t))"
    using inv(5,6) by (auto simp: refers_def t)
  have "list_all attempt_ok (delivery_attempts ?d @ map2 (attempt_row send ?n) ?chs ks)" using inv(8) new(3) [OF ch] by simp
  with d1 d2 r inv i show ?thesis by (simp add: notify_inv_def t)
qed

section \<open>Read marks and preferences\<close>

lemma notify_MarkRead_ok:
  assumes "MarkRead i u s = (Inr x, t)"
  shows "committed t = (committed s)\<lparr>notifications := update_where (\<lambda>n. nt_ID n = i \<and> unread_of u n) (stamp_read (clock s)) (notifications (committed s))\<rparr>"
  using assms by (auto simp: MarkRead_def bindE_ok begin_tx_ok store_MarkRead_def tx_stmt_ok commit_tx_ok ret_ok throw_ok split: if_splits)

lemma notify_MarkAllRead_ok:
  assumes "MarkAllRead u s = (Inr n, t)"
  shows "committed t = (committed s)\<lparr>notifications := update_where (unread_of u) (stamp_read (clock s)) (notifications (committed s))\<rparr> \<and>
    n = int (length (filter (unread_of u) (notifications (committed s))))"
  using assms by (auto simp: MarkAllRead_def bindE_ok begin_tx_ok store_MarkAllRead_def tx_stmt_ok commit_tx_ok ret_ok)

lemma SetPreference_ok:
  assumes "SetPreference u ty c en s = (Inr x, t)"
  shows "c \<in> channel_enum \<and> notifications (committed t) = notifications (committed s) \<and> delivery_attempts (committed t) = delivery_attempts (committed s) \<and>
    ntf_users (committed t) = ntf_users (committed s) \<and>
    notification_preferences (committed t) =
      (if (u, ty, c) \<in> pref_key ` set (notification_preferences (committed s))
       then update_where (\<lambda>p. pref_key p = (u, ty, c)) (\<lambda>p. p\<lparr>np_Enabled := en\<rparr>) (notification_preferences (committed s))
       else notification_preferences (committed s) @ [\<lparr>np_user_id = u, np_EventType = ty, np_Channel = c, np_Enabled = en\<rparr>])"
  using assms
  by (auto simp: SetPreference_def bindE_ok begin_tx_ok UpsertPreference_def tx_stmt_ok commit_tx_ok ret_ok split: if_splits)

lemma stamp_simps [simp]:
  "nt_ID (stamp_read now n) = nt_ID n" "nt_UserID (stamp_read now n) = nt_UserID n"
  by (simp_all add: stamp_read_def)

lemma stamped_inv:
  assumes "notify_inv d" "d' = d\<lparr>notifications := update_where P (stamp_read now) (notifications d)\<rparr>"
  shows "notify_inv d'"
  using assms by (simp add: notify_inv_def map_update_where_same refers_update)

lemma SetPreference_inv:
  assumes "notify_inv (committed s)" "SetPreference u ty c en s = (Inr x, t)"
  shows "notify_inv (committed t)"
proof -
  note ok = SetPreference_ok [OF assms(2)]
  have "distinct (map pref_key (notification_preferences (committed t)))"
    "list_all (\<lambda>p. np_Channel p \<in> channel_enum) (notification_preferences (committed t))"
    using assms(1) ok by (auto simp: notify_inv_def pref_key_def map_update_where_same intro!: list_all_update_where split: if_splits)
  with assms(1) ok show ?thesis by (simp add: notify_inv_def)
qed

section \<open>The service as a transition system\<close>

text \<open>Requests, and the events the consumer hands over; the sender may answer differently each time.\<close>

definition acknowledged :: "('d, unit) io \<Rightarrow> ('d, response) io" where
  "acknowledged m = bindE m (\<lambda>_. ret (Reply 200 JNull))"

inductive_set notify_ops :: "(notify_db, response) io set" where
  op_consume: "acknowledged (consume_event send topic ty payload) \<in> notify_ops"
| op_dispatch: "dispatch send dq \<in> notify_ops"
| op_list: "list_notifications u un l \<in> notify_ops"
| op_markRead: "markRead u i \<in> notify_ops"
| op_markAllRead: "markAllRead u \<in> notify_ops"
| op_getPreferences: "getPreferences co u \<in> notify_ops"
| op_setPreference: "setPreference u sq \<in> notify_ops"

lemma op_inv_HandleEvent: "op_inv notify_inv (HandleEvent send u ty ti bo da)"
  by (rule op_inv_atomic [OF atomic_notify(1)]) (rule HandleEvent_inv)

lemma notify_ops_inv: "m \<in> notify_ops \<Longrightarrow> op_inv notify_inv m"
proof (induction rule: notify_ops.induct)
  case (op_consume send topic ty payload)
  show ?case unfolding acknowledged_def consume_event_def HandleRawEvent_def Let_def
    by (rule op_inv_then) (intro op_invs op_inv_then op_inv_HandleEvent)+
next
  case (op_dispatch send dq)
  show ?case unfolding dispatch_def by (intro op_invs op_inv_HandleEvent)
next
  case (op_markRead u i)
  have "op_inv notify_inv (MarkRead i u)"
    by (rule op_inv_atomic [OF atomic_notify(2)]) (rule stamped_inv, assumption, rule notify_MarkRead_ok)
  then show ?case unfolding markRead_def by (intro op_invs)
next
  case (op_markAllRead u)
  have "op_inv notify_inv (MarkAllRead u)"
    by (rule op_inv_atomic [OF atomic_notify(3)]) (rule stamped_inv, assumption, drule notify_MarkAllRead_ok, blast)
  then show ?case unfolding markAllRead_def by (intro op_invs)
next
  case (op_setPreference u sq)
  have "op_inv notify_inv (SetPreference u ty c en)" for ty c en by (rule op_inv_atomic [OF atomic_notify(4)]) (rule SetPreference_inv)
  then show ?case unfolding setPreference_def by (intro op_invs)
qed (simp_all add: list_notifications_def ListNotifications_def getPreferences_def GetPreferences_def Let_def op_inv_keeps io_keeps)

interpretation notify_service: service_system notify_ops notify_inv
  by unfold_locales (rule notify_ops_inv)

section \<open>Events that are notified\<close>

text \<open>Fresh identifiers: distinct, and none of them in the table of attempts.\<close>

definition fresh_attempts :: "notify_db conn \<Rightarrow> bool" where
  "fresh_attempts s \<longleftrightarrow> inj (ids s) \<and> range (ids s) \<inter> da_id ` set (delivery_attempts (work s)) = {}"

lemma inj_Suc_ids: "inj f \<Longrightarrow> inj (\<lambda>n. f (Suc n))"
  by (auto simp: inj_on_def)

lemma InsertDeliveryAttempt_run:
  assumes "reliable s" "\<not> aborted s" "fresh_attempts s" "nv_ID n \<in> nt_ID ` set (notifications (work s))" "c \<in> channel_enum"
  shows "\<exists>i t. InsertDeliveryAttempt (nv_ID n) c st s = (Inr i, t) \<and> reliable t \<and> \<not> aborted t \<and> fresh_attempts t \<and>
    notifications (work t) = notifications (work s)"
proof -
  from assms(3) have i: "ids s 0 \<notin> da_id ` set (delivery_attempts (work s))" and inj: "inj (ids s)" by (auto simp: fresh_attempts_def)
  let ?row = "\<lparr>da_id = ids s 0, da_notification_id = nv_ID n, da_channel = c, da_status = st, da_provider_ref = None, da_error = None\<rparr>"
  have run: "InsertDeliveryAttempt (nv_ID n) c st s =
    (Inr (ids s 0), (tick s)\<lparr>work := (work s)\<lparr>delivery_attempts := delivery_attempts (work s) @ [?row]\<rparr>\<rparr>)"
    using assms i by (simp add: InsertDeliveryAttempt_def io_run)
  have "fresh_attempts ((tick s)\<lparr>work := (work s)\<lparr>delivery_attempts := delivery_attempts (work s) @ [?row]\<rparr>\<rparr>)"
    using assms(3) inj_Suc_ids [OF inj] by (auto simp: fresh_attempts_def tick_def inj_eq [OF inj])
  with run assms(1,2) show ?thesis by (auto simp: io_run tick_def reliable_def)
qed

lemma MarkDeliveryStatus_run:
  assumes "reliable s" "\<not> aborted s" "fresh_attempts s"
  shows "\<exists>t. MarkDeliveryStatus i st p e s = (Inr (), t) \<and> reliable t \<and> \<not> aborted t \<and> fresh_attempts t \<and>
    notifications (work t) = notifications (work s)"
proof -
  have "inj (ids s)" using assms(3) by (simp add: fresh_attempts_def)
  from inj_Suc_ids [OF this] assms show ?thesis
    by (auto simp: MarkDeliveryStatus_def io_run fresh_attempts_def tick_def image_update_where reliable_def)
qed

lemma deliver_run:
  "reliable s \<Longrightarrow> \<not> aborted s \<Longrightarrow> fresh_attempts s \<Longrightarrow> nv_ID n \<in> nt_ID ` set (notifications (work s)) \<Longrightarrow> set chs \<subseteq> channel_enum \<Longrightarrow>
   \<exists>t. deliver send n chs s = (Inr (), t) \<and> reliable t \<and> \<not> aborted t"
proof (induction chs arbitrary: s)
  case Nil
  then show ?case by (simp add: io_run)
next
  case (Cons c chs)
  from Cons.prems have "c \<in> channel_enum" by simp
  from InsertDeliveryAttempt_run [OF Cons.prems(1-4) this, of "''queued''"]
  obtain i s1 where ins: "InsertDeliveryAttempt (nv_ID n) c ''queued'' s = (Inr i, s1)"
    and s1: "reliable s1" "\<not> aborted s1" "fresh_attempts s1" "notifications (work s1) = notifications (work s)" by blast
  from MarkDeliveryStatus_run [OF s1(1-3), of i "''sent''" None None]
  obtain s2 where mark: "MarkDeliveryStatus i ''sent'' None None s1 = (Inr (), s2)"
    and s2: "reliable s2" "\<not> aborted s2" "fresh_attempts s2" "notifications (work s2) = notifications (work s)" using s1(4) by auto
  define s3 where "s3 = (if send c n then s2 else s1)"
  have s3: "reliable s3" "\<not> aborted s3" "fresh_attempts s3" "nv_ID n \<in> nt_ID ` set (notifications (work s3))"
    using s1 s2 Cons.prems(4) by (simp_all add: s3_def)
  have "deliver send n (c # chs) s = deliver send n chs s3" using ins mark by (simp add: io_run s3_def)
  with Cons.IH [OF s3] Cons.prems(5) show ?case by simp
qed

text \<open>A handled event of a known user succeeds when no statement fails.\<close>

definition fresh_rows :: "notify_db conn \<Rightarrow> bool" where
  "fresh_rows s \<longleftrightarrow> inj (ids s) \<and> range (ids s) \<inter> (nt_ID ` set (notifications (committed s)) \<union> da_id ` set (delivery_attempts (committed s))) = {}"

lemma HandleEvent_run:
  assumes "reliable s" "notify_inv (committed s)" "fresh_rows s" "u \<in> set (ntf_users (committed s))"
  shows "\<exists>i t. HandleEvent send u ty ti bo da s = (Inr i, t) \<and> reliable t"
proof -
  let ?s1 = "(tick s)\<lparr>work := committed s, aborted := False\<rparr>" and ?i = "ids s (Suc 0)"
  let ?row = "\<lparr>nt_ID = ?i, nt_UserID = u, nt_Type = ty, nt_Title = ti, nt_Body = bo, nt_Data = da, nt_ReadAt = None, nt_CreatedAt = clock s\<rparr>"
  let ?n = "\<lparr>nv_ID = ?i, nv_UserID = u, nv_Type = ty, nv_Title = ti, nv_Body = bo, nv_Data = da\<rparr>"
  define s2 where "s2 = (tick ?s1)\<lparr>work := (committed s)\<lparr>notifications := notifications (committed s) @ [?row]\<rparr>\<rparr>"
  define chs where "chs = channels_for u ty (committed s)"
  from assms(3) have i: "?i \<notin> nt_ID ` set (notifications (committed s))" and inj: "inj (ids s)" by (auto simp: fresh_rows_def)
  have ins: "InsertNotification u ty ti bo da ?s1 = (Inr ?i, s2)"
    using assms(1,4) i by (simp add: InsertNotification_def io_run s2_def tick_def reliable_def)
  have ch: "EnabledChannels u ty s2 = (Inr (enabled_channels u ty (committed s)), tick s2)"
    using assms(1) by (simp add: EnabledChannels_def io_run s2_def enabled_channels_def)
  have "fresh_attempts (tick s2)"
    using assms(3) inj_Suc_ids [OF inj_Suc_ids [OF inj_Suc_ids [OF inj]]] by (auto simp: fresh_attempts_def fresh_rows_def s2_def tick_def)
  moreover have "set (enabled_channels u ty (committed s)) \<subseteq> channel_enum"
    using assms(2) by (auto simp: notify_inv_def enabled_channels_def list_all_iff)
  then have "set chs \<subseteq> channel_enum" by (simp add: chs_def channels_for_def defaultChannel_def channel_enum_def)
  ultimately obtain s4 where del: "deliver send ?n chs (tick s2) = (Inr (), s4)" "reliable s4" "\<not> aborted s4"
    using deliver_run [of "tick s2" ?n chs send] assms(1) by (auto simp: s2_def tick_def reliable_def)
  have d: "deliver send ?n (if enabled_channels u ty (committed s) = [] then [defaultChannel] else enabled_channels u ty (committed s)) (tick s2) = (Inr (), s4)"
    using del(1) by (simp add: chs_def channels_for_def)
  have "begin_tx s = (Inr (), ?s1)" by (rule run_stmt(1) [OF assms(1)])
  moreover have "commit_tx s4 = (Inr (), (tick s4)\<lparr>committed := work s4\<rparr>)" using del by (simp add: io_run)
  ultimately have "HandleEvent send u ty ti bo da s = (Inr ?i, (tick s4)\<lparr>committed := work s4\<rparr>)"
    using ins ch d by (simp add: HandleEvent_def Let_def run_basic)
  then show ?thesis using del(2) by (auto simp: io_run)
qed

section \<open>Example\<close>

definition demo_notify :: notify_db where
  "demo_notify = \<lparr>outbox = [], outbox_seq = 1, processed_events = [], notifications = [], delivery_attempts = [],
     notification_preferences = [\<lparr>np_user_id = ''u'', np_EventType = ''review.published'', np_Channel = ''email'', np_Enabled = True\<rparr>,
       \<lparr>np_user_id = ''u'', np_EventType = ''review.published'', np_Channel = ''push'', np_Enabled = True\<rparr>,
       \<lparr>np_user_id = ''u'', np_EventType = ''contract.disputed'', np_Channel = ''in_app'', np_Enabled = False\<rparr>],
     ntf_users = [''u'', ''v'']\<rparr>"

definition demo_sender :: sender where
  "demo_sender ch n \<longleftrightarrow> ch \<noteq> ''push''"

definition demo_payload :: json where
  "demo_payload = JObj [(''freelancer_id'', JStr ''u''), (''rating'', JInt 5)]"

definition demo_notified :: notify_db where
  "demo_notified = committed (snd (acknowledged (consume_event demo_sender ''review.events'' '''' (Some demo_payload)) (quiet ''n'' demo_notify)))"

definition demo_read :: notify_db where
  "demo_read = committed (snd (markAllRead ''u'' (quiet ''r'' demo_notified)))"

definition demo_fanout :: "(err + string) \<times> notify_db conn" where
  "demo_fanout = HandleEvent demo_sender ''u'' ''review.published'' ''New review'' None demo_payload (quiet ''n'' demo_notify)"

lemma demo_notify_inv: "notify_inv demo_notify"
  by (simp add: notify_inv_def demo_notify_def refers_def pref_key_def channel_enum_def)

lemma demo_notify_steps: "op_step notify_ops demo_notify demo_notified" "op_step notify_ops demo_notified demo_read"
  unfolding demo_notified_def demo_read_def by (rule op_step_quiet, rule notify_ops.intros)+

text \<open>
  A user who switched off the only channel of an event type is still notified on it: no enabled
  preference and no preference at all are the same to the code.
\<close>

lemma opt_out_ignored:
  "map da_channel (delivery_attempts (committed (snd (HandleEvent stubSender ''u'' ''contract.disputed'' ''t'' None JNull (quiet ''n'' demo_notify))))) = [''in_app'']"
  by code_simp

section \<open>Properties\<close>

text \<open>
  C37: Over any sequence of consumed events and notification requests: identifiers are unique, every
  notification is of a known user and has a delivery attempt, every attempt belongs to a notification,
  no notification is attempted twice on a channel, attempts are queued or sent on a known channel, and
  a user has one preference per event type and channel.
\<close>

theorem notification_invariant:
  assumes "(op_step notify_ops)\<^sup>*\<^sup>* d d'" "notify_inv d"
  shows "notify_inv d'"
  by (rule notify_service.reachable_inv [OF assms])

theorem notification_invariant_witness:
  "notify_inv demo_read \<and> map nt_ReadAt (notifications demo_read) = [Some 1000] \<and>
   map (\<lambda>a. (da_channel a, da_status a)) (delivery_attempts demo_read) = [(''email'', ''sent''), (''push'', ''queued'')]"
proof (intro conjI)
  show "notify_inv demo_read" by (rule notification_invariant [OF op_step_two [OF demo_notify_steps] demo_notify_inv])
qed code_simp+

text \<open>
  C38: A handled event leaves exactly one new unread notification of its user, and for it exactly one
  delivery attempt per channel the user has enabled for the event type (the in-app channel if none),
  sent if the sender succeeded on that channel and queued otherwise; nothing else changes.
\<close>

theorem notification_fanout:
  assumes "notify_inv (committed s)" "HandleEvent send u ty ti bo da s = (Inr i, t)"
  shows "\<exists>chs. distinct chs \<and>
    set chs = (let on = filter (\<lambda>p. np_user_id p = u \<and> np_EventType p = ty \<and> np_Enabled p) (notification_preferences (committed s))
               in if on = [] then {''in_app''} else np_Channel ` set on) \<and>
    committed t = (committed s)\<lparr>notifications := notifications (committed t), delivery_attempts := delivery_attempts (committed t)\<rparr> \<and>
    notifications (committed t) = notifications (committed s) @
      [\<lparr>nt_ID = i, nt_UserID = u, nt_Type = ty, nt_Title = ti, nt_Body = bo, nt_Data = da, nt_ReadAt = None, nt_CreatedAt = clock s\<rparr>] \<and>
    filter (\<lambda>a. da_notification_id a \<noteq> i) (delivery_attempts (committed t)) = delivery_attempts (committed s) \<and>
    map (\<lambda>a. (da_channel a, da_status a)) (filter (\<lambda>a. da_notification_id a = i) (delivery_attempts (committed t))) =
      map (\<lambda>c. (c, if send c \<lparr>nv_ID = i, nv_UserID = u, nv_Type = ty, nv_Title = ti, nv_Body = bo, nv_Data = da\<rparr>
                   then ''sent'' else ''queued'')) chs"
proof -
  let ?d = "committed s" and ?n = "\<lparr>nv_ID = i, nv_UserID = u, nv_Type = ty, nv_Title = ti, nv_Body = bo, nv_Data = da\<rparr>"
  let ?chs = "channels_for u ty ?d"
  from HandleEvent_ok [OF assms(2)] obtain ks where i: "i \<notin> nt_ID ` set (notifications ?d)" and k: "length ks = length ?chs"
    and t: "committed t = ?d\<lparr>notifications := notifications ?d @
      [\<lparr>nt_ID = i, nt_UserID = u, nt_Type = ty, nt_Title = ti, nt_Body = bo, nt_Data = da, nt_ReadAt = None, nt_CreatedAt = clock s\<rparr>],
      delivery_attempts := delivery_attempts ?d @ map2 (attempt_row send ?n) ?chs ks\<rparr>"
    by (auto simp: attempts_added_def)
  from assms(1) have "da_notification_id ` set (delivery_attempts ?d) \<subseteq> nt_ID ` set (notifications ?d)"
    and dist: "distinct ?chs" by (simp_all add: notify_inv_def refers_def distinct_channels_for)
  with i have old: "\<forall>a \<in> set (delivery_attempts ?d). da_notification_id a \<noteq> i" by blast
  have new: "\<forall>a \<in> set (map2 (attempt_row send ?n) ?chs ks). da_notification_id a = i"
    by (auto simp: set_zip)
  have "set ?chs = (let on = filter (\<lambda>p. np_user_id p = u \<and> np_EventType p = ty \<and> np_Enabled p) (notification_preferences ?d)
      in if on = [] then {''in_app''} else np_Channel ` set on)"
    by (simp add: channels_for_def enabled_channels_def defaultChannel_def Let_def)
  with dist old new map_attempts(5) [OF k, of send ?n] t show ?thesis
    by (intro exI [of _ ?chs] conjI) (simp_all add: filter_True filter_False)
qed

theorem notification_fanout_witness:
  "\<exists>chs. distinct chs \<and> set chs = {''email'', ''push''} \<and>
     map (\<lambda>a. (da_channel a, da_status a)) (filter (\<lambda>a. da_notification_id a = ''ni'') (delivery_attempts (committed (snd demo_fanout)))) =
       map (\<lambda>c. (c, if c = ''push'' then ''queued'' else ''sent'')) chs"
proof -
  have "fst demo_fanout = Inr ''ni''" by code_simp
  then have run: "HandleEvent demo_sender ''u'' ''review.published'' ''New review'' None demo_payload (quiet ''n'' demo_notify) = (Inr ''ni'', snd demo_fanout)"
    by (simp add: prod_eq_iff demo_fanout_def)
  let ?on = "filter (\<lambda>p. np_user_id p = ''u'' \<and> np_EventType p = ''review.published'' \<and> np_Enabled p) (notification_preferences demo_notify)"
  have on: "?on \<noteq> []" "np_Channel ` set ?on = {''email'', ''push''}" by (simp_all add: demo_notify_def)
  have "notify_inv (committed (quiet ''n'' demo_notify))" using demo_notify_inv by simp
  from notification_fanout [OF this run] show ?thesis
    by (elim exE conjE) (rule exI, intro conjI, assumption, simp_all add: on Let_def demo_sender_def del: set_filter)
qed

text \<open>What the requests of one user leave of the others' rows.\<close>

definition others :: "string \<Rightarrow> notify_db \<Rightarrow> Notification list \<times> Preference list" where
  "others u d = (filter (\<lambda>n. nt_UserID n \<noteq> u) (notifications d), filter (\<lambda>p. np_user_id p \<noteq> u) (notification_preferences d))"

lemma own_requests:
  "MarkRead i u s = (Inr x, t) \<Longrightarrow> others u (committed t) = others u (committed s)"
  "MarkAllRead u s = (Inr n, t) \<Longrightarrow> others u (committed t) = others u (committed s)"
  "SetPreference u ty c en s = (Inr x, t) \<Longrightarrow> others u (committed t) = others u (committed s)"
proof -
  show "MarkRead i u s = (Inr x, t) \<Longrightarrow> others u (committed t) = others u (committed s)"
    by (drule notify_MarkRead_ok) (auto simp: others_def unread_of_def intro!: filter_update_where)
  show "MarkAllRead u s = (Inr n, t) \<Longrightarrow> others u (committed t) = others u (committed s)"
    by (drule notify_MarkAllRead_ok) (auto simp: others_def unread_of_def intro!: filter_update_where)
  show "SetPreference u ty c en s = (Inr x, t) \<Longrightarrow> others u (committed t) = others u (committed s)"
    by (drule SetPreference_ok) (auto simp: others_def pref_key_def intro!: filter_update_where)
qed

lemma unchanged_or_others:
  assumes "atomic m" "\<And>x t. m s = (Inr x, t) \<Longrightarrow> others u (committed t) = others u (committed s)"
  shows "others u (committed (snd (handle me m an s))) = others u (committed s)"
  using handle_changed_snd [OF _ assms(1), of me an s] assms(2) by metis

text \<open>
  A user reads and changes only their own notifications and preferences: no request of a user
  touches a row of another user, and a list of notifications is at most 200 rows of the user, all
  unread if only those were asked for, newest first.
\<close>

theorem notifications_private:
  "others u (committed (snd (markRead u i s))) = others u (committed s) \<and>
   others u (committed (snd (markAllRead u s))) = others u (committed s) \<and>
   others u (committed (snd (setPreference u q s))) = others u (committed s) \<and>
   (fst (list_notifications u un l s) = Inr (Reply 200 j) \<longrightarrow>
     (\<exists>ns. j = JObj [(''notifications'', JArr (map notificationDTO ns))] \<and> length ns \<le> 200 \<and>
        sorted (map (\<lambda>n. - nt_CreatedAt n) ns) \<and>
        (\<forall>n \<in> set ns. n \<in> set (notifications (committed s)) \<and> nt_UserID n = u \<and> (un = ''true'' \<longrightarrow> nt_ReadAt n = None))))"
proof (intro conjI impI)
  show "others u (committed (snd (markRead u i s))) = others u (committed s)"
    unfolding markRead_def by (rule unchanged_or_others [OF atomic_notify(2)]) (rule own_requests(1))
  show "others u (committed (snd (markAllRead u s))) = others u (committed s)"
    unfolding markAllRead_def by (rule unchanged_or_others [OF atomic_notify(3)]) (rule own_requests(2))
  have "others u (committed (snd (handle mapError (SetPreference u ty c en) an s))) = others u (committed s)" for ty c en an
    by (rule unchanged_or_others [OF atomic_notify(4)]) (rule own_requests(3))
  then show "others u (committed (snd (setPreference u q s))) = others u (committed s)"
    by (auto simp: setPreference_def guarded_ret decode_def split: option.split)
next
  assume a: "fst (list_notifications u un l s) = Inr (Reply 200 j)"
  have e: "mapError x \<noteq> Reply 200 j" for x by (simp add: mapError_def)
  from a e obtain ns t where m: "ListNotifications u (un = ''true'') (Atoi_value l) s = (Inr ns, t)"
    and j: "j = JObj [(''notifications'', JArr (map notificationDTO ns))]"
    by (auto simp: list_notifications_def handle_run split: prod.splits sum.splits)
  let ?rows = "sort_key (\<lambda>n. - nt_CreatedAt n) (filter (\<lambda>n. nt_UserID n = u \<and> (\<not> un = ''true'' \<or> nt_ReadAt n = None)) (notifications (committed s)))"
  from m obtain k where ns: "ns = take k ?rows" "k \<le> 200"
    by (auto simp: ListNotifications_def Let_def store_ListNotifications_def pool_query_ok split: if_splits)
  have "set ns \<subseteq> set ?rows" unfolding ns(1) by (rule set_take_subset)
  then have "\<forall>n \<in> set ns. n \<in> set (notifications (committed s)) \<and> nt_UserID n = u \<and> (un = ''true'' \<longrightarrow> nt_ReadAt n = None)" by auto
  moreover have "sorted (map (\<lambda>n. - nt_CreatedAt n) ns)" unfolding ns(1) take_map [symmetric] by (intro sorted_wrt_take sorted_sort_key)
  moreover have "length ns \<le> 200" using ns by simp
  ultimately show "\<exists>ns. j = JObj [(''notifications'', JArr (map notificationDTO ns))] \<and> length ns \<le> 200 \<and>
        sorted (map (\<lambda>n. - nt_CreatedAt n) ns) \<and>
        (\<forall>n \<in> set ns. n \<in> set (notifications (committed s)) \<and> nt_UserID n = u \<and> (un = ''true'' \<longrightarrow> nt_ReadAt n = None))"
    using j by blast
qed

theorem notifications_private_witness:
  "map nt_ReadAt (notifications (committed (snd (markAllRead ''v'' (quiet ''r'' demo_notified))))) = [None] \<and>
   (\<exists>ns. fst (list_notifications ''u'' ''true'' '''' (quiet ''l'' demo_notified)) =
        Inr (Reply 200 (JObj [(''notifications'', JArr (map notificationDTO ns))])) \<and>
      (\<forall>n \<in> set ns. nt_UserID n = ''u'' \<and> nt_ReadAt n = None))"
proof (rule conjI)
  show "map nt_ReadAt (notifications (committed (snd (markAllRead ''v'' (quiet ''r'' demo_notified))))) = [None]" by code_simp
  let ?r = "list_notifications ''u'' ''true'' '''' (quiet ''l'' demo_notified)"
  obtain j where j: "fst ?r = Inr (Reply 200 j)"
    by (simp add: list_notifications_def ListNotifications_def Let_def store_ListNotifications_def handle_run pool_query_def quiet_def)
  with notifications_private [THEN conjunct2, THEN conjunct2, THEN conjunct2, THEN mp, OF j]
  show "\<exists>ns. fst ?r = Inr (Reply 200 (JObj [(''notifications'', JArr (map notificationDTO ns))])) \<and>
      (\<forall>n \<in> set ns. nt_UserID n = ''u'' \<and> nt_ReadAt n = None)" by auto
qed

end
