(* ===== verification/Event_Routing.thy ===== *)
theory Event_Routing
  imports Notification_Props Consumer Escrow Contract Payment Proposal Review Fraud Tracking Auth Messaging
begin

text \<open>
  The path of an event: a service's transaction writes it to the outbox, the relay publishes it, the
  notification consumer (\<open>services/notification/cmd/consumer\<close>) turns it into a notification. Who is
  told of each event of the platform, that a known user is told exactly once, and which events are
  acknowledged without telling anyone.
\<close>

section \<open>The consumer of the notification service\<close>

definition notify_handler :: "sender \<Rightarrow> Consumer.Message \<Rightarrow> (notify_db, unit) io" where
  "notify_handler send m = consume_event send (msg_Topic m) (msg_EventType m) (Some (msg_Value m))"

definition notify_consumer :: "notify_db Consumer" where
  "notify_consumer = \<lparr>cns_group = ''notification-consumer'', cns_dedupe = Some Deduper, cns_dlq = None, cns_maxRetries = 3\<rparr>"

text \<open>Whom the code picks for an event, if its topic is subscribed and some field names anyone.\<close>

definition told :: "Event \<Rightarrow> string option" where
  "told e = (if ev_Topic e \<notin> set subscribed then None else case unmarshal_map (Some (ev_Payload e)) of None \<Rightarrow> None
     | Some m \<Rightarrow> if recipient m = '''' then None else Some (recipient m))"

fun first_named :: "string list \<Rightarrow> string option" where
  "first_named [] = None"
| "first_named (x # xs) = (if x \<noteq> '''' then Some x else first_named xs)"

section \<open>A delivery\<close>

lemma notify_handler_message:
  assumes "distinct (map fst (ev_Headers (ob_event r)))" "ev_EventType (ob_event r) \<noteq> ''''"
  shows "notify_handler send (decode_message (relay_message src r)) = HandleRawEvent send (ev_EventType (ob_event r)) (Some (ev_Payload (ob_event r)))"
  using assms by (simp add: notify_handler_def consume_event_def decode_message_def relay_message_def header_value_def map_of_headers_map
      distinct_set_header)

lemma message_id:
  assumes "distinct (map fst (ev_Headers (ob_event r)))"
  shows "msg_EventID (decode_message (relay_message src r)) = eventID src (ob_id r)"
  using assms by (simp add: decode_message_def relay_message_def header_value_def map_of_headers_map distinct_set_header)

lemma fresh_rows_tick: "fresh_rows s \<Longrightarrow> fresh_rows (tick s)"
proof -
  assume f: "fresh_rows s"
  then have "inj (ids s)" by (simp add: fresh_rows_def)
  from inj_Suc_ids [OF this] f show ?thesis by (auto simp: fresh_rows_def tick_def)
qed

text \<open>A first delivery whose handler succeeds: acknowledged and marked, with the handler's effect.\<close>

lemma process_handled:
  assumes "reliable s" "(cns_group c, msg_EventID m) \<notin> set (processed_events (committed s))" "0 < cns_maxRetries c"
    and "cns_dedupe c = Some Deduper" "msg_EventID m \<noteq> ''''" "h m (tick s) = (Inr (), t)" "reliable t"
  shows "\<exists>u. process et cancelled c h m s = (Inr True, u) \<and>
    (\<exists>ps. committed u = (committed t)\<lparr>processed_events := ps\<rparr> \<and> (cns_group c, msg_EventID m) \<in> set ps)"
proof -
  from assms(3) obtain n where n: "cns_maxRetries c = Suc n" by (cases "cns_maxRetries c") auto
  have "AlreadyProcessed (cns_group c) (msg_EventID m) s = (Inr False, tick s)" using assms(1,2) by (simp add: Deduper_run)
  moreover obtain u where "MarkProcessed (cns_group c) (msg_EventID m) t = (Inr (), u)"
    "committed u = (committed t)\<lparr>processed_events := processed_events (committed u)\<rparr>"
    "(cns_group c, msg_EventID m) \<in> set (processed_events (committed u))"
    using assms(7) by (cases "(cns_group c, msg_EventID m) \<in> set (processed_events (committed t))") (auto simp: MarkProcessed_def io_run)
  ultimately show ?thesis using assms(4-6) n
    by (intro exI [of _ u]) (auto simp: process_def Let_def Deduper_def run_basic)
qed

section \<open>Who is told\<close>

lemma recipient_Nil: "recipient [] = ''''"
  by (simp add: recipient_def)

lemma HandleRawEvent_told:
  assumes "ev_Topic e \<in> set subscribed"
  shows "told e = None \<Longrightarrow> HandleRawEvent send ty (Some (ev_Payload e)) = ret ()"
    and "told e = Some u \<Longrightarrow> \<exists>ti bo m. float_json (ev_Payload e) = JObj m \<and>
      HandleRawEvent send ty (Some (ev_Payload e)) = bindE (HandleEvent send u ty ti bo (JObj m)) (\<lambda>_. ret ())"
  using assms by (auto simp: told_def HandleRawEvent_def unmarshal_map_def recipient_Nil Let_def split: json.splits if_splits option.splits prod.splits)

lemma HandleEvent_unknown:
  assumes "committed s = d" "u \<notin> set (ntf_users d)"
  shows "\<exists>e t. HandleEvent send u ty ti bo da s = (Inl e, t) \<and> committed t = d"
proof (cases "HandleEvent send u ty ti bo da s")
  case (Pair r t)
  show ?thesis
  proof (cases r)
    case (Inl e)
    with Pair atomic_notify(1) assms(1) have "committed t = d" unfolding atomic_def by (metis Inl)
    with Pair Inl show ?thesis by blast
  next
    case (Inr i)
    with HandleEvent_ok [of send u ty ti bo da s i t] Pair assms show ?thesis by simp
  qed
qed

section \<open>Example\<close>

definition demo_row :: outbox_row where
  "demo_row = \<lparr>ob_id = 3, ob_event = approved_event ''m'' ''k'' 500 ''u'', ob_published_at = None\<rparr>"

definition demo_screenshot_row :: outbox_row where
  "demo_screenshot_row = \<lparr>ob_id = 4, ob_event = opened_event ''c'' ''screenshot'' ''shot'' 9 [], ob_published_at = None\<rparr>"

definition demo_dispute_row :: outbox_row where
  "demo_dispute_row = \<lparr>ob_id = 5, ob_event = disputed_event ''k'' ''d'' ''v'' ''u'', ob_published_at = None\<rparr>"

definition demo_delivery :: "outbox_row \<Rightarrow> string \<Rightarrow> notify_db \<Rightarrow> (err + bool) \<times> notify_db conn" where
  "demo_delivery r tag d = process (\<lambda>e. '''') (\<lambda>k. False) notify_consumer (notify_handler stubSender)
     (decode_message (relay_message ''svc'' r)) (quiet tag d)"

section \<open>Properties\<close>

text \<open>
  Whom the platform's events are about, as the notification consumer reads it. Proposal events are
  told to the freelancer who acted, or, a shortlisting, to the client who did it; milestone
  approvals and activations to the freelancer; captured payments to the payer; fraud cases to the
  subject, whatever kind of thing it is. Disputes, reviews, closed or suspicious work sessions,
  escrow movements and messages are told to nobody.
\<close>

theorem event_recipients:
  "told (submitted_event pid si) = first_named [si_FreelancerID si] \<and> told (withdrawn_event i f) = first_named [f] \<and>
   told (shortlisted_event i c) = first_named [c] \<and> told (activated_event k con) = first_named [con_FreelancerID con, con_ClientID con] \<and>
   told (approved_event m k n f) = first_named [f] \<and> told (captured_event p) = first_named [pay_PayerID p] \<and>
   told (opened_event q typ sub risk codes) = first_named [sub] \<and> told (case_resolved_event cs) = first_named [cs_SubjectID cs] \<and>
   told (registered_event u a r) = first_named [u] \<and> told (session_event u ip) = first_named [u] \<and>
   told (disputed_event k dis by ag) = None \<and> told (review_event rv) = None \<and> told (suspicious_event slice res) = None \<and>
   told (Tracking.closed_event sid k w act avg) = None \<and> told (funded_event es k n) = None \<and>
   told (released_event es mo bw n) = None \<and> told (refunded_event es n why) = None \<and> told (sent_event msg cv snd' kind) = None"
proof -
  note ev = told_def unmarshal_map_def subscribed_def recipient_def
  show ?thesis
    by (intro conjI; simp add: ev submitted_event_def withdrawn_event_def shortlisted_event_def activated_event_def approved_event_def
        captured_event_def opened_event_def case_resolved_event_def registered_event_def session_event_def disputed_event_def
        review_event_def suspicious_event_def Tracking.closed_event_def funded_event_def released_event_def refunded_event_def
        sent_event_def opt_field_def split: option.split)
qed



text \<open>
  C40: An event that names nobody is committed and recorded without a notification; one that names a
  user the platform does not have is never committed, on any infrastructure, and leaves the database
  as it is, so it comes again.
\<close>

theorem unnotified_events:
  assumes row: "distinct (map fst (ev_Headers (ob_event r)))" "ev_EventType (ob_event r) \<noteq> ''''" "eventID src (ob_id r) \<noteq> ''''"
    and topic: "ev_Topic (ob_event r) \<in> set subscribed"
    and new: "(''notification-consumer'', eventID src (ob_id r)) \<notin> set (processed_events (committed s))"
  shows "(told (ob_event r) = None \<longrightarrow> reliable s \<longrightarrow>
      (\<exists>t ps. process et can notify_consumer (notify_handler send) (decode_message (relay_message src r)) s = (Inr True, t) \<and>
         committed t = (committed s)\<lparr>processed_events := ps\<rparr> \<and> (''notification-consumer'', eventID src (ob_id r)) \<in> set ps)) \<and>
    (told (ob_event r) = Some u \<longrightarrow> u \<notin> set (ntf_users (committed s)) \<longrightarrow>
      (\<exists>t. process et can notify_consumer (notify_handler send) (decode_message (relay_message src r)) s = (Inr False, t) \<and>
         committed t = committed s))"
proof (intro conjI impI)
  let ?m = "decode_message (relay_message src r)"
  note i = message_id [OF row(1)] and h = notify_handler_message [OF row(1,2)]
  assume none: "told (ob_event r) = None" and rel: "reliable s"
  have "notify_handler send ?m (tick s) = (Inr (), tick s)" using HandleRawEvent_told(1) [OF topic none] by (simp add: h run_basic)
  moreover have "reliable (tick s)" "committed (tick s) = committed s" using rel by (simp_all add: reliable_def tick_def)
  ultimately show "\<exists>t ps. process et can notify_consumer (notify_handler send) ?m s = (Inr True, t) \<and>
         committed t = (committed s)\<lparr>processed_events := ps\<rparr> \<and> (''notification-consumer'', eventID src (ob_id r)) \<in> set ps"
    using process_handled [where c = notify_consumer and m = ?m and h = "notify_handler send", OF rel, of "tick s" et can] new row(3)
    by (fastforce simp: notify_consumer_def i)
next
  let ?m = "decode_message (relay_message src r)"
  note i = message_id [OF row(1)] and h = notify_handler_message [OF row(1,2)]
  assume some: "told (ob_event r) = Some u" and u: "u \<notin> set (ntf_users (committed s))"
  from HandleRawEvent_told(2) [OF topic some] obtain ti bo fs where
    h2: "HandleRawEvent send (ev_EventType (ob_event r)) (Some (ev_Payload (ob_event r))) =
      bindE (HandleEvent send u (ev_EventType (ob_event r)) ti bo (JObj fs)) (\<lambda>_. ret ())"
    by blast
  have "\<exists>e v. notify_handler send ?m w = (Inl e, v) \<and> committed v = committed w" if "committed w = committed s" for w
    using HandleEvent_unknown [OF that u, of send "ev_EventType (ob_event r)" ti bo "JObj fs"] that by (auto simp: h h2 run_basic)
  from process_never_drops [where handler = "notify_handler send" and m = ?m and s = s, OF this, of notify_consumer et can] new
  show "\<exists>t. process et can notify_consumer (notify_handler send) ?m s = (Inr False, t) \<and> committed t = committed s"
    by (auto simp: notify_consumer_def i)
qed

theorem unnotified_events_witness:
  "(\<exists>t. demo_delivery demo_dispute_row ''a'' demo_notify = (Inr True, t) \<and> notifications (committed t) = []) \<and>
   (\<exists>t. demo_delivery demo_screenshot_row ''a'' demo_notify = (Inr False, t) \<and> committed t = demo_notify)"
proof
  have told: "told (ob_event demo_dispute_row) = None" "told (ob_event demo_screenshot_row) = Some ''shot''"
    by (simp_all add: demo_dispute_row_def demo_screenshot_row_def disputed_event_def opened_event_def told_def unmarshal_map_def subscribed_def
        recipient_def)
  have e: "eventID ''svc'' k \<noteq> ''''" for k by (simp add: eventID_def)
  from unnotified_events [of demo_dispute_row "''svc''" "quiet ''a'' demo_notify", THEN conjunct1, THEN mp, THEN mp, OF _ _ _ _ _ told(1), of "\<lambda>e. ''''" "\<lambda>k. False" stubSender] e
  show "\<exists>t. demo_delivery demo_dispute_row ''a'' demo_notify = (Inr True, t) \<and> notifications (committed t) = []"
    by (auto simp: demo_delivery_def demo_dispute_row_def disputed_event_def subscribed_def demo_notify_def)
  from unnotified_events [of demo_screenshot_row "''svc''" "quiet ''a'' demo_notify", THEN conjunct2, THEN mp, THEN mp, OF _ _ _ _ _ told(2), of "\<lambda>e. ''''" "\<lambda>k. False" stubSender] e
  show "\<exists>t. demo_delivery demo_screenshot_row ''a'' demo_notify = (Inr False, t) \<and> committed t = demo_notify"
    by (auto simp: demo_delivery_def demo_screenshot_row_def opened_event_def subscribed_def demo_notify_def)
qed

end
