(* ===== verification/Spec2Isabelle.thy ===== *)
theory Spec2Isabelle
  imports Escrow_Props Contract_Props Money_Auth Payment_API Consumer Auth_API Tracking_API Gateway_Props Market_Contract
    Password Token Review_Contract Admin_Props Fraud_Props Messaging_Props Event_Routing
begin

text \<open>
  Verification of the backend of the Aizorix freelancer marketplace (Go services under
  \<open>src/services\<close>).

  \<^bold>\<open>The program.\<close> A gateway authenticates public traffic and forwards it, with identity headers taken
  from a verified token, to one HTTP service per domain. Each service has the same three layers:
  \<open>internal/httpapi\<close> (handlers with their guards), \<open>internal/service\<close> (operations, one database
  transaction each) and \<open>internal/store\<close> (SQL statements on PostgreSQL). An operation that others
  must hear of writes an event to the \<open>outbox\<close> table in its own transaction; a relay publishes the
  table to Kafka, and the consumers of other services de-duplicate what they receive. Money moves
  through three services that share a double-entry ledger: payment (Stripe intents, deposits),
  escrow (funding, allocation to milestones, release, refund) and contract (which milestones are
  approved). Hourly work is measured by the time-tracking service.

  \<^bold>\<open>How it is modelled.\<close> \<open>Prelude\<close> has the computation type: a function from a connection (committed
  database, working copy of the open transaction, abort flag, and an environment of statement
  failures, fresh identifiers and the clock) to an error or a result with the new connection. Every
  statement can fail at any point; a failed statement aborts its transaction as PostgreSQL does;
  reads outside the transaction see the committed database. Go's \<open>int64\<close> wraps. \<open>Schema\<close> has the
  rows and tables; unique, foreign-key, check and range constraints of the migrations are branches of
  the statements. Handlers are computations that return a response. \<open>Go_Text\<close> has the parts of Go's
  string functions that are used.

  \<^item> \<open>Outbox\<close>, \<open>Relay\<close> (\<open>pkg/outbox\<close>) and \<open>Consumer\<close> (\<open>pkg/kafka\<close>): enqueueing, the relay's poll loop
    against a broker that may lose or duplicate answers, the consumer's process step and loop. Shown:
    nothing marked as published is lost, enough ticks drain the table, an event is decoded as it was
    published, takes effect once, and is not dropped by a failing step; the loop, however, can commit
    past a message it left uncommitted.
  \<^item> \<open>Rbac\<close> (\<open>pkg/rbac\<close> and the lookup clients): principals, guards, answers of other services.
  \<^item> \<open>Ledger\<close>, \<open>Escrow_Store\<close>, \<open>Escrow\<close>, \<open>Escrow_Inv\<close>, \<open>Escrow_Spec\<close>, \<open>Escrow_Props\<close>, \<open>Escrow_API\<close>
    (\<open>services/escrow\<close>): the five money operations. Shown: an invariant of accounts, allocations and
    ledger, refinement of an abstract pot of money, no milestone, week or idempotency key is paid
    twice, the exact outcome of each operation on every branch, and what the ledger accounts add up to.
  \<^item> \<open>Contract_Store\<close>, \<open>Contract\<close>, \<open>Contract_Inv\<close>, \<open>Contract_Props\<close>, \<open>Contract_API\<close>
    (\<open>services/contract\<close>): creation from a proposal, activation, the milestone machine, disputes.
    Shown: the invariant, the legal status changes, which fields never change, who may do what, what
    terms are stored. \<open>Money_Auth\<close> joins escrow's guards with contract's answer.
  \<^item> \<open>Payment\<close>, \<open>Payment_Inv\<close>, \<open>Payment_Props\<close>, \<open>Payment_API\<close> (\<open>services/payment\<close>): intents,
    confirmation, webhook with signature check. Shown: a payment is deposited exactly when it
    succeeded and once, webhook events and idempotency keys act once, which signatures pass.
  \<^item> \<open>Auth_Store\<close>, \<open>Auth\<close>, \<open>Auth_Inv\<close>, \<open>Auth_Props\<close>, \<open>Auth_API\<close> (\<open>services/auth\<close>, \<open>pkg/token\<close>):
    registration, login with lockout, refresh-token rotation, sessions. Shown by a small machine of
    session moves: a refresh token works once, reuse kills its family for good, a revoked session
    stays dead, guessing is cut off, and what the first token says.
  \<^item> \<open>Activity\<close>, \<open>Iso_Week\<close>, \<open>Tracking\<close>, \<open>Tracking_Props\<close>, \<open>Tracking_API\<close> (\<open>services/timetracking\<close>):
    scoring of input samples, billing weeks, sessions, slices, timesheets. Shown: no input bills more
    than the slice, billing weeks are calendar weeks, the invariant of the tables, only the
    freelancer's requests change them, and that every stop accrues the session again.
  \<^item> \<open>Gateway\<close>, \<open>Gateway_Props\<close> (\<open>services/gateway\<close>): header stripping and injection, token buckets,
    routing. Shown: forwarded identity comes from the verified token, a bucket admits its capacity and
    refill, routing does not depend on the order of the table.

  \<^bold>\<open>Parameters.\<close> HMAC, SHA-256, password hashing, token signing and verification, the Stripe SDK, the
  Kafka client, Redis' hash commands, PostgreSQL's \<open>INET\<close> syntax and CIDR membership are arguments or
  fields of environment records. Floating point (\<open>Activity\<close>: reals with infinities and NaN;
  \<open>Gateway\<close>: rationals) is exact, without rounding.

  \<^bold>\<open>Termination and fuel.\<close> Loops over lists are structural recursions, the walk over a slice ends by
  a measure. Only \<open>Relay.Run\<close> takes a number of ticks; \<open>relay_drains\<close> says how many are enough.

  \<^bold>\<open>Interleaving.\<close> Operations run one after another; the step relations (\<open>escrow_step\<close>,
  \<open>contract_step\<close>, \<open>payment_step\<close>, \<open>auth_step\<close>, \<open>tracking_step\<close>, \<open>relay_step\<close>) allow any order. Row locks
  (\<open>FOR UPDATE\<close>) are what justifies this for the code; concurrent statements are not modelled.

  \<^bold>\<open>Not modelled.\<close> The services user, review, messaging, notification, search, fraud, admin,
  analytics, screenshot, project and proposal, the websocket gateway, the seed and migration tools,
  \<open>pkg/config\<close>, \<open>pkg/log\<close>, \<open>pkg/pg\<close>, the envelope encryption of \<open>pkg/crypto\<close>, the \<open>cmd/server\<close> mains,
  metrics and access logs. Project and proposal are next: their tables are already in \<open>Schema\<close>.
\<close>

section \<open>Properties that span services\<close>

lemma atomic_auth_ops: "atomic (Register env em pw a r l ip ua)" "atomic (Logout env raw allSessions)"
  unfolding Register_def Logout_def by (intro io_atomic io_keeps)+


end
